(* ===== verification/Go_Prelude.thy ===== *)
theory Go_Prelude
  imports Main "HOL-Library.AList" "HOL-Library.List_Lexorder" "HOL-Library.Char_ord"
begin

text \<open>
  Shared vocabulary of the development: how the Go constructs used by the backend
  are represented, and the generic facts the component theories rest on.

  \<^item> \<^verbatim>\<open>time.Time\<close> is an instant, the number of nanoseconds since the Unix epoch (\<open>go_time\<close>);
    \<^verbatim>\<open>time.Duration\<close> is a number of nanoseconds. \<^verbatim>\<open>Time.Sub\<close> saturates at the bounds of
    \<^verbatim>\<open>int64\<close>, as its documentation says.
  \<^item> \<^verbatim>\<open>int\<close> and \<^verbatim>\<open>int64\<close> are mathematical integers; an addition or increment the
    program performs on them is followed by \<open>i64\<close>, the wrap-around at 64 bits.
  \<^item> \<^verbatim>\<open>string\<close> is a list of bytes. \<^verbatim>\<open>strings.ToLower\<close>, \<^verbatim>\<open>strings.TrimSpace\<close> and
    \<^verbatim>\<open>strings.EqualFold\<close> are given for ASCII text; bytes above 127 are left alone.
  \<^item> a Go map is an association list with distinct keys; the order of the list is the
    order in which \<^verbatim>\<open>range\<close> happens to visit the entries. Go leaves that order open,
    so statements are made for an arbitrary list.
  \<^item> a call that can fail and that reads or writes a store is an \<open>op\<close>: a function
    from the store to an error or a value, and the store afterwards. \<open>op_bind\<close> is the
    \<^verbatim>\<open>if err != nil { return err }\<close> idiom: the store reached by the failing call stays.
\<close>

named_theorems op_simps \<open>evaluation and inversion of store operations\<close>
named_theorems op_invs \<open>invariants of store operations\<close>

subsection \<open>Integers and time\<close>

type_synonym go_time = int
type_synonym duration = int

abbreviation time_Second :: duration where "time_Second \<equiv> 1000000000"
abbreviation time_Minute :: duration where "time_Minute \<equiv> 60 * time_Second"
abbreviation time_Hour :: duration where "time_Hour \<equiv> 60 * time_Minute"

definition i64 :: "int \<Rightarrow> int" where
  "i64 x = (x + 2 ^ 63) mod 2 ^ 64 - 2 ^ 63"

definition time_Sub :: "go_time \<Rightarrow> go_time \<Rightarrow> duration" where
  "time_Sub t u = max (- (2 ^ 63)) (min (2 ^ 63 - 1) (t - u))"

definition time_Unix :: "go_time \<Rightarrow> int" where
  "time_Unix t = t div 1000000000"

definition time_UnixNano :: "go_time \<Rightarrow> int" where
  "time_UnixNano t = i64 t"

text \<open>The zero value \<^verbatim>\<open>time.Time{}\<close> is 1 January of the year 1, UTC.\<close>

definition time_zero :: go_time where
  "time_zero = - 62135596800 * 1000000000"

subsection \<open>Strings\<close>

definition lower_char :: "char \<Rightarrow> char" where
  "lower_char c = (if 65 \<le> (of_char c :: nat) \<and> (of_char c :: nat) \<le> 90
                   then char_of ((of_char c :: nat) + 32) else c)"

definition to_lower :: "string \<Rightarrow> string" where
  "to_lower s = map lower_char s"

definition is_space :: "char \<Rightarrow> bool" where
  "is_space c \<longleftrightarrow> (of_char c :: nat) \<in> {9, 10, 11, 12, 13, 32}"

definition trim_space :: "string \<Rightarrow> string" where
  "trim_space s = rev (dropWhile is_space (rev (dropWhile is_space s)))"

definition equal_fold :: "string \<Rightarrow> string \<Rightarrow> bool" where
  "equal_fold s t \<longleftrightarrow> to_lower s = to_lower t"

text \<open>\<^verbatim>\<open>strings.Split(s, sep)\<close> for a separator of one byte: always at least one part.\<close>

fun split_on :: "char \<Rightarrow> string \<Rightarrow> string list" where
  "split_on sep [] = [[]]"
| "split_on sep (c # cs) =
     (if c = sep then [] # split_on sep cs
      else (case split_on sep cs of p # ps \<Rightarrow> (c # p) # ps | [] \<Rightarrow> [[c]]))"

text \<open>\<^verbatim>\<open>strconv.Itoa\<close> and the \<^verbatim>\<open>%d\<close> verb.\<close>

fun nat_digits :: "nat \<Rightarrow> string" where
  "nat_digits n = (if n < 10 then [char_of (48 + n)]
                   else nat_digits (n div 10) @ [char_of (48 + n mod 10)])"

declare nat_digits.simps [simp del]

definition itoa :: "int \<Rightarrow> string" where
  "itoa x = (if x < 0 then CHR ''-'' # nat_digits (nat (- x)) else nat_digits (nat x))"

subsection \<open>Errors\<close>

text \<open>
  The sentinel errors of the packages, which callers compare by identity, each have a
  constructor. \<open>ErrNew\<close> is an \<^verbatim>\<open>errors.New\<close> at the place of the return, \<open>ErrNoRows\<close>
  is \<^verbatim>\<open>pgx.ErrNoRows\<close> and \<open>ErrSQL\<close> any other error the database driver reports.
\<close>

datatype go_error =
    ErrBookingNotFound | ErrBookingConflict
  | ErrRescheduleLimitReached | ErrCancellationClosed
  | ErrNotFound | ErrAlreadyExists
  | ErrInvalidCredentials | ErrAccountLocked | ErrUserExists | ErrPasswordTooWeak
  | ErrTaskNotFound | ErrTaskCycleDetected | ErrTaskVersionConflict
  | ErrSetupAlreadyCompleted
  | ErrContentNotFound | ErrInvalidContentMetadata
  | ErrUploadChunkChecksum | ErrUploadChecksumMismatch | ErrUploadIncomplete
  | ErrIngestionRateLimited | ErrNotExist
  | ErrNoRows | ErrSQL string | ErrNew string

subsection \<open>Operations on a store\<close>

type_synonym ('a, 's, 'e) xop = "'s \<Rightarrow> ('e + 'a) \<times> 's"
type_synonym ('a, 's) op = "('a, 's, go_error) xop"

definition op_return :: "'a \<Rightarrow> ('a, 's, 'e) xop" where
  "op_return x s = (Inr x, s)"

definition op_fail :: "'e \<Rightarrow> ('a, 's, 'e) xop" where
  "op_fail e s = (Inl e, s)"

definition op_bind :: "('a, 's, 'e) xop \<Rightarrow> ('a \<Rightarrow> ('b, 's, 'e) xop) \<Rightarrow> ('b, 's, 'e) xop" where
  "op_bind m f s = (case m s of (Inl e, s') \<Rightarrow> (Inl e, s') | (Inr x, s') \<Rightarrow> f x s')"

text \<open>\<open>op_err f m\<close> wraps the error of \<open>m\<close>; \<open>op_try m\<close> hands error or value to the caller.\<close>

definition op_err :: "('e \<Rightarrow> 'f) \<Rightarrow> ('a, 's, 'e) xop \<Rightarrow> ('a, 's, 'f) xop" where
  "op_err f m s = (case m s of (Inl e, s') \<Rightarrow> (Inl (f e), s') | (Inr x, s') \<Rightarrow> (Inr x, s'))"

definition op_try :: "('a, 's, 'e) xop \<Rightarrow> ('e + 'a, 's, 'f) xop" where
  "op_try m s = (case m s of (r, s') \<Rightarrow> (Inr r, s'))"

text \<open>The statement \<^verbatim>\<open>_ = call()\<close>: the result is dropped, the effect stays.\<close>

definition op_ignore :: "('a, 's, 'e) xop \<Rightarrow> 's \<Rightarrow> 's" where
  "op_ignore m s = snd (m s)"

text \<open>\<open>op_keeps P m\<close>: the operation keeps \<open>P\<close>, whether it succeeds or fails.\<close>

definition op_keeps :: "('s \<Rightarrow> bool) \<Rightarrow> ('a, 's, 'e) xop \<Rightarrow> bool" where
  "op_keeps P m \<longleftrightarrow> (\<forall>s. P s \<longrightarrow> P (snd (m s)))"

subsection \<open>Go maps\<close>

type_synonym 'v gomap = "(string \<times> 'v) list"

abbreviation gm_get :: "'v gomap \<Rightarrow> string \<Rightarrow> 'v option" where
  "gm_get \<equiv> map_of"

abbreviation gm_put :: "string \<Rightarrow> 'v \<Rightarrow> 'v gomap \<Rightarrow> 'v gomap" where
  "gm_put \<equiv> AList.update"

abbreviation gm_del :: "string \<Rightarrow> 'v gomap \<Rightarrow> 'v gomap" where
  "gm_del \<equiv> AList.delete"

definition gm_ok :: "'v gomap \<Rightarrow> bool" where
  "gm_ok m \<longleftrightarrow> distinct (map fst m)"

definition gm_keyed :: "('v \<Rightarrow> string) \<Rightarrow> 'v gomap \<Rightarrow> bool" where
  "gm_keyed key m \<longleftrightarrow> gm_ok m \<and> (\<forall>(k, v) \<in> set m. k = key v)"

subsection \<open>Facts\<close>

lemma i64_id [simp]: "- (2 ^ 63) \<le> x \<Longrightarrow> x < 2 ^ 63 \<Longrightarrow> i64 x = x"
  by (simp add: i64_def)

lemma i64_range: "- (2 ^ 63) \<le> i64 x \<and> i64 x < 2 ^ 63"
proof -
  have "0 \<le> (x + 2 ^ 63) mod 2 ^ 64" and "(x + 2 ^ 63) mod 2 ^ 64 < 2 ^ 64"
    by (rule pos_mod_sign, simp) (rule pos_mod_bound, simp)
  then show ?thesis by (simp add: i64_def)
qed

lemma i64_small [simp]: "0 \<le> x \<Longrightarrow> x < 1000000000000000000 \<Longrightarrow> i64 x = x"
  by (simp add: i64_def)

lemma time_Sub_less_iff:
  "- (2 ^ 63) < d \<Longrightarrow> d < 2 ^ 63 \<Longrightarrow> time_Sub t u < d \<longleftrightarrow> t - u < d"
  by (auto simp: time_Sub_def)

lemma op_return_simps [simp, op_simps]: "op_return x s = (Inr x, s)"
  by (simp add: op_return_def)

lemma op_fail_simps [simp, op_simps]: "op_fail e s = (Inl e, s)"
  by (simp add: op_fail_def)

lemma op_bind_Inr_iff [op_simps]:
  "op_bind m f s = (Inr y, s') \<longleftrightarrow> (\<exists>x s1. m s = (Inr x, s1) \<and> f x s1 = (Inr y, s'))"
  by (auto simp: op_bind_def split: prod.splits sum.splits)

lemma op_bind_Inl_iff [op_simps]:
  "op_bind m f s = (Inl e, s') \<longleftrightarrow>
     m s = (Inl e, s') \<or> (\<exists>x s1. m s = (Inr x, s1) \<and> f x s1 = (Inl e, s'))"
  by (auto simp: op_bind_def split: prod.splits sum.splits)

lemma op_bindE:
  assumes "op_bind m f s = (r, s')"
  obtains (err) e where "m s = (Inl e, s')" "r = Inl e"
    | (ok) x s1 where "m s = (Inr x, s1)" "f x s1 = (r, s')"
proof -
  obtain rm s1 where "m s = (rm, s1)" by fastforce
  with assms err ok show thesis by (cases rm) (auto simp: op_bind_def)
qed

lemma op_bind_eq: "m s = (Inr x, s1) \<Longrightarrow> op_bind m f s = f x s1"
  by (simp add: op_bind_def)

lemma op_bind_err: "m s = (Inl e, s1) \<Longrightarrow> op_bind m f s = (Inl e, s1)"
  by (simp add: op_bind_def)

lemma op_err_Inr_iff [op_simps]: "op_err f m s = (Inr x, s') \<longleftrightarrow> m s = (Inr x, s')"
  by (auto simp: op_err_def split: prod.splits sum.splits)

lemma op_err_Inl_iff [op_simps]:
  "op_err f m s = (Inl e, s') \<longleftrightarrow> (\<exists>e'. m s = (Inl e', s') \<and> e = f e')"
  by (auto simp: op_err_def split: prod.splits sum.splits)

lemma op_try_iff [op_simps]: "op_try m s = (Inr r, s') \<longleftrightarrow> m s = (r, s')" "op_try m s \<noteq> (Inl e, s')"
  by (auto simp: op_try_def split: prod.splits)

lemma op_if_app [op_simps]: "(if b then m else n) s = (if b then m s else n s)"
  by simp

lemma op_keepsI: "(\<And>s. P s \<Longrightarrow> P (snd (m s))) \<Longrightarrow> op_keeps P m"
  by (simp add: op_keeps_def)

lemma op_keepsD: "op_keeps P m \<Longrightarrow> P s \<Longrightarrow> P (snd (m s))"
  by (simp add: op_keeps_def)

lemma op_keeps_eq: "op_keeps P m \<Longrightarrow> P s \<Longrightarrow> m s = (r, s') \<Longrightarrow> P s'"
  by (metis op_keepsD snd_conv)

lemma op_keeps_return [op_invs]: "op_keeps P (op_return x)"
  by (simp add: op_keeps_def)

lemma op_keeps_fail [op_invs]: "op_keeps P (op_fail e)"
  by (simp add: op_keeps_def)

lemma op_keeps_bind [op_invs]:
  assumes "op_keeps P m" and "\<And>x. op_keeps P (f x)"
  shows "op_keeps P (op_bind m f)"
proof (rule op_keepsI)
  fix s assume P: "P s"
  obtain r s1 where m: "m s = (r, s1)" by (cases "m s")
  from assms(1) P m have "P s1" by (rule op_keeps_eq)
  with m assms(2) show "P (snd (op_bind m f s))"
    by (cases r) (simp_all add: op_bind_def op_keepsD)
qed

lemma op_keeps_err [op_invs]: "op_keeps P m \<Longrightarrow> op_keeps P (op_err f m)"
  by (auto simp: op_keeps_def op_err_def split: prod.splits sum.splits)

lemma op_keeps_try [op_invs]: "op_keeps P m \<Longrightarrow> op_keeps P (op_try m)"
  by (auto simp: op_keeps_def op_try_def split: prod.splits)

lemma op_keeps_sum [op_invs]:
  "(\<And>a. r = Inl a \<Longrightarrow> op_keeps P (f a)) \<Longrightarrow> (\<And>b. r = Inr b \<Longrightarrow> op_keeps P (g b)) \<Longrightarrow>
   op_keeps P (case r of Inl a \<Rightarrow> f a | Inr b \<Rightarrow> g b)"
  by (cases r) simp_all

lemma op_keeps_option [op_invs]:
  "(r = None \<Longrightarrow> op_keeps P m) \<Longrightarrow> (\<And>b. r = Some b \<Longrightarrow> op_keeps P (g b)) \<Longrightarrow>
   op_keeps P (case r of None \<Rightarrow> m | Some b \<Rightarrow> g b)"
  by (cases r) simp_all

lemma op_keeps_if [op_invs]:
  "(b \<Longrightarrow> op_keeps P m) \<Longrightarrow> (\<not> b \<Longrightarrow> op_keeps P n) \<Longrightarrow> op_keeps P (if b then m else n)"
  by simp

lemma gm_ok_Nil [simp]: "gm_ok []"
  by (simp add: gm_ok_def)

lemma gm_ok_put [simp, intro]: "gm_ok m \<Longrightarrow> gm_ok (gm_put k v m)"
  by (simp add: gm_ok_def distinct_update)

lemma gm_ok_del [simp, intro]: "gm_ok m \<Longrightarrow> gm_ok (gm_del k m)"
  by (simp add: gm_ok_def distinct_delete)

lemma gm_get_put: "gm_get (gm_put k v m) k' = (if k' = k then Some v else gm_get m k')"
  by (simp add: update_conv')

lemma gm_get_del: "gm_get (gm_del k m) k' = (if k' = k then None else gm_get m k')"
  by (simp add: delete_conv')

lemma gm_get_mem: "gm_ok m \<Longrightarrow> (k, v) \<in> set m \<longleftrightarrow> gm_get m k = Some v"
  by (simp add: gm_ok_def map_of_eq_Some_iff)

lemma gm_rows_ran: "gm_ok m \<Longrightarrow> snd ` set m = ran (gm_get m)"
  by (simp add: gm_ok_def ran_distinct)

lemma gm_rows_put:
  assumes "gm_ok m" and "gm_get m k = Some b" and "\<And>k'. gm_get m k' = Some b \<Longrightarrow> k' = k"
  shows "snd ` set (gm_put k b' m) = insert b' (snd ` set m - {b})"
proof -
  have "ran ((gm_get m)(k \<mapsto> b')) = insert b' (ran (gm_get m) - {b})" (is "?L = ?R")
  proof
    show "?L \<subseteq> ?R"
    proof
      fix x assume "x \<in> ?L"
      then obtain a where a: "((gm_get m)(k \<mapsto> b')) a = Some x" by (auto simp: ran_def)
      show "x \<in> ?R"
      proof (cases "a = k")
        case True with a show ?thesis by simp
      next
        case False
        with a have "gm_get m a = Some x" by simp
        moreover from this False have "x \<noteq> b" using assms(3) by blast
        ultimately show ?thesis by (simp add: ranI)
      qed
    qed
    show "?R \<subseteq> ?L"
    proof
      fix x assume "x \<in> ?R"
      then consider "x = b'" | a where "gm_get m a = Some x" "x \<noteq> b" by (auto simp: ran_def)
      then show "x \<in> ?L"
      proof cases
        case 1 then show ?thesis by (simp add: ranI [of _ k])
      next
        case (2 a) with assms(2) have "a \<noteq> k" by auto
        with 2 show ?thesis by (simp add: ranI [of _ a])
      qed
    qed
  qed
  with assms(1) show ?thesis by (simp add: gm_rows_ran update_conv')
qed

lemma gm_rows_put_subset:
  "gm_ok m \<Longrightarrow> snd ` set (gm_put k b m) \<subseteq> insert b (snd ` set m)"
  by (auto simp: gm_rows_ran update_conv' ran_def split: if_splits)

lemma gm_put_mem: "gm_ok m \<Longrightarrow> (k, b) \<in> set (gm_put k b m)"
  by (simp add: gm_get_mem gm_get_put)

text \<open>\<open>gm_keyed key m\<close>: every value of the map is stored under the key its fields give.\<close>

lemma gm_keyed_new [simp]: "gm_keyed key []"
  by (simp add: gm_keyed_def)

lemma gm_keyed_ok: "gm_keyed key m \<Longrightarrow> gm_ok m"
  by (simp add: gm_keyed_def)

lemma gm_keyed_get: "gm_keyed key m \<Longrightarrow> gm_get m k = Some v \<Longrightarrow> k = key v"
  by (auto simp: gm_keyed_def dest: map_of_SomeD)

lemma gm_keyed_put [simp]:
  assumes "gm_keyed key m" and k: "k = key v" shows "gm_keyed key (gm_put k v m)"
  unfolding k
proof -
  have "k' = key v'" if "(k', v') \<in> set (gm_put (key v) v m)" for k' v'
  proof -
    from assms(1) that have "gm_get (gm_put (key v) v m) k' = Some v'"
      by (simp add: gm_get_mem gm_keyed_ok)
    with gm_keyed_get [OF assms(1), of k' v'] show ?thesis
      by (simp add: gm_get_put split: if_splits)
  qed
  with assms(1) show "gm_keyed key (gm_put (key v) v m)" by (auto simp: gm_keyed_def)
qed

lemma gm_keyed_del [simp]:
  assumes "gm_keyed key m" shows "gm_keyed key (gm_del k m)"
proof -
  have "k' = key v'" if "(k', v') \<in> set (gm_del k m)" for k' v'
  proof -
    from assms that have "gm_get (gm_del k m) k' = Some v'"
      by (simp add: gm_get_mem gm_keyed_ok)
    with gm_keyed_get [OF assms, of k' v'] show ?thesis
      by (simp add: gm_get_del split: if_splits)
  qed
  with assms show ?thesis by (auto simp: gm_keyed_def)
qed

lemma gm_keyed_rows_put:
  assumes "gm_keyed key m" and "gm_get m k = Some b"
  shows "snd ` set (gm_put k b' m) = insert b' (snd ` set m - {b})"
proof (rule gm_rows_put [OF _ assms(2)])
  show "gm_ok m" using assms(1) by (rule gm_keyed_ok)
  fix k' assume "gm_get m k' = Some b"
  then show "k' = k" using gm_keyed_get [OF assms(1)] assms(2) by metis
qed

lemma gm_keyed_map:
  assumes "gm_keyed key m" and "\<And>v. key (f v) = key v"
  shows "gm_keyed key (map (\<lambda>(k, v). (k, f v)) m)"
proof -
  have "map fst (map (\<lambda>(k, v). (k, f v)) m) = map fst m" by (induction m) auto
  with assms show ?thesis by (auto simp: gm_keyed_def gm_ok_def simp del: map_map)
qed

lemma gm_get_snd: "gm_get m k = Some v \<Longrightarrow> v \<in> snd ` set m"
  by (force dest: map_of_SomeD)

lemmas gm_simps = gm_get_put gm_get_del

lemma split_on_nonempty [simp]: "split_on sep s \<noteq> []"
  by (induction s) (auto split: list.splits)

lemma split_on_no_sep [simp]: "sep \<notin> set s \<Longrightarrow> split_on sep s = [s]"
  by (induction s) auto

lemma split_on_append [simp]:
  "sep \<notin> set s \<Longrightarrow> split_on sep (s @ sep # t) = s # split_on sep t"
  by (induction s) auto

end
