(* ===== verification/Model_Types.thy ===== *)
theory Model_Types
  imports Go_Prelude
begin

text \<open>
  The data model of \<^verbatim>\<open>internal/model\<close>: one record per struct, one datatype per
  enumerated string type. A field \<^verbatim>\<open>F\<close> of a struct is \<open>xx_F\<close> with a two-letter prefix
  for the struct; a pointer that may be nil is an option. \<open>BookingStatusUnset\<close> is the
  zero value (the empty string) of \<^verbatim>\<open>BookingStatus\<close>, which a booking carries before
  a store has accepted it.
\<close>

subsection \<open>Bookings\<close>

datatype BookingStatus =
    BookingStatusUnset
  | BookingStatusHeld
  | BookingStatusConfirmed
  | BookingStatusCheckedIn
  | BookingStatusCancelled
  | BookingStatusExpired

definition status_string :: "BookingStatus \<Rightarrow> string" where
  "status_string st = (case st of
      BookingStatusUnset \<Rightarrow> ''''
    | BookingStatusHeld \<Rightarrow> ''held''
    | BookingStatusConfirmed \<Rightarrow> ''confirmed''
    | BookingStatusCheckedIn \<Rightarrow> ''checked_in''
    | BookingStatusCancelled \<Rightarrow> ''cancelled''
    | BookingStatusExpired \<Rightarrow> ''expired'')"

datatype BookingConflictReason =
    BookingConflictRoom
  | BookingConflictInstructor
  | BookingConflictCapacity

record Room =
  rm_ID :: string
  rm_TenantID :: string
  rm_Name :: string
  rm_Capacity :: int
  rm_CreatedAt :: go_time
  rm_UpdatedAt :: go_time

record Instructor =
  in_ID :: string
  in_TenantID :: string
  in_Name :: string
  in_CreatedAt :: go_time
  in_UpdatedAt :: go_time

record Booking =
  bk_ID :: string
  bk_TenantID :: string
  bk_UserID :: string
  bk_RoomID :: string
  bk_InstructorID :: string
  bk_Title :: string
  bk_StartAt :: go_time
  bk_EndAt :: go_time
  bk_Capacity :: int
  bk_Attendees :: int
  bk_Status :: BookingStatus
  bk_HoldExpiresAt :: "go_time option"
  bk_RescheduleCount :: int
  bk_Version :: int
  bk_CreatedAt :: go_time
  bk_UpdatedAt :: go_time
  bk_CancelledAt :: "go_time option"
  bk_CheckedInAt :: "go_time option"

record BookingConflict =
  cf_Reason :: BookingConflictReason
  cf_Detail :: string

record AlternativeSlot =
  al_RoomID :: string
  al_InstructorID :: string
  al_StartAt :: go_time
  al_EndAt :: go_time
  al_Reason :: string

text \<open>The zero value \<^verbatim>\<open>model.Booking{}\<close>.\<close>

definition Booking_zero :: Booking where
  "Booking_zero = \<lparr>bk_ID = '''', bk_TenantID = '''', bk_UserID = '''', bk_RoomID = '''',
     bk_InstructorID = '''', bk_Title = '''', bk_StartAt = time_zero, bk_EndAt = time_zero,
     bk_Capacity = 0, bk_Attendees = 0, bk_Status = BookingStatusUnset, bk_HoldExpiresAt = None,
     bk_RescheduleCount = 0, bk_Version = 0, bk_CreatedAt = time_zero, bk_UpdatedAt = time_zero,
     bk_CancelledAt = None, bk_CheckedInAt = None\<rparr>"

record LearnerReservation =
  lr_ID :: string
  lr_TenantID :: string
  lr_BookingID :: string
  lr_LearnerUserID :: string
  lr_Status :: string
  lr_CreatedAt :: go_time
  lr_UpdatedAt :: go_time

subsection \<open>Schedules\<close>

text \<open>
  \<^verbatim>\<open>StartTime\<close> and \<^verbatim>\<open>EndTime\<close> of a class period of a stored class period are the microseconds of the day that
  the column holds; \<^verbatim>\<open>BlackoutDate\<close> is a day number.
\<close>

record ClassPeriod =
  cp_ID :: string
  cp_TenantID :: string
  cp_Title :: string
  cp_StartTime :: int
  cp_EndTime :: int
  cp_Weekday :: int
  cp_CreatedAt :: go_time
  cp_UpdatedAt :: go_time

record BlackoutDate =
  bd_ID :: string
  bd_TenantID :: string
  bd_BlackoutDate :: int
  bd_Reason :: string
  bd_CreatedAt :: go_time

subsection \<open>Tenants, users and sessions\<close>

record Tenant =
  tn_ID :: string
  tn_Name :: string
  tn_Slug :: string
  tn_CreatedAt :: go_time
  tn_UpdatedAt :: go_time

record User =
  us_ID :: string
  us_TenantID :: string
  us_Email :: string
  us_DisplayName :: string
  us_Role :: string
  us_PasswordHash :: string
  us_FailedAttempts :: int
  us_LockedUntil :: "go_time option"
  us_PIIEncrypted :: "string option"
  us_PasswordChangedAt :: go_time
  us_CreatedAt :: go_time
  us_UpdatedAt :: go_time

record Role =
  ro_ID :: string
  ro_TenantID :: string
  ro_Name :: string
  ro_CreatedAt :: go_time
  ro_UpdatedAt :: go_time

record Permission =
  pe_ID :: string
  pe_Key :: string
  pe_CreatedAt :: go_time

record Session =
  ss_ID :: string
  ss_TenantID :: string
  ss_UserID :: string
  ss_RefreshTokenHash :: string
  ss_ExpiresAt :: go_time
  ss_LastUsedAt :: go_time
  ss_RevokedAt :: "go_time option"
  ss_CreatedAt :: go_time
  ss_UpdatedAt :: go_time

subsection \<open>Tasks\<close>

record Task =
  tk_ID :: string
  tk_TenantID :: string
  tk_MilestoneID :: string
  tk_ParentTaskID :: string
  tk_Title :: string
  tk_Description :: string
  tk_DueDate :: "go_time option"
  tk_DependencyIDs :: "string list"
  tk_EstimatedMinutes :: int
  tk_ActualMinutes :: int
  tk_Version :: int
  tk_CreatedAt :: go_time
  tk_UpdatedAt :: go_time

record TaskEffortSummary =
  ef_EstimatedMinutes :: int
  ef_ActualMinutes :: int
  ef_VarianceMinutes :: int

subsection \<open>Audit entries\<close>

text \<open>\<^verbatim>\<open>audit.Metadata\<close> and \<^verbatim>\<open>service.AuditEntry\<close>.\<close>

record Metadata =
  md_ActorUserID :: string
  md_Reason :: string
  md_Who :: string
  md_When :: string

record AuditEntry =
  au_ActorUserID :: string
  au_OldState :: string
  au_NewState :: string
  au_Reason :: string
  au_Who :: string
  au_When :: string
  au_Action :: string
  au_EntityType :: string
  au_EntityID :: string
  au_TenantID :: string
  au_CreatedAt :: go_time

subsection \<open>Content, documents, uploads and share links\<close>

record ContentItem =
  ci_ID :: string
  ci_TenantID :: string
  ci_CreatedByUserID :: string
  ci_Title :: string
  ci_CategoryID :: string
  ci_Difficulty :: int
  ci_DurationM :: int
  ci_DurationMinutes :: int
  ci_Version :: int
  ci_Checksum :: string
  ci_CreatedAt :: go_time
  ci_UpdatedAt :: go_time

record ContentTag =
  tg_ID :: string
  tg_TenantID :: string
  tg_Name :: string
  tg_CreatedAt :: go_time
  tg_UpdatedAt :: go_time

record Document =
  dc_ID :: string
  dc_TenantID :: string
  dc_Title :: string
  dc_Description :: string
  dc_CurrentVersion :: int
  dc_Checksum :: string
  dc_CreatedAt :: go_time
  dc_UpdatedAt :: go_time

record DocumentVersion =
  dv_ID :: string
  dv_TenantID :: string
  dv_DocumentID :: string
  dv_Version :: int
  dv_FileName :: string
  dv_Checksum :: string
  dv_SizeBytes :: int
  dv_CreatedAt :: go_time

text \<open>The received chunks by index; the order of the list is that of a map iteration.\<close>

record UploadSession =
  up_ID :: string
  up_TenantID :: string
  up_DocumentID :: string
  up_FileName :: string
  up_ExpectedChunks :: int
  up_ReceivedChunks :: "(int \<times> string) list"
  up_ExpectedChecksum :: string
  up_CreatedAt :: go_time
  up_ExpiresAt :: go_time
  up_UpdatedAt :: go_time

record ShareLink =
  sl_URL :: string
  sl_Token :: string
  sl_DocumentID :: string
  sl_TenantID :: string
  sl_ExpiresAt :: go_time

record ShareLinkRecord =
  sr_ID :: string
  sr_TenantID :: string
  sr_DocumentID :: string
  sr_Token :: string
  sr_ExpiresAt :: go_time
  sr_DownloadCnt :: int

record ApprovedFile =
  af_ID :: string
  af_TenantID :: string
  af_FileName :: string
  af_FilePath :: string
  af_MimeType :: string

subsection \<open>Ingestion\<close>

record IngestionSession =
  is_ID :: string
  is_TenantID :: string
  is_ActorUserID :: string
  is_Proxy :: string
  is_UserAgent :: string
  is_RequestCount :: int
  is_LastSeenAt :: go_time
  is_CreatedAt :: go_time
  is_UpdatedAt :: go_time

datatype ScraperState =
    ScraperStateQueued | ScraperStateRunning | ScraperStateManualReview | ScraperStateCompleted
  | ScraperStateFailed

record ScraperJob =
  sj_ID :: string
  sj_URL :: string
  sj_Proxy :: string
  sj_UserAgent :: string
  sj_Delay :: duration
  sj_State :: ScraperState
  sj_Reason :: string
  sj_CreatedAt :: go_time
  sj_UpdatedAt :: go_time

record ManualReviewItem =
  mr_ID :: string
  mr_TenantID :: string
  mr_JobID :: string
  mr_Reason :: string
  mr_Status :: string
  mr_CreatedAt :: go_time
  mr_UpdatedAt :: go_time

subsection \<open>Facts\<close>

lemma status_string_inj: "status_string a = status_string b \<Longrightarrow> a = b"
  by (simp add: status_string_def split: BookingStatus.splits)

end
