(* ===== verification/Booking_Service.thy ===== *)
theory Booking_Service
  imports Model_Types
begin

text \<open>
  The booking service of \<^verbatim>\<open>internal/service/booking.go\<close> over the interface
  \<^verbatim>\<open>repository.BookingStore\<close>. The interface is a record of operations on a store of
  type \<open>'s\<close>, so that the service is one definition for every implementation. Its
  contract is the locale \<open>booking_store\<close>; a store that also checks conflicts whenever
  it places or moves a booking meets \<open>exclusive_booking_store\<close>.
\<close>

subsection \<open>The store interface\<close>

record 's BookingStore =
  st_GetBooking :: "string \<Rightarrow> string \<Rightarrow> (Booking, 's) op"
  st_CreateHold :: "Booking \<Rightarrow> duration \<Rightarrow> go_time \<Rightarrow>
                     's \<Rightarrow> ((BookingConflict list \<times> go_error) + Booking) \<times> 's"
  st_Confirm :: "string \<Rightarrow> string \<Rightarrow> go_time \<Rightarrow> (unit, 's) op"
  st_Cancel :: "string \<Rightarrow> string \<Rightarrow> go_time \<Rightarrow> (unit, 's) op"
  st_CheckIn :: "string \<Rightarrow> string \<Rightarrow> go_time \<Rightarrow> (unit, 's) op"
  st_Reschedule :: "string \<Rightarrow> string \<Rightarrow> go_time \<Rightarrow> go_time \<Rightarrow> go_time \<Rightarrow> (Booking, 's) op"
  st_ReleaseExpiredHolds :: "go_time \<Rightarrow> (int, 's) op"
  st_ListBookings :: "string \<Rightarrow> (Booking list, 's) op"
  st_ListRooms :: "string \<Rightarrow> (Room list, 's) op"
  st_ListInstructors :: "string \<Rightarrow> (Instructor list, 's) op"

record 's BookingService =
  svc_Store :: "'s BookingStore"
  svc_HoldTTL :: duration

definition NewBookingService :: "'s BookingStore \<Rightarrow> 's BookingService" where
  "NewBookingService store = \<lparr>svc_Store = store, svc_HoldTTL = 5 * time_Minute\<rparr>"

subsection \<open>Operations of the service\<close>

fun hasConflict :: "Booking list \<Rightarrow> Booking \<Rightarrow> go_time \<Rightarrow> bool" where
  "hasConflict [] candidate now = False"
| "hasConflict (booking # bookings) candidate now =
     (if bk_TenantID booking \<noteq> bk_TenantID candidate then hasConflict bookings candidate now
      else if bk_Status booking = BookingStatusCancelled \<or> bk_Status booking = BookingStatusExpired
        then hasConflict bookings candidate now
      else if (case bk_HoldExpiresAt booking of None \<Rightarrow> False | Some h \<Rightarrow> now > h)
        then hasConflict bookings candidate now
      else if bk_StartAt candidate < bk_EndAt booking \<and> bk_StartAt booking < bk_EndAt candidate
              \<and> (bk_RoomID candidate = bk_RoomID booking \<or>
                 bk_InstructorID candidate = bk_InstructorID booking)
        then True
      else hasConflict bookings candidate now)"

definition alt_candidate :: "Booking \<Rightarrow> string \<Rightarrow> string \<Rightarrow> go_time \<Rightarrow> go_time \<Rightarrow> Booking" where
  "alt_candidate booking roomID instructorID start fin = Booking_zero
     \<lparr>bk_TenantID := bk_TenantID booking, bk_RoomID := roomID, bk_InstructorID := instructorID,
      bk_StartAt := start, bk_EndAt := fin, bk_Attendees := bk_Attendees booking\<rparr>"

definition alt_reason :: "Booking \<Rightarrow> Room \<Rightarrow> Instructor \<Rightarrow> string" where
  "alt_reason booking room instructor =
     (if rm_ID room \<noteq> bk_RoomID booking \<and> in_ID instructor \<noteq> bk_InstructorID booking
        then ''alternate room and instructor''
      else if rm_ID room \<noteq> bk_RoomID booking then ''alternate room''
      else if in_ID instructor \<noteq> bk_InstructorID booking then ''alternate instructor''
      else ''room and instructor availability'')"

text \<open>
  The three nested loops of the search. The boolean of a result says that the search
  returned from inside the loop, having found its third slot.
\<close>

fun alt_instructors :: "Booking list \<Rightarrow> Booking \<Rightarrow> go_time \<Rightarrow> go_time \<Rightarrow> go_time \<Rightarrow> Room \<Rightarrow>
    Instructor list \<Rightarrow> AlternativeSlot list \<Rightarrow> AlternativeSlot list \<times> bool" where
  "alt_instructors bookings booking now start fin room [] alts = (alts, False)"
| "alt_instructors bookings booking now start fin room (instructor # instructors) alts =
     (if hasConflict bookings (alt_candidate booking (rm_ID room) (in_ID instructor) start fin) now
      then alt_instructors bookings booking now start fin room instructors alts
      else let alts' = alts @ [\<lparr>al_RoomID = rm_ID room, al_InstructorID = in_ID instructor,
                 al_StartAt = start, al_EndAt = fin, al_Reason = alt_reason booking room instructor\<rparr>]
           in if length alts' = 3 then (alts', True)
              else alt_instructors bookings booking now start fin room instructors alts')"

fun alt_rooms :: "Booking list \<Rightarrow> Booking \<Rightarrow> go_time \<Rightarrow> go_time \<Rightarrow> go_time \<Rightarrow> Instructor list \<Rightarrow>
    Room list \<Rightarrow> AlternativeSlot list \<Rightarrow> AlternativeSlot list \<times> bool" where
  "alt_rooms bookings booking now start fin instructors [] alts = (alts, False)"
| "alt_rooms bookings booking now start fin instructors (room # rooms) alts =
     (if bk_Attendees booking > rm_Capacity room
      then alt_rooms bookings booking now start fin instructors rooms alts
      else (case alt_instructors bookings booking now start fin room instructors alts of
              (alts', True) \<Rightarrow> (alts', True)
            | (alts', False) \<Rightarrow> alt_rooms bookings booking now start fin instructors rooms alts'))"

fun alt_offsets :: "Booking list \<Rightarrow> Booking \<Rightarrow> go_time \<Rightarrow> Room list \<Rightarrow> Instructor list \<Rightarrow>
    int list \<Rightarrow> AlternativeSlot list \<Rightarrow> AlternativeSlot list \<times> bool" where
  "alt_offsets bookings booking now rooms instructors [] alts = (alts, False)"
| "alt_offsets bookings booking now rooms instructors (offset # offsets) alts =
     (if length alts < 3
      then (case alt_rooms bookings booking now
                   (bk_StartAt booking + offset * 30 * time_Minute)
                   (bk_EndAt booking + offset * 30 * time_Minute) instructors rooms alts of
              (alts', True) \<Rightarrow> (alts', True)
            | (alts', False) \<Rightarrow> alt_offsets bookings booking now rooms instructors offsets alts')
      else (alts, False))"

text \<open>The capacity of the requested room, 0 when the tenant has no such room.\<close>

fun room_capacity :: "string \<Rightarrow> Room list \<Rightarrow> int" where
  "room_capacity roomID [] = 0"
| "room_capacity roomID (room # rooms) =
     (if rm_ID room = roomID then rm_Capacity room else room_capacity roomID rooms)"

fun alt_shifts :: "Booking list \<Rightarrow> Booking \<Rightarrow> go_time \<Rightarrow> Room list \<Rightarrow>
    int list \<Rightarrow> AlternativeSlot list \<Rightarrow> AlternativeSlot list" where
  "alt_shifts bookings booking now rooms [] alts = alts"
| "alt_shifts bookings booking now rooms (offset # offsets) alts =
     (if length alts < 3
      then let start = bk_StartAt booking + offset * time_Hour;
               fin = bk_EndAt booking + offset * time_Hour;
               roomCapacity = room_capacity (bk_RoomID booking) rooms
           in if roomCapacity > 0 \<and> bk_Attendees booking > roomCapacity
              then alt_shifts bookings booking now rooms offsets alts
              else if hasConflict bookings
                     (alt_candidate booking (bk_RoomID booking) (bk_InstructorID booking) start fin) now
              then alt_shifts bookings booking now rooms offsets alts
              else alt_shifts bookings booking now rooms offsets
                     (alts @ [\<lparr>al_RoomID = bk_RoomID booking, al_InstructorID = bk_InstructorID booking,
                        al_StartAt = start, al_EndAt = fin,
                        al_Reason = ''shift by '' @ itoa offset @ '' hour(s)''\<rparr>])
      else alts)"

definition suggest :: "Booking list \<Rightarrow> Room list \<Rightarrow> Instructor list \<Rightarrow> Booking \<Rightarrow> go_time \<Rightarrow>
    AlternativeSlot list" where
  "suggest bookings rooms instructors booking now =
     (let rooms = sort_key rm_ID rooms; instructors = sort_key in_ID instructors
      in case alt_offsets bookings booking now rooms instructors [1, 2, 3, 4, 5, 6] [] of
           (alts, True) \<Rightarrow> alts
         | (alts, False) \<Rightarrow> if length alts < 3 then alt_shifts bookings booking now rooms [1, 2, 3] alts
                            else alts)"

definition SuggestAlternatives ::
    "'s BookingService \<Rightarrow> Booking \<Rightarrow> go_time \<Rightarrow> (AlternativeSlot list, 's) op" where
  "SuggestAlternatives svc booking now =
     op_bind (st_ListBookings (svc_Store svc) (bk_TenantID booking)) (\<lambda>bookings.
     op_bind (st_ListRooms (svc_Store svc) (bk_TenantID booking)) (\<lambda>rooms.
     op_bind (st_ListInstructors (svc_Store svc) (bk_TenantID booking)) (\<lambda>instructors.
     op_return (suggest bookings rooms instructors booking now))))"

definition BookingService_Hold :: "'s BookingService \<Rightarrow> Booking \<Rightarrow> go_time \<Rightarrow>
    's \<Rightarrow> ((BookingConflict list \<times> AlternativeSlot list \<times> go_error) + Booking) \<times> 's" where
  "BookingService_Hold svc booking now s =
     (case st_CreateHold (svc_Store svc) booking (svc_HoldTTL svc) now s of
        (Inr held, s1) \<Rightarrow> (Inr held, s1)
      | (Inl (conflicts, err), s1) \<Rightarrow>
          if length conflicts = 0 then (Inl ([], [], err), s1)
          else (case SuggestAlternatives svc booking now s1 of
                  (Inl altErr, s2) \<Rightarrow> (Inl (conflicts, [], altErr), s2)
                | (Inr alternatives, s2) \<Rightarrow> (Inl (conflicts, alternatives, err), s2)))"

definition BookingService_Confirm ::
    "'s BookingService \<Rightarrow> string \<Rightarrow> string \<Rightarrow> go_time \<Rightarrow> (unit, 's) op" where
  "BookingService_Confirm svc tenantID bookingID now =
     st_Confirm (svc_Store svc) tenantID bookingID now"

definition BookingService_Cancel ::
    "'s BookingService \<Rightarrow> string \<Rightarrow> string \<Rightarrow> go_time \<Rightarrow> (unit, 's) op" where
  "BookingService_Cancel svc tenantID bookingID now =
     op_bind (st_GetBooking (svc_Store svc) tenantID bookingID) (\<lambda>booking.
     if time_Sub (bk_StartAt booking) now < 24 * time_Hour then op_fail ErrCancellationClosed
     else st_Cancel (svc_Store svc) tenantID bookingID now)"

definition BookingService_CheckIn ::
    "'s BookingService \<Rightarrow> string \<Rightarrow> string \<Rightarrow> go_time \<Rightarrow> (unit, 's) op" where
  "BookingService_CheckIn svc tenantID bookingID now =
     st_CheckIn (svc_Store svc) tenantID bookingID now"

definition BookingService_Reschedule ::
    "'s BookingService \<Rightarrow> string \<Rightarrow> string \<Rightarrow> go_time \<Rightarrow> go_time \<Rightarrow> go_time \<Rightarrow> (Booking, 's) op" where
  "BookingService_Reschedule svc tenantID bookingID newStart newEnd now =
     op_bind (st_GetBooking (svc_Store svc) tenantID bookingID) (\<lambda>booking.
     if bk_RescheduleCount booking \<ge> 2 then op_fail ErrRescheduleLimitReached
     else st_Reschedule (svc_Store svc) tenantID bookingID newStart newEnd now)"

definition BookingService_ReleaseExpiredHolds ::
    "'s BookingService \<Rightarrow> go_time \<Rightarrow> (int, 's) op" where
  "BookingService_ReleaseExpiredHolds svc now = st_ReleaseExpiredHolds (svc_Store svc) now"

text \<open>One call of the service, and the store it leaves.\<close>

datatype booking_call =
    CallHold Booking
  | CallConfirm string string
  | CallCancel string string
  | CallCheckIn string string
  | CallReschedule string string go_time go_time
  | CallRelease

definition booking_step :: "'s BookingService \<Rightarrow> go_time \<Rightarrow> booking_call \<Rightarrow> 's \<Rightarrow> 's" where
  "booking_step svc now c s = (case c of
      CallHold b \<Rightarrow> snd (BookingService_Hold svc b now s)
    | CallConfirm t i \<Rightarrow> snd (BookingService_Confirm svc t i now s)
    | CallCancel t i \<Rightarrow> snd (BookingService_Cancel svc t i now s)
    | CallCheckIn t i \<Rightarrow> snd (BookingService_CheckIn svc t i now s)
    | CallReschedule t i st en \<Rightarrow> snd (BookingService_Reschedule svc t i st en now s)
    | CallRelease \<Rightarrow> snd (BookingService_ReleaseExpiredHolds svc now s))"

text \<open>
  The loop of \<^verbatim>\<open>dedupeBookingConflicts\<close>, which both stores have: the first conflict
  of every reason, in order.
\<close>

fun dedupe_conflicts :: "BookingConflictReason list \<Rightarrow> BookingConflict list \<Rightarrow> BookingConflict list" where
  "dedupe_conflicts seen [] = []"
| "dedupe_conflicts seen (conflict # conflicts) =
     (if cf_Reason conflict \<in> set seen then dedupe_conflicts seen conflicts
      else conflict # dedupe_conflicts (cf_Reason conflict # seen) conflicts)"

subsection \<open>Specification\<close>

text \<open>
  A booking blocks its room and instructor at \<open>now\<close> unless it is cancelled, expired or
  a hold whose time is over. Two bookings clash when they are of one tenant, overlap in
  time and share the room or the instructor.
\<close>

definition blocking :: "go_time \<Rightarrow> Booking \<Rightarrow> bool" where
  "blocking now b \<longleftrightarrow> bk_Status b \<noteq> BookingStatusCancelled \<and> bk_Status b \<noteq> BookingStatusExpired \<and>
     (case bk_HoldExpiresAt b of None \<Rightarrow> True | Some h \<Rightarrow> now \<le> h)"

definition clash :: "Booking \<Rightarrow> Booking \<Rightarrow> bool" where
  "clash a b \<longleftrightarrow> bk_TenantID a = bk_TenantID b \<and>
     bk_StartAt a < bk_EndAt b \<and> bk_StartAt b < bk_EndAt a \<and>
     (bk_RoomID a = bk_RoomID b \<or> bk_InstructorID a = bk_InstructorID b)"

definition no_double_booking :: "go_time \<Rightarrow> Booking set \<Rightarrow> bool" where
  "no_double_booking now R \<longleftrightarrow>
     (\<forall>a\<in>R. \<forall>b\<in>R. a \<noteq> b \<longrightarrow> blocking now a \<longrightarrow> blocking now b \<longrightarrow> \<not> clash a b)"

definition reschedules_capped :: "Booking set \<Rightarrow> bool" where
  "reschedules_capped R \<longleftrightarrow> (\<forall>b\<in>R. 0 \<le> bk_RescheduleCount b \<and> bk_RescheduleCount b \<le> 2)"

text \<open>The moves of a booking's status; cancelling is possible from every status.\<close>

inductive status_step :: "BookingStatus \<Rightarrow> BookingStatus \<Rightarrow> bool" where
  stay [simp, intro]: "status_step st st"
| confirm: "status_step BookingStatusHeld BookingStatusConfirmed"
| expire: "status_step BookingStatusHeld BookingStatusExpired"
| check_in: "status_step BookingStatusConfirmed BookingStatusCheckedIn"
| cancel: "status_step st BookingStatusCancelled"

code_pred status_step .

inductive_cases status_step_CheckedIn: "status_step st BookingStatusCheckedIn"
inductive_simps status_step_Confirmed: "status_step st BookingStatusConfirmed"

text \<open>
  \<open>row_update R R' b b'\<close>: the store replaced row \<open>b\<close> by \<open>b'\<close> and nothing else.
  \<open>same_slot\<close>: a change that leaves alone what the booking occupies and how often it moved.
\<close>

definition row_update :: "Booking set \<Rightarrow> Booking set \<Rightarrow> Booking \<Rightarrow> Booking \<Rightarrow> bool" where
  "row_update R R' b b' \<longleftrightarrow> b \<in> R \<and> R' = insert b' (R - {b})"

definition same_slot :: "Booking \<Rightarrow> Booking \<Rightarrow> bool" where
  "same_slot b b' \<longleftrightarrow> bk_ID b' = bk_ID b \<and> bk_TenantID b' = bk_TenantID b \<and>
     bk_RoomID b' = bk_RoomID b \<and> bk_InstructorID b' = bk_InstructorID b \<and>
     bk_StartAt b' = bk_StartAt b \<and> bk_EndAt b' = bk_EndAt b \<and>
     bk_RescheduleCount b' = bk_RescheduleCount b"

definition hold_over :: "go_time \<Rightarrow> Booking \<Rightarrow> bool" where
  "hold_over now b \<longleftrightarrow> (case bk_HoldExpiresAt b of None \<Rightarrow> False | Some h \<Rightarrow> h \<le> now)"

definition confirmed_row :: "go_time \<Rightarrow> Booking \<Rightarrow> Booking" where
  "confirmed_row now b = b\<lparr>bk_Status := BookingStatusConfirmed, bk_HoldExpiresAt := None,
     bk_UpdatedAt := now, bk_Version := i64 (bk_Version b + 1)\<rparr>"

definition cancelled_row :: "go_time \<Rightarrow> Booking \<Rightarrow> Booking" where
  "cancelled_row now b = b\<lparr>bk_Status := BookingStatusCancelled, bk_CancelledAt := Some now,
     bk_UpdatedAt := now, bk_Version := i64 (bk_Version b + 1)\<rparr>"

definition checked_in_row :: "go_time \<Rightarrow> Booking \<Rightarrow> Booking" where
  "checked_in_row now b = b\<lparr>bk_Status := BookingStatusCheckedIn, bk_CheckedInAt := Some now,
     bk_UpdatedAt := now, bk_Version := i64 (bk_Version b + 1)\<rparr>"

definition moved_row :: "go_time \<Rightarrow> go_time \<Rightarrow> go_time \<Rightarrow> Booking \<Rightarrow> Booking" where
  "moved_row newStart newEnd now b = b\<lparr>bk_StartAt := newStart, bk_EndAt := newEnd,
     bk_RescheduleCount := i64 (bk_RescheduleCount b + 1),
     bk_UpdatedAt := now, bk_Version := i64 (bk_Version b + 1)\<rparr>"

subsection \<open>Conflicts\<close>

lemma clash_sym: "clash a b \<longleftrightarrow> clash b a"
  by (auto simp: clash_def)

lemma clash_same_slot: "same_slot b b' \<Longrightarrow> clash b' x \<longleftrightarrow> clash b x"
  by (auto simp: clash_def same_slot_def)

lemma hasConflict_iff:
  "hasConflict bs c now \<longleftrightarrow> (\<exists>b\<in>set bs. blocking now b \<and> clash c b)"
  by (induction bs) (auto simp: blocking_def clash_def split: option.splits)

lemma blocking_earlier: "blocking now' b \<Longrightarrow> now \<le> now' \<Longrightarrow> blocking now b"
  by (auto simp: blocking_def split: option.splits)

lemma no_double_booking_later:
  "no_double_booking now R \<Longrightarrow> now \<le> now' \<Longrightarrow> no_double_booking now' R"
  unfolding no_double_booking_def using blocking_earlier by blast

lemma no_double_bookingD:
  "no_double_booking now R \<Longrightarrow> a \<in> R \<Longrightarrow> b \<in> R \<Longrightarrow> a \<noteq> b \<Longrightarrow>
   blocking now a \<Longrightarrow> blocking now b \<Longrightarrow> \<not> clash a b"
  by (simp add: no_double_booking_def)

lemma no_double_booking_update:
  assumes "no_double_booking now R" and "R' \<subseteq> insert b' (R - {b})"
    and "\<And>x. x \<in> R - {b} \<Longrightarrow> blocking now b' \<Longrightarrow> blocking now x \<Longrightarrow> \<not> clash b' x"
  shows "no_double_booking now R'"
  unfolding no_double_booking_def
proof (intro ballI impI)
  fix x y assume xy: "x \<in> R'" "y \<in> R'" "x \<noteq> y" and bl: "blocking now x" "blocking now y"
  from xy assms(2) consider "x \<in> R" "y \<in> R" | "x = b'" "y \<in> R - {b}" | "y = b'" "x \<in> R - {b}"
    by blast
  then show "\<not> clash x y"
  proof cases
    case 1 with assms(1) xy(3) bl show ?thesis by (simp add: no_double_bookingD)
  next
    case 2 with assms(3) bl show ?thesis by simp
  next
    case 3 with assms(3) bl have "\<not> clash y x" by simp
    then show ?thesis by (simp add: clash_sym [of x y])
  qed
qed

lemma no_double_booking_insert:
  assumes "no_double_booking now R" and "R' \<subseteq> insert h R"
    and "\<And>x. x \<in> R \<Longrightarrow> blocking now x \<Longrightarrow> \<not> clash h x"
  shows "no_double_booking now R'"
  by (rule no_double_booking_update [OF assms(1), of R' h h]) (use assms(2,3) in auto)

lemma no_double_booking_same_slot:
  assumes "no_double_booking now R" and "row_update R R' b b'"
    and "same_slot b b'" and "blocking now b' \<Longrightarrow> blocking now b"
  shows "no_double_booking now R'"
proof (rule no_double_booking_update [OF assms(1)])
  show "R' \<subseteq> insert b' (R - {b})" using assms(2) by (simp add: row_update_def)
next
  fix x assume "x \<in> R - {b}" and "blocking now b'" and "blocking now x"
  with assms show "\<not> clash b' x"
    by (auto simp: clash_same_slot row_update_def dest: no_double_bookingD)
qed

lemma no_double_booking_image:
  assumes "no_double_booking now R" and "R' = f ` R"
    and "\<And>b. b \<in> R \<Longrightarrow> f b = b \<or> \<not> blocking now (f b)"
  shows "no_double_booking now R'"
  unfolding no_double_booking_def
proof (intro ballI impI)
  fix a b assume "a \<in> R'" "b \<in> R'" "a \<noteq> b" "blocking now a" "blocking now b"
  with assms(2,3) have "a \<in> R" "b \<in> R" by (metis imageE)+
  with assms(1) \<open>a \<noteq> b\<close> \<open>blocking now a\<close> \<open>blocking now b\<close> show "\<not> clash a b"
    by (auto dest: no_double_bookingD)
qed

lemma capped_update:
  "reschedules_capped R \<Longrightarrow> row_update R R' b b' \<Longrightarrow>
   0 \<le> bk_RescheduleCount b' \<Longrightarrow> bk_RescheduleCount b' \<le> 2 \<Longrightarrow> reschedules_capped R'"
  by (auto simp: reschedules_capped_def row_update_def)

lemma capped_same_slot:
  "reschedules_capped R \<Longrightarrow> row_update R R' b b' \<Longrightarrow> same_slot b b' \<Longrightarrow> reschedules_capped R'"
  by (auto simp: reschedules_capped_def row_update_def same_slot_def)

lemma same_slot_refl [simp]: "same_slot b b"
  by (simp add: same_slot_def)

lemma row_same_slot [simp]:
  "same_slot b (confirmed_row now b)" "same_slot b (cancelled_row now b)"
  "same_slot b (checked_in_row now b)"
  by (simp_all add: same_slot_def confirmed_row_def cancelled_row_def checked_in_row_def)

lemma row_blocking [simp]:
  "bk_Status b = BookingStatusExpired \<Longrightarrow> \<not> blocking now b"
  "\<not> blocking now (cancelled_row now' b)"
  "bk_Status b = BookingStatusConfirmed \<Longrightarrow>
     blocking now (checked_in_row now' b) \<longleftrightarrow> blocking now b"
  by (auto simp: blocking_def cancelled_row_def checked_in_row_def)

lemma dedupe_reasons:
  "cf_Reason ` set (dedupe_conflicts seen cs) = cf_Reason ` set cs - set seen"
  by (induction seen cs rule: dedupe_conflicts.induct) auto

lemma dedupe_Nil_iff [simp]: "dedupe_conflicts [] cs = [] \<longleftrightarrow> cs = []"
  by (cases cs) auto

lemma dedupe_distinct: "distinct (map cf_Reason (dedupe_conflicts seen cs))"
proof (induction seen cs rule: dedupe_conflicts.induct)
  case (2 seen c cs)
  have "cf_Reason c \<notin> cf_Reason ` set (dedupe_conflicts (cf_Reason c # seen) cs)"
    by (simp add: dedupe_reasons)
  with 2 show ?case by auto
qed simp

lemma dedupe_subset: "set (dedupe_conflicts seen cs) \<subseteq> set cs"
  by (induction seen cs rule: dedupe_conflicts.induct) auto

lemma cancellation_window [simp]:
  "time_Sub t now < 86400000000000 \<longleftrightarrow> t < now + 86400000000000"
  by (subst time_Sub_less_iff) auto

end
