(* ===== verification/Booking_Contract.thy ===== *)
theory Booking_Contract
  imports Booking_Service
begin

text \<open>
  The contract of \<^verbatim>\<open>repository.BookingStore\<close> and what the booking service guarantees on
  top of any store that meets it. A store is seen through \<open>rows\<close>, the set of bookings
  it holds, and \<open>find\<close>, the booking a tenant and a booking identifier denote; \<open>inv\<close> is
  the representation invariant of the implementation. \<open>ts\<close> is the resolution at which
  the store keeps instants.

  \<open>booking_store\<close> holds of both implementations. \<open>exclusive_booking_store\<close> adds that a
  hold or a move is only accepted where nothing blocks the slot, and that only a hold
  that still blocks can be confirmed; the in-memory store does not promise this.
\<close>

locale booking_store =
  fixes store :: "'s BookingStore"
    and inv :: "'s \<Rightarrow> bool"
    and rows :: "'s \<Rightarrow> Booking set"
    and find :: "'s \<Rightarrow> string \<Rightarrow> string \<Rightarrow> Booking option"
    and ts :: "go_time \<Rightarrow> go_time"
  assumes find_rows: "inv s \<Longrightarrow> find s t i = Some b \<Longrightarrow> b \<in> rows s"
    and get: "inv s \<Longrightarrow> st_GetBooking store t i s = (r, s') \<Longrightarrow>
          inv s' \<and> rows s' = rows s \<and> find s' = find s \<and> (\<forall>b. r = Inr b \<longrightarrow> find s t i = Some b)"
    and hold: "inv s \<Longrightarrow> st_CreateHold store b ttl now s = (rh, s') \<Longrightarrow>
          inv s' \<and> (\<forall>x. rh = Inl x \<longrightarrow> rows s' = rows s) \<and>
          (\<forall>h. rh = Inr h \<longrightarrow> h \<in> rows s' \<and> rows s' \<subseteq> insert h (rows s) \<and>
               bk_Status h = BookingStatusHeld \<and> bk_StartAt h = ts (bk_StartAt b) \<and> bk_EndAt h = ts (bk_EndAt b) \<and>
               (bk_RescheduleCount h = 0 \<or> bk_RescheduleCount h = bk_RescheduleCount b))"
    and confirm: "inv s \<Longrightarrow> st_Confirm store t i now s = (ru, s') \<Longrightarrow>
          inv s' \<and>
          (ru = Inr () \<longrightarrow> (\<exists>b. find s t i = Some b \<and> row_update (rows s) (rows s') b (confirmed_row (ts now) b))) \<and>
          (\<forall>e. ru = Inl e \<longrightarrow> rows s' = rows s \<or>
             (\<exists>b b'. find s t i = Some b \<and> hold_over now b \<and> row_update (rows s) (rows s') b b' \<and>
                same_slot b b' \<and> bk_Status b' = BookingStatusExpired))"
    and cancel: "inv s \<Longrightarrow> st_Cancel store t i now s = (ru, s') \<Longrightarrow>
          inv s' \<and>
          (ru = Inr () \<longrightarrow> (\<exists>b. find s t i = Some b \<and> row_update (rows s) (rows s') b (cancelled_row (ts now) b))) \<and>
          (\<forall>e. ru = Inl e \<longrightarrow> rows s' = rows s)"
    and check_in: "inv s \<Longrightarrow> st_CheckIn store t i now s = (ru, s') \<Longrightarrow>
          inv s' \<and>
          (ru = Inr () \<longrightarrow> (\<exists>b. find s t i = Some b \<and> bk_Status b = BookingStatusConfirmed \<and>
                row_update (rows s) (rows s') b (checked_in_row (ts now) b))) \<and>
          (\<forall>e. ru = Inl e \<longrightarrow> rows s' = rows s)"
    and reschedule: "inv s \<Longrightarrow> st_Reschedule store t i ns ne now s = (r, s') \<Longrightarrow>
          inv s' \<and>
          (\<forall>b'. r = Inr b' \<longrightarrow> (\<exists>b. find s t i = Some b \<and> b' = moved_row (ts ns) (ts ne) (ts now) b \<and>
                row_update (rows s) (rows s') b b')) \<and>
          (\<forall>e. r = Inl e \<longrightarrow> rows s' = rows s)"
    and release: "inv s \<Longrightarrow> st_ReleaseExpiredHolds store now s = (rn, s') \<Longrightarrow>
          inv s' \<and> (\<exists>f. rows s' = f ` rows s \<and>
             (\<forall>b. f b = b \<or> (hold_over now b \<and> bk_Status b = BookingStatusHeld \<and> same_slot b (f b) \<and>
                              bk_Status (f b) = BookingStatusExpired)))"
    and list_bookings: "inv s \<Longrightarrow> st_ListBookings store t s = (rb, s') \<Longrightarrow> inv s' \<and> rows s' = rows s"
    and list_rooms: "inv s \<Longrightarrow> st_ListRooms store t s = (rr, s') \<Longrightarrow> inv s' \<and> rows s' = rows s"
    and list_instructors: "inv s \<Longrightarrow> st_ListInstructors store t s = (ri, s') \<Longrightarrow>
          inv s' \<and> rows s' = rows s"

begin

lemma suggest_frame:
  assumes "svc_Store svc = store" and "inv s" and "SuggestAlternatives svc b now s = (r, s')"
  shows "inv s' \<and> rows s' = rows s"
proof -
  define P where "P = (\<lambda>s'. inv s' \<and> rows s' = rows s)"
  have "op_keeps P (st_ListBookings store t)" "op_keeps P (st_ListRooms store t)"
       "op_keeps P (st_ListInstructors store t)" for t
    unfolding op_keeps_def P_def
    using list_bookings list_rooms list_instructors by (metis surjective_pairing)+
  then have "op_keeps P (SuggestAlternatives svc b now)"
    unfolding SuggestAlternatives_def assms(1) by (intro op_invs) auto
  moreover from assms(2) have "P s" by (simp add: P_def)
  ultimately have "P s'" using assms(3) by (rule op_keeps_eq)
  then show ?thesis by (simp add: P_def)
qed

lemma service_hold:
  assumes "svc_Store svc = store" and "inv s" and "BookingService_Hold svc b now s = (r, s')"
  shows "inv s'" and "\<And>x. r = Inl x \<Longrightarrow> rows s' = rows s"
    and "\<And>h. r = Inr h \<Longrightarrow> st_CreateHold store b (svc_HoldTTL svc) now s = (Inr h, s')"
proof -
  obtain r1 s1 where h: "st_CreateHold store b (svc_HoldTTL svc) now s = (r1, s1)"
    by fastforce
  note hold [OF assms(2) h]
  with assms h show "inv s'" "\<And>x. r = Inl x \<Longrightarrow> rows s' = rows s"
    "\<And>h. r = Inr h \<Longrightarrow> st_CreateHold store b (svc_HoldTTL svc) now s = (Inr h, s')"
    by (auto simp: BookingService_Hold_def split: sum.splits prod.splits if_splits
        dest: suggest_frame [OF assms(1)])
qed

lemma service_cancel:
  assumes "svc_Store svc = store" and "inv s" and "BookingService_Cancel svc t i now s = (r, s')"
  shows "inv s' \<and>
     (r = Inr () \<longrightarrow> (\<exists>b. find s t i = Some b \<and> now + 24 * time_Hour \<le> bk_StartAt b \<and>
        row_update (rows s) (rows s') b (cancelled_row (ts now) b))) \<and>
     (\<forall>e. r = Inl e \<longrightarrow> rows s' = rows s)"
proof -
  obtain rg s1 where g: "st_GetBooking store t i s = (rg, s1)" by fastforce
  note G = get [OF assms(2) g]
  show ?thesis
  proof (cases rg)
    case (Inl e) with G g assms show ?thesis
      by (auto simp: BookingService_Cancel_def op_bind_err)
  next
    case (Inr b)
    with G have I: "inv s1" and R: "rows s1 = rows s" and F: "find s1 = find s" "find s t i = Some b"
      by auto
    obtain rc s2 where c: "st_Cancel store t i now s1 = (rc, s2)" by fastforce
    note C = cancel [OF I c]
    have eq: "(r, s') = (if bk_StartAt b < now + 24 * time_Hour then (Inl ErrCancellationClosed, s1)
                         else (rc, s2))"
      using assms(1,3) g Inr c by (auto simp: BookingService_Cancel_def op_bind_eq split: if_splits)
    show ?thesis
    proof (cases "bk_StartAt b < now + 24 * time_Hour")
      case True with eq I R show ?thesis by simp
    next
      case False with eq C R F show ?thesis by (auto simp: not_less)
    qed
  qed
qed

lemma service_reschedule:
  assumes "svc_Store svc = store" and "inv s"
    and "BookingService_Reschedule svc t i ns ne now s = (r, s')"
  shows "inv s' \<and>
     (\<forall>b'. r = Inr b' \<longrightarrow> (\<exists>b s1. find s t i = Some b \<and> bk_RescheduleCount b < 2 \<and>
        inv s1 \<and> rows s1 = rows s \<and> find s1 = find s \<and>
        st_Reschedule store t i ns ne now s1 = (Inr b', s') \<and>
        b' = moved_row (ts ns) (ts ne) (ts now) b \<and> row_update (rows s) (rows s') b b')) \<and>
     (\<forall>e. r = Inl e \<longrightarrow> rows s' = rows s)"
proof -
  obtain rg s1 where g: "st_GetBooking store t i s = (rg, s1)" by fastforce
  note G = get [OF assms(2) g]
  show ?thesis
  proof (cases rg)
    case (Inl e) with G g assms show ?thesis
      by (auto simp: BookingService_Reschedule_def op_bind_err)
  next
    case (Inr b)
    with G have I: "inv s1" and R: "rows s1 = rows s" and F: "find s1 = find s" "find s t i = Some b"
      by auto
    obtain rc s2 where c: "st_Reschedule store t i ns ne now s1 = (rc, s2)" by fastforce
    note C = reschedule [OF I c]
    have eq: "(r, s') = (if bk_RescheduleCount b \<ge> 2 then (Inl ErrRescheduleLimitReached, s1)
                         else (rc, s2))"
      using assms(1,3) g Inr c by (auto simp: BookingService_Reschedule_def op_bind_eq split: if_splits)
    show ?thesis
    proof (cases "bk_RescheduleCount b \<ge> 2")
      case True with eq I R show ?thesis by simp
    next
      case False with eq C R F I c show ?thesis by (auto simp: not_le)
    qed
  qed
qed

text \<open>No call of the service lets a booking move more than twice.\<close>

lemma step_inv:
  assumes "svc_Store svc = store" and "inv s"
  shows "inv (booking_step svc now c s)"
proof (cases c)
  case (CallHold b) then show ?thesis
    using service_hold(1) [OF assms surjective_pairing] by (simp add: booking_step_def)
next
  case (CallConfirm t i) then show ?thesis
    using confirm [OF assms(2) surjective_pairing] assms(1)
    by (simp add: booking_step_def BookingService_Confirm_def)
next
  case (CallCancel t i) then show ?thesis
    using service_cancel [OF assms surjective_pairing] by (simp add: booking_step_def)
next
  case (CallCheckIn t i) then show ?thesis
    using check_in [OF assms(2) surjective_pairing] assms(1)
    by (simp add: booking_step_def BookingService_CheckIn_def)
next
  case (CallReschedule t i ns ne) then show ?thesis
    using service_reschedule [OF assms surjective_pairing] by (simp add: booking_step_def)
next
  case CallRelease then show ?thesis
    using release [OF assms(2) surjective_pairing] assms(1)
    by (simp add: booking_step_def BookingService_ReleaseExpiredHolds_def)
qed

lemma step_rows:
  assumes "svc_Store svc = store" and "inv s"
    and "\<And>r. r = rows s \<Longrightarrow> P r"
    and "\<And>b h s'. c = CallHold b \<Longrightarrow> st_CreateHold store b (svc_HoldTTL svc) now s = (Inr h, s') \<Longrightarrow> P (rows s')"
    and "\<And>b b' R'. row_update (rows s) R' b b' \<Longrightarrow> same_slot b b' \<Longrightarrow>
           (b' = cancelled_row (ts now) b \<or>
            (bk_Status b = BookingStatusConfirmed \<and> b' = checked_in_row (ts now) b)) \<Longrightarrow> P R'"
    and "\<And>t i e b b' s'. st_Confirm store t i now s = (Inl e, s') \<Longrightarrow> find s t i = Some b \<Longrightarrow>
           row_update (rows s) (rows s') b b' \<Longrightarrow> same_slot b b' \<Longrightarrow>
           bk_Status b' = BookingStatusExpired \<Longrightarrow> P (rows s')"
    and "\<And>t i b s'. st_Confirm store t i now s = (Inr (), s') \<Longrightarrow> find s t i = Some b \<Longrightarrow>
           row_update (rows s) (rows s') b (confirmed_row (ts now) b) \<Longrightarrow> P (rows s')"
    and "\<And>t i ns ne b s1 s'. find s t i = Some b \<Longrightarrow> bk_RescheduleCount b < 2 \<Longrightarrow> inv s1 \<Longrightarrow>
           rows s1 = rows s \<Longrightarrow> find s1 = find s \<Longrightarrow>
           st_Reschedule store t i ns ne now s1 = (Inr (moved_row (ts ns) (ts ne) (ts now) b), s') \<Longrightarrow>
           row_update (rows s) (rows s') b (moved_row (ts ns) (ts ne) (ts now) b) \<Longrightarrow> P (rows s')"
    and "\<And>f. (\<And>b. f b = b \<or> (same_slot b (f b) \<and> bk_Status b = BookingStatusHeld \<and> bk_Status (f b) = BookingStatusExpired)) \<Longrightarrow> P (f ` rows s)"
  shows "P (rows (booking_step svc now c s))"
proof (cases c)
  case (CallHold b)
  obtain r s' where h: "BookingService_Hold svc b now s = (r, s')" by fastforce
  with assms(3,4) CallHold service_hold(2,3) [OF assms(1,2) h] show ?thesis
    by (cases r) (simp_all add: booking_step_def)
next
  case (CallConfirm t i)
  obtain r s' where h: "st_Confirm store t i now s = (r, s')" by fastforce
  with assms(1) CallConfirm have "booking_step svc now c s = s'"
    by (simp add: booking_step_def BookingService_Confirm_def)
  with h confirm [OF assms(2) h] assms(3,6,7) show ?thesis
    by (cases r) auto
next
  case (CallCancel t i)
  obtain r s' where h: "BookingService_Cancel svc t i now s = (r, s')" by fastforce
  with CallCancel service_cancel [OF assms(1,2) h] assms(3,5) show ?thesis
    by (cases r) (auto simp: booking_step_def)
next
  case (CallCheckIn t i)
  obtain r s' where h: "st_CheckIn store t i now s = (r, s')" by fastforce
  with assms(1) CallCheckIn have "booking_step svc now c s = s'"
    by (simp add: booking_step_def BookingService_CheckIn_def)
  with h check_in [OF assms(2) h] assms(3,5) show ?thesis
    by (cases r) auto
next
  case (CallReschedule t i ns ne)
  obtain r s' where h: "BookingService_Reschedule svc t i ns ne now s = (r, s')" by fastforce
  with CallReschedule have "booking_step svc now c s = s'" by (simp add: booking_step_def)
  with service_reschedule [OF assms(1,2) h] assms(3,8) show ?thesis
    by (cases r) auto
next
  case CallRelease
  obtain r s' where h: "st_ReleaseExpiredHolds store now s = (r, s')" by fastforce
  with assms(1) CallRelease have "booking_step svc now c s = s'"
    by (simp add: booking_step_def BookingService_ReleaseExpiredHolds_def)
  moreover obtain f where "rows s' = f ` rows s"
    "\<And>b. f b = b \<or> (same_slot b (f b) \<and> bk_Status b = BookingStatusHeld \<and> bk_Status (f b) = BookingStatusExpired)"
    using release [OF assms(2) h] by blast
  ultimately show ?thesis using assms(9) [of f] by simp
qed

lemma step_capped:
  assumes "svc_Store svc = store" and "inv s" and "reschedules_capped (rows s)"
    and "\<And>b h s'. c = CallHold b \<Longrightarrow> st_CreateHold store b (svc_HoldTTL svc) now s = (Inr h, s') \<Longrightarrow>
           bk_RescheduleCount h = 0"
  shows "reschedules_capped (rows (booking_step svc now c s))"
proof (rule step_rows [OF assms(1,2)])
  fix b h s' assume "c = CallHold b" and c: "st_CreateHold store b (svc_HoldTTL svc) now s = (Inr h, s')"
  then have "bk_RescheduleCount h = 0" by (rule assms(4))
  moreover have "rows s' \<subseteq> insert h (rows s)" using hold [OF assms(2) c] by simp
  ultimately show "reschedules_capped (rows s')"
    using assms(3) by (auto simp: reschedules_capped_def)
next
  fix t i ns ne b s1 s'
  assume f: "find s t i = Some b" and lt: "bk_RescheduleCount b < 2"
    and u: "row_update (rows s) (rows s') b (moved_row (ts ns) (ts ne) (ts now) b)"
  have "0 \<le> bk_RescheduleCount b"
    using find_rows [OF assms(2) f] assms(3) by (simp add: reschedules_capped_def)
  with lt show "reschedules_capped (rows s')"
    by (intro capped_update [OF assms(3) u]) (simp_all add: moved_row_def)
next
  fix f assume "\<And>b. f b = b \<or> (same_slot b (f b) \<and> bk_Status b = BookingStatusHeld \<and> bk_Status (f b) = BookingStatusExpired)"
  then have "bk_RescheduleCount (f b) = bk_RescheduleCount b" for b
    by (metis same_slot_def)
  with assms(3) show "reschedules_capped (f ` rows s)" by (simp add: reschedules_capped_def)
qed (use assms(3) in \<open>auto intro: capped_same_slot\<close>)

end

text \<open>
  A store that also guards its slots. \<open>proper\<close> singles out the requests for which the
  conflict check sees what is stored.
\<close>

locale exclusive_booking_store = booking_store store inv rows find ts
  for store :: "'s BookingStore" and inv rows find ts +
  fixes proper :: "Booking \<Rightarrow> bool"
  assumes hold_keeps: "inv s \<Longrightarrow> st_CreateHold store b ttl now s = (Inr h, s') \<Longrightarrow> rows s \<subseteq> rows s'"
    and hold_free: "inv s \<Longrightarrow> proper b \<Longrightarrow> st_CreateHold store b ttl now s = (Inr h, s') \<Longrightarrow>
          x \<in> rows s \<Longrightarrow> blocking now x \<Longrightarrow> \<not> clash h x"
    and reschedule_free: "inv s \<Longrightarrow> find s t i = Some b \<Longrightarrow>
          st_Reschedule store t i ns ne now s = (Inr b', s') \<Longrightarrow>
          x \<in> rows s - {b} \<Longrightarrow> blocking now x \<Longrightarrow> \<not> clash b' x"
    and confirm_held: "inv s \<Longrightarrow> find s t i = Some b \<Longrightarrow> st_Confirm store t i now s = (Inr (), s') \<Longrightarrow>
          bk_Status b = BookingStatusHeld \<and> blocking now b"
    and confirm_expired: "inv s \<Longrightarrow> find s t i = Some b \<Longrightarrow> st_Confirm store t i now s = (Inl e, s') \<Longrightarrow>
          rows s' \<noteq> rows s \<Longrightarrow> bk_Status b = BookingStatusHeld"
begin

text \<open>No call of the service makes two blocking bookings clash.\<close>

lemma step_no_double_booking:
  assumes "svc_Store svc = store" and "inv s" and ndb: "no_double_booking now (rows s)"
    and "\<And>b. c = CallHold b \<Longrightarrow> proper b"
  shows "no_double_booking now (rows (booking_step svc now c s))"
proof (rule step_rows [OF assms(1,2)])
  fix b h s' assume "c = CallHold b" and c: "st_CreateHold store b (svc_HoldTTL svc) now s = (Inr h, s')"
  then show "no_double_booking now (rows s')"
    using hold [OF assms(2) c] hold_free [OF assms(2) _ c] assms(4)
    by (intro no_double_booking_insert [OF ndb]) auto
next
  fix b b' R' assume u: "row_update (rows s) R' b b'" and ss: "same_slot b b'"
    and "b' = cancelled_row (ts now) b \<or>
         (bk_Status b = BookingStatusConfirmed \<and> b' = checked_in_row (ts now) b)"
  then have "blocking now b' \<Longrightarrow> blocking now b" by auto
  with no_double_booking_same_slot [OF ndb u ss] show "no_double_booking now R'" by blast
next
  fix t i e b b' s' assume u: "row_update (rows s) (rows s') b b'" and ss: "same_slot b b'"
    and "bk_Status b' = BookingStatusExpired"
  then show "no_double_booking now (rows s')"
    by (intro no_double_booking_same_slot [OF ndb u ss]) simp
next
  fix t i b s' assume c: "st_Confirm store t i now s = (Inr (), s')" and f: "find s t i = Some b"
    and u: "row_update (rows s) (rows s') b (confirmed_row (ts now) b)"
  show "no_double_booking now (rows s')"
    using confirm_held [OF assms(2) f c] by (intro no_double_booking_same_slot [OF ndb u]) simp_all
next
  fix t i ns ne b s1 s' assume f: "find s t i = Some b" and I: "inv s1" and R: "rows s1 = rows s"
    and F: "find s1 = find s" and c: "st_Reschedule store t i ns ne now s1 = (Inr (moved_row (ts ns) (ts ne) (ts now) b), s')"
    and u: "row_update (rows s) (rows s') b (moved_row (ts ns) (ts ne) (ts now) b)"
  show "no_double_booking now (rows s')"
    using u reschedule_free [OF I _ c] f R F
    by (intro no_double_booking_update [OF ndb, where b = b and b' = "moved_row (ts ns) (ts ne) (ts now) b"])
       (auto simp: row_update_def)
next
  fix f assume *: "\<And>b. f b = b \<or> (same_slot b (f b) \<and> bk_Status b = BookingStatusHeld \<and> bk_Status (f b) = BookingStatusExpired)"
  show "no_double_booking now (f ` rows s)"
    by (rule no_double_booking_image [OF ndb refl]) (use * row_blocking(1) in blast)
qed (use ndb in simp_all)

text \<open>The life of a booking: no call removes one, and its status only moves along \<open>status_step\<close>.\<close>

lemma step_status:
  assumes "svc_Store svc = store" and "inv s" and "b \<in> rows s"
  shows "\<exists>b'\<in>rows (booking_step svc now c s).
           bk_ID b' = bk_ID b \<and> bk_TenantID b' = bk_TenantID b \<and> status_step (bk_Status b) (bk_Status b')"
    (is "?P (rows (booking_step svc now c s))")
proof -
  have upd: "?P R'" if "row_update (rows s) R' x x'" "bk_ID x' = bk_ID x" "bk_TenantID x' = bk_TenantID x"
      "status_step (bk_Status x) (bk_Status x')" for x x' R'
    using that assms(3) by (cases "b = x") (auto simp: row_update_def)
  show ?thesis
  proof (rule step_rows [OF assms(1,2)])
    fix b0 h s' assume "st_CreateHold store b0 (svc_HoldTTL svc) now s = (Inr h, s')"
    with hold_keeps [OF assms(2)] assms(3) have "b \<in> rows s'" by blast
    then show "?P (rows s')" by auto
  next
    fix x x' R' assume u: "row_update (rows s) R' x x'" and ss: "same_slot x x'"
      and st: "x' = cancelled_row (ts now) x \<or>
         (bk_Status x = BookingStatusConfirmed \<and> x' = checked_in_row (ts now) x)"
    from st have "status_step (bk_Status x) (bk_Status x')"
      by (auto simp: cancelled_row_def checked_in_row_def status_step.simps)
    with ss show "?P R'" by (intro upd [OF u]) (simp_all add: same_slot_def)
  next
    fix t i e x x' s' assume c: "st_Confirm store t i now s = (Inl e, s')" and f: "find s t i = Some x"
      and u: "row_update (rows s) (rows s') x x'" and ss: "same_slot x x'"
      and x': "bk_Status x' = BookingStatusExpired"
    show "?P (rows s')"
    proof (cases "rows s' = rows s")
      case True with assms(3) show ?thesis by auto
    next
      case False
      with confirm_expired [OF assms(2) f c] have "bk_Status x = BookingStatusHeld" by simp
      with ss x' show ?thesis by (intro upd [OF u]) (simp_all add: same_slot_def status_step.simps)
    qed
  next
    fix t i x s' assume c: "st_Confirm store t i now s = (Inr (), s')" and f: "find s t i = Some x"
      and u: "row_update (rows s) (rows s') x (confirmed_row (ts now) x)"
    from confirm_held [OF assms(2) f c] show "?P (rows s')"
      by (intro upd [OF u]) (simp_all add: confirmed_row_def status_step.simps)
  next
    fix t i ns ne x s1 s' assume "row_update (rows s) (rows s') x (moved_row (ts ns) (ts ne) (ts now) x)"
    then show "?P (rows s')" by (rule upd) (simp_all add: moved_row_def)
  next
    fix f assume f: "\<And>b. f b = b \<or> (same_slot b (f b) \<and> bk_Status b = BookingStatusHeld \<and>
         bk_Status (f b) = BookingStatusExpired)"
    then have "status_step (bk_Status b) (bk_Status (f b))" "bk_ID (f b) = bk_ID b" "bk_TenantID (f b) = bk_TenantID b"
      by (metis same_slot_def status_step.intros(1,3))+
    with assms(3) show "?P (f ` rows s)" by blast
  qed (use assms(3) in auto)
qed

end

end
