(* ===== verification/Booking_Alternatives.thy ===== *)
theory Booking_Alternatives
  imports Booking_Contract
begin

text \<open>
  The search for alternative slots against a declarative reading of it. The Go code is
  three nested loops with an early return and a second loop of whole-hour shifts; the
  reference lists every free slot in the order the loops visit them and takes the first
  three.
\<close>

definition room_slots :: "Booking list \<Rightarrow> Booking \<Rightarrow> go_time \<Rightarrow> go_time \<Rightarrow> go_time \<Rightarrow>
    Instructor list \<Rightarrow> Room \<Rightarrow> AlternativeSlot list" where
  "room_slots bookings booking now start fin instructors room =
     map (\<lambda>i. \<lparr>al_RoomID = rm_ID room, al_InstructorID = in_ID i, al_StartAt = start, al_EndAt = fin,
               al_Reason = alt_reason booking room i\<rparr>)
       (filter (\<lambda>i. \<not> hasConflict bookings (alt_candidate booking (rm_ID room) (in_ID i) start fin) now)
          instructors)"

definition free_slots :: "Booking list \<Rightarrow> Booking \<Rightarrow> go_time \<Rightarrow> Room list \<Rightarrow> Instructor list \<Rightarrow>
    int list \<Rightarrow> AlternativeSlot list" where
  "free_slots bookings booking now rooms instructors offsets =
     concat (map (\<lambda>offset. concat (map
       (room_slots bookings booking now (bk_StartAt booking + offset * 30 * time_Minute)
          (bk_EndAt booking + offset * 30 * time_Minute) instructors)
       (filter (\<lambda>room. bk_Attendees booking \<le> rm_Capacity room) rooms))) offsets)"

definition shift_slots :: "Booking list \<Rightarrow> Booking \<Rightarrow> go_time \<Rightarrow> Room list \<Rightarrow>
    int list \<Rightarrow> AlternativeSlot list" where
  "shift_slots bookings booking now rooms offsets =
     map (\<lambda>offset. \<lparr>al_RoomID = bk_RoomID booking, al_InstructorID = bk_InstructorID booking,
             al_StartAt = bk_StartAt booking + offset * time_Hour,
             al_EndAt = bk_EndAt booking + offset * time_Hour,
             al_Reason = ''shift by '' @ itoa offset @ '' hour(s)''\<rparr>)
       (filter (\<lambda>offset.
          (room_capacity (bk_RoomID booking) rooms > 0 \<longrightarrow>
             bk_Attendees booking \<le> room_capacity (bk_RoomID booking) rooms) \<and>
          \<not> hasConflict bookings (alt_candidate booking (bk_RoomID booking) (bk_InstructorID booking)
               (bk_StartAt booking + offset * time_Hour) (bk_EndAt booking + offset * time_Hour)) now)
        offsets)"

subsection \<open>The loops compute the reference\<close>

lemma alt_instructors_eq:
  "length alts < 3 \<Longrightarrow>
   alt_instructors bookings booking now start fin room instructors alts =
     (let all = alts @ room_slots bookings booking now start fin instructors room
      in (take 3 all, 3 \<le> length all))"
  by (induction instructors arbitrary: alts) (auto simp: room_slots_def Let_def take_Cons')

lemma alt_rooms_eq:
  "length alts < 3 \<Longrightarrow>
   alt_rooms bookings booking now start fin instructors rooms alts =
     (let all = alts @ concat (map (room_slots bookings booking now start fin instructors)
                        (filter (\<lambda>room. bk_Attendees booking \<le> rm_Capacity room) rooms))
      in (take 3 all, 3 \<le> length all))"
  by (induction rooms arbitrary: alts) (auto simp: alt_instructors_eq Let_def split: bool.splits)

lemma alt_offsets_eq:
  "length alts < 3 \<Longrightarrow>
   alt_offsets bookings booking now rooms instructors offsets alts =
     (let all = alts @ free_slots bookings booking now rooms instructors offsets
      in (take 3 all, 3 \<le> length all))"
  by (induction offsets arbitrary: alts) (auto simp: alt_rooms_eq free_slots_def Let_def split: bool.splits)

lemma alt_shifts_eq:
  "length alts \<le> 3 \<Longrightarrow>
   alt_shifts bookings booking now rooms offsets alts =
     take 3 (alts @ shift_slots bookings booking now rooms offsets)"
  by (induction offsets arbitrary: alts) (auto simp: shift_slots_def Let_def take_Cons')

lemma suggest_reference:
  "suggest bookings rooms instructors booking now =
     take 3 (free_slots bookings booking now (sort_key rm_ID rooms) (sort_key in_ID instructors) [1..6] @
             shift_slots bookings booking now (sort_key rm_ID rooms) [1..3])"
proof -
  have u: "[1, 2, 3, 4, 5, 6] = [1..6::int]" "[1, 2, 3] = [1..3::int]" by (simp_all add: upto.simps)
  show ?thesis
    unfolding suggest_def u by (auto simp: Let_def alt_offsets_eq alt_shifts_eq split: bool.splits)
qed

subsection \<open>What the slots satisfy\<close>

lemma room_slots_D:
  "a \<in> set (room_slots bookings booking now start fin instructors room) \<longleftrightarrow>
   (\<exists>i\<in>set instructors. a = \<lparr>al_RoomID = rm_ID room, al_InstructorID = in_ID i, al_StartAt = start,
         al_EndAt = fin, al_Reason = alt_reason booking room i\<rparr> \<and>
      \<not> hasConflict bookings (alt_candidate booking (rm_ID room) (in_ID i) start fin) now)"
  by (auto simp: room_slots_def)

lemma hasConflict_sort: "hasConflict (sort_key f bs) = hasConflict bs"
  by (intro ext) (simp add: hasConflict_iff)

lemma room_capacity_find:
  "room_capacity rid rooms = (case find (\<lambda>room. rm_ID room = rid) rooms of
     None \<Rightarrow> 0 | Some room \<Rightarrow> rm_Capacity room)"
  by (induction rooms) auto

lemma suggest_free:
  assumes "a \<in> set (suggest bookings rooms instructors booking now)"
  shows "\<not> hasConflict bookings
            (alt_candidate booking (al_RoomID a) (al_InstructorID a) (al_StartAt a) (al_EndAt a)) now" (is ?A)
    and "\<exists>k. 1 \<le> k \<and> k \<le> 6 \<and> al_StartAt a = bk_StartAt booking + k * (30 * time_Minute) \<and>
           al_EndAt a = bk_EndAt booking + k * (30 * time_Minute)" (is ?B)
    and "(\<exists>room\<in>set rooms. rm_ID room = al_RoomID a \<and> bk_Attendees booking \<le> rm_Capacity room) \<or>
         (al_RoomID a = bk_RoomID booking \<and> al_InstructorID a = bk_InstructorID booking \<and>
          (room_capacity (bk_RoomID booking) (sort_key rm_ID rooms) > 0 \<longrightarrow>
           bk_Attendees booking \<le> room_capacity (bk_RoomID booking) (sort_key rm_ID rooms)))" (is ?C)
proof -
  from assms consider
      (free) "a \<in> set (free_slots bookings booking now (sort_key rm_ID rooms) (sort_key in_ID instructors) [1..6])"
    | (shift) "a \<in> set (shift_slots bookings booking now (sort_key rm_ID rooms) [1..3])"
    unfolding suggest_reference by (auto dest: in_set_takeD)
  then have "?A \<and> ?B \<and> ?C"
  proof cases
    case free
    then obtain k room i where "1 \<le> k" "k \<le> (6::int)" "room \<in> set rooms" "bk_Attendees booking \<le> rm_Capacity room"
      "a = \<lparr>al_RoomID = rm_ID room, al_InstructorID = in_ID i,
          al_StartAt = bk_StartAt booking + k * 30 * time_Minute,
          al_EndAt = bk_EndAt booking + k * 30 * time_Minute, al_Reason = alt_reason booking room i\<rparr>"
      "\<not> hasConflict bookings (alt_candidate booking (rm_ID room) (in_ID i)
          (bk_StartAt booking + k * 30 * time_Minute) (bk_EndAt booking + k * 30 * time_Minute)) now"
      unfolding free_slots_def by (auto simp: room_slots_D)
    then show ?thesis by (auto intro!: exI [of _ k])
  next
    case shift
    then obtain k where "1 \<le> k" "k \<le> (3::int)" "al_StartAt a = bk_StartAt booking + k * time_Hour"
      "al_EndAt a = bk_EndAt booking + k * time_Hour" "al_RoomID a = bk_RoomID booking"
      "al_InstructorID a = bk_InstructorID booking" ?A
      "room_capacity (bk_RoomID booking) (sort_key rm_ID rooms) > 0 \<longrightarrow>
           bk_Attendees booking \<le> room_capacity (bk_RoomID booking) (sort_key rm_ID rooms)"
      unfolding shift_slots_def by auto
    then show ?thesis by (auto intro!: exI [of _ "2 * k"])
  qed
  then show ?A ?B ?C by blast+
qed

lemma free_slot_suggested:
  assumes "length (suggest bookings rooms instructors booking now) < 3"
    and "room \<in> set rooms" and "i \<in> set instructors" and "bk_Attendees booking \<le> rm_Capacity room"
    and "1 \<le> k" and "k \<le> 6"
    and "\<not> hasConflict bookings (alt_candidate booking (rm_ID room) (in_ID i)
           (bk_StartAt booking + k * (30 * time_Minute)) (bk_EndAt booking + k * (30 * time_Minute))) now"
  shows "\<lparr>al_RoomID = rm_ID room, al_InstructorID = in_ID i,
           al_StartAt = bk_StartAt booking + k * (30 * time_Minute),
           al_EndAt = bk_EndAt booking + k * (30 * time_Minute), al_Reason = alt_reason booking room i\<rparr>
         \<in> set (suggest bookings rooms instructors booking now)" (is "?a \<in> _")
proof -
  let ?all = "free_slots bookings booking now (sort_key rm_ID rooms) (sort_key in_ID instructors) [1..6] @
              shift_slots bookings booking now (sort_key rm_ID rooms) [1..3]"
  from assms(1) have "suggest bookings rooms instructors booking now = ?all"
    by (simp add: suggest_reference)
  moreover have "?a \<in> set (free_slots bookings booking now (sort_key rm_ID rooms) (sort_key in_ID instructors) [1..6])"
    using assms(2-) unfolding free_slots_def
    by (auto simp: room_slots_D mult.assoc intro!: bexI [of _ k] bexI [of _ room] bexI [of _ i])
  ultimately show ?thesis by simp
qed

text \<open>
  Property C7: the search for alternatives is sound and complete. It returns at most three
  slots; every slot is the requested window moved forward by one to six half hours and no
  blocking booking of the list clashes with it; and when it returns fewer than three, every
  free combination of a large enough room, an instructor and a shift is in the result.
\<close>

theorem suggest_sound_complete:
  "length (suggest bookings rooms instructors booking now) \<le> 3 \<and>
   (\<forall>a\<in>set (suggest bookings rooms instructors booking now).
      (\<exists>k\<in>{1..6}. al_StartAt a = bk_StartAt booking + k * (30 * time_Minute) \<and>
                  al_EndAt a = bk_EndAt booking + k * (30 * time_Minute)) \<and>
      (\<forall>x\<in>set bookings. blocking now x \<longrightarrow> \<not> clash (alt_candidate booking (al_RoomID a)
          (al_InstructorID a) (al_StartAt a) (al_EndAt a)) x)) \<and>
   (length (suggest bookings rooms instructors booking now) < 3 \<longrightarrow>
      (\<forall>room\<in>set rooms. \<forall>i\<in>set instructors. \<forall>k\<in>{1..6}.
         bk_Attendees booking \<le> rm_Capacity room \<longrightarrow>
         \<not> hasConflict bookings (alt_candidate booking (rm_ID room) (in_ID i)
             (bk_StartAt booking + k * (30 * time_Minute)) (bk_EndAt booking + k * (30 * time_Minute))) now \<longrightarrow>
         (\<exists>a\<in>set (suggest bookings rooms instructors booking now).
            al_RoomID a = rm_ID room \<and> al_InstructorID a = in_ID i \<and>
            al_StartAt a = bk_StartAt booking + k * (30 * time_Minute) \<and>
            al_EndAt a = bk_EndAt booking + k * (30 * time_Minute))))"
    (is "?three \<and> ?sound \<and> ?complete")
proof (intro conjI)
  show ?three by (simp add: suggest_reference)
  show ?sound
    using suggest_free(1,2) by (fastforce simp: hasConflict_iff)
  show ?complete
    by (intro impI ballI bexI [OF _ free_slot_suggested]) simp_all
qed

definition demo_room :: Room where
  "demo_room = \<lparr>rm_ID = ''r1'', rm_TenantID = ''t'', rm_Name = ''Lab'', rm_Capacity = 10,
     rm_CreatedAt = 0, rm_UpdatedAt = 0\<rparr>"

definition demo_instructor :: Instructor where
  "demo_instructor = \<lparr>in_ID = ''i1'', in_TenantID = ''t'', in_Name = ''Ada'',
     in_CreatedAt = 0, in_UpdatedAt = 0\<rparr>"

definition demo_request :: "string \<Rightarrow> Booking" where
  "demo_request i = Booking_zero\<lparr>bk_ID := i, bk_TenantID := ''t'', bk_RoomID := ''r1'',
     bk_InstructorID := ''i1'', bk_StartAt := 0, bk_EndAt := time_Hour, bk_Attendees := 5\<rparr>"

definition demo_booked :: Booking where
  "demo_booked = (demo_request ''b1'')\<lparr>bk_Status := BookingStatusConfirmed, bk_EndAt := 3 * time_Hour\<rparr>"

theorem suggest_sound_complete_witness:
  "length (suggest [demo_booked] [demo_room] [demo_instructor] (demo_request ''b2'') 0) = 2 \<and>
   (\<exists>a\<in>set (suggest [demo_booked] [demo_room] [demo_instructor] (demo_request ''b2'') 0).
      al_RoomID a = ''r1'' \<and> al_StartAt a = 3 * time_Hour \<and> al_EndAt a = 4 * time_Hour)"
proof -
  have two: "length (suggest [demo_booked] [demo_room] [demo_instructor] (demo_request ''b2'') 0) = 2"
    by code_simp
  have free: "\<not> hasConflict [demo_booked] (alt_candidate (demo_request ''b2'') ''r1'' ''i1''
      (3 * time_Hour) (4 * time_Hour)) 0" by code_simp
  have demo: "rm_ID demo_room = ''r1''" "in_ID demo_instructor = ''i1''" "rm_Capacity demo_room = 10"
    "bk_StartAt (demo_request ''b2'') = 0" "bk_EndAt (demo_request ''b2'') = time_Hour"
    "bk_Attendees (demo_request ''b2'') = 5"
    by (simp_all add: demo_room_def demo_instructor_def demo_request_def)
  have "\<exists>a\<in>set (suggest [demo_booked] [demo_room] [demo_instructor] (demo_request ''b2'') 0).
      al_RoomID a = rm_ID demo_room \<and> al_InstructorID a = in_ID demo_instructor \<and>
      al_StartAt a = bk_StartAt (demo_request ''b2'') + 6 * (30 * time_Minute) \<and>
      al_EndAt a = bk_EndAt (demo_request ''b2'') + 6 * (30 * time_Minute)"
    using suggest_sound_complete [of "[demo_booked]" "[demo_room]" "[demo_instructor]" "demo_request ''b2''" 0]
      two free by (auto simp: demo simp del: hasConflict.simps dest!: bspec [of "{1..6}" _ 6])
  with two show ?thesis by (auto simp: demo)
qed

end
