(* ===== verification/Booking_Memory.thy ===== *)
theory Booking_Memory
  imports Booking_Alternatives
begin

text \<open>
  The in-memory booking store, \<^verbatim>\<open>internal/repository/memory/booking_store.go\<close>: three
  maps keyed by \<^verbatim>\<open>tenant:id\<close>. Every method takes the mutex for its whole body, so a
  call is one step.
\<close>

record BookingRepository =
  br_bookings :: "Booking gomap"
  br_rooms :: "Room gomap"
  br_instructors :: "Instructor gomap"

definition NewBookingRepository :: BookingRepository where
  "NewBookingRepository = \<lparr>br_bookings = [], br_rooms = [], br_instructors = []\<rparr>"

definition bookingKey :: "string \<Rightarrow> string \<Rightarrow> string" where
  "bookingKey tenantID bookingID = tenantID @ '':'' @ bookingID"

definition roomKey :: "string \<Rightarrow> string \<Rightarrow> string" where
  "roomKey tenantID roomID = tenantID @ '':'' @ roomID"

definition instructorKey :: "string \<Rightarrow> string \<Rightarrow> string" where
  "instructorKey tenantID instructorID = tenantID @ '':'' @ instructorID"

definition overlaps :: "go_time \<Rightarrow> go_time \<Rightarrow> go_time \<Rightarrow> go_time \<Rightarrow> bool" where
  "overlaps aStart aEnd bStart bEnd \<longleftrightarrow> aStart < bEnd \<and> bStart < aEnd"

definition mem_SaveRoom :: "Room \<Rightarrow> BookingRepository \<Rightarrow> BookingRepository" where
  "mem_SaveRoom room r = r\<lparr>br_rooms := gm_put (roomKey (rm_TenantID room) (rm_ID room)) room (br_rooms r)\<rparr>"

definition mem_SaveInstructor :: "Instructor \<Rightarrow> BookingRepository \<Rightarrow> BookingRepository" where
  "mem_SaveInstructor instructor r = r\<lparr>br_instructors :=
     gm_put (instructorKey (in_TenantID instructor) (in_ID instructor)) instructor (br_instructors r)\<rparr>"

definition mem_dedupeBookingConflicts :: "BookingConflict list \<Rightarrow> BookingConflict list" where
  "mem_dedupeBookingConflicts conflicts = dedupe_conflicts [] conflicts"

text \<open>The loop of \<^verbatim>\<open>detectConflictsLocked\<close> over the bookings of the map.\<close>

fun mem_conflict_loop :: "Booking \<Rightarrow> go_time \<Rightarrow> Booking list \<Rightarrow> BookingConflict list" where
  "mem_conflict_loop candidate now [] = []"
| "mem_conflict_loop candidate now (booking # bookings) =
     (if bk_TenantID booking \<noteq> bk_TenantID candidate then mem_conflict_loop candidate now bookings
      else if bk_Status booking = BookingStatusCancelled \<or> bk_Status booking = BookingStatusExpired
        then mem_conflict_loop candidate now bookings
      else if (case bk_HoldExpiresAt booking of None \<Rightarrow> False | Some h \<Rightarrow> now > h)
        then mem_conflict_loop candidate now bookings
      else if \<not> overlaps (bk_StartAt candidate) (bk_EndAt candidate) (bk_StartAt booking) (bk_EndAt booking)
        then mem_conflict_loop candidate now bookings
      else (if bk_RoomID booking = bk_RoomID candidate
            then [\<lparr>cf_Reason = BookingConflictRoom,
                   cf_Detail = ''room is already booked in the requested window''\<rparr>] else []) @
           (if bk_InstructorID booking = bk_InstructorID candidate
            then [\<lparr>cf_Reason = BookingConflictInstructor,
                   cf_Detail = ''instructor is already booked in the requested window''\<rparr>] else []) @
           mem_conflict_loop candidate now bookings)"

definition detectConflictsLocked ::
    "BookingRepository \<Rightarrow> Booking \<Rightarrow> go_time \<Rightarrow> BookingConflict list" where
  "detectConflictsLocked r candidate now =
     mem_dedupeBookingConflicts
       ((case gm_get (br_rooms r) (roomKey (bk_TenantID candidate) (bk_RoomID candidate)) of
           None \<Rightarrow> []
         | Some room \<Rightarrow>
             if bk_Attendees candidate > rm_Capacity room
             then [\<lparr>cf_Reason = BookingConflictCapacity,
                    cf_Detail = ''room capacity '' @ itoa (rm_Capacity room) @
                                '' is lower than attendees '' @ itoa (bk_Attendees candidate)\<rparr>]
             else []) @
        mem_conflict_loop candidate now (map snd (br_bookings r)))"

definition mem_CreateHold :: "Booking \<Rightarrow> duration \<Rightarrow> go_time \<Rightarrow> BookingRepository \<Rightarrow>
    ((BookingConflict list \<times> go_error) + Booking) \<times> BookingRepository" where
  "mem_CreateHold booking holdTTL now r =
     (let conflicts = detectConflictsLocked r booking now
      in if length conflicts > 0 then (Inl (conflicts, ErrBookingConflict), r)
         else let booking = booking\<lparr>bk_Status := BookingStatusHeld,
                     bk_HoldExpiresAt := Some (now + holdTTL),
                     bk_CreatedAt := now, bk_UpdatedAt := now, bk_Version := 1\<rparr>;
                  booking = (if bk_ID booking = ''''
                             then booking\<lparr>bk_ID := ''bk_'' @ itoa (time_UnixNano now)\<rparr> else booking)
              in (Inr booking,
                  r\<lparr>br_bookings := gm_put (bookingKey (bk_TenantID booking) (bk_ID booking)) booking
                                     (br_bookings r)\<rparr>))"

definition mem_GetBooking :: "string \<Rightarrow> string \<Rightarrow> (Booking, BookingRepository) op" where
  "mem_GetBooking tenantID bookingID r =
     (case gm_get (br_bookings r) (bookingKey tenantID bookingID) of
        None \<Rightarrow> (Inl ErrBookingNotFound, r)
      | Some booking \<Rightarrow> (Inr booking, r))"

definition mem_Confirm :: "string \<Rightarrow> string \<Rightarrow> go_time \<Rightarrow> (unit, BookingRepository) op" where
  "mem_Confirm tenantID bookingID now r =
     (let key = bookingKey tenantID bookingID
      in case gm_get (br_bookings r) key of
           None \<Rightarrow> (Inl ErrBookingNotFound, r)
         | Some booking \<Rightarrow>
             if (case bk_HoldExpiresAt booking of None \<Rightarrow> False | Some h \<Rightarrow> now > h)
             then (Inl ErrBookingConflict,
                   r\<lparr>br_bookings := gm_put key (booking\<lparr>bk_Status := BookingStatusExpired\<rparr>) (br_bookings r)\<rparr>)
             else (Inr (), r\<lparr>br_bookings := gm_put key
                     (booking\<lparr>bk_Status := BookingStatusConfirmed, bk_HoldExpiresAt := None,
                        bk_UpdatedAt := now, bk_Version := i64 (bk_Version booking + 1)\<rparr>)
                     (br_bookings r)\<rparr>))"

definition mem_Cancel :: "string \<Rightarrow> string \<Rightarrow> go_time \<Rightarrow> (unit, BookingRepository) op" where
  "mem_Cancel tenantID bookingID now r =
     (let key = bookingKey tenantID bookingID
      in case gm_get (br_bookings r) key of
           None \<Rightarrow> (Inl ErrBookingNotFound, r)
         | Some booking \<Rightarrow>
             (Inr (), r\<lparr>br_bookings := gm_put key
                (booking\<lparr>bk_Status := BookingStatusCancelled, bk_CancelledAt := Some now,
                   bk_UpdatedAt := now, bk_Version := i64 (bk_Version booking + 1)\<rparr>)
                (br_bookings r)\<rparr>))"

definition mem_CheckIn :: "string \<Rightarrow> string \<Rightarrow> go_time \<Rightarrow> (unit, BookingRepository) op" where
  "mem_CheckIn tenantID bookingID now r =
     (let key = bookingKey tenantID bookingID
      in case gm_get (br_bookings r) key of
           None \<Rightarrow> (Inl ErrBookingNotFound, r)
         | Some booking \<Rightarrow>
             if bk_Status booking \<noteq> BookingStatusConfirmed then (Inl ErrBookingConflict, r)
             else (Inr (), r\<lparr>br_bookings := gm_put key
                (booking\<lparr>bk_Status := BookingStatusCheckedIn, bk_CheckedInAt := Some now,
                   bk_UpdatedAt := now, bk_Version := i64 (bk_Version booking + 1)\<rparr>)
                (br_bookings r)\<rparr>))"

definition mem_Reschedule ::
    "string \<Rightarrow> string \<Rightarrow> go_time \<Rightarrow> go_time \<Rightarrow> go_time \<Rightarrow> (Booking, BookingRepository) op" where
  "mem_Reschedule tenantID bookingID newStart newEnd now r =
     (let key = bookingKey tenantID bookingID
      in case gm_get (br_bookings r) key of
           None \<Rightarrow> (Inl ErrBookingNotFound, r)
         | Some booking \<Rightarrow>
             (let booking = booking\<lparr>bk_StartAt := newStart, bk_EndAt := newEnd,
                    bk_RescheduleCount := i64 (bk_RescheduleCount booking + 1),
                    bk_UpdatedAt := now, bk_Version := i64 (bk_Version booking + 1)\<rparr>
              in (Inr booking, r\<lparr>br_bookings := gm_put key booking (br_bookings r)\<rparr>)))"

text \<open>\<^verbatim>\<open>ReleaseExpiredHolds\<close> visits every entry once and writes back under the same key.\<close>

definition mem_expired_hold :: "go_time \<Rightarrow> Booking \<Rightarrow> bool" where
  "mem_expired_hold now booking \<longleftrightarrow> bk_Status booking = BookingStatusHeld \<and>
     (case bk_HoldExpiresAt booking of None \<Rightarrow> False | Some h \<Rightarrow> \<not> now < h)"

definition mem_ReleaseExpiredHolds :: "go_time \<Rightarrow> (int, BookingRepository) op" where
  "mem_ReleaseExpiredHolds now r =
     (Inr (int (length (filter (\<lambda>(key, booking). mem_expired_hold now booking) (br_bookings r)))),
      r\<lparr>br_bookings := map (\<lambda>(key, booking). (key,
            if mem_expired_hold now booking
            then booking\<lparr>bk_Status := BookingStatusExpired, bk_UpdatedAt := now\<rparr>
            else booking)) (br_bookings r)\<rparr>)"

definition mem_ListBookings :: "string \<Rightarrow> (Booking list, BookingRepository) op" where
  "mem_ListBookings tenantID r =
     (Inr (sort_key bk_StartAt (filter (\<lambda>b. bk_TenantID b = tenantID) (map snd (br_bookings r)))), r)"

definition mem_ListRooms :: "string \<Rightarrow> (Room list, BookingRepository) op" where
  "mem_ListRooms tenantID r =
     (Inr (sort_key rm_ID (filter (\<lambda>b. rm_TenantID b = tenantID) (map snd (br_rooms r)))), r)"

definition mem_ListInstructors :: "string \<Rightarrow> (Instructor list, BookingRepository) op" where
  "mem_ListInstructors tenantID r =
     (Inr (sort_key in_ID (filter (\<lambda>b. in_TenantID b = tenantID) (map snd (br_instructors r)))), r)"

definition mem_BookingStore :: "BookingRepository BookingStore" where
  "mem_BookingStore = \<lparr>st_GetBooking = mem_GetBooking, st_CreateHold = mem_CreateHold,
     st_Confirm = mem_Confirm, st_Cancel = mem_Cancel, st_CheckIn = mem_CheckIn,
     st_Reschedule = mem_Reschedule, st_ReleaseExpiredHolds = mem_ReleaseExpiredHolds,
     st_ListBookings = mem_ListBookings, st_ListRooms = mem_ListRooms,
     st_ListInstructors = mem_ListInstructors\<rparr>"

subsection \<open>Invariant and abstraction\<close>

abbreviation booking_key :: "Booking \<Rightarrow> string" where
  "booking_key b \<equiv> bookingKey (bk_TenantID b) (bk_ID b)"

abbreviation room_key :: "Room \<Rightarrow> string" where
  "room_key b \<equiv> roomKey (rm_TenantID b) (rm_ID b)"

definition mem_inv :: "BookingRepository \<Rightarrow> bool" where
  "mem_inv r \<longleftrightarrow> gm_keyed booking_key (br_bookings r) \<and> gm_keyed room_key (br_rooms r)"

definition mem_rows :: "BookingRepository \<Rightarrow> Booking set" where
  "mem_rows r = snd ` set (br_bookings r)"

definition mem_find :: "BookingRepository \<Rightarrow> string \<Rightarrow> string \<Rightarrow> Booking option" where
  "mem_find r t i = gm_get (br_bookings r) (bookingKey t i)"

lemma mem_inv_new: "mem_inv NewBookingRepository"
  by (simp add: mem_inv_def NewBookingRepository_def)

lemma mem_inv_SaveRoom: "mem_inv r \<Longrightarrow> mem_inv (mem_SaveRoom room r)"
  by (simp add: mem_inv_def mem_SaveRoom_def)

lemma mem_inv_SaveInstructor: "mem_inv r \<Longrightarrow> mem_inv (mem_SaveInstructor instructor r)"
  by (simp add: mem_inv_def mem_SaveInstructor_def)

lemma mem_row_update:
  assumes "mem_inv r" and "mem_find r t i = Some b"
    and "booking_key b' = booking_key b" and "r' = r\<lparr>br_bookings := gm_put (bookingKey t i) b' (br_bookings r)\<rparr>"
  shows "mem_inv r'" and "row_update (mem_rows r) (mem_rows r') b b'"
proof -
  have k: "bookingKey t i = booking_key b'"
    using assms gm_keyed_get [of booking_key "br_bookings r"] by (simp add: mem_inv_def mem_find_def)
  with assms show "mem_inv r'" by (simp add: mem_inv_def)
  show "row_update (mem_rows r) (mem_rows r') b b'"
    using assms gm_keyed_rows_put [of booking_key "br_bookings r"]
    by (auto simp: row_update_def mem_rows_def mem_inv_def mem_find_def gm_get_snd)
qed

lemma mem_release_rows:
  "mem_rows (snd (mem_ReleaseExpiredHolds now r)) =
     (\<lambda>b. if mem_expired_hold now b
          then b\<lparr>bk_Status := BookingStatusExpired, bk_UpdatedAt := now\<rparr> else b) ` mem_rows r"
  by (simp add: mem_rows_def mem_ReleaseExpiredHolds_def image_image case_prod_unfold
      del: if_image_distrib)

lemma mem_release_inv: "mem_inv r \<Longrightarrow> mem_inv (snd (mem_ReleaseExpiredHolds now r))"
  unfolding mem_inv_def mem_ReleaseExpiredHolds_def
  by (auto intro!: gm_keyed_map [where f = "\<lambda>b. if mem_expired_hold now b then
        b\<lparr>bk_Status := BookingStatusExpired, bk_UpdatedAt := now\<rparr> else b"])

interpretation mem: booking_store mem_BookingStore mem_inv mem_rows mem_find "\<lambda>t. t"
proof unfold_locales
  fix s t i b assume "mem_find s t i = Some b" then show "b \<in> mem_rows s"
    by (simp add: mem_find_def mem_rows_def gm_get_snd)
next
  fix s t i r s' assume "mem_inv s" and "st_GetBooking mem_BookingStore t i s = (r, s')"
  then show "mem_inv s' \<and> mem_rows s' = mem_rows s \<and> mem_find s' = mem_find s \<and>
     (\<forall>b. r = Inr b \<longrightarrow> mem_find s t i = Some b)"
    by (auto simp: mem_BookingStore_def mem_GetBooking_def mem_find_def split: option.splits)
next
  fix s b ttl now rh s' assume I: "mem_inv s" and c: "st_CreateHold mem_BookingStore b ttl now s = (rh, s')"
  show "mem_inv s' \<and> (\<forall>x. rh = Inl x \<longrightarrow> mem_rows s' = mem_rows s) \<and>
     (\<forall>h. rh = Inr h \<longrightarrow> h \<in> mem_rows s' \<and> mem_rows s' \<subseteq> insert h (mem_rows s) \<and>
        bk_Status h = BookingStatusHeld \<and> bk_StartAt h = bk_StartAt b \<and> bk_EndAt h = bk_EndAt b \<and>
        (bk_RescheduleCount h = 0 \<or> bk_RescheduleCount h = bk_RescheduleCount b))"
  proof (cases rh)
    case (Inl x) with c I show ?thesis
      by (auto simp: mem_BookingStore_def mem_CreateHold_def Let_def split: if_splits)
  next
    case (Inr h)
    with c have "s' = s\<lparr>br_bookings := gm_put (booking_key h) h (br_bookings s)\<rparr>"
      "bk_Status h = BookingStatusHeld" "bk_StartAt h = bk_StartAt b" "bk_EndAt h = bk_EndAt b"
      "bk_RescheduleCount h = bk_RescheduleCount b"
      by (auto simp: mem_BookingStore_def mem_CreateHold_def Let_def split: if_splits)
    moreover have "gm_ok (br_bookings s)" using I by (auto simp: mem_inv_def dest: gm_keyed_ok)
    note gm_rows_put_subset [OF this, of "booking_key h" h]
      imageI [OF gm_put_mem [OF this, of "booking_key h" h], of snd]
    ultimately show ?thesis using I Inr by (simp add: mem_inv_def mem_rows_def)
  qed
next
  fix s t i now ru s' assume I: "mem_inv s" and c: "st_Confirm mem_BookingStore t i now s = (ru, s')"
  show "mem_inv s' \<and>
     (ru = Inr () \<longrightarrow> (\<exists>b. mem_find s t i = Some b \<and>
        row_update (mem_rows s) (mem_rows s') b (confirmed_row now b))) \<and>
     (\<forall>e. ru = Inl e \<longrightarrow> mem_rows s' = mem_rows s \<or>
        (\<exists>b b'. mem_find s t i = Some b \<and> hold_over now b \<and>
           row_update (mem_rows s) (mem_rows s') b b' \<and> same_slot b b' \<and> bk_Status b' = BookingStatusExpired))"
  proof (cases "mem_find s t i")
    case None with c I show ?thesis
      by (auto simp: mem_BookingStore_def mem_Confirm_def mem_find_def Let_def)
  next
    case (Some b)
    let ?over = "case bk_HoldExpiresAt b of None \<Rightarrow> False | Some h \<Rightarrow> now > h"
    have eq: "(ru, s') = (if ?over then (Inl ErrBookingConflict, s\<lparr>br_bookings :=
          gm_put (bookingKey t i) (b\<lparr>bk_Status := BookingStatusExpired\<rparr>) (br_bookings s)\<rparr>)
        else (Inr (), s\<lparr>br_bookings := gm_put (bookingKey t i) (confirmed_row now b) (br_bookings s)\<rparr>))"
      unfolding c [symmetric] using Some
      by (simp add: mem_BookingStore_def mem_Confirm_def mem_find_def Let_def confirmed_row_def)
    show ?thesis
    proof (cases ?over)
      case True
      then have "hold_over now b" by (auto simp: hold_over_def split: option.splits)
      with True eq Some mem_row_update [OF I Some, of "b\<lparr>bk_Status := BookingStatusExpired\<rparr>" s']
      show ?thesis by (auto simp: same_slot_def)
    next
      case False
      with eq Some mem_row_update [OF I Some, of "confirmed_row now b" s'] show ?thesis
        by (simp add: confirmed_row_def)
    qed
  qed
next
  fix s t i now ru s' assume I: "mem_inv s" and c: "st_Cancel mem_BookingStore t i now s = (ru, s')"
  then show "mem_inv s' \<and>
     (ru = Inr () \<longrightarrow> (\<exists>b. mem_find s t i = Some b \<and>
        row_update (mem_rows s) (mem_rows s') b (cancelled_row now b))) \<and>
     (\<forall>e. ru = Inl e \<longrightarrow> mem_rows s' = mem_rows s)"
    using mem_row_update [OF I, of t i _ _ s']
    by (auto simp: mem_BookingStore_def mem_Cancel_def mem_find_def Let_def cancelled_row_def split: option.splits)
next
  fix s t i now ru s' assume I: "mem_inv s" and c: "st_CheckIn mem_BookingStore t i now s = (ru, s')"
  then show "mem_inv s' \<and>
     (ru = Inr () \<longrightarrow> (\<exists>b. mem_find s t i = Some b \<and> bk_Status b = BookingStatusConfirmed \<and>
        row_update (mem_rows s) (mem_rows s') b (checked_in_row now b))) \<and>
     (\<forall>e. ru = Inl e \<longrightarrow> mem_rows s' = mem_rows s)"
    using mem_row_update [OF I, of t i _ _ s']
    by (auto simp: mem_BookingStore_def mem_CheckIn_def mem_find_def Let_def checked_in_row_def
        split: option.splits if_splits)
next
  fix s t i ns ne now r s' assume I: "mem_inv s" and c: "st_Reschedule mem_BookingStore t i ns ne now s = (r, s')"
  then show "mem_inv s' \<and>
     (\<forall>b'. r = Inr b' \<longrightarrow> (\<exists>b. mem_find s t i = Some b \<and> b' = moved_row ns ne now b \<and>
        row_update (mem_rows s) (mem_rows s') b b')) \<and>
     (\<forall>e. r = Inl e \<longrightarrow> mem_rows s' = mem_rows s)"
    using mem_row_update [OF I, of t i _ _ s']
    by (auto simp: mem_BookingStore_def mem_Reschedule_def mem_find_def Let_def moved_row_def split: option.splits)
next
  fix s now rn s' assume I: "mem_inv s" and c: "st_ReleaseExpiredHolds mem_BookingStore now s = (rn, s')"
  then have s': "s' = snd (mem_ReleaseExpiredHolds now s)" by (simp add: mem_BookingStore_def)
  let ?f = "\<lambda>b. if mem_expired_hold now b
          then b\<lparr>bk_Status := BookingStatusExpired, bk_UpdatedAt := now\<rparr> else b"
  have "mem_rows s' = ?f ` mem_rows s" "mem_inv s'"
    using mem_release_rows mem_release_inv [OF I] by (simp_all add: s')
  moreover have "\<forall>b. ?f b = b \<or> (hold_over now b \<and> bk_Status b = BookingStatusHeld \<and>
       same_slot b (?f b) \<and> bk_Status (?f b) = BookingStatusExpired)"
    by (auto simp: mem_expired_hold_def hold_over_def same_slot_def split: option.splits)
  ultimately show "mem_inv s' \<and> (\<exists>f. mem_rows s' = f ` mem_rows s \<and>
     (\<forall>b. f b = b \<or> (hold_over now b \<and> bk_Status b = BookingStatusHeld \<and> same_slot b (f b) \<and>
        bk_Status (f b) = BookingStatusExpired)))" by blast
qed (auto simp: mem_BookingStore_def mem_ListBookings_def mem_ListRooms_def mem_ListInstructors_def)

subsection \<open>Conflict detection\<close>

definition mem_reasons :: "Booking \<Rightarrow> Booking \<Rightarrow> BookingConflictReason set" where
  "mem_reasons c b = (if bk_RoomID b = bk_RoomID c then {BookingConflictRoom} else {}) \<union>
     (if bk_InstructorID b = bk_InstructorID c then {BookingConflictInstructor} else {})"

lemma mem_conflict_loop_reasons:
  "cf_Reason ` set (mem_conflict_loop c now bs) =
     (\<Union>b\<in>{b\<in>set bs. blocking now b \<and> clash c b}. mem_reasons c b)"
proof (induction bs)
  case (Cons b bs)
  have "cf_Reason ` set (mem_conflict_loop c now (b # bs)) =
      (if blocking now b \<and> clash c b then mem_reasons c b else {}) \<union>
      cf_Reason ` set (mem_conflict_loop c now bs)"
    by (simp add: blocking_def clash_def overlaps_def mem_reasons_def image_Un split: option.split)
  with Cons show ?case by auto
qed simp

lemma mem_conflict_loop_Nil_iff:
  "mem_conflict_loop c now bs = [] \<longleftrightarrow> \<not> hasConflict bs c now"
  by (induction bs) (auto simp: overlaps_def)

lemma hasConflict_ListBookings:
  "mem_ListBookings (bk_TenantID c) r = (Inr bs, r') \<Longrightarrow>
   hasConflict bs c now \<longleftrightarrow> hasConflict (map snd (br_bookings r)) c now"
  by (force simp: mem_ListBookings_def hasConflict_iff clash_def)

definition mem_room_fits :: "BookingRepository \<Rightarrow> Booking \<Rightarrow> bool" where
  "mem_room_fits r c \<longleftrightarrow>
     (case gm_get (br_rooms r) (roomKey (bk_TenantID c) (bk_RoomID c)) of
        None \<Rightarrow> True | Some room \<Rightarrow> bk_Attendees c \<le> rm_Capacity room)"

lemma detect_Nil_iff:
  "detectConflictsLocked r c now = [] \<longleftrightarrow>
     mem_room_fits r c \<and> \<not> hasConflict (map snd (br_bookings r)) c now"
  by (auto simp: detectConflictsLocked_def mem_dedupeBookingConflicts_def mem_room_fits_def
      mem_conflict_loop_Nil_iff split: option.splits)

lemma mem_CreateHold_ok_iff:
  "(\<exists>h. fst (mem_CreateHold b ttl now r) = Inr h) \<longleftrightarrow>
     mem_room_fits r b \<and> \<not> hasConflict (map snd (br_bookings r)) b now"
  by (auto simp: mem_CreateHold_def Let_def simp flip: detect_Nil_iff)

lemma mem_room_lookup:
  assumes "mem_inv r" and "room \<in> set rooms" and "mem_ListRooms t r = (Inr rooms, r')"
  shows "gm_get (br_rooms r) (roomKey t (rm_ID room)) = Some room"
proof -
  from assms(2,3) obtain k where k: "(k, room) \<in> set (br_rooms r)" and t: "rm_TenantID room = t"
    by (auto simp: mem_ListRooms_def)
  have "gm_ok (br_rooms r)" "k = room_key room"
    using assms(1) k by (auto simp: mem_inv_def gm_keyed_def)
  with k t show ?thesis by (simp add: gm_get_mem)
qed

lemma mem_room_listed:
  assumes "mem_inv r" and "gm_get (br_rooms r) (roomKey t rid) = Some room" and "rm_TenantID room = t"
  shows "room \<in> set (filter (\<lambda>b. rm_TenantID b = t) (map snd (br_rooms r)))" and "rm_ID room = rid"
proof -
  show "room \<in> set (filter (\<lambda>b. rm_TenantID b = t) (map snd (br_rooms r)))"
    using gm_get_snd [OF assms(2)] assms(3) by auto
  have "roomKey t rid = room_key room"
    using assms(1) gm_keyed_get [OF _ assms(2), of room_key] by (simp add: mem_inv_def)
  with assms(3) show "rm_ID room = rid" by (simp add: roomKey_def)
qed

lemma roomKey_inj:
  "CHR '':'' \<notin> set t \<Longrightarrow> CHR '':'' \<notin> set t' \<Longrightarrow> roomKey t i = roomKey t' i' \<Longrightarrow> t = t' \<and> i = i'"
  unfolding roomKey_def by (induction t t' rule: list_induct2') auto

definition mem_rooms_ok :: "BookingRepository \<Rightarrow> bool" where
  "mem_rooms_ok r \<longleftrightarrow> (\<forall>room\<in>snd ` set (br_rooms r).
     0 < rm_Capacity room \<and> CHR '':'' \<notin> set (rm_TenantID room))"

lemma mem_capacity_fits:
  assumes "mem_inv r" and "mem_rooms_ok r" and "CHR '':'' \<notin> set t"
    and l: "gm_get (br_rooms r) (roomKey t rid) = Some room" and L: "mem_ListRooms t r = (Inr rooms, r')"
  shows "room_capacity rid (sort_key rm_ID rooms) = rm_Capacity room" and "0 < rm_Capacity room"
proof -
  have k: "roomKey t rid = room_key room"
    using assms(1) gm_keyed_get [OF _ l, of room_key] by (simp add: mem_inv_def)
  have *: "0 < rm_Capacity room" "CHR '':'' \<notin> set (rm_TenantID room)"
    using assms(2) gm_get_snd [OF l] by (auto simp: mem_rooms_ok_def)
  with roomKey_inj [OF assms(3) _ k] have t: "rm_TenantID room = t" by simp
  note listed = mem_room_listed [OF assms(1) l t]
  show "0 < rm_Capacity room" by (rule *)
  have R: "set rooms = set (filter (\<lambda>b. rm_TenantID b = t) (map snd (br_rooms r)))"
    using L unfolding mem_ListRooms_def by (metis Pair_inject set_sort sum.inject(2))
  then have "room \<in> set (sort_key rm_ID rooms)" using listed by simp
  then obtain room' where f: "find (\<lambda>room. rm_ID room = rid) (sort_key rm_ID rooms) = Some room'"
    using listed(2) by (cases "find (\<lambda>room. rm_ID room = rid) (sort_key rm_ID rooms)")
       (auto simp: find_None_iff)
  then have "room' \<in> set (sort_key rm_ID rooms)" "rm_ID room' = rid"
    unfolding find_Some_iff by (metis nth_mem)+
  with mem_room_lookup [OF assms(1) _ L, of room'] l set_sort have "room' = room" by simp
  with f show "room_capacity rid (sort_key rm_ID rooms) = rm_Capacity room"
    by (simp add: room_capacity_find)
qed

lemma mem_suggest_fits:
  assumes "mem_inv r" and "mem_rooms_ok r" and "CHR '':'' \<notin> set (bk_TenantID b)"
    and "mem_ListRooms (bk_TenantID b) r = (Inr rooms, r')"
    and a: "a \<in> set (suggest bookings rooms instructors b now)"
  shows "mem_room_fits r (b\<lparr>bk_RoomID := al_RoomID a, bk_InstructorID := al_InstructorID a,
           bk_StartAt := al_StartAt a, bk_EndAt := al_EndAt a\<rparr>)"
  using suggest_free(3) [OF a] mem_capacity_fits [OF assms(1-3) _ assms(4)]
    mem_room_lookup [OF assms(1) _ assms(4)]
  by (force simp: mem_room_fits_def split: option.splits)

lemma mem_Suggest:
  obtains bookings rooms instructors
  where "mem_ListBookings (bk_TenantID b) r = (Inr bookings, r)"
    and "mem_ListRooms (bk_TenantID b) r = (Inr rooms, r)"
    and "SuggestAlternatives (NewBookingService mem_BookingStore) b now r =
           (Inr (suggest bookings rooms instructors b now), r)"
  by (rule that)
     (simp_all add: SuggestAlternatives_def NewBookingService_def mem_BookingStore_def op_bind_def
        mem_ListBookings_def mem_ListRooms_def mem_ListInstructors_def)

lemma mem_CreateHold_Inl: "mem_CreateHold b ttl now r = (Inl x, r') \<Longrightarrow> r' = r"
  by (simp add: mem_CreateHold_def Let_def split: if_splits)

lemma mem_refused:
  assumes "BookingService_Hold (NewBookingService mem_BookingStore) b now r = (Inl (conflicts, alts, err), r')"
    and "a \<in> set alts"
  obtains bookings rooms instructors
  where "mem_ListBookings (bk_TenantID b) r = (Inr bookings, r)"
    and "mem_ListRooms (bk_TenantID b) r = (Inr rooms, r)"
    and "alts = suggest bookings rooms instructors b now" and "r' = r"
proof (rule mem_Suggest [of b r now])
  fix bookings rooms instructors
  assume L: "mem_ListBookings (bk_TenantID b) r = (Inr bookings, r)"
      "mem_ListRooms (bk_TenantID b) r = (Inr rooms, r)"
    and S: "SuggestAlternatives (NewBookingService mem_BookingStore) b now r =
           (Inr (suggest bookings rooms instructors b now), r)"
  obtain x r1 where c: "mem_CreateHold b (5 * time_Minute) now r = (x, r1)" by fastforce
  have svc: "st_CreateHold (svc_Store (NewBookingService mem_BookingStore)) = mem_CreateHold"
    "svc_HoldTTL (NewBookingService mem_BookingStore) = 5 * time_Minute"
    by (simp_all add: NewBookingService_def mem_BookingStore_def)
  show thesis
  proof (cases x)
    case (Inl y)
    with c have "r1 = r" by (simp add: mem_CreateHold_Inl)
    with c Inl assms S have "alts = suggest bookings rooms instructors b now \<and> r' = r"
      by (cases y) (simp add: BookingService_Hold_def svc split: if_splits)
    with L show thesis by (intro that [of bookings rooms instructors]) auto
  next
    case (Inr h) with c assms(1) show thesis by (simp add: BookingService_Hold_def svc)
  qed
qed

text \<open>
  Conflict detection of the in-memory store reports a reason exactly when
  there is one. A capacity conflict is reported if and only if the requested room is
  known and smaller than the number of attendees; a room (instructor) conflict if and
  only if some stored booking that still blocks overlaps the request in the same room
  (with the same instructor); and no reason is reported twice.
\<close>

theorem detectConflictsLocked_exact:
  "cf_Reason ` set (detectConflictsLocked r c now) =
     (if mem_room_fits r c then {} else {BookingConflictCapacity}) \<union>
     (\<Union>b\<in>{b \<in> mem_rows r. blocking now b \<and> clash c b}. mem_reasons c b) \<and>
   distinct (map cf_Reason (detectConflictsLocked r c now))"
  unfolding detectConflictsLocked_def mem_dedupeBookingConflicts_def
  by (auto simp: dedupe_reasons dedupe_distinct mem_conflict_loop_reasons image_Un mem_room_fits_def
      mem_rows_def split: option.splits)


definition demo_repo :: BookingRepository where
  "demo_repo = \<lparr>br_bookings = [(''t:b1'', demo_booked)], br_rooms = [(''t:r1'', demo_room)],
     br_instructors = [(''t:i1'', demo_instructor)]\<rparr>"

definition demo_slot :: AlternativeSlot where
  "demo_slot = \<lparr>al_RoomID = ''r1'', al_InstructorID = ''i1'', al_StartAt = 3 * time_Hour,
     al_EndAt = 4 * time_Hour, al_Reason = ''room and instructor availability''\<rparr>"


text \<open>
  The in-memory \<^verbatim>\<open>Confirm\<close> looks at the hold's deadline and not at the status.
  A cancelled booking that carries no deadline is confirmed again, and from then on it
  blocks its slot, whatever was placed there in between; the PostgreSQL store demands a
  hold.
\<close>

theorem mem_Confirm_revives_cancelled:
  assumes "mem_inv r" and "mem_find r t i = Some b"
    and "bk_Status b = BookingStatusCancelled" and "bk_HoldExpiresAt b = None"
  shows "\<exists>r'. BookingService_Confirm (NewBookingService mem_BookingStore) t i now r = (Inr (), r') \<and>
     (\<exists>b'\<in>mem_rows r'. bk_ID b' = bk_ID b \<and> blocking now b' \<and> (\<forall>x. clash b' x \<longleftrightarrow> clash b x))"
proof -
  let ?r' = "r\<lparr>br_bookings := gm_put (bookingKey t i) (confirmed_row now b) (br_bookings r)\<rparr>"
  have "BookingService_Confirm (NewBookingService mem_BookingStore) t i now r = (Inr (), ?r')"
    using assms(2,4) by (simp add: BookingService_Confirm_def NewBookingService_def mem_BookingStore_def
        mem_Confirm_def mem_find_def Let_def confirmed_row_def)
  moreover have "confirmed_row now b \<in> mem_rows ?r'"
    using mem_row_update(2) [OF assms(1,2), of "confirmed_row now b" ?r']
    by (simp add: row_update_def confirmed_row_def)
  moreover have "blocking now (confirmed_row now b)" "bk_ID (confirmed_row now b) = bk_ID b"
    by (simp_all add: blocking_def confirmed_row_def)
  ultimately show ?thesis using clash_same_slot [OF row_same_slot(1)] by blast
qed

theorem mem_Confirm_revives_cancelled_witness:
  "\<exists>r'. BookingService_Confirm (NewBookingService mem_BookingStore) ''t'' ''b1'' 7
          (snd (mem_Cancel ''t'' ''b1'' 5 demo_repo)) = (Inr (), r') \<and>
     (\<exists>b'\<in>mem_rows r'. bk_ID b' = ''b1'' \<and> blocking 7 b' \<and> clash b' (demo_request ''b2''))"
proof -
  let ?r = "snd (mem_Cancel ''t'' ''b1'' 5 demo_repo)"
  let ?b = "cancelled_row 5 demo_booked"
  have r: "?r = demo_repo\<lparr>br_bookings := [(''t:b1'', ?b)]\<rparr>" by code_simp
  have "mem_inv ?r"
    unfolding r by (simp add: mem_inv_def gm_keyed_def gm_ok_def demo_repo_def demo_booked_def demo_room_def
        demo_request_def bookingKey_def roomKey_def cancelled_row_def)
  moreover have "mem_find ?r ''t'' ''b1'' = Some ?b"
    unfolding r by (simp add: mem_find_def bookingKey_def)
  moreover have "bk_Status ?b = BookingStatusCancelled" "bk_HoldExpiresAt ?b = None" "bk_ID ?b = ''b1''"
    "clash ?b (demo_request ''b2'')" by code_simp+
  ultimately show ?thesis using mem_Confirm_revives_cancelled [of ?r "''t''" "''b1''" ?b 7] by metis
qed

end
