(* ===== verification/Pg_Base.thy ===== *)
theory Pg_Base
  imports Booking_Contract
begin

text \<open>
  The database the PostgreSQL store talks to, as far as the statements of
  \<^verbatim>\<open>internal/repository/postgres\<close> use it. A table is the list of its rows, in the order in
  which a query without \<^verbatim>\<open>ORDER BY\<close> happens to return them; a \<^verbatim>\<open>NULL\<close> text or uuid that
  the queries read through \<^verbatim>\<open>COALESCE(..., '')\<close> is the empty string. The columns of a
  \<^verbatim>\<open>uuid\<close> type hold the canonical text \<^verbatim>\<open>id::text\<close>.

  What the database itself does is a parameter \<open>pg_env\<close> of every operation: reading a
  text as a uuid, the generated identifiers, \<^verbatim>\<open>now()\<close>, the sort key of a text under
  the collation, and the calendar functions that depend on the time zone of the value or of the
  session (date, day of the week, time of day in microseconds), reading a text
  as a \<^verbatim>\<open>TIME\<close>, and the rank of a title in a text search. Statements are atomic. Any
  statement may fail: \<open>pg_faults\<close> is the script of the failures to come, one entry for
  every statement, \<^verbatim>\<open>BEGIN\<close> and \<^verbatim>\<open>COMMIT\<close> included; when it is used up nothing fails. A
  transaction whose body or commit fails leaves the tables as they were.

  \<^verbatim>\<open>TIMESTAMPTZ\<close> has a resolution of one microsecond, and the driver truncates the
  instants it sends (\<open>pg_ts\<close>). \<^verbatim>\<open>INTEGER\<close> and \<^verbatim>\<open>BIGINT\<close> columns reject values out of
  range instead of wrapping around. Texts are valid UTF-8 without the character NUL, which the
  database would refuse, so that a \<^verbatim>\<open>jsonb\<close> array of texts reads back as it was written.
\<close>

subsection \<open>The environment and the state\<close>

record pg_env =
  uuid_in :: "string \<Rightarrow> string option"
  gen_random_uuid :: "nat \<Rightarrow> string"
  sql_now :: go_time
  date_of :: "go_time \<Rightarrow> int"
  dow_of :: "go_time \<Rightarrow> int"
  hms_of :: "go_time \<Rightarrow> int"
  collation :: "string \<Rightarrow> string"
  time_in :: "string \<Rightarrow> int option"
  search_rank :: "string \<Rightarrow> string \<Rightarrow> int option"

record pg_tables =
  db_tenants :: "Tenant list"
  db_users :: "User list"
  db_roles :: "Role list"
  db_user_roles :: "(string \<times> string \<times> string) list"
  db_rooms :: "Room list"
  db_class_periods :: "ClassPeriod list"
  db_blackout_dates :: "BlackoutDate list"
  db_bookings :: "Booking list"
  db_sessions :: "(Session \<times> string) list"
  db_audit_logs :: "AuditEntry list"
  db_tasks :: "Task list"
  db_milestones :: "string list"
  db_permissions :: "Permission list"
  db_policies :: "(string \<times> string) list"
  db_categories :: "string list"
  db_content_items :: "ContentItem list"
  db_content_metadata :: "((string \<times> string) \<times> int \<times> int) list"
  db_content_tags :: "(ContentTag \<times> string) list"
  db_document_versions :: "DocumentVersion list"
  db_upload_sessions :: "UploadSession list"
  db_share_links :: "(ShareLinkRecord \<times> go_time option) list"
  db_uploaded_files :: "(ApprovedFile \<times> string \<times> bool \<times> go_time) list"
  db_learner_reservations :: "LearnerReservation list"
  db_ingestion_sessions :: "IngestionSession list"
  db_ingestion_jobs :: "(string \<times> string \<times> ScraperJob) list"
  db_manual_review :: "ManualReviewItem list"

text \<open>The tables as the migrations leave them; milestones and categories are
  kept as their identifiers. \<open>db_policies\<close> holds the JSON text of a tenant's policies where it is not
  \<^verbatim>\<open>{}\<close>. A row of \<open>db_content_items\<close> leaves the fields unused that other tables hold (difficulty and
  duration: \<open>db_content_metadata\<close>, by tenant and item), as do rows of \<open>db_ingestion_jobs\<close> (tenant, session, job);
  a tag has its normalized name, a share link the time of its last download, an uploaded file its
  document, whether it is approved, and its creation.\<close>

definition pg_tables_new :: pg_tables where
  "pg_tables_new = \<lparr>db_tenants = [], db_users = [], db_roles = [], db_user_roles = [], db_rooms = [],
     db_class_periods = [], db_blackout_dates = [], db_bookings = [], db_sessions = [],
     db_audit_logs = [], db_tasks = [], db_milestones = [], db_permissions = [],
     db_policies = [], db_categories = [], db_content_items = [], db_content_metadata = [], db_content_tags = [],
     db_document_versions = [], db_upload_sessions = [], db_share_links = [], db_uploaded_files = [],
     db_learner_reservations = [], db_ingestion_sessions = [], db_ingestion_jobs = [], db_manual_review = []\<rparr>"

record pg_state =
  pg_db :: pg_tables
  pg_faults :: "go_error option list"
  pg_next :: nat

definition pg_ts :: "go_time \<Rightarrow> go_time" where
  "pg_ts t = t div 1000 * 1000"

definition int4 :: "int \<Rightarrow> bool" where
  "int4 x \<longleftrightarrow> - (2 ^ 31) \<le> x \<and> x < 2 ^ 31"

definition int8 :: "int \<Rightarrow> bool" where
  "int8 x \<longleftrightarrow> - (2 ^ 63) \<le> x \<and> x < 2 ^ 63"

definition int2 :: "int \<Rightarrow> bool" where
  "int2 x \<longleftrightarrow> - (2 ^ 15) \<le> x \<and> x < 2 ^ 15"

subsection \<open>Statements and transactions\<close>

definition pg_stmt :: "('a, pg_state) op \<Rightarrow> ('a, pg_state) op" where
  "pg_stmt m s = (case pg_faults s of
      [] \<Rightarrow> m s
    | None # fs \<Rightarrow> m (s\<lparr>pg_faults := fs\<rparr>)
    | Some e # fs \<Rightarrow> (Inl e, s\<lparr>pg_faults := fs\<rparr>))"

definition pg_tx :: "(go_error \<Rightarrow> 'e) \<Rightarrow> ('a, pg_state, 'e) xop \<Rightarrow> ('a, pg_state, 'e) xop" where
  "pg_tx wrap body s = (case pg_stmt (op_return ()) s of
      (Inl e, s1) \<Rightarrow> (Inl (wrap e), s1)
    | (Inr _, s1) \<Rightarrow> (case body s1 of
        (Inl e, s2) \<Rightarrow> (Inl e, s2\<lparr>pg_db := pg_db s1\<rparr>)
      | (Inr x, s2) \<Rightarrow> (case pg_stmt (op_return ()) s2 of
          (Inl e, s3) \<Rightarrow> (Inl (wrap e), s3\<lparr>pg_db := pg_db s1\<rparr>)
        | (Inr _, s3) \<Rightarrow> (Inr x, s3))))"

text \<open>SQLSTATE 22P02: the text is no uuid.\<close>

definition pg_uuid :: "pg_env \<Rightarrow> string \<Rightarrow> (string, pg_state) op" where
  "pg_uuid env x = (case uuid_in env x of
      None \<Rightarrow> op_fail (ErrSQL ''22P02'') | Some u \<Rightarrow> op_return u)"

text \<open>\<^verbatim>\<open>NULLIF($k, '')::uuid\<close>, the empty text for \<^verbatim>\<open>NULL\<close>.\<close>

definition pg_nullif_uuid :: "pg_env \<Rightarrow> string \<Rightarrow> (string, pg_state) op" where
  "pg_nullif_uuid env x = (if x = '''' then op_return '''' else pg_uuid env x)"

text \<open>A query: one statement that reads the tables.\<close>

definition pg_query :: "(pg_tables \<Rightarrow> 'a) \<Rightarrow> ('a, pg_state) op" where
  "pg_query q s = (Inr (q (pg_db s)), s)"

text \<open>\<^verbatim>\<open>QueryRow\<close>: the first row, \<^verbatim>\<open>pgx.ErrNoRows\<close> when there is none.\<close>

definition pg_query_row :: "(pg_tables \<Rightarrow> 'a list) \<Rightarrow> ('a, pg_state) op" where
  "pg_query_row q = op_bind (pg_query q) (\<lambda>rows. case rows of [] \<Rightarrow> op_fail ErrNoRows | r # _ \<Rightarrow> op_return r)"

text \<open>A statement that changes the tables.\<close>

definition pg_change :: "(pg_tables \<Rightarrow> pg_tables) \<Rightarrow> pg_state \<Rightarrow> pg_state" where
  "pg_change f s = s\<lparr>pg_db := f (pg_db s)\<rparr>"

text \<open>\<^verbatim>\<open>WHERE tenant_id = $1::uuid AND id = $2::uuid\<close>\<close>

definition pg_key :: "pg_env \<Rightarrow> string \<Rightarrow> string \<Rightarrow> (string \<Rightarrow> string \<Rightarrow> ('a, pg_state) op) \<Rightarrow> ('a, pg_state) op" where
  "pg_key env tenantUUID x k = op_bind (pg_uuid env tenantUUID) (\<lambda>t. op_bind (pg_uuid env x) (\<lambda>i. k t i))"

text \<open>\<^verbatim>\<open>store.go: resolveTenantUUID\<close> (the pool is configured): a tenant named by identifier or slug.\<close>

definition resolveTenantUUID :: "string \<Rightarrow> (string, pg_state) op" where
  "resolveTenantUUID tenant = pg_stmt (pg_query_row (\<lambda>db.
     map tn_ID (filter (\<lambda>t. tn_ID t = tenant \<or> tn_Slug t = tenant) (db_tenants db))))"

text \<open>A property of the tables and the identifier counter alone.\<close>

definition pg_only :: "(pg_tables \<Rightarrow> nat \<Rightarrow> bool) \<Rightarrow> pg_state \<Rightarrow> bool" where
  "pg_only Q s \<longleftrightarrow> Q (pg_db s) (pg_next s)"

text \<open>Statements that only read leave tables and counter alone.\<close>

definition reads_only :: "('a, pg_state, 'e) xop \<Rightarrow> bool" where
  "reads_only m \<longleftrightarrow> (\<forall>s. pg_db (snd (m s)) = pg_db s \<and> pg_next (snd (m s)) = pg_next s)"

definition tenant_uuid :: "pg_tables \<Rightarrow> string \<Rightarrow> string option" where
  "tenant_uuid db t = map_option tn_ID (List.find (\<lambda>x. tn_ID x = t \<or> tn_Slug x = t) (db_tenants db))"

subsection \<open>What the store relies on\<close>

text \<open>
  The canonical text of a uuid, groups of lower-case hexadecimal digits, denotes that uuid; reading
  what \<^verbatim>\<open>id::text\<close> printed gives the same value, and generated identifiers are uuids.
\<close>

definition hex_digits :: string where
  "hex_digits = ''0123456789abcdef''"

definition uuid_dashes :: "bool list" where
  "uuid_dashes = replicate 8 False @ True # replicate 4 False @ True # replicate 4 False @ True #
     replicate 4 False @ True # replicate 12 False"

definition uuid_text :: "string \<Rightarrow> bool" where
  "uuid_text s \<longleftrightarrow> list_all2 (\<lambda>dash c. if dash then c = CHR ''-'' else c \<in> set hex_digits) uuid_dashes s"

locale postgres_types =
  fixes env :: pg_env
  assumes uuid_reads: "uuid_text u \<Longrightarrow> uuid_in env u = Some u"
    and uuid_canonical: "uuid_in env x = Some u \<Longrightarrow> uuid_in env u = Some u"
    and gen_canonical: "uuid_in env (gen_random_uuid env n) = Some (gen_random_uuid env n)"

subsection \<open>Facts\<close>

lemma pg_ts_le: "pg_ts t \<le> t"
  using minus_mod_eq_div_mult [of t 1000] by (simp add: pg_ts_def)

lemma pg_ts_less_iff: "pg_ts t < pg_ts u \<longleftrightarrow> t div 1000 < u div 1000"
  by (simp add: pg_ts_def)

lemma pg_ts_idem [simp]: "pg_ts (pg_ts t) = pg_ts t"
  by (simp add: pg_ts_def)

lemma pg_ts_next: "pg_ts t < pg_ts h \<Longrightarrow> t < pg_ts h"
  using div_mult_mod_eq [of t 1000] pos_mod_bound [of 1000 t] by (simp add: pg_ts_def)

lemma pg_stmt_Inr:
  assumes "pg_stmt m s = (Inr x, s')"
  obtains fs where "m (s\<lparr>pg_faults := fs\<rparr>) = (Inr x, s')"
proof (cases "pg_faults s")
  case Nil
  then have "s\<lparr>pg_faults := []\<rparr> = s" by simp
  with Nil assms that [of "[]"] show thesis by (simp add: pg_stmt_def)
next
  case (Cons f fs) with assms that show thesis by (cases f) (auto simp: pg_stmt_def)
qed

lemma pg_stmt_cases:
  assumes "pg_stmt m s = (r, s')"
  obtains (fault) e fs where "r = Inl e" "s' = s\<lparr>pg_faults := fs\<rparr>"
    | (run) fs where "m (s\<lparr>pg_faults := fs\<rparr>) = (r, s')"
proof (cases "pg_faults s")
  case Nil
  then have "s\<lparr>pg_faults := []\<rparr> = s" by simp
  with Nil assms run [of "[]"] show thesis by (simp add: pg_stmt_def)
next
  case (Cons f fs) with assms fault run show thesis by (cases f) (auto simp: pg_stmt_def)
qed

lemma pg_stmt_nofault [simp]: "pg_faults s = [] \<Longrightarrow> pg_stmt m s = m s"
  by (simp add: pg_stmt_def)

lemma op_keeps_stmt:
  assumes "\<And>s fs. P (s\<lparr>pg_faults := fs\<rparr>) \<longleftrightarrow> P s" and "op_keeps P m"
  shows "op_keeps P (pg_stmt m)"
proof (rule op_keepsI)
  fix s assume s: "P s"
  obtain r s' where m: "pg_stmt m s = (r, s')" by fastforce
  from m have "P s'"
    by (cases rule: pg_stmt_cases) (use assms s in \<open>auto intro: op_keeps_eq\<close>)
  with m show "P (snd (pg_stmt m s))" by simp
qed

lemma pg_only_faults [simp]: "pg_only Q (s\<lparr>pg_faults := fs\<rparr>) \<longleftrightarrow> pg_only Q s"
  by (simp add: pg_only_def)

lemma pg_only_stmt [op_invs]: "op_keeps (pg_only Q) m \<Longrightarrow> op_keeps (pg_only Q) (pg_stmt m)"
  by (rule op_keeps_stmt) simp_all

lemma pg_only_query [op_invs]: "op_keeps P (pg_query q)"
  by (simp add: op_keeps_def pg_query_def)

lemma pg_only_query_row [op_invs]: "op_keeps P (pg_query_row q)"
  unfolding pg_query_row_def by (intro op_invs) (simp split: list.split add: op_invs)

lemma pg_only_uuid [op_invs]: "op_keeps P (pg_uuid env x)"
  by (simp add: pg_uuid_def op_invs split: option.split)

lemma pg_only_resolve [op_invs]: "op_keeps (pg_only Q) (resolveTenantUUID t)"
  unfolding resolveTenantUUID_def by (intro op_invs)

text \<open>A failed transaction leaves the tables alone; a successful one leaves what its body left.\<close>

lemma pg_tx_cases:
  assumes "pg_tx wrap body s = (r, s')"
  obtains (fail) e where "r = Inl e" "pg_db s' = pg_db s"
    | (ok) x s1 s2 fs where "r = Inr x" "s1 = s\<lparr>pg_faults := fs\<rparr>" "body s1 = (Inr x, s2)"
        "pg_db s' = pg_db s2" "pg_next s' = pg_next s2"
proof -
  obtain r1 s1 where b: "pg_stmt (op_return ()) s = (r1, s1)" by fastforce
  then have s1: "\<exists>fs. s1 = s\<lparr>pg_faults := fs\<rparr>" by (cases rule: pg_stmt_cases) auto
  show thesis
  proof (cases r1)
    case (Inl e) with b s1 assms fail show thesis by (auto simp: pg_tx_def)
  next
    case (Inr u)
    obtain r2 s2 where m: "body s1 = (r2, s2)" by fastforce
    show thesis
    proof (cases r2)
      case (Inl e) with m b Inr s1 assms fail show thesis by (auto simp: pg_tx_def)
    next
      case (Inr x)
      obtain r3 s3 where c: "pg_stmt (op_return ()) s2 = (r3, s3)" by fastforce
      then have s3: "\<exists>fs. s3 = s2\<lparr>pg_faults := fs\<rparr>" by (cases rule: pg_stmt_cases) auto
      have eq: "(r, s') = (case r3 of Inl e \<Rightarrow> (Inl (wrap e), s3\<lparr>pg_db := pg_db s1\<rparr>) | Inr _ \<Rightarrow> (Inr x, s3))"
        using assms b \<open>r1 = Inr u\<close> m Inr c by (cases r3) (simp_all add: pg_tx_def)
      show thesis
      proof (cases r3)
        case (Inl e) with eq s1 fail show thesis by auto
      next
        case (Inr v) with eq s1 s3 m \<open>r2 = Inr x\<close> ok show thesis by auto
      qed
    qed
  qed
qed

lemma pg_only_tx [op_invs]:
  assumes "op_keeps (pg_only Q) body" and mono: "\<And>db n n'. Q db n \<Longrightarrow> Q db n'"
  shows "op_keeps (pg_only Q) (pg_tx wrap body)"
proof (rule op_keepsI)
  fix s assume s: "pg_only Q s"
  obtain r s' where t: "pg_tx wrap body s = (r, s')" by fastforce
  then have "pg_only Q s'"
  proof (cases rule: pg_tx_cases)
    case fail with s mono show ?thesis by (auto simp: pg_only_def)
  next
    case (ok x s1 s2 fs)
    from ok(2) s have "pg_only Q s1" by simp
    with assms(1) ok(3) have "pg_only Q s2" by (metis op_keeps_eq)
    with ok(4,5) show ?thesis by (simp add: pg_only_def)
  qed
  with t show "pg_only Q (snd (pg_tx wrap body s))" by simp
qed

lemma pg_tx_atomic: "pg_tx wrap body s = (Inl e, s') \<Longrightarrow> pg_db s' = pg_db s"
  by (erule pg_tx_cases) simp_all

lemma pg_query_row_eq:
  "pg_query_row q s = ((case q (pg_db s) of [] \<Rightarrow> Inl ErrNoRows | r # _ \<Rightarrow> Inr r), s)"
  by (simp add: pg_query_row_def pg_query_def op_bind_def split: list.split)

lemma pg_query_row_Inr_iff [op_simps]:
  "pg_query_row q s = (Inr x, s') \<longleftrightarrow> (\<exists>xs. q (pg_db s) = x # xs) \<and> s' = s"
  by (auto simp: pg_query_row_eq split: list.splits)

lemma pg_query_eq [simp]: "pg_query q s = (Inr (q (pg_db s)), s)"
  by (simp add: pg_query_def)

lemma pg_uuid_Inr_iff [simp, op_simps]: "pg_uuid env x s = (Inr u, s') \<longleftrightarrow> uuid_in env x = Some u \<and> s' = s"
  by (auto simp: pg_uuid_def split: option.splits)

lemma pg_uuid_state: "pg_uuid env x s = (r, s') \<Longrightarrow> s' = s"
  by (auto simp: pg_uuid_def split: option.splits)

lemma pg_nullif_state: "pg_nullif_uuid env x s = (r, s') \<Longrightarrow> s' = s"
  by (auto simp: pg_nullif_uuid_def dest: pg_uuid_state split: if_splits)

lemma pg_nullif_keeps [op_invs]: "op_keeps P (pg_nullif_uuid env x)"
  by (simp add: pg_nullif_uuid_def op_invs)

lemma find_filter: "List.find P xs = (case filter P xs of [] \<Rightarrow> None | x # _ \<Rightarrow> Some x)"
  by (induction xs) auto

lemma reads_onlyI:
  assumes "\<And>Q. op_keeps (pg_only Q) m" shows "reads_only m"
  unfolding reads_only_def
proof
  fix s
  have "pg_only (\<lambda>db n. db = pg_db s \<and> n = pg_next s) s" by (simp add: pg_only_def)
  with assms have "pg_only (\<lambda>db n. db = pg_db s \<and> n = pg_next s) (snd (m s))" by (rule op_keepsD)
  then show "pg_db (snd (m s)) = pg_db s \<and> pg_next (snd (m s)) = pg_next s" by (simp add: pg_only_def)
qed

lemma reads_onlyD: "reads_only m \<Longrightarrow> m s = (r, s') \<Longrightarrow> pg_db s' = pg_db s \<and> pg_next s' = pg_next s"
  by (metis reads_only_def snd_conv)

lemma resolve_reads [simp]: "reads_only (resolveTenantUUID t)"
  by (rule reads_onlyI) (rule op_invs)

lemma resolve_Inr:
  assumes "resolveTenantUUID t s = (Inr T, s')"
  shows "pg_db s' = pg_db s" "tenant_uuid (pg_db s) t = Some T"
proof -
  show "pg_db s' = pg_db s" using reads_onlyD [OF resolve_reads assms] by simp
  from assms [unfolded resolveTenantUUID_def] show "tenant_uuid (pg_db s) t = Some T"
    by (rule pg_stmt_Inr) (auto simp: pg_query_row_eq tenant_uuid_def find_filter split: list.splits)
qed

lemma resolve_running:
  "pg_faults s = [] \<Longrightarrow> resolveTenantUUID T s =
     ((case tenant_uuid (pg_db s) T of None \<Rightarrow> Inl ErrNoRows | Some U \<Rightarrow> Inr U), s)"
  by (auto simp: resolveTenantUUID_def pg_query_row_eq tenant_uuid_def find_filter split: list.splits)

lemma tenant_uuid_mem: "tenant_uuid db t = Some T \<Longrightarrow> \<exists>x\<in>set (db_tenants db). tn_ID x = T"
  by (auto simp: tenant_uuid_def find_Some_iff)

end
