(* ===== verification/Booking_Postgres.thy ===== *)
theory Booking_Postgres
  imports Pg_Base
begin

text \<open>
  The bookings of the PostgreSQL store, \<^verbatim>\<open>internal/repository/postgres/workflow_store.go\<close>.
  Every operation is the sequence of its statements; \<open>pg_BookingStore\<close> is the record of
  them that the booking service is given. Row locks (\<^verbatim>\<open>FOR UPDATE\<close>) have no effect
  on a single call.
\<close>

subsection \<open>Rows and statements\<close>

definition booking_row_ok :: "Booking \<Rightarrow> bool" where
  "booking_row_ok b \<longleftrightarrow> int4 (bk_Capacity b) \<and> int4 (bk_Attendees b) \<and>
     int4 (bk_RescheduleCount b) \<and> int8 (bk_Version b)"

definition set_bookings :: "(Booking list \<Rightarrow> Booking list) \<Rightarrow> pg_state \<Rightarrow> pg_state" where
  "set_bookings f s = s\<lparr>pg_db := (pg_db s)\<lparr>db_bookings := f (db_bookings (pg_db s))\<rparr>\<rparr>"

text \<open>\<^verbatim>\<open>UPDATE bookings SET ... WHERE ... RETURNING ...\<close>\<close>

definition pg_update_bookings ::
    "(Booking \<Rightarrow> bool) \<Rightarrow> (Booking \<Rightarrow> Booking) \<Rightarrow> (Booking list, pg_state) op" where
  "pg_update_bookings P f s =
     (let hit = filter P (db_bookings (pg_db s))
      in if list_all (\<lambda>b. booking_row_ok (f b)) hit
         then (Inr (map f hit), set_bookings (map (\<lambda>b. if P b then f b else b)) s)
         else (Inl (ErrSQL ''22003''), s))"

text \<open>The condition \<^verbatim>\<open>tenant_id = $1::uuid AND id = $2::uuid\<close>.\<close>

definition pg_by_id :: "pg_env \<Rightarrow> string \<Rightarrow> string \<Rightarrow>
    ((Booking \<Rightarrow> bool) \<Rightarrow> ('a, pg_state) op) \<Rightarrow> ('a, pg_state) op" where
  "pg_by_id env tenantUUID bookingID k =
     op_bind (pg_uuid env tenantUUID) (\<lambda>t. op_bind (pg_uuid env bookingID) (\<lambda>i.
       k (\<lambda>b. bk_TenantID b = t \<and> bk_ID b = i)))"

definition pg_GetBooking :: "pg_env \<Rightarrow> string \<Rightarrow> string \<Rightarrow> (Booking, pg_state) op" where
  "pg_GetBooking env tenantID bookingID =
     op_bind (resolveTenantUUID tenantID) (\<lambda>tenantUUID.
     pg_stmt (pg_by_id env tenantUUID bookingID (\<lambda>P. pg_query_row (\<lambda>db. filter P (db_bookings db)))))"

definition getBookingTx :: "pg_env \<Rightarrow> string \<Rightarrow> string \<Rightarrow> (Booking, pg_state) op" where
  "getBookingTx env tenantUUID bookingID =
     pg_stmt (pg_by_id env tenantUUID bookingID (\<lambda>P. pg_query_row (\<lambda>db. filter P (db_bookings db))))"

subsection \<open>Conflict detection\<close>

definition pg_dedupeBookingConflicts :: "BookingConflict list \<Rightarrow> BookingConflict list" where
  "pg_dedupeBookingConflicts conflicts = dedupe_conflicts [] conflicts"

text \<open>The loop over the rows that overlap the candidate, with \<^verbatim>\<open>exclude\<close> as a list of identifiers.\<close>

fun pg_conflict_loop :: "Booking \<Rightarrow> go_time \<Rightarrow> string list \<Rightarrow> Booking list \<Rightarrow> BookingConflict list" where
  "pg_conflict_loop candidate now exclude [] = []"
| "pg_conflict_loop candidate now exclude (row # rows) =
     (if bk_ID row \<in> set exclude then pg_conflict_loop candidate now exclude rows
      else if (case bk_HoldExpiresAt row of None \<Rightarrow> False | Some h \<Rightarrow> now > h)
        then pg_conflict_loop candidate now exclude rows
      else (if bk_RoomID row = bk_RoomID candidate
            then [\<lparr>cf_Reason = BookingConflictRoom,
                   cf_Detail = ''room is already booked in the requested window''\<rparr>] else []) @
           (if bk_InstructorID row = bk_InstructorID candidate
            then [\<lparr>cf_Reason = BookingConflictInstructor,
                   cf_Detail = ''instructor is already booked in the requested window''\<rparr>] else []) @
           pg_conflict_loop candidate now exclude rows)"

definition pg_room_capacity :: "pg_env \<Rightarrow> string \<Rightarrow> string \<Rightarrow> (int, pg_state) op" where
  "pg_room_capacity env tenantUUID roomID = pg_stmt (
     op_bind (pg_uuid env tenantUUID) (\<lambda>t. op_bind (pg_uuid env roomID) (\<lambda>r.
     pg_query_row (\<lambda>db. map rm_Capacity
       (filter (\<lambda>room. rm_TenantID room = t \<and> rm_ID room = r) (db_rooms db))))))"

definition pg_blackout_count :: "pg_env \<Rightarrow> string \<Rightarrow> go_time \<Rightarrow> (nat, pg_state) op" where
  "pg_blackout_count env tenantUUID start = pg_stmt (
     op_bind (pg_uuid env tenantUUID) (\<lambda>t.
     pg_query (\<lambda>db. length (filter (\<lambda>d. bd_TenantID d = t \<and> bd_BlackoutDate d = date_of env start)
       (db_blackout_dates db)))))"

definition pg_period_overlap_count :: "pg_env \<Rightarrow> string \<Rightarrow> go_time \<Rightarrow> go_time \<Rightarrow> (nat, pg_state) op" where
  "pg_period_overlap_count env tenantUUID start fin = pg_stmt (
     op_bind (pg_uuid env tenantUUID) (\<lambda>t.
     pg_query (\<lambda>db. length (filter (\<lambda>p. cp_TenantID p = t \<and> cp_Weekday p = dow_of env start \<and>
         cp_StartTime p \<le> hms_of env start \<and> cp_EndTime p \<ge> hms_of env fin) (db_class_periods db)))))"

definition pg_configured_period_count :: "pg_env \<Rightarrow> string \<Rightarrow> (nat, pg_state) op" where
  "pg_configured_period_count env tenantUUID = pg_stmt (
     op_bind (pg_uuid env tenantUUID) (\<lambda>t.
     pg_query (\<lambda>db. length (filter (\<lambda>p. cp_TenantID p = t) (db_class_periods db)))))"

definition pg_overlapping :: "pg_env \<Rightarrow> string \<Rightarrow> Booking \<Rightarrow> (Booking list, pg_state) op" where
  "pg_overlapping env tenantUUID candidate = pg_stmt (
     op_bind (pg_uuid env tenantUUID) (\<lambda>t. op_bind (pg_uuid env (bk_RoomID candidate)) (\<lambda>r.
     op_bind (pg_uuid env (bk_InstructorID candidate)) (\<lambda>i.
     pg_query (\<lambda>db. filter (\<lambda>b. bk_TenantID b = t \<and>
         bk_Status b \<notin> {BookingStatusCancelled, BookingStatusExpired} \<and>
         bk_StartAt b < pg_ts (bk_EndAt candidate) \<and> bk_EndAt b > pg_ts (bk_StartAt candidate) \<and>
         (bk_RoomID b = r \<or> bk_InstructorID b = i)) (db_bookings db))))))"

definition detectBookingConflictsTx :: "pg_env \<Rightarrow> string \<Rightarrow> Booking \<Rightarrow> go_time \<Rightarrow> string list \<Rightarrow>
    (BookingConflict list, pg_state) op" where
  "detectBookingConflictsTx env tenantUUID candidate now exclude =
     op_bind (op_try (pg_room_capacity env tenantUUID (bk_RoomID candidate))) (\<lambda>room. case room of
       Inl err \<Rightarrow> if err = ErrNoRows
                  then op_return [\<lparr>cf_Reason = BookingConflictRoom, cf_Detail = ''room does not exist''\<rparr>]
                  else op_fail err
     | Inr roomCapacity \<Rightarrow>
     op_bind (pg_blackout_count env tenantUUID (bk_StartAt candidate)) (\<lambda>blackoutCount.
     op_bind (pg_period_overlap_count env tenantUUID (bk_StartAt candidate) (bk_EndAt candidate)) (\<lambda>periodOverlapCount.
     op_bind (pg_configured_period_count env tenantUUID) (\<lambda>configuredPeriodCount.
     op_bind (pg_overlapping env tenantUUID candidate) (\<lambda>rows.
     op_return (pg_dedupeBookingConflicts (
       (if roomCapacity > 0 \<and> bk_Attendees candidate > roomCapacity
        then [\<lparr>cf_Reason = BookingConflictCapacity,
               cf_Detail = ''room capacity '' @ itoa roomCapacity @
                           '' is lower than attendees '' @ itoa (bk_Attendees candidate)\<rparr>] else []) @
       (if blackoutCount > 0
        then [\<lparr>cf_Reason = BookingConflictRoom,
               cf_Detail = ''requested date is blocked by blackout schedule''\<rparr>] else []) @
       (if configuredPeriodCount > 0 \<and> periodOverlapCount = 0
        then [\<lparr>cf_Reason = BookingConflictRoom,
               cf_Detail = ''requested time is outside configured class periods''\<rparr>] else []) @
       pg_conflict_loop candidate now exclude rows)))))))"

subsection \<open>Operations\<close>

definition held_row :: "string \<Rightarrow> string \<Rightarrow> string \<Rightarrow> string \<Rightarrow> string \<Rightarrow> Booking \<Rightarrow>
    go_time option \<Rightarrow> go_time \<Rightarrow> Booking" where
  "held_row i t u r instr booking holdExpiresAt now =
     \<lparr>bk_ID = i, bk_TenantID = t, bk_UserID = u, bk_RoomID = r, bk_InstructorID = instr,
      bk_Title = bk_Title booking, bk_StartAt = pg_ts (bk_StartAt booking),
      bk_EndAt = pg_ts (bk_EndAt booking), bk_Capacity = bk_Capacity booking,
      bk_Attendees = bk_Attendees booking, bk_Status = BookingStatusHeld,
      bk_HoldExpiresAt = map_option pg_ts holdExpiresAt, bk_RescheduleCount = 0, bk_Version = 1,
      bk_CreatedAt = pg_ts now, bk_UpdatedAt = pg_ts now, bk_CancelledAt = None, bk_CheckedInAt = None\<rparr>"

text \<open>The constraints of the table: ranges, the primary key, the foreign keys.\<close>

definition pg_put_booking :: "(string \<Rightarrow> Booking) \<Rightarrow> pg_env \<Rightarrow> (Booking, pg_state) op" where
  "pg_put_booking mk env s =
     (let row = mk (gen_random_uuid env (pg_next s)); s' = s\<lparr>pg_next := pg_next s + 1\<rparr>; db = pg_db s
      in if \<not> booking_row_ok row then (Inl (ErrSQL ''22003''), s)
         else if bk_ID row \<in> set (map bk_ID (db_bookings db)) then (Inl (ErrSQL ''23505''), s')
         else if bk_TenantID row \<notin> set (map tn_ID (db_tenants db)) \<or>
                 (bk_UserID row \<noteq> '''' \<and> bk_UserID row \<notin> set (map us_ID (db_users db))) \<or>
                 bk_RoomID row \<notin> set (map rm_ID (db_rooms db)) \<or>
                 bk_InstructorID row \<notin> set (map us_ID (db_users db))
         then (Inl (ErrSQL ''23503''), s')
         else (Inr row, set_bookings (\<lambda>bs. bs @ [row]) s'))"

definition pg_insert_booking :: "pg_env \<Rightarrow> string \<Rightarrow> Booking \<Rightarrow> go_time option \<Rightarrow> go_time \<Rightarrow>
    (Booking, pg_state) op" where
  "pg_insert_booking env tenantUUID booking holdExpiresAt now = pg_stmt (
     op_bind (pg_uuid env tenantUUID) (\<lambda>t.
     op_bind (if bk_UserID booking = '''' then op_return '''' else pg_uuid env (bk_UserID booking)) (\<lambda>u.
     op_bind (pg_uuid env (bk_RoomID booking)) (\<lambda>r.
     op_bind (pg_uuid env (bk_InstructorID booking)) (\<lambda>i.
     pg_put_booking (\<lambda>id. held_row id t u r i booking holdExpiresAt now) env)))))"

definition pg_CreateHold :: "pg_env \<Rightarrow> Booking \<Rightarrow> duration \<Rightarrow> go_time \<Rightarrow>
    pg_state \<Rightarrow> ((BookingConflict list \<times> go_error) + Booking) \<times> pg_state" where
  "pg_CreateHold env booking holdTTL now =
     op_bind (op_err (Pair []) (resolveTenantUUID (bk_TenantID booking))) (\<lambda>tenantUUID.
     pg_tx (Pair []) (
       op_bind (op_err (Pair []) (detectBookingConflictsTx env tenantUUID booking now [])) (\<lambda>conflicts.
       if length conflicts > 0 then op_fail (conflicts, ErrNew ''booking conflict'')
       else op_err (Pair []) (pg_insert_booking env tenantUUID booking
              (if holdTTL > 0 then Some (now + holdTTL) else None) now))))"

definition pg_Confirm :: "pg_env \<Rightarrow> string \<Rightarrow> string \<Rightarrow> go_time \<Rightarrow> (unit, pg_state) op" where
  "pg_Confirm env tenantID bookingID now =
     op_bind (resolveTenantUUID tenantID) (\<lambda>tenantUUID.
     op_bind (pg_stmt (pg_by_id env tenantUUID bookingID (\<lambda>P.
         pg_update_bookings
           (\<lambda>b. P b \<and> bk_Status b = BookingStatusHeld \<and>
                (case bk_HoldExpiresAt b of None \<Rightarrow> True | Some h \<Rightarrow> h > pg_ts now))
           (\<lambda>b. b\<lparr>bk_Status := BookingStatusConfirmed, bk_HoldExpiresAt := None,
                  bk_UpdatedAt := pg_ts now, bk_Version := bk_Version b + 1\<rparr>)))) (\<lambda>affected.
     if length affected = 0
     then op_bind (pg_stmt (pg_by_id env tenantUUID bookingID (\<lambda>P.
            pg_update_bookings
              (\<lambda>b. P b \<and> bk_Status b = BookingStatusHeld \<and>
                   (case bk_HoldExpiresAt b of None \<Rightarrow> False | Some h \<Rightarrow> h \<le> pg_ts now))
              (\<lambda>b. b\<lparr>bk_Status := BookingStatusExpired, bk_UpdatedAt := pg_ts now,
                     bk_Version := bk_Version b + 1\<rparr>)))) (\<lambda>_.
          op_fail (ErrNew ''booking cannot be confirmed''))
     else op_return ()))"

definition pg_Cancel :: "pg_env \<Rightarrow> string \<Rightarrow> string \<Rightarrow> go_time \<Rightarrow> (unit, pg_state) op" where
  "pg_Cancel env tenantID bookingID now =
     op_bind (resolveTenantUUID tenantID) (\<lambda>tenantUUID.
     op_bind (pg_stmt (pg_by_id env tenantUUID bookingID (\<lambda>P.
         pg_update_bookings P
           (\<lambda>b. b\<lparr>bk_Status := BookingStatusCancelled, bk_CancelledAt := Some (pg_ts now),
                  bk_UpdatedAt := pg_ts now, bk_Version := bk_Version b + 1\<rparr>)))) (\<lambda>affected.
     if length affected = 0 then op_fail (ErrNew ''booking not found'') else op_return ()))"

definition pg_CheckIn :: "pg_env \<Rightarrow> string \<Rightarrow> string \<Rightarrow> go_time \<Rightarrow> (unit, pg_state) op" where
  "pg_CheckIn env tenantID bookingID now =
     op_bind (resolveTenantUUID tenantID) (\<lambda>tenantUUID.
     op_bind (pg_stmt (pg_by_id env tenantUUID bookingID (\<lambda>P.
         pg_update_bookings (\<lambda>b. P b \<and> bk_Status b = BookingStatusConfirmed)
           (\<lambda>b. b\<lparr>bk_Status := BookingStatusCheckedIn, bk_CheckedInAt := Some (pg_ts now),
                  bk_UpdatedAt := pg_ts now, bk_Version := bk_Version b + 1\<rparr>)))) (\<lambda>affected.
     if length affected = 0 then op_fail (ErrNew ''only confirmed bookings can be checked in'')
     else op_return ()))"

definition pg_Reschedule ::
    "pg_env \<Rightarrow> string \<Rightarrow> string \<Rightarrow> go_time \<Rightarrow> go_time \<Rightarrow> go_time \<Rightarrow> (Booking, pg_state) op" where
  "pg_Reschedule env tenantID bookingID newStart newEnd now =
     op_bind (resolveTenantUUID tenantID) (\<lambda>tenantUUID.
     pg_tx (\<lambda>e. e) (
       op_bind (getBookingTx env tenantUUID bookingID) (\<lambda>current.
       op_bind (detectBookingConflictsTx env tenantUUID
                  (current\<lparr>bk_StartAt := newStart, bk_EndAt := newEnd\<rparr>) now [bookingID]) (\<lambda>conflicts.
       if length conflicts > 0 then op_fail (ErrNew ''booking conflict'')
       else op_bind (pg_stmt (pg_by_id env tenantUUID bookingID (\<lambda>P.
              pg_update_bookings P
                (\<lambda>b. b\<lparr>bk_StartAt := pg_ts newStart, bk_EndAt := pg_ts newEnd,
                       bk_RescheduleCount := bk_RescheduleCount b + 1,
                       bk_UpdatedAt := pg_ts now, bk_Version := bk_Version b + 1\<rparr>)))) (\<lambda>updated.
            case updated of [] \<Rightarrow> op_fail ErrNoRows | b # _ \<Rightarrow> op_return b)))))"

definition pg_hold_timed_out :: "go_time \<Rightarrow> Booking \<Rightarrow> bool" where
  "pg_hold_timed_out now b \<longleftrightarrow> bk_Status b = BookingStatusHeld \<and>
     (case bk_HoldExpiresAt b of None \<Rightarrow> False | Some h \<Rightarrow> h \<le> pg_ts now)"

definition pg_expire :: "go_time \<Rightarrow> Booking \<Rightarrow> Booking" where
  "pg_expire now b = b\<lparr>bk_Status := BookingStatusExpired, bk_UpdatedAt := pg_ts now,
     bk_Version := bk_Version b + 1\<rparr>"

definition pg_ReleaseExpiredHolds :: "go_time \<Rightarrow> (int, pg_state) op" where
  "pg_ReleaseExpiredHolds now =
     op_bind (pg_stmt (pg_update_bookings (pg_hold_timed_out now) (pg_expire now))) (\<lambda>affected.
     op_return (int (length affected)))"

definition pg_ExpireHeldBookings :: "go_time \<Rightarrow> (Booking list, pg_state) op" where
  "pg_ExpireHeldBookings now = pg_stmt (pg_update_bookings (pg_hold_timed_out now) (pg_expire now))"

definition pg_ListBookings :: "pg_env \<Rightarrow> string \<Rightarrow> (Booking list, pg_state) op" where
  "pg_ListBookings env tenantID =
     op_bind (resolveTenantUUID tenantID) (\<lambda>tenantUUID.
     pg_stmt (op_bind (pg_uuid env tenantUUID) (\<lambda>t.
       pg_query (\<lambda>db. sort_key bk_StartAt (filter (\<lambda>b. bk_TenantID b = t) (db_bookings db))))))"

definition pg_ListRooms :: "pg_env \<Rightarrow> string \<Rightarrow> (Room list, pg_state) op" where
  "pg_ListRooms env tenantID =
     op_bind (resolveTenantUUID tenantID) (\<lambda>tenantUUID.
     pg_stmt (op_bind (pg_uuid env tenantUUID) (\<lambda>t.
       pg_query (\<lambda>db. sort_key (\<lambda>room. collation env (rm_Name room))
         (filter (\<lambda>room. rm_TenantID room = t) (db_rooms db))))))"

definition has_role :: "pg_tables \<Rightarrow> User \<Rightarrow> string \<Rightarrow> bool" where
  "has_role db u role \<longleftrightarrow> (\<exists>(t, uid, rid) \<in> set (db_user_roles db). t = us_TenantID u \<and> uid = us_ID u \<and>
     (\<exists>r \<in> set (db_roles db). ro_ID r = rid \<and> to_lower (ro_Name r) = role))"

definition pg_ListInstructors :: "pg_env \<Rightarrow> string \<Rightarrow> (Instructor list, pg_state) op" where
  "pg_ListInstructors env tenantID =
     op_bind (resolveTenantUUID tenantID) (\<lambda>tenantUUID.
     pg_stmt (op_bind (pg_uuid env tenantUUID) (\<lambda>t.
       pg_query (\<lambda>db. sort_key (\<lambda>i. collation env (in_Name i)) (remdups (map
         (\<lambda>u. \<lparr>in_ID = us_ID u, in_TenantID = us_TenantID u, in_Name = us_DisplayName u,
               in_CreatedAt = us_CreatedAt u, in_UpdatedAt = us_UpdatedAt u\<rparr>)
         (filter (\<lambda>u. us_TenantID u = t \<and> has_role db u ''instructor'') (db_users db))))))))"

definition pg_CreateBooking where "pg_CreateBooking = pg_CreateHold"
definition pg_UpdateBooking where "pg_UpdateBooking = pg_Reschedule"
definition pg_DeleteBooking where "pg_DeleteBooking = pg_Cancel"

definition pg_BookingStore :: "pg_env \<Rightarrow> pg_state BookingStore" where
  "pg_BookingStore env = \<lparr>st_GetBooking = pg_GetBooking env, st_CreateHold = pg_CreateHold env,
     st_Confirm = pg_Confirm env, st_Cancel = pg_Cancel env, st_CheckIn = pg_CheckIn env,
     st_Reschedule = pg_Reschedule env, st_ReleaseExpiredHolds = pg_ReleaseExpiredHolds,
     st_ListBookings = pg_ListBookings env, st_ListRooms = pg_ListRooms env,
     st_ListInstructors = pg_ListInstructors env\<rparr>"

end
