(* ===== verification/Booking_Postgres_Laws.thy ===== *)
theory Booking_Postgres_Laws
  imports Booking_Postgres
begin

text \<open>
  The PostgreSQL store meets the contract of the booking store and, for requests whose
  room and instructor identifiers are in canonical form, the contract of the store that
  guards its slots. The invariant: identifiers are unique and canonical, numbers are in
  range, deadlines are whole microseconds.
\<close>

definition booking_canonical :: "(string \<Rightarrow> string option) \<Rightarrow> Booking \<Rightarrow> bool" where
  "booking_canonical u b \<longleftrightarrow> u (bk_ID b) = Some (bk_ID b) \<and> u (bk_RoomID b) = Some (bk_RoomID b) \<and>
     u (bk_InstructorID b) = Some (bk_InstructorID b) \<and> booking_row_ok b \<and>
     (\<forall>h. bk_HoldExpiresAt b = Some h \<longrightarrow> pg_ts h = h)"

definition db_inv :: "(string \<Rightarrow> string option) \<Rightarrow> pg_tables \<Rightarrow> bool" where
  "db_inv u db \<longleftrightarrow> distinct (map bk_ID (db_bookings db)) \<and>
     (\<forall>b\<in>set (db_bookings db). booking_canonical u b)"

definition pg_inv :: "(string \<Rightarrow> string option) \<Rightarrow> pg_state \<Rightarrow> bool" where
  "pg_inv u s \<longleftrightarrow> db_inv u (pg_db s)"

definition pg_rows :: "pg_state \<Rightarrow> Booking set" where
  "pg_rows s = set (db_bookings (pg_db s))"

definition pg_at :: "pg_env \<Rightarrow> pg_tables \<Rightarrow> string \<Rightarrow> string \<Rightarrow> Booking option" where
  "pg_at env db T i = (case (uuid_in env T, uuid_in env i) of
      (Some t, Some j) \<Rightarrow> List.find (\<lambda>b. bk_TenantID b = t \<and> bk_ID b = j) (db_bookings db)
    | _ \<Rightarrow> None)"

definition pg_find :: "pg_env \<Rightarrow> pg_state \<Rightarrow> string \<Rightarrow> string \<Rightarrow> Booking option" where
  "pg_find env s t i = (case tenant_uuid (pg_db s) t of None \<Rightarrow> None | Some T \<Rightarrow> pg_at env (pg_db s) T i)"

definition pg_proper :: "pg_env \<Rightarrow> Booking \<Rightarrow> bool" where
  "pg_proper env b \<longleftrightarrow> uuid_in env (bk_RoomID b) = Some (bk_RoomID b) \<and>
     uuid_in env (bk_InstructorID b) = Some (bk_InstructorID b)"

text \<open>An update of one row that the invariant survives.\<close>

definition row_map_ok :: "(Booking \<Rightarrow> Booking) \<Rightarrow> bool" where
  "row_map_ok f \<longleftrightarrow> (\<forall>b. bk_ID (f b) = bk_ID b \<and> bk_RoomID (f b) = bk_RoomID b \<and>
     bk_InstructorID (f b) = bk_InstructorID b \<and>
     (bk_HoldExpiresAt (f b) = bk_HoldExpiresAt b \<or> bk_HoldExpiresAt (f b) = None))"

subsection \<open>Updates\<close>

lemma filter_by_id:
  assumes "distinct (map bk_ID bs)" and "\<And>b. P b \<Longrightarrow> bk_ID b = i"
  shows "filter P bs = (case List.find P bs of None \<Rightarrow> [] | Some b \<Rightarrow> [b])"
  using assms(1)
proof (induction bs)
  case (Cons b bs)
  then have IH: "filter P bs = (case List.find P bs of None \<Rightarrow> [] | Some b \<Rightarrow> [b])" by simp
  show ?case
  proof (cases "P b")
    case True
    with assms(2) have "bk_ID b = i" by simp
    with Cons.prems have "i \<notin> bk_ID ` set bs" by simp
    with assms(2) have "\<forall>x\<in>set bs. \<not> P x" by (metis imageI)
    with True show ?thesis by (simp add: filter_empty_conv)
  qed (simp add: IH)
qed simp

lemma update_one:
  "filter P bs = [b] \<Longrightarrow> set (map (\<lambda>x. if P x then f x else x) bs) = insert (f b) (set bs - {b})"
proof -
  assume "filter P bs = [b]"
  then have b: "{x \<in> set bs. P x} = {b}" by (metis set_filter empty_set list.simps(15))
  have "set (map (\<lambda>x. if P x then f x else x) bs) = f ` {x \<in> set bs. P x} \<union> {x \<in> set bs. \<not> P x}"
    by auto
  also have "{x \<in> set bs. \<not> P x} = set bs - {x \<in> set bs. P x}" by blast
  finally show ?thesis unfolding b by simp
qed

lemma update_none: "filter P bs = [] \<Longrightarrow> map (\<lambda>x. if P x then f x else x) bs = bs"
  by (auto simp: filter_empty_conv intro: map_idI)

lemma pg_update_inv:
  assumes "pg_inv u s" and "row_map_ok f" and "pg_update_bookings P f s = (r, s')"
  shows "pg_inv u s'"
proof (cases "list_all (\<lambda>b. booking_row_ok (f b)) (filter P (db_bookings (pg_db s)))")
  case True
  let ?g = "\<lambda>b. if P b then f b else b"
  have "map bk_ID (map ?g (db_bookings (pg_db s))) = map bk_ID (db_bookings (pg_db s))"
    using assms(2) by (simp add: row_map_ok_def)
  moreover have can: "booking_canonical u (?g b)" if "b \<in> set (db_bookings (pg_db s))" for b
  proof -
    from that assms(1) have "booking_canonical u b" by (simp add: pg_inv_def db_inv_def)
    moreover from that True have "P b \<Longrightarrow> booking_row_ok (f b)" by (simp add: list_all_iff)
    moreover from assms(2) have "bk_ID (f b) = bk_ID b" "bk_RoomID (f b) = bk_RoomID b"
      "bk_InstructorID (f b) = bk_InstructorID b"
      "bk_HoldExpiresAt (f b) = bk_HoldExpiresAt b \<or> bk_HoldExpiresAt (f b) = None"
      by (simp_all add: row_map_ok_def)
    ultimately show ?thesis by (auto simp: booking_canonical_def)
  qed
  moreover have "s' = set_bookings (map ?g) s"
    using assms(3) True by (simp add: pg_update_bookings_def)
  moreover have "\<forall>b\<in>set (map ?g (db_bookings (pg_db s))). booking_canonical u b"
    unfolding set_map using can by blast
  ultimately show ?thesis using assms(1)
    by (simp add: pg_inv_def db_inv_def set_bookings_def del: map_map set_map)
next
  case False with assms show ?thesis by (auto simp: pg_update_bookings_def)
qed

lemma pg_inv_cong: "pg_db s' = pg_db s \<Longrightarrow> pg_inv u s' = pg_inv u s"
  by (simp add: pg_inv_def)

text \<open>A guarded update of the row a tenant and a booking identifier denote.\<close>

lemma pg_update_by_id:
  assumes inv: "pg_inv (uuid_in env) s" and ok: "row_map_ok f"
    and run: "pg_stmt (pg_by_id env T i (\<lambda>P. pg_update_bookings (\<lambda>b. P b \<and> G b) f)) s = (r, s')"
  shows "pg_inv (uuid_in env) s' \<and>
     (\<forall>e. r = Inl e \<longrightarrow> pg_db s' = pg_db s) \<and>
     (\<forall>hits. r = Inr hits \<longrightarrow>
        (hits = [] \<and> pg_db s' = pg_db s \<and> (\<forall>b. pg_at env (pg_db s) T i = Some b \<longrightarrow> \<not> G b)) \<or>
        (\<exists>b. pg_at env (pg_db s) T i = Some b \<and> G b \<and> hits = [f b] \<and> booking_row_ok (f b) \<and>
             row_update (pg_rows s) (pg_rows s') b (f b)))"
  using run
proof (cases rule: pg_stmt_cases)
  case (fault e fs) with inv show ?thesis by (simp add: pg_inv_def)
next
  case (run fs)
  let ?s = "s\<lparr>pg_faults := fs\<rparr>"
  show ?thesis
  proof (cases "\<exists>t j. uuid_in env T = Some t \<and> uuid_in env i = Some j")
    case False
    with run have "s' = ?s \<and> (\<exists>e. r = Inl e)"
      by (auto simp: pg_by_id_def op_bind_def pg_uuid_def split: option.splits)
    with inv show ?thesis by (auto simp: pg_inv_def)
  next
    case True
    then obtain t j where u: "uuid_in env T = Some t" "uuid_in env i = Some j" by blast
    let ?P = "\<lambda>b. bk_TenantID b = t \<and> bk_ID b = j" and ?bs = "db_bookings (pg_db s)"
    have upd: "pg_update_bookings (\<lambda>b. ?P b \<and> G b) f ?s = (r, s')"
      using run u by (simp add: pg_by_id_def op_bind_def pg_uuid_def)
    have inv': "pg_inv (uuid_in env) s'"
      using inv by (intro pg_update_inv [OF _ ok upd]) (simp add: pg_inv_def)
    have d: "distinct (map bk_ID ?bs)" using inv by (simp add: pg_inv_def db_inv_def)
    have at: "pg_at env (pg_db s) T i = List.find ?P ?bs" by (simp add: pg_at_def u)
    have hit: "filter (\<lambda>b. ?P b \<and> G b) ?bs =
        (case pg_at env (pg_db s) T i of None \<Rightarrow> [] | Some b \<Rightarrow> if G b then [b] else [])"
    proof -
      have "filter (\<lambda>b. ?P b \<and> G b) ?bs = filter G (filter ?P ?bs)"
        unfolding filter_filter by (rule filter_cong) auto
      also have "filter ?P ?bs = (case pg_at env (pg_db s) T i of None \<Rightarrow> [] | Some b \<Rightarrow> [b])"
        unfolding at by (rule filter_by_id [OF d]) simp
      finally show ?thesis by (simp split: option.splits)
    qed
    show ?thesis
    proof (cases "filter (\<lambda>b. ?P b \<and> G b) ?bs")
      case Nil
      then have "r = Inr []" "pg_db s' = pg_db s"
        using upd by (auto simp: pg_update_bookings_def set_bookings_def update_none)
      with Nil hit inv' show ?thesis by (auto split: option.splits if_splits)
    next
      case (Cons b bs)
      with hit have b: "pg_at env (pg_db s) T i = Some b" "G b" "bs = []"
        by (auto split: option.splits if_splits)
      note one = update_one [OF Cons [unfolded b(3)], of f]
      have "b \<in> set ?bs" using Cons by (metis filter_is_subset list.set_intros(1) subsetD)
      show ?thesis
      proof (cases "booking_row_ok (f b)")
        case True
        then have r: "r = Inr [f b]" "s' = set_bookings (map (\<lambda>b. if ?P b \<and> G b then f b else b)) ?s"
          using upd Cons b(3) by (simp_all add: pg_update_bookings_def)
        then have "pg_rows s' = insert (f b) (pg_rows s - {b})"
          using one by (simp add: pg_rows_def set_bookings_def del: set_map)
        with \<open>b \<in> set ?bs\<close> have "row_update (pg_rows s) (pg_rows s') b (f b)"
          by (simp add: row_update_def pg_rows_def)
        with inv' r(1) b True show ?thesis by simp
      next
        case False
        then have "r = Inl (ErrSQL ''22003'')" "s' = ?s"
          using upd Cons b(3) by (simp_all add: pg_update_bookings_def)
        with inv' show ?thesis by simp
      qed
    qed
  qed
qed

subsection \<open>Lookups\<close>

lemma pg_only_by_id [op_invs]:
  "(\<And>P. op_keeps Q (k P)) \<Longrightarrow> op_keeps Q (pg_by_id env T i k)"
  unfolding pg_by_id_def by (intro op_invs)

lemma getBookingTx_reads [simp]: "reads_only (getBookingTx env T i)"
  unfolding getBookingTx_def by (intro reads_onlyI op_invs)

lemma GetBooking_reads: "reads_only (pg_GetBooking env t i)"
  unfolding pg_GetBooking_def by (intro reads_onlyI op_invs)

lemma getBookingTx_Inr:
  assumes "getBookingTx env T i s = (Inr b, s')"
  shows "pg_at env (pg_db s) T i = Some b"
  using assms [unfolded getBookingTx_def]
proof (rule pg_stmt_Inr)
  fix fs assume "pg_by_id env T i (\<lambda>P. pg_query_row (\<lambda>db. filter P (db_bookings db))) (s\<lparr>pg_faults := fs\<rparr>) = (Inr b, s')"
  then obtain t j xs where "uuid_in env T = Some t" "uuid_in env i = Some j"
    "filter (\<lambda>b. bk_TenantID b = t \<and> bk_ID b = j) (db_bookings (pg_db s)) = b # xs"
    by (simp add: pg_by_id_def op_simps) metis
  then show ?thesis by (simp add: pg_at_def find_filter)
qed

lemma pg_GetBooking_eq:
  "pg_GetBooking env t i = op_bind (resolveTenantUUID t) (\<lambda>T. getBookingTx env T i)"
  by (simp add: pg_GetBooking_def getBookingTx_def)

lemma GetBooking_Inr:
  assumes "pg_GetBooking env t i s = (Inr b, s')"
  shows "pg_find env s t i = Some b"
proof -
  from assms obtain T s1 where "resolveTenantUUID t s = (Inr T, s1)" "getBookingTx env T i s1 = (Inr b, s')"
    by (auto simp: pg_GetBooking_eq op_simps)
  with resolve_Inr getBookingTx_Inr show ?thesis by (metis pg_find_def option.simps(5))
qed

lemma pg_at_mem: "pg_at env db T i = Some b \<Longrightarrow> b \<in> set (db_bookings db)"
  by (auto simp: pg_at_def find_filter split: option.splits list.splits)
     (metis filter_is_subset list.set_intros(1) subsetD)

lemma pg_find_mem: "pg_find env s t i = Some b \<Longrightarrow> b \<in> pg_rows s"
  by (auto simp: pg_find_def pg_rows_def split: option.splits dest: pg_at_mem)

lemma pg_at_id: "pg_at env db T i = Some b \<Longrightarrow> uuid_in env i = Some (bk_ID b)"
  by (auto simp: pg_at_def find_Some_iff split: option.splits)

lemma pg_find_id: "pg_find env s t i = Some b \<Longrightarrow> uuid_in env i = Some (bk_ID b)"
  by (auto simp: pg_find_def split: option.splits dest: pg_at_id)

lemma pg_find_cong: "pg_db s' = pg_db s \<Longrightarrow> pg_find env s' = pg_find env s"
  by (intro ext) (simp only: pg_find_def)

lemma pg_rows_cong: "pg_db s' = pg_db s \<Longrightarrow> pg_rows s' = pg_rows s"
  by (simp add: pg_rows_def)

lemmas pg_congs = pg_inv_cong pg_find_cong pg_rows_cong

subsection \<open>Cancel, check in, confirm\<close>

text \<open>An operation that resolves the tenant and then updates one row under a guard.\<close>

lemma pg_guarded_update:
  assumes inv: "pg_inv (uuid_in env) s" and ok: "row_map_ok f"
    and run: "op_bind (resolveTenantUUID t) (\<lambda>T.
       op_bind (pg_stmt (pg_by_id env T i (\<lambda>P. pg_update_bookings (\<lambda>b. P b \<and> G b) f))) (\<lambda>affected.
       if length affected = 0 then op_fail err else op_return ())) s = (r, s')"
  shows "pg_inv (uuid_in env) s' \<and>
     (r = Inr () \<longrightarrow> (\<exists>b. pg_find env s t i = Some b \<and> G b \<and> booking_row_ok (f b) \<and>
        row_update (pg_rows s) (pg_rows s') b (f b))) \<and>
     (\<forall>e. r = Inl e \<longrightarrow> pg_db s' = pg_db s)"
  using run
proof (cases rule: op_bindE)
  case (err e)
  with inv reads_onlyD [OF resolve_reads err(1)] show ?thesis by (simp add: pg_inv_def)
next
  case (ok T s1)
  note R = resolve_Inr [OF ok(1)]
  have inv1: "pg_inv (uuid_in env) s1" using inv R by (simp add: pg_inv_def)
  from ok(2) show ?thesis
  proof (cases rule: op_bindE)
    case (err e)
    with pg_update_by_id [OF inv1 assms(2) err(1)] R show ?thesis by simp
  next
    case (ok hits s2)
    note U = pg_update_by_id [OF inv1 assms(2) ok(1)]
    show ?thesis
    proof (cases hits)
      case Nil with U R ok(2) show ?thesis by auto
    next
      case (Cons x xs)
      with U obtain b where b: "pg_at env (pg_db s1) T i = Some b" "G b" "booking_row_ok (f b)"
         "row_update (pg_rows s1) (pg_rows s2) b (f b)" by auto
      then have "pg_find env s t i = Some b" using R by (simp add: pg_find_def)
      moreover have "pg_rows s1 = pg_rows s" using R by (simp add: pg_rows_def)
      ultimately show ?thesis using b U ok(2) Cons by auto
    qed
  qed
qed

lemma int8_i64: "int8 x \<Longrightarrow> i64 x = x"
  by (simp add: int8_def)

lemma int4_i64: "int4 x \<Longrightarrow> i64 x = x"
  by (simp add: int4_def)

lemma pg_cancel_law:
  assumes "pg_inv (uuid_in env) s" and "pg_Cancel env t i now s = (r, s')"
  shows "pg_inv (uuid_in env) s' \<and>
     (r = Inr () \<longrightarrow> (\<exists>b. pg_find env s t i = Some b \<and>
        row_update (pg_rows s) (pg_rows s') b (cancelled_row (pg_ts now) b))) \<and>
     (\<forall>e. r = Inl e \<longrightarrow> pg_rows s' = pg_rows s)"
proof -
  let ?f = "\<lambda>b. b\<lparr>bk_Status := BookingStatusCancelled, bk_CancelledAt := Some (pg_ts now),
                  bk_UpdatedAt := pg_ts now, bk_Version := bk_Version b + 1\<rparr>"
  have f: "?f b = cancelled_row (pg_ts now) b" if "booking_row_ok (?f b)" for b
    using that by (simp add: cancelled_row_def booking_row_ok_def int8_i64)
  have ok: "row_map_ok ?f" by (simp add: row_map_ok_def)
  have "(\<lambda>P. pg_update_bookings P ?f) = (\<lambda>P. pg_update_bookings (\<lambda>b. P b \<and> True) ?f)" by simp
  note U = pg_guarded_update [OF assms(1) ok assms(2) [unfolded pg_Cancel_def this]]
  with f show ?thesis by (metis pg_rows_cong)
qed

lemma pg_check_in_law:
  assumes "pg_inv (uuid_in env) s" and "pg_CheckIn env t i now s = (r, s')"
  shows "pg_inv (uuid_in env) s' \<and>
     (r = Inr () \<longrightarrow> (\<exists>b. pg_find env s t i = Some b \<and> bk_Status b = BookingStatusConfirmed \<and>
        row_update (pg_rows s) (pg_rows s') b (checked_in_row (pg_ts now) b))) \<and>
     (\<forall>e. r = Inl e \<longrightarrow> pg_rows s' = pg_rows s)"
proof -
  let ?f = "\<lambda>b. b\<lparr>bk_Status := BookingStatusCheckedIn, bk_CheckedInAt := Some (pg_ts now),
                  bk_UpdatedAt := pg_ts now, bk_Version := bk_Version b + 1\<rparr>"
  have f: "?f b = checked_in_row (pg_ts now) b" if "booking_row_ok (?f b)" for b
    using that by (simp add: checked_in_row_def booking_row_ok_def int8_i64)
  have ok: "row_map_ok ?f" by (simp add: row_map_ok_def)
  note U = pg_guarded_update [OF assms(1) ok assms(2) [unfolded pg_CheckIn_def]]
  with f show ?thesis by (metis pg_rows_cong)
qed

definition pg_confirm_row :: "go_time \<Rightarrow> Booking \<Rightarrow> Booking" where
  "pg_confirm_row now b = b\<lparr>bk_Status := BookingStatusConfirmed, bk_HoldExpiresAt := None,
                  bk_UpdatedAt := pg_ts now, bk_Version := bk_Version b + 1\<rparr>"

lemma pg_row_maps_ok: "row_map_ok (pg_confirm_row now)" "row_map_ok (pg_expire now)"
  by (simp_all add: row_map_ok_def pg_confirm_row_def pg_expire_def)

lemma pg_confirm_row_eq:
  "booking_row_ok (pg_confirm_row now b) \<Longrightarrow> pg_confirm_row now b = confirmed_row (pg_ts now) b"
  by (simp add: pg_confirm_row_def confirmed_row_def booking_row_ok_def int8_i64)

lemma pg_expire_slot: "same_slot b (pg_expire now b)" "bk_Status (pg_expire now b) = BookingStatusExpired"
  by (simp_all add: same_slot_def pg_expire_def)

definition pg_still_held :: "go_time \<Rightarrow> Booking \<Rightarrow> bool" where
  "pg_still_held now b \<longleftrightarrow> bk_Status b = BookingStatusHeld \<and>
     (case bk_HoldExpiresAt b of None \<Rightarrow> True | Some h \<Rightarrow> h > pg_ts now)"

lemma pg_still_held_blocking:
  assumes "booking_canonical u b" and "pg_still_held now b" shows "blocking now b"
proof (cases "bk_HoldExpiresAt b")
  case None with assms(2) show ?thesis by (simp add: pg_still_held_def blocking_def)
next
  case (Some h)
  with assms have "pg_ts now < h" "pg_ts h = h" by (simp_all add: booking_canonical_def pg_still_held_def)
  then have "now < h" using pg_ts_next [of now h] by simp
  with Some assms(2) show ?thesis by (simp add: pg_still_held_def blocking_def)
qed

lemma pg_timed_out_over: "pg_hold_timed_out now b \<Longrightarrow> hold_over now b \<and> bk_Status b = BookingStatusHeld"
  using pg_ts_le [of now] by (auto simp: pg_hold_timed_out_def hold_over_def split: option.splits)

text \<open>\<^verbatim>\<open>Confirm\<close> with its two updates named.\<close>

lemma pg_Confirm_eq:
  "pg_Confirm env t i now =
     op_bind (resolveTenantUUID t) (\<lambda>T.
     op_bind (pg_stmt (pg_by_id env T i (\<lambda>P. pg_update_bookings (\<lambda>b. P b \<and> pg_still_held now b)
        (pg_confirm_row now)))) (\<lambda>affected.
     if length affected = 0
     then op_bind (pg_stmt (pg_by_id env T i (\<lambda>P. pg_update_bookings (\<lambda>b. P b \<and> pg_hold_timed_out now b)
            (pg_expire now)))) (\<lambda>_. op_fail (ErrNew ''booking cannot be confirmed''))
     else op_return ()))"
  unfolding pg_Confirm_def pg_still_held_def pg_hold_timed_out_def pg_confirm_row_def [abs_def]
    pg_expire_def [abs_def] ..

lemma pg_confirm_law:
  assumes inv: "pg_inv (uuid_in env) s" and run: "pg_Confirm env t i now s = (r, s')"
  shows "pg_inv (uuid_in env) s' \<and>
     (r = Inr () \<longrightarrow> (\<exists>b. pg_find env s t i = Some b \<and> pg_still_held now b \<and>
        row_update (pg_rows s) (pg_rows s') b (confirmed_row (pg_ts now) b))) \<and>
     (\<forall>e. r = Inl e \<longrightarrow> pg_rows s' = pg_rows s \<or>
        (\<exists>b b'. pg_find env s t i = Some b \<and> bk_Status b = BookingStatusHeld \<and> hold_over now b \<and>
           row_update (pg_rows s) (pg_rows s') b b' \<and> same_slot b b' \<and> bk_Status b' = BookingStatusExpired))"
  using run unfolding pg_Confirm_eq
proof (cases rule: op_bindE)
  case (err e)
  with inv reads_onlyD [OF resolve_reads err(1)] show ?thesis by (simp add: pg_inv_def pg_rows_def)
next
  case (ok T s1)
  note R = resolve_Inr [OF ok(1)]
  have inv1: "pg_inv (uuid_in env) s1" using inv R by (simp add: pg_inv_def)
  have find: "pg_find env s t i = Some b" if "pg_at env (pg_db s1) T i = Some b" for b
    using that R by (simp add: pg_find_def)
  have rows1: "pg_rows s1 = pg_rows s" using R by (simp add: pg_rows_def)
  from ok(2) show ?thesis
  proof (cases rule: op_bindE)
    case (err e)
    with pg_update_by_id [OF inv1 pg_row_maps_ok(1) err(1)] R show ?thesis by (simp add: pg_rows_def)
  next
    case (ok hits s2)
    note U = pg_update_by_id [OF inv1 pg_row_maps_ok(1) ok(1)]
    show ?thesis
    proof (cases hits)
      case (Cons x xs)
      with U obtain b where b: "pg_at env (pg_db s1) T i = Some b" "pg_still_held now b"
          "booking_row_ok (pg_confirm_row now b)" "row_update (pg_rows s1) (pg_rows s2) b (pg_confirm_row now b)"
        by auto
      moreover from ok(2) Cons have "r = Inr ()" "s' = s2" by simp_all
      ultimately show ?thesis using U rows1 find [OF b(1)] by (simp add: pg_confirm_row_eq)
    next
      case Nil
      with U have inv2: "pg_inv (uuid_in env) s2" and db2: "pg_db s2 = pg_db s1" by auto
      with Nil ok(2) have "op_bind (pg_stmt (pg_by_id env T i (\<lambda>P. pg_update_bookings
          (\<lambda>b. P b \<and> pg_hold_timed_out now b) (pg_expire now)))) (\<lambda>_.
            op_fail (ErrNew ''booking cannot be confirmed'')) s2 = (r, s')" by simp
      then show ?thesis
      proof (cases rule: op_bindE)
        case (err e)
        with pg_update_by_id [OF inv2 pg_row_maps_ok(2) err(1)] db2 rows1 show ?thesis
          by (simp add: pg_rows_def)
      next
        case (ok hits3 s3)
        note V = pg_update_by_id [OF inv2 pg_row_maps_ok(2) ok(1)]
        from ok(2) have r: "r = Inl (ErrNew ''booking cannot be confirmed'')" "s' = s3" by simp_all
        show ?thesis
        proof (cases hits3)
          case Nil with V r db2 rows1 show ?thesis by (simp add: pg_rows_def)
        next
          case (Cons x xs)
          with V obtain b where "pg_at env (pg_db s2) T i = Some b" "pg_hold_timed_out now b"
            "row_update (pg_rows s2) (pg_rows s3) b (pg_expire now b)" by auto
          moreover have "pg_rows s2 = pg_rows s" using db2 rows1 by (simp add: pg_rows_def)
          ultimately show ?thesis
            using V r db2 find [of b] pg_timed_out_over [of now b] pg_expire_slot by auto
        qed
      qed
    qed
  qed
qed

subsection \<open>Expiry\<close>

lemma pg_expire_run:
  assumes inv: "pg_inv u s"
    and run: "pg_stmt (pg_update_bookings (pg_hold_timed_out now) (pg_expire now)) s = (r, s')"
  shows "pg_inv u s' \<and>
     (\<forall>e. r = Inl e \<longrightarrow> pg_db s' = pg_db s) \<and>
     (\<forall>hits. r = Inr hits \<longrightarrow>
        hits = map (pg_expire now) (filter (pg_hold_timed_out now) (db_bookings (pg_db s))) \<and>
        pg_db s' = (pg_db s)\<lparr>db_bookings :=
          map (\<lambda>b. if pg_hold_timed_out now b then pg_expire now b else b) (db_bookings (pg_db s))\<rparr>)"
  using run
proof (cases rule: pg_stmt_cases)
  case fault with inv show ?thesis by (simp add: pg_inv_def)
next
  case (run fs)
  have "pg_inv u (s\<lparr>pg_faults := fs\<rparr>)" using inv by (simp add: pg_inv_def)
  with pg_row_maps_ok(2) run have "pg_inv u s'" by (blast intro: pg_update_inv)
  with run show ?thesis
    by (auto simp: pg_update_bookings_def set_bookings_def Let_def split: if_splits)
qed

lemma pg_release_law:
  assumes inv: "pg_inv u s" and run: "pg_ReleaseExpiredHolds now s = (r, s')"
  shows "pg_inv u s' \<and> (\<exists>f. pg_rows s' = f ` pg_rows s \<and>
     (\<forall>b. f b = b \<or> (hold_over now b \<and> bk_Status b = BookingStatusHeld \<and> same_slot b (f b) \<and>
        bk_Status (f b) = BookingStatusExpired)))"
  using run unfolding pg_ReleaseExpiredHolds_def
proof (cases rule: op_bindE)
  case (err e)
  with pg_expire_run [OF inv err(1)] have "pg_inv u s'" "pg_rows s' = id ` pg_rows s"
    by (simp_all add: pg_rows_def)
  then show ?thesis by (metis id_apply)
next
  case (ok hits s1)
  note E = pg_expire_run [OF inv ok(1)]
  let ?f = "\<lambda>b. if pg_hold_timed_out now b then pg_expire now b else b"
  from E ok(2) have "pg_inv u s'" "pg_rows s' = ?f ` pg_rows s" by (simp_all add: pg_rows_def)
  moreover have "?f b = b \<or> (hold_over now b \<and> bk_Status b = BookingStatusHeld \<and> same_slot b (?f b) \<and>
        bk_Status (?f b) = BookingStatusExpired)" for b
    using pg_timed_out_over [of now b] pg_expire_slot [where b = b and now = now] by simp
  ultimately show ?thesis by (intro conjI exI [of _ ?f]) simp_all
qed

subsection \<open>Conflict detection\<close>

lemma pg_conflict_loop_Nil:
  "pg_conflict_loop c now exclude rows = [] \<longleftrightarrow>
     (\<forall>x\<in>set rows. bk_ID x \<in> set exclude \<or>
        (case bk_HoldExpiresAt x of None \<Rightarrow> False | Some h \<Rightarrow> now > h) \<or>
        (bk_RoomID x \<noteq> bk_RoomID c \<and> bk_InstructorID x \<noteq> bk_InstructorID c))"
  by (induction rows) simp_all

lemma detect_reads [simp]: "reads_only (detectBookingConflictsTx env T c now exclude)"
  unfolding detectBookingConflictsTx_def pg_room_capacity_def pg_blackout_count_def
    pg_period_overlap_count_def pg_configured_period_count_def pg_overlapping_def
  by (intro reads_onlyI op_invs)

lemma overlapping_reads: "reads_only (pg_overlapping env T c)"
  unfolding pg_overlapping_def by (intro reads_onlyI op_invs)

lemma overlapping_Inr:
  assumes "pg_overlapping env T c s = (Inr rows, s')"
  obtains t r i where "uuid_in env T = Some t" "uuid_in env (bk_RoomID c) = Some r"
    "uuid_in env (bk_InstructorID c) = Some i"
    "rows = filter (\<lambda>b. bk_TenantID b = t \<and>
         bk_Status b \<notin> {BookingStatusCancelled, BookingStatusExpired} \<and>
         bk_StartAt b < pg_ts (bk_EndAt c) \<and> bk_EndAt b > pg_ts (bk_StartAt c) \<and>
         (bk_RoomID b = r \<or> bk_InstructorID b = i)) (db_bookings (pg_db s))"
  using assms unfolding pg_overlapping_def
  by (rule pg_stmt_Inr) (auto simp: op_simps simp del: filter.simps)

lemma detect_Nil:
  assumes "detectBookingConflictsTx env T c now exclude s = (Inr [], s')"
  obtains s1 s2 rows where "pg_db s1 = pg_db s" "pg_overlapping env T c s1 = (Inr rows, s2)"
    "pg_conflict_loop c now exclude rows = []"
proof -
  have reads: "reads_only (pg_room_capacity env T r)" "reads_only (pg_blackout_count env T a)"
    "reads_only (pg_period_overlap_count env T a b)" "reads_only (pg_configured_period_count env T)" for r a b
    unfolding pg_room_capacity_def pg_blackout_count_def pg_period_overlap_count_def
      pg_configured_period_count_def by (intro reads_onlyI op_invs)+
  obtain room sa where 1: "pg_room_capacity env T (bk_RoomID c) s = (room, sa)" by fastforce
  then have "op_try (pg_room_capacity env T (bk_RoomID c)) s = (Inr room, sa)" by (simp add: op_simps)
  note rest = assms [unfolded detectBookingConflictsTx_def op_bind_eq [where m = "op_try (pg_room_capacity env T (bk_RoomID c))" and s = s, OF this]]
  show thesis
  proof (cases room)
    case (Inl err) with rest show thesis by (simp split: if_splits)
  next
    case (Inr cap)
    with rest obtain n sb p sc q sd rows se where
      "pg_blackout_count env T (bk_StartAt c) sa = (Inr n, sb)"
      "pg_period_overlap_count env T (bk_StartAt c) (bk_EndAt c) sb = (Inr p, sc)"
      "pg_configured_period_count env T sc = (Inr q, sd)"
      "pg_overlapping env T c sd = (Inr rows, se)" "pg_conflict_loop c now exclude rows = []"
      by (auto simp: op_simps pg_dedupeBookingConflicts_def)
    with that [of sd rows se] reads_onlyD [OF reads(1) 1] reads(2-) [THEN reads_onlyD] show thesis by metis
  qed
qed

lemma detect_free:
  assumes "detectBookingConflictsTx env T c now exclude s = (Inr [], s')"
    and room: "uuid_in env (bk_RoomID c) = Some (bk_RoomID c)"
    and instr: "uuid_in env (bk_InstructorID c) = Some (bk_InstructorID c)"
    and t: "uuid_in env T = Some t"
    and x: "x \<in> pg_rows s" "blocking now x" "bk_ID x \<notin> set exclude" "bk_TenantID x = t"
    and over: "bk_StartAt x < pg_ts (bk_EndAt c)" "pg_ts (bk_StartAt c) < bk_EndAt x"
  shows "bk_RoomID x \<noteq> bk_RoomID c \<and> bk_InstructorID x \<noteq> bk_InstructorID c"
  using assms(1)
proof (rule detect_Nil)
  fix s1 s2 rows assume db: "pg_db s1 = pg_db s" and rows: "pg_overlapping env T c s1 = (Inr rows, s2)"
    and loop: "pg_conflict_loop c now exclude rows = []"
  have live: "\<not> (case bk_HoldExpiresAt x of None \<Rightarrow> False | Some h \<Rightarrow> now > h)"
    "bk_Status x \<notin> {BookingStatusCancelled, BookingStatusExpired}"
    using x(2) by (simp_all add: blocking_def split: option.splits)
  have "x \<in> set rows" if "bk_RoomID x = bk_RoomID c \<or> bk_InstructorID x = bk_InstructorID c"
    using rows by (rule overlapping_Inr) (use db room instr t x over live that in \<open>simp add: pg_rows_def\<close>)
  with loop live x(3) show ?thesis unfolding pg_conflict_loop_Nil by blast
qed

subsection \<open>Holding a slot\<close>

lemma pg_put_Inr:
  assumes "pg_put_booking mk env s = (Inr h, s')"
  shows "h = mk (gen_random_uuid env (pg_next s))" "booking_row_ok h"
    "bk_ID h \<notin> set (map bk_ID (db_bookings (pg_db s)))"
    "pg_db s' = (pg_db s)\<lparr>db_bookings := db_bookings (pg_db s) @ [h]\<rparr>"
    "bk_RoomID h \<in> rm_ID ` set (db_rooms (pg_db s))"
  using assms by (auto simp: pg_put_booking_def set_bookings_def Let_def split: if_splits)

lemma pg_insert_Inr:
  assumes "pg_insert_booking env T b hold now s = (Inr h, s')"
  shows "uuid_in env T = Some (bk_TenantID h)" "uuid_in env (bk_RoomID b) = Some (bk_RoomID h)"
    "uuid_in env (bk_InstructorID b) = Some (bk_InstructorID h)" "bk_ID h = gen_random_uuid env (pg_next s)"
    "bk_StartAt h = pg_ts (bk_StartAt b)" "bk_EndAt h = pg_ts (bk_EndAt b)"
    "bk_Status h = BookingStatusHeld" "bk_HoldExpiresAt h = map_option pg_ts hold"
    "bk_RescheduleCount h = 0" "booking_row_ok h" "bk_ID h \<notin> bk_ID ` pg_rows s"
    "pg_db s' = (pg_db s)\<lparr>db_bookings := db_bookings (pg_db s) @ [h]\<rparr>"
proof -
  obtain fs t u r i where uu: "uuid_in env T = Some t" "uuid_in env (bk_RoomID b) = Some r"
      "uuid_in env (bk_InstructorID b) = Some i"
    and put: "pg_put_booking (\<lambda>id. held_row id t u r i b hold now) env (s\<lparr>pg_faults := fs\<rparr>) = (Inr h, s')"
    using assms unfolding pg_insert_booking_def
    by (rule pg_stmt_Inr) (force simp: op_bind_Inr_iff split: if_splits)
  note P = pg_put_Inr [OF put]
  have h: "h = held_row (gen_random_uuid env (pg_next s)) t u r i b hold now" using P(1) by simp
  show "uuid_in env T = Some (bk_TenantID h)" "uuid_in env (bk_RoomID b) = Some (bk_RoomID h)"
    "uuid_in env (bk_InstructorID b) = Some (bk_InstructorID h)" "bk_ID h = gen_random_uuid env (pg_next s)"
    "bk_StartAt h = pg_ts (bk_StartAt b)" "bk_EndAt h = pg_ts (bk_EndAt b)"
    "bk_Status h = BookingStatusHeld" "bk_HoldExpiresAt h = map_option pg_ts hold" "bk_RescheduleCount h = 0"
    by (simp_all add: uu h held_row_def)
  show "booking_row_ok h" "bk_ID h \<notin> bk_ID ` pg_rows s" using P by (simp_all add: pg_rows_def)
  show "pg_db s' = (pg_db s)\<lparr>db_bookings := db_bookings (pg_db s) @ [h]\<rparr>" using P(4) by simp
qed

lemma pg_CreateHold_Inl:
  assumes "pg_CreateHold env b ttl now s = (Inl x, s')" shows "pg_db s' = pg_db s"
  using assms unfolding pg_CreateHold_def
proof (cases rule: op_bindE)
  case (err e)
  then show ?thesis using reads_onlyD [OF resolve_reads] by (auto simp: op_simps)
next
  case (ok T s1)
  then have "resolveTenantUUID (bk_TenantID b) s = (Inr T, s1)" by (simp add: op_simps)
  with pg_tx_atomic [OF ok(2)] show ?thesis by (simp add: resolve_Inr(1))
qed

lemma pg_CreateHold_Inr:
  assumes "pg_CreateHold env b ttl now s = (Inr h, s')"
  obtains T s1 s2 s3 where "tenant_uuid (pg_db s) (bk_TenantID b) = Some T" "pg_db s1 = pg_db s"
    "detectBookingConflictsTx env T b now [] s1 = (Inr [], s2)" "pg_db s2 = pg_db s"
    "pg_insert_booking env T b (if ttl > 0 then Some (now + ttl) else None) now s2 = (Inr h, s3)"
    "pg_db s' = pg_db s3"
proof -
  from assms obtain T s0 where R: "resolveTenantUUID (bk_TenantID b) s = (Inr T, s0)"
    and tx: "pg_tx (Pair []) (op_bind (op_err (Pair []) (detectBookingConflictsTx env T b now []))
       (\<lambda>conflicts. if length conflicts > 0 then op_fail (conflicts, ErrNew ''booking conflict'')
          else op_err (Pair []) (pg_insert_booking env T b (if ttl > 0 then Some (now + ttl) else None) now))) s0
       = (Inr h, s')"
    unfolding pg_CreateHold_def op_bind_Inr_iff op_err_Inr_iff by blast
  note r = resolve_Inr [OF R]
  from tx show thesis
  proof (cases rule: pg_tx_cases)
    case fail then show thesis by simp
  next
    case (ok x s1 s3 fs)
    then obtain s2 where d: "detectBookingConflictsTx env T b now [] s1 = (Inr [], s2)"
      "pg_insert_booking env T b (if ttl > 0 then Some (now + ttl) else None) now s2 = (Inr h, s3)"
      by (auto simp: op_simps split: if_splits)
    have "pg_db s1 = pg_db s" using ok(2) r by simp
    with that [OF r(2) _ d(1) _ d(2) ok(4)] reads_onlyD [OF detect_reads d(1)] show thesis by simp
  qed
qed

lemma pg_hold_law:
  assumes "postgres_types env" and inv: "pg_inv (uuid_in env) s"
    and run: "pg_CreateHold env b ttl now s = (rh, s')"
  shows "pg_inv (uuid_in env) s' \<and> (\<forall>x. rh = Inl x \<longrightarrow> pg_rows s' = pg_rows s) \<and>
     (\<forall>h. rh = Inr h \<longrightarrow> h \<in> pg_rows s' \<and> pg_rows s' \<subseteq> insert h (pg_rows s) \<and>
        bk_Status h = BookingStatusHeld \<and> bk_StartAt h = pg_ts (bk_StartAt b) \<and>
        bk_EndAt h = pg_ts (bk_EndAt b) \<and>
        (bk_RescheduleCount h = 0 \<or> bk_RescheduleCount h = bk_RescheduleCount b))"
proof (cases rh)
  case (Inl x)
  with run have "pg_db s' = pg_db s" by (simp add: pg_CreateHold_Inl)
  with inv Inl show ?thesis by (simp add: pg_inv_def pg_rows_def)
next
  case (Inr h)
  then obtain T s2 s3 hold where db2: "pg_db s2 = pg_db s" and db3: "pg_db s' = pg_db s3"
    and ins: "pg_insert_booking env T b hold now s2 = (Inr h, s3)"
    using run pg_CreateHold_Inr by metis
  note I = pg_insert_Inr [OF ins]
  have "booking_canonical (uuid_in env) h"
    using I assms(1) by (auto simp: booking_canonical_def postgres_types_def)
  with inv I(11,12) db2 db3 have "pg_inv (uuid_in env) s'"
    by (simp add: pg_inv_def db_inv_def pg_rows_def)
  moreover have "pg_rows s' = insert h (pg_rows s)" using I(12) db2 db3 by (simp add: pg_rows_def)
  ultimately show ?thesis using I Inr by simp
qed

lemma pg_hold_keeps:
  assumes "pg_CreateHold env b ttl now s = (Inr h, s')" shows "pg_rows s \<subseteq> pg_rows s'"
  using assms
  by (rule pg_CreateHold_Inr) (auto simp: pg_rows_def dest: pg_insert_Inr(12))

lemma pg_hold_free:
  assumes "pg_proper env b" and run: "pg_CreateHold env b ttl now s = (Inr h, s')"
    and x: "x \<in> pg_rows s" "blocking now x"
  shows "\<not> clash h x"
  using run
proof (rule pg_CreateHold_Inr)
  fix T s1 s2 s3 assume db: "pg_db s1 = pg_db s" and d: "detectBookingConflictsTx env T b now [] s1 = (Inr [], s2)"
    and ins: "pg_insert_booking env T b (if ttl > 0 then Some (now + ttl) else None) now s2 = (Inr h, s3)"
  note I = pg_insert_Inr [OF ins]
  have p: "uuid_in env (bk_RoomID b) = Some (bk_RoomID b)" "uuid_in env (bk_InstructorID b) = Some (bk_InstructorID b)"
    using assms(1) by (simp_all add: pg_proper_def)
  have h: "bk_RoomID h = bk_RoomID b" "bk_InstructorID h = bk_InstructorID b" using I(2,3) p by simp_all
  have "x \<in> pg_rows s1" using x(1) db by (simp add: pg_rows_def)
  from detect_free [OF d p I(1) this x(2)] show ?thesis
    by (auto simp: clash_def h I(5,6))
qed

subsection \<open>Moving a booking\<close>

lemma pg_Reschedule_Inl:
  assumes "pg_Reschedule env t i ns ne now s = (Inl e, s')" shows "pg_db s' = pg_db s"
  using assms unfolding pg_Reschedule_def
proof (cases rule: op_bindE)
  case (err e')
  then show ?thesis using reads_onlyD [OF resolve_reads] by simp
next
  case (ok T s1)
  with pg_tx_atomic [OF ok(2)] show ?thesis by (simp add: resolve_Inr(1))
qed

definition pg_move_row :: "go_time \<Rightarrow> go_time \<Rightarrow> go_time \<Rightarrow> Booking \<Rightarrow> Booking" where
  "pg_move_row ns ne now b = b\<lparr>bk_StartAt := pg_ts ns, bk_EndAt := pg_ts ne,
     bk_RescheduleCount := bk_RescheduleCount b + 1, bk_UpdatedAt := pg_ts now,
     bk_Version := bk_Version b + 1\<rparr>"

lemma pg_move_row_ok: "row_map_ok (pg_move_row ns ne now)"
  by (simp add: row_map_ok_def pg_move_row_def)

lemma pg_move_row_eq:
  "booking_row_ok (pg_move_row ns ne now b) \<Longrightarrow>
   pg_move_row ns ne now b = moved_row (pg_ts ns) (pg_ts ne) (pg_ts now) b"
  by (simp add: pg_move_row_def moved_row_def booking_row_ok_def int8_i64 int4_i64)

lemma pg_Reschedule_Inr:
  assumes inv: "pg_inv (uuid_in env) s" and "pg_Reschedule env t i ns ne now s = (Inr b', s')"
  obtains T b s1 s2 where "tenant_uuid (pg_db s) t = Some T" "pg_at env (pg_db s) T i = Some b"
    "pg_db s1 = pg_db s"
    "detectBookingConflictsTx env T (b\<lparr>bk_StartAt := ns, bk_EndAt := ne\<rparr>) now [i] s1 = (Inr [], s2)"
    "b' = moved_row (pg_ts ns) (pg_ts ne) (pg_ts now) b" "row_update (pg_rows s) (pg_rows s') b b'"
    "pg_inv (uuid_in env) s'"
proof -
  have w: "(\<lambda>P. pg_update_bookings P (\<lambda>b. b\<lparr>bk_StartAt := pg_ts ns, bk_EndAt := pg_ts ne,
               bk_RescheduleCount := bk_RescheduleCount b + 1, bk_UpdatedAt := pg_ts now,
               bk_Version := bk_Version b + 1\<rparr>)) =
           (\<lambda>P. pg_update_bookings (\<lambda>b. P b \<and> True) (pg_move_row ns ne now))"
    by (simp add: pg_move_row_def [abs_def])
  from assms(2) obtain T s0 where R: "resolveTenantUUID t s = (Inr T, s0)"
    and tx: "pg_tx (\<lambda>e. e) (op_bind (getBookingTx env T i) (\<lambda>current.
       op_bind (detectBookingConflictsTx env T (current\<lparr>bk_StartAt := ns, bk_EndAt := ne\<rparr>) now [i]) (\<lambda>conflicts.
       if length conflicts > 0 then op_fail (ErrNew ''booking conflict'')
       else op_bind (pg_stmt (pg_by_id env T i (\<lambda>P. pg_update_bookings (\<lambda>b. P b \<and> True) (pg_move_row ns ne now)))) (\<lambda>updated.
         case updated of [] \<Rightarrow> op_fail ErrNoRows | b # _ \<Rightarrow> op_return b)))) s0 = (Inr b', s')"
    unfolding pg_Reschedule_def w op_bind_Inr_iff [of "resolveTenantUUID t"] by blast
  note r = resolve_Inr [OF R]
  from tx show thesis
  proof (cases rule: pg_tx_cases)
    case fail then show thesis by simp
  next
    case (ok x s1 s5 fs)
    from ok(1,3) obtain b s2 where g: "getBookingTx env T i s1 = (Inr b, s2)"
      and rest: "op_bind (detectBookingConflictsTx env T (b\<lparr>bk_StartAt := ns, bk_EndAt := ne\<rparr>) now [i]) (\<lambda>conflicts.
       if length conflicts > 0 then op_fail (ErrNew ''booking conflict'')
       else op_bind (pg_stmt (pg_by_id env T i (\<lambda>P. pg_update_bookings (\<lambda>b. P b \<and> True) (pg_move_row ns ne now)))) (\<lambda>updated.
         case updated of [] \<Rightarrow> op_fail ErrNoRows | b # _ \<Rightarrow> op_return b)) s2 = (Inr b', s5)"
      unfolding op_bind_Inr_iff [of "getBookingTx env T i"] by (metis sum.inject(2))
    from rest obtain conflicts s3 where
        d0: "detectBookingConflictsTx env T (b\<lparr>bk_StartAt := ns, bk_EndAt := ne\<rparr>) now [i] s2 = (Inr conflicts, s3)"
      and rest2: "(if length conflicts > 0 then op_fail (ErrNew ''booking conflict'')
       else op_bind (pg_stmt (pg_by_id env T i (\<lambda>P. pg_update_bookings (\<lambda>b. P b \<and> True) (pg_move_row ns ne now)))) (\<lambda>updated.
         case updated of [] \<Rightarrow> op_fail ErrNoRows | b # _ \<Rightarrow> op_return b)) s3 = (Inr b', s5)"
      by (rule op_bindE) simp_all
    from rest2 have c: "conflicts = []" by (simp split: if_splits)
    note d = d0 [unfolded c]
    from rest2 obtain upd s4 where u0: "pg_stmt (pg_by_id env T i (\<lambda>P. pg_update_bookings (\<lambda>b. P b \<and> True)
          (pg_move_row ns ne now))) s3 = (Inr upd, s4)"
      and "(case upd of [] \<Rightarrow> op_fail ErrNoRows | b # _ \<Rightarrow> op_return b) s4 = (Inr b', s5)"
      unfolding c by (auto simp: op_bind_Inr_iff)
    then obtain hits where u: "pg_stmt (pg_by_id env T i (\<lambda>P. pg_update_bookings (\<lambda>b. P b \<and> True)
          (pg_move_row ns ne now))) s3 = (Inr (b' # hits), s5)"
      by (cases upd) auto
    have s1: "pg_db s1 = pg_db s" using ok(2) r by simp
    have s2: "pg_db s2 = pg_db s" using reads_onlyD [OF getBookingTx_reads g] s1 by simp
    have s3: "pg_db s3 = pg_db s" using reads_onlyD [OF detect_reads d] s2 by simp
    have at: "pg_at env (pg_db s) T i = Some b" using getBookingTx_Inr [OF g] s1 by simp
    have inv3: "pg_inv (uuid_in env) s3" using inv s3 by (simp add: pg_inv_def)
    note U = pg_update_by_id [OF inv3 pg_move_row_ok u]
    with at s3 have b': "b' = pg_move_row ns ne now b" "booking_row_ok b'"
      "row_update (pg_rows s3) (pg_rows s5) b b'" by auto
    then have "b' = moved_row (pg_ts ns) (pg_ts ne) (pg_ts now) b" by (simp add: pg_move_row_eq)
    moreover have "pg_rows s3 = pg_rows s" "pg_rows s5 = pg_rows s'" "pg_inv (uuid_in env) s'"
      using s3 ok(4) U by (simp_all add: pg_rows_def pg_inv_def)
    ultimately show thesis using that [OF r(2) at s2 d] b'(3) by simp
  qed
qed

lemma pg_reschedule_law:
  assumes inv: "pg_inv (uuid_in env) s" and run: "pg_Reschedule env t i ns ne now s = (r, s')"
  shows "pg_inv (uuid_in env) s' \<and>
     (\<forall>b'. r = Inr b' \<longrightarrow> (\<exists>b. pg_find env s t i = Some b \<and>
        b' = moved_row (pg_ts ns) (pg_ts ne) (pg_ts now) b \<and> row_update (pg_rows s) (pg_rows s') b b')) \<and>
     (\<forall>e. r = Inl e \<longrightarrow> pg_rows s' = pg_rows s)"
proof (cases r)
  case (Inl e)
  with run have "pg_db s' = pg_db s" by (simp add: pg_Reschedule_Inl)
  with inv Inl show ?thesis by (simp add: pg_inv_def pg_rows_def)
next
  case (Inr b')
  obtain T b where "tenant_uuid (pg_db s) t = Some T" "pg_at env (pg_db s) T i = Some b"
    "b' = moved_row (pg_ts ns) (pg_ts ne) (pg_ts now) b" "row_update (pg_rows s) (pg_rows s') b b'"
    "pg_inv (uuid_in env) s'"
    using pg_Reschedule_Inr [OF inv run [unfolded Inr]] by metis
  with Inr show ?thesis by (simp add: pg_find_def)
qed

lemma pg_reschedule_free:
  assumes inv: "pg_inv (uuid_in env) s" and f: "pg_find env s t i = Some b"
    and run: "pg_Reschedule env t i ns ne now s = (Inr b', s')"
    and x: "x \<in> pg_rows s - {b}" "blocking now x"
  shows "\<not> clash b' x"
  using inv run
proof (rule pg_Reschedule_Inr)
  fix T b0 s1 s2 assume T: "tenant_uuid (pg_db s) t = Some T" and at: "pg_at env (pg_db s) T i = Some b0"
    and db: "pg_db s1 = pg_db s"
    and d: "detectBookingConflictsTx env T (b0\<lparr>bk_StartAt := ns, bk_EndAt := ne\<rparr>) now [i] s1 = (Inr [], s2)"
    and b': "b' = moved_row (pg_ts ns) (pg_ts ne) (pg_ts now) b0"
  have b0: "b0 = b" using f T at by (simp add: pg_find_def)
  have mem: "b \<in> pg_rows s" using f by (rule pg_find_mem)
  have can: "booking_canonical (uuid_in env) y" if "y \<in> pg_rows s" for y
    using inv that by (simp add: pg_inv_def db_inv_def pg_rows_def)
  have dist: "distinct (map bk_ID (db_bookings (pg_db s)))" using inv by (simp add: pg_inv_def db_inv_def)
  have "bk_ID x \<noteq> bk_ID b"
    using x(1) mem dist by (auto simp: pg_rows_def distinct_map dest: inj_onD)
  then have "bk_ID x \<noteq> i"
    using can [of x] x(1) pg_find_id [OF f] by (auto simp: booking_canonical_def)
  moreover have "uuid_in env T = Some (bk_TenantID b)"
    using at unfolding b0 by (auto simp: pg_at_def find_Some_iff split: option.splits)
  moreover have "x \<in> pg_rows s1" using x(1) db by (simp add: pg_rows_def)
  ultimately show ?thesis
    using detect_free [OF d, of "bk_TenantID b" x] can [OF mem] x(2)
    by (auto simp: clash_def b' b0 moved_row_def booking_canonical_def)
qed

subsection \<open>The store meets its contract\<close>

lemma pg_store_sel [simp]:
  "st_GetBooking (pg_BookingStore env) = pg_GetBooking env" "st_CreateHold (pg_BookingStore env) = pg_CreateHold env"
  "st_Confirm (pg_BookingStore env) = pg_Confirm env" "st_Cancel (pg_BookingStore env) = pg_Cancel env"
  "st_CheckIn (pg_BookingStore env) = pg_CheckIn env" "st_Reschedule (pg_BookingStore env) = pg_Reschedule env"
  "st_ReleaseExpiredHolds (pg_BookingStore env) = pg_ReleaseExpiredHolds"
  "st_ListBookings (pg_BookingStore env) = pg_ListBookings env"
  "st_ListRooms (pg_BookingStore env) = pg_ListRooms env"
  "st_ListInstructors (pg_BookingStore env) = pg_ListInstructors env"
  by (simp_all add: pg_BookingStore_def)

lemma list_reads: "reads_only (pg_ListBookings env t)" "reads_only (pg_ListRooms env t)"
  "reads_only (pg_ListInstructors env t)"
  unfolding pg_ListBookings_def pg_ListRooms_def pg_ListInstructors_def
  by (intro reads_onlyI op_invs)+

lemma reads_law:
  "reads_only m \<Longrightarrow> pg_inv u s \<Longrightarrow> m s = (r, s') \<Longrightarrow>
   pg_inv u s' \<and> pg_rows s' = pg_rows s \<and> pg_find env s' = pg_find env s"
  using reads_onlyD [of m s r s'] by (metis pg_congs)

lemma confirm_blocking:
  assumes "pg_inv (uuid_in env) s" and f: "pg_find env s t i = Some b"
    and "pg_Confirm env t i now s = (Inr (), s')"
  shows "bk_Status b = BookingStatusHeld \<and> blocking now b"
proof -
  have "pg_still_held now b" using pg_confirm_law [OF assms(1,3)] f by auto
  moreover have "booking_canonical (uuid_in env) b"
    using pg_find_mem [OF f] assms(1) by (simp add: pg_inv_def db_inv_def pg_rows_def)
  ultimately show ?thesis using pg_still_held_blocking by (auto simp: pg_still_held_def)
qed

lemma pg_exclusive_booking_store:
  assumes "postgres_types env"
  shows "exclusive_booking_store (pg_BookingStore env) (pg_inv (uuid_in env)) pg_rows (pg_find env) pg_ts
           (pg_proper env)"
  apply unfold_locales
  unfolding pg_store_sel
  subgoal by (rule pg_find_mem)
  subgoal using reads_law [OF GetBooking_reads] GetBooking_Inr by metis
  subgoal by (rule pg_hold_law [OF assms])
  subgoal by (drule (1) pg_confirm_law) blast
  subgoal by (rule pg_cancel_law)
  subgoal by (rule pg_check_in_law)
  subgoal by (rule pg_reschedule_law)
  subgoal by (rule pg_release_law)
  subgoal using reads_law [OF list_reads(1)] by metis
  subgoal using reads_law [OF list_reads(2)] by metis
  subgoal using reads_law [OF list_reads(3)] by metis
  subgoal by (rule pg_hold_keeps)
  subgoal by (rule pg_hold_free)
  subgoal by (rule pg_reschedule_free)
  subgoal by (rule confirm_blocking)
  subgoal by (drule (1) pg_confirm_law) auto
  done

sublocale postgres_types \<subseteq> pg: exclusive_booking_store "pg_BookingStore env"
  "pg_inv (uuid_in env)" pg_rows "pg_find env" pg_ts "pg_proper env"
  by (rule pg_exclusive_booking_store) (rule postgres_types_axioms)

end
