(* ===== verification/Demo_Database.thy ===== *)
theory Demo_Database
  imports Booking_Postgres_Laws
begin

text \<open>
  A small database and a concrete environment for it: one tenant, one user, one room. The
  environment satisfies what the store relies on, so the hypotheses of the guarantees can be met.
\<close>

definition demo_prefix :: string where
  "demo_prefix = ''00000000-0000-4000-8000-00000000000''"

definition demo_id :: "char \<Rightarrow> string" where
  "demo_id c = demo_prefix @ [c]"

text \<open>Uuids in the usual form, letters in either case.\<close>

definition demo_lower :: "char \<Rightarrow> char" where
  "demo_lower c = (case map_of (zip ''ABCDEF'' ''abcdef'') c of None \<Rightarrow> c | Some d \<Rightarrow> d)"

definition demo_uuid_in :: "string \<Rightarrow> string option" where
  "demo_uuid_in s = (let u = map demo_lower s in if uuid_text u then Some u else None)"

definition demo_env :: pg_env where
  "demo_env = \<lparr>uuid_in = demo_uuid_in,
     gen_random_uuid = (\<lambda>n. demo_id (if n = 0 then CHR ''1'' else CHR ''2'')), sql_now = 0,
     date_of = (\<lambda>t. t div (24 * time_Hour)), dow_of = (\<lambda>t. (t div (24 * time_Hour) + 4) mod 7),
     hms_of = (\<lambda>t. t div time_Second mod 86400 * 1000000), collation = (\<lambda>s. s),
     time_in = (\<lambda>s. None), search_rank = (\<lambda>q t. if q = t then Some 1 else None)\<rparr>"

definition demo_db :: pg_tables where
  "demo_db = pg_tables_new\<lparr>
     db_tenants := [\<lparr>tn_ID = demo_id CHR ''a'', tn_Name = ''Academy'', tn_Slug = ''academy'',
                    tn_CreatedAt = 0, tn_UpdatedAt = 0\<rparr>],
     db_users := [\<lparr>us_ID = demo_id CHR ''b'', us_TenantID = demo_id CHR ''a'', us_Email = ''ada@academy'',
                  us_DisplayName = ''Ada'', us_Role = '''', us_PasswordHash = '''', us_FailedAttempts = 0,
                  us_LockedUntil = None, us_PIIEncrypted = None, us_PasswordChangedAt = 0,
                  us_CreatedAt = 0, us_UpdatedAt = 0\<rparr>],
     db_rooms := [\<lparr>rm_ID = demo_id CHR ''c'', rm_TenantID = demo_id CHR ''a'', rm_Name = ''Lab'',
                  rm_Capacity = 10, rm_CreatedAt = 0, rm_UpdatedAt = 0\<rparr>],
     db_milestones := [demo_id CHR ''d'']\<rparr>"

definition demo_state :: pg_state where
  "demo_state = \<lparr>pg_db = demo_db, pg_faults = [], pg_next = 0\<rparr>"

definition demo_hold :: "string \<Rightarrow> string \<Rightarrow> Booking" where
  "demo_hold room instructor = Booking_zero\<lparr>bk_TenantID := ''academy'', bk_RoomID := room,
     bk_InstructorID := instructor, bk_Title := ''Course'', bk_StartAt := 48 * time_Hour,
     bk_EndAt := 49 * time_Hour, bk_Attendees := 5\<rparr>"

lemma demo_lower_hex [simp]: "c \<in> set hex_digits \<or> c = CHR ''-'' \<Longrightarrow> demo_lower c = c"
  unfolding hex_digits_def by (auto simp: demo_lower_def)

lemma demo_lower_idem [simp]: "demo_lower (demo_lower c) = demo_lower c"
  by (auto simp: demo_lower_def split: option.splits)

lemma demo_lower_text: "uuid_text u \<Longrightarrow> map demo_lower u = u"
proof -
  assume "uuid_text u"
  then have "c \<in> set hex_digits \<or> c = CHR ''-''" if "c \<in> set u" for c
    using that by (auto simp: uuid_text_def list_all2_conv_all_nth in_set_conv_nth split: if_splits)
  then show ?thesis by (simp add: map_idI)
qed

lemma demo_text [simp]: "c \<in> set hex_digits \<Longrightarrow> uuid_text (demo_id c)"
  by (simp add: uuid_text_def uuid_dashes_def demo_id_def demo_prefix_def hex_digits_def numeral_eq_Suc)

interpretation demo: postgres_types demo_env
proof unfold_locales
  fix u assume "uuid_text u"
  then show "uuid_in demo_env u = Some u" by (simp add: demo_env_def demo_uuid_in_def demo_lower_text)
next
  fix x u assume "uuid_in demo_env x = Some u"
  then have "uuid_text u" "u = map demo_lower x" by (simp_all add: demo_env_def demo_uuid_in_def Let_def split: if_splits)
  then show "uuid_in demo_env u = Some u" by (simp add: demo_env_def demo_uuid_in_def comp_def)
next
  fix n show "uuid_in demo_env (gen_random_uuid demo_env n) = Some (gen_random_uuid demo_env n)"
  proof -
    have "\<exists>c\<in>set hex_digits. gen_random_uuid demo_env n = demo_id c" by (simp add: demo_env_def hex_digits_def)
    then show ?thesis by (auto simp: demo_env_def demo_uuid_in_def demo_lower_text)
  qed
qed

lemma demo_ids [simp]: "c \<in> set ''0123456789abcdef'' \<Longrightarrow> uuid_in demo_env (demo_id c) = Some (demo_id c)"
  by (rule demo.uuid_reads) (simp add: hex_digits_def del: set_simps)

lemma demo_inv: "pg_inv (uuid_in demo_env) demo_state" "pg_rows demo_state = {}"
  by (simp_all add: pg_inv_def db_inv_def demo_state_def demo_db_def pg_tables_new_def pg_rows_def)

text \<open>The database after one hold whose deadline is the end of the first minute.\<close>

definition demo_held :: Booking where
  "demo_held = held_row (demo_id CHR ''1'') (demo_id CHR ''a'') [] (demo_id CHR ''c'') (demo_id CHR ''b'')
     (demo_hold (demo_id CHR ''c'') (demo_id CHR ''b'')) (Some time_Minute) 0"

definition demo_held_state :: pg_state where
  "demo_held_state = demo_state\<lparr>pg_db := demo_db\<lparr>db_bookings := [demo_held]\<rparr>, pg_next := 1\<rparr>"

lemma demo_held_inv: "pg_inv (uuid_in demo_env) demo_held_state"
  by (simp add: pg_inv_def db_inv_def demo_held_state_def demo_held_def booking_canonical_def held_row_def
      booking_row_ok_def demo_hold_def Booking_zero_def int4_def int8_def pg_ts_def)

end
