(* ===== verification/Booking_Safety.thy ===== *)
theory Booking_Safety
  imports Demo_Database
begin

text \<open>
  What the booking service guarantees on the PostgreSQL store, over every sequence of calls
  and every script of database failures: no double booking, at most two moves per booking, and
  a life cycle in which nothing is lost and nothing is revived.
\<close>

subsection \<open>Runs\<close>

text \<open>A call happens in an environment of its own: \<^verbatim>\<open>now()\<close>, time zones and identifiers may differ.\<close>

type_synonym pg_event = "pg_env \<times> go_time \<times> booking_call"

fun pg_run :: "pg_event list \<Rightarrow> pg_state \<Rightarrow> pg_state" where
  "pg_run [] s = s"
| "pg_run ((env, now, c) # es) s =
     pg_run es (booking_step (NewBookingService (pg_BookingStore env)) now c s)"

text \<open>
  The clock does not run backwards, all environments read uuids in the same way, and a request
  names room and instructor by their canonical identifiers.
\<close>

fun schedule_ok :: "(string \<Rightarrow> string option) \<Rightarrow> go_time \<Rightarrow> pg_event list \<Rightarrow> bool" where
  "schedule_ok u start [] \<longleftrightarrow> True"
| "schedule_ok u start ((env, now, c) # es) \<longleftrightarrow> start \<le> now \<and> postgres_types env \<and> uuid_in env = u \<and>
     (case c of CallHold b \<Rightarrow> pg_proper env b | _ \<Rightarrow> True) \<and> schedule_ok u now es"

fun end_time :: "go_time \<Rightarrow> pg_event list \<Rightarrow> go_time" where
  "end_time start [] = start"
| "end_time start ((env, now, c) # es) = end_time now es"

subsection \<open>Steps of a run\<close>

lemma service_store [simp]: "svc_Store (NewBookingService st) = st" "svc_HoldTTL (NewBookingService st) = 5 * time_Minute"
  by (simp_all add: NewBookingService_def)

lemma pg_step_inv:
  "postgres_types env \<Longrightarrow> pg_inv (uuid_in env) s \<Longrightarrow>
   pg_inv (uuid_in env) (booking_step (NewBookingService (pg_BookingStore env)) now c s)"
  by (rule booking_store.step_inv [OF exclusive_booking_store.axioms(1) [OF pg_exclusive_booking_store]]) simp_all

lemma pg_step_free:
  "postgres_types env \<Longrightarrow> pg_inv (uuid_in env) s \<Longrightarrow> no_double_booking now (pg_rows s) \<Longrightarrow>
   (case c of CallHold b \<Rightarrow> pg_proper env b | _ \<Rightarrow> True) \<Longrightarrow>
   no_double_booking now (pg_rows (booking_step (NewBookingService (pg_BookingStore env)) now c s))"
  by (rule exclusive_booking_store.step_no_double_booking [OF pg_exclusive_booking_store]) simp_all

lemma pg_hold_count: "pg_CreateHold env b ttl now s = (Inr h, s') \<Longrightarrow> bk_RescheduleCount h = 0"
  by (erule pg_CreateHold_Inr) (erule pg_insert_Inr(9))

lemma pg_step_capped:
  "postgres_types env \<Longrightarrow> pg_inv (uuid_in env) s \<Longrightarrow> reschedules_capped (pg_rows s) \<Longrightarrow>
   reschedules_capped (pg_rows (booking_step (NewBookingService (pg_BookingStore env)) now c s))"
  by (rule booking_store.step_capped [OF exclusive_booking_store.axioms(1) [OF pg_exclusive_booking_store]])
     (simp_all, erule pg_hold_count)

lemma pg_step_status:
  "postgres_types env \<Longrightarrow> pg_inv (uuid_in env) s \<Longrightarrow> b \<in> pg_rows s \<Longrightarrow>
   \<exists>b'\<in>pg_rows (booking_step (NewBookingService (pg_BookingStore env)) now c s).
     bk_ID b' = bk_ID b \<and> bk_TenantID b' = bk_TenantID b \<and> status_step (bk_Status b) (bk_Status b')"
  by (rule exclusive_booking_store.step_status [OF pg_exclusive_booking_store]) simp_all

subsection \<open>Guarantees\<close>

text \<open>
  Property C1: no double booking. Whatever sequence of holds, confirmations, cancellations,
  check-ins, moves and releases the service performs on the PostgreSQL store, at times that
  do not decrease and with any of the statements failing, two bookings of a tenant that still
  block never overlap in the same room or with the same instructor.
\<close>

theorem pg_never_double_booked:
  assumes "pg_inv u s" and "no_double_booking start (pg_rows s)" and "schedule_ok u start es"
  shows "pg_inv u (pg_run es s) \<and> no_double_booking (end_time start es) (pg_rows (pg_run es s))"
  using assms
proof (induction es arbitrary: start s)
  case (Cons e es)
  obtain env now c where e: "e = (env, now, c)" by (cases e) auto
  let ?s = "booking_step (NewBookingService (pg_BookingStore env)) now c s"
  from Cons.prems e have *: "start \<le> now" "postgres_types env" "uuid_in env = u"
    "case c of CallHold b \<Rightarrow> pg_proper env b | _ \<Rightarrow> True" "schedule_ok u now es" by simp_all
  have "pg_inv u ?s" using pg_step_inv [OF *(2)] Cons.prems(1) *(3) by simp
  moreover have "no_double_booking now (pg_rows ?s)"
    using pg_step_free [OF *(2) _ no_double_booking_later [OF Cons.prems(2) *(1)] *(4)] Cons.prems(1) *(3) by simp
  ultimately show ?case using Cons.IH [of ?s now] *(5) e by simp
qed simp

theorem pg_never_double_booked_witness:
  "no_double_booking 9 (pg_rows (pg_run
     [(demo_env, 5, CallHold (demo_hold (demo_id CHR ''c'') (demo_id CHR ''b''))),
      (demo_env, 7, CallHold (demo_hold (demo_id CHR ''c'') (demo_id CHR ''b''))),
      (demo_env, 9, CallConfirm ''academy'' (demo_id CHR ''1''))] demo_state))"
proof -
  have "pg_proper demo_env (demo_hold (demo_id CHR ''c'') (demo_id CHR ''b''))"
    by (simp add: pg_proper_def demo_hold_def demo_ids)
  moreover have "no_double_booking 0 (pg_rows demo_state)" by (simp add: demo_inv no_double_booking_def)
  ultimately show ?thesis
    using pg_never_double_booked [OF demo_inv(1), of 0
        "[(demo_env, 5, CallHold (demo_hold (demo_id CHR ''c'') (demo_id CHR ''b''))),
          (demo_env, 7, CallHold (demo_hold (demo_id CHR ''c'') (demo_id CHR ''b''))),
          (demo_env, 9, CallConfirm ''academy'' (demo_id CHR ''1''))]"] demo.postgres_types_axioms by simp
qed

text \<open>
  Property C6: no booking moves more than twice. Along every run of the service on the
  PostgreSQL store the reschedule counters stay between 0 and 2.
\<close>

theorem pg_reschedules_capped:
  assumes "pg_inv u s" and "reschedules_capped (pg_rows s)" and "schedule_ok u start es"
  shows "reschedules_capped (pg_rows (pg_run es s))"
  using assms
proof (induction es arbitrary: start s)
  case (Cons e es)
  obtain env now c where e: "e = (env, now, c)" by (cases e) auto
  let ?s = "booking_step (NewBookingService (pg_BookingStore env)) now c s"
  from Cons.prems e have *: "postgres_types env" "uuid_in env = u" "schedule_ok u now es" by simp_all
  have "pg_inv u ?s" using pg_step_inv [OF *(1)] Cons.prems(1) *(2) by simp
  moreover have "reschedules_capped (pg_rows ?s)"
    using pg_step_capped [OF *(1)] Cons.prems(1,2) *(2) by simp
  ultimately show ?case using Cons.IH [of ?s now] *(3) e by simp
qed simp

theorem pg_reschedules_capped_witness:
  "reschedules_capped (pg_rows (pg_run
     [(demo_env, 5, CallHold (demo_hold (demo_id CHR ''c'') (demo_id CHR ''b''))),
      (demo_env, 7, CallReschedule ''academy'' (demo_id CHR ''1'') (50 * time_Hour) (51 * time_Hour))] demo_state))"
proof -
  have "pg_proper demo_env (demo_hold (demo_id CHR ''c'') (demo_id CHR ''b''))"
    by (simp add: pg_proper_def demo_hold_def demo_ids)
  moreover have "reschedules_capped (pg_rows demo_state)" by (simp add: demo_inv reschedules_capped_def)
  ultimately show ?thesis
    using pg_reschedules_capped [OF demo_inv(1), of 0
        "[(demo_env, 5, CallHold (demo_hold (demo_id CHR ''c'') (demo_id CHR ''b''))),
          (demo_env, 7, CallReschedule ''academy'' (demo_id CHR ''1'') (50 * time_Hour) (51 * time_Hour))]"]
      demo.postgres_types_axioms by simp
qed

text \<open>
  Property C5: the life cycle of a booking. Along every run of the service on the PostgreSQL
  store a booking stays in the table under its identifier and tenant, and its status only moves
  from held to confirmed or expired, from confirmed to checked in, and from anywhere to
  cancelled. In particular a cancelled booking stays cancelled.
\<close>

theorem pg_lifecycle:
  assumes "pg_inv u s" and "schedule_ok u start es" and "b \<in> pg_rows s"
  shows "\<exists>b'\<in>pg_rows (pg_run es s). bk_ID b' = bk_ID b \<and> bk_TenantID b' = bk_TenantID b \<and>
           status_step\<^sup>*\<^sup>* (bk_Status b) (bk_Status b') \<and>
           (bk_Status b = BookingStatusCancelled \<longrightarrow> bk_Status b' = BookingStatusCancelled)"
proof -
  have "\<exists>b'\<in>pg_rows (pg_run es s). bk_ID b' = bk_ID b \<and> bk_TenantID b' = bk_TenantID b \<and>
           status_step\<^sup>*\<^sup>* (bk_Status b) (bk_Status b')"
    using assms
  proof (induction es arbitrary: start s b)
    case (Cons e es)
    obtain env now c where e: "e = (env, now, c)" by (cases e) auto
    let ?s = "booking_step (NewBookingService (pg_BookingStore env)) now c s"
    from Cons.prems e have *: "postgres_types env" "uuid_in env = u" "schedule_ok u now es" by simp_all
    have inv: "pg_inv u ?s" using pg_step_inv [OF *(1)] Cons.prems(1) *(2) by simp
    obtain b1 where b1: "b1 \<in> pg_rows ?s" "bk_ID b1 = bk_ID b" "bk_TenantID b1 = bk_TenantID b"
      "status_step (bk_Status b) (bk_Status b1)"
      using pg_step_status [OF *(1)] Cons.prems(1,3) *(2) by metis
    from Cons.IH [OF inv *(3) b1(1)] b1(2-) e show ?case
      by (metis converse_rtranclp_into_rtranclp pg_run.simps(2))
  qed auto
  moreover have "y = BookingStatusCancelled" if "status_step\<^sup>*\<^sup>* x y" "x = BookingStatusCancelled" for x y
    using that by (induction rule: rtranclp_induct) (auto simp: status_step.simps)
  ultimately show ?thesis by blast
qed

theorem pg_lifecycle_witness:
  "\<exists>b'\<in>pg_rows (pg_run [(demo_env, 7, CallConfirm ''academy'' (demo_id CHR ''1''))]
      (pg_run [(demo_env, 5, CallHold (demo_hold (demo_id CHR ''c'') (demo_id CHR ''b'')))] demo_state)).
     bk_ID b' = demo_id CHR ''1'' \<and> status_step\<^sup>*\<^sup>* BookingStatusHeld (bk_Status b')"
proof -
  let ?h = "held_row (demo_id CHR ''1'') (demo_id CHR ''a'') [] (demo_id CHR ''c'') (demo_id CHR ''b'')
     (demo_hold (demo_id CHR ''c'') (demo_id CHR ''b'')) (Some (5 * time_Minute + 5)) 5"
  let ?s = "pg_run [(demo_env, 5, CallHold (demo_hold (demo_id CHR ''c'') (demo_id CHR ''b'')))] demo_state"
  have "?h \<in> pg_rows ?s" by code_simp
  moreover have "pg_inv (uuid_in demo_env) ?s"
    using pg_step_inv [OF demo.postgres_types_axioms demo_inv(1)] by simp
  ultimately show ?thesis
    using pg_lifecycle [of "uuid_in demo_env" ?s 0 "[(demo_env, 7, CallConfirm ''academy'' (demo_id CHR ''1''))]" ?h]
      demo.postgres_types_axioms by (simp add: held_row_def) blast
qed


subsection \<open>Failures leave no trace\<close>

lemma suggest_reads: "reads_only (SuggestAlternatives (NewBookingService (pg_BookingStore env)) b now)"
  unfolding SuggestAlternatives_def service_store pg_store_sel pg_ListBookings_def pg_ListRooms_def
    pg_ListInstructors_def
  by (intro reads_onlyI op_invs)

lemma pg_Hold_Inl:
  assumes "BookingService_Hold (NewBookingService (pg_BookingStore env)) b now s = (Inl x, s')"
  shows "pg_db s' = pg_db s"
proof -
  obtain r s1 where c: "pg_CreateHold env b (5 * time_Minute) now s = (r, s1)" by fastforce
  show ?thesis
  proof (cases r)
    case (Inr h) with c assms show ?thesis by (simp add: BookingService_Hold_def)
  next
    case (Inl y)
    obtain conflicts err where y: "y = (conflicts, err)" by (cases y)
    have s1: "pg_db s1 = pg_db s" using c Inl by (simp add: pg_CreateHold_Inl)
    obtain ra s2 where a: "SuggestAlternatives (NewBookingService (pg_BookingStore env)) b now s1 = (ra, s2)"
      by fastforce
    have "s' = s1 \<or> s' = s2"
      using assms c Inl y a unfolding BookingService_Hold_def by (cases ra) (simp_all split: if_splits)
    with s1 reads_onlyD [OF suggest_reads a] show ?thesis by auto
  qed
qed

lemma pg_Reschedule_service_Inl:
  assumes "BookingService_Reschedule (NewBookingService (pg_BookingStore env)) t i ns ne now s = (Inl e, s')"
  shows "pg_db s' = pg_db s"
  using assms unfolding BookingService_Reschedule_def service_store pg_store_sel
proof (cases rule: op_bindE)
  case (err e')
  then show ?thesis using reads_onlyD [OF GetBooking_reads] by simp
next
  case (ok b s1)
  have "pg_db s1 = pg_db s" using reads_onlyD [OF GetBooking_reads ok(1)] by simp
  moreover have "pg_db s' = pg_db s1" using ok(2) pg_Reschedule_Inl by (auto split: if_splits)
  ultimately show ?thesis by simp
qed

text \<open>
  Property C4: a refused or failed hold or move leaves the database untouched. This holds for a
  refusal because of a conflict, for every error value, and for a failure of any statement of the
  transaction, \<^verbatim>\<open>COMMIT\<close> included: the failure script of the state is arbitrary.
\<close>

theorem pg_failed_placement_atomic:
  "(\<forall>x s'. BookingService_Hold (NewBookingService (pg_BookingStore env)) b now s = (Inl x, s') \<longrightarrow>
      pg_db s' = pg_db s) \<and>
   (\<forall>e s'. BookingService_Reschedule (NewBookingService (pg_BookingStore env)) t i ns ne now s = (Inl e, s') \<longrightarrow>
      pg_db s' = pg_db s)"
  using pg_Hold_Inl pg_Reschedule_service_Inl by blast

text \<open>Here the insertion has been executed and the commit fails.\<close>

theorem pg_failed_placement_atomic_witness:
  "pg_db (snd (BookingService_Hold (NewBookingService (pg_BookingStore demo_env))
      (demo_hold (demo_id CHR ''c'') (demo_id CHR ''b'')) 5
      (demo_state\<lparr>pg_faults := replicate 8 None @ [Some (ErrSQL ''08006'')]\<rparr>))) = demo_db"
proof -
  let ?s = "demo_state\<lparr>pg_faults := replicate 8 None @ [Some (ErrSQL ''08006'')]\<rparr>"
  let ?r = "BookingService_Hold (NewBookingService (pg_BookingStore demo_env))
      (demo_hold (demo_id CHR ''c'') (demo_id CHR ''b'')) 5 ?s"
  have "fst ?r = Inl ([], [], ErrSQL ''08006'')" by code_simp
  then have "?r = (Inl ([], [], ErrSQL ''08006''), snd ?r)" by (metis prod.collapse)
  then have "pg_db (snd ?r) = pg_db ?s" using pg_failed_placement_atomic by blast
  then show ?thesis by (simp add: demo_state_def)
qed

subsection \<open>When a hold succeeds\<close>

definition pg_slot_open :: "pg_env \<Rightarrow> pg_tables \<Rightarrow> string \<Rightarrow> Booking \<Rightarrow> go_time \<Rightarrow> bool" where
  "pg_slot_open env db T b now \<longleftrightarrow>
     (case List.find (\<lambda>room. rm_TenantID room = T \<and> rm_ID room = bk_RoomID b) (db_rooms db) of
        None \<Rightarrow> False | Some room \<Rightarrow> rm_Capacity room > 0 \<longrightarrow> bk_Attendees b \<le> rm_Capacity room) \<and>
     \<not> (\<exists>d\<in>set (db_blackout_dates db). bd_TenantID d = T \<and> bd_BlackoutDate d = date_of env (bk_StartAt b)) \<and>
     ((\<exists>p\<in>set (db_class_periods db). cp_TenantID p = T) \<longrightarrow>
      (\<exists>p\<in>set (db_class_periods db). cp_TenantID p = T \<and> cp_Weekday p = dow_of env (bk_StartAt b) \<and>
         cp_StartTime p \<le> hms_of env (bk_StartAt b) \<and> hms_of env (bk_EndAt b) \<le> cp_EndTime p)) \<and>
     \<not> (\<exists>x\<in>set (db_bookings db). blocking now x \<and> bk_TenantID x = T \<and>
          bk_StartAt x < pg_ts (bk_EndAt b) \<and> pg_ts (bk_StartAt b) < bk_EndAt x \<and>
          (bk_RoomID x = bk_RoomID b \<or> bk_InstructorID x = bk_InstructorID b))"

text \<open>A request the table can store: canonical texts, known users, numbers in range, a fresh identifier.\<close>

definition pg_storable :: "pg_env \<Rightarrow> pg_state \<Rightarrow> Booking \<Rightarrow> bool" where
  "pg_storable env s b \<longleftrightarrow> pg_proper env b \<and> int4 (bk_Capacity b) \<and> int4 (bk_Attendees b) \<and>
     (bk_UserID b = [] \<or> uuid_in env (bk_UserID b) = Some (bk_UserID b) \<and>
        bk_UserID b \<in> us_ID ` set (db_users (pg_db s))) \<and>
     bk_InstructorID b \<in> us_ID ` set (db_users (pg_db s)) \<and>
     gen_random_uuid env (pg_next s) \<notin> bk_ID ` pg_rows s"

lemma length_filter_0: "length (filter P xs) = 0 \<longleftrightarrow> \<not> (\<exists>x\<in>set xs. P x)"
  by (auto simp: filter_empty_conv)

lemma length_filter_pos: "0 < length (filter P xs) \<longleftrightarrow> (\<exists>x\<in>set xs. P x)"
  using length_filter_0 [of P xs] by auto

lemma if_single_Nil: "(if P then [x] else []) = [] \<longleftrightarrow> \<not> P"
  by simp

lemma pg_room_capacity_eq:
  assumes "pg_faults s = []" "uuid_in env T = Some T" "pg_proper env b"
  shows "pg_room_capacity env T (bk_RoomID b) s =
     ((case List.find (\<lambda>room. rm_TenantID room = T \<and> rm_ID room = bk_RoomID b) (db_rooms (pg_db s)) of
        None \<Rightarrow> Inl ErrNoRows | Some room \<Rightarrow> Inr (rm_Capacity room)), s)"
  using assms by (simp add: pg_room_capacity_def op_bind_def pg_uuid_def pg_proper_def pg_query_row_eq
      find_filter split: list.split option.split)

lemma pg_counts_eq:
  assumes "pg_faults s = []" "uuid_in env T = Some T" "pg_proper env b"
  shows "pg_blackout_count env T st s = (Inr (length (filter (\<lambda>d. bd_TenantID d = T \<and>
           bd_BlackoutDate d = date_of env st) (db_blackout_dates (pg_db s)))), s)"
    "pg_period_overlap_count env T st en s = (Inr (length (filter (\<lambda>p. cp_TenantID p = T \<and>
         cp_Weekday p = dow_of env st \<and> cp_StartTime p \<le> hms_of env st \<and> cp_EndTime p \<ge> hms_of env en)
         (db_class_periods (pg_db s)))), s)"
    "pg_configured_period_count env T s =
       (Inr (length (filter (\<lambda>p. cp_TenantID p = T) (db_class_periods (pg_db s)))), s)"
    "pg_overlapping env T b s = (Inr (filter (\<lambda>x. bk_TenantID x = T \<and>
         bk_Status x \<notin> {BookingStatusCancelled, BookingStatusExpired} \<and>
         bk_StartAt x < pg_ts (bk_EndAt b) \<and> bk_EndAt x > pg_ts (bk_StartAt b) \<and>
         (bk_RoomID x = bk_RoomID b \<or> bk_InstructorID x = bk_InstructorID b)) (db_bookings (pg_db s))), s)"
  using assms by (simp_all add: pg_blackout_count_def pg_period_overlap_count_def pg_proper_def
      pg_configured_period_count_def pg_overlapping_def op_bind_def pg_uuid_def)

lemma pg_loop_free:
  "pg_conflict_loop b now [] (filter (\<lambda>x. bk_TenantID x = T \<and>
         bk_Status x \<notin> {BookingStatusCancelled, BookingStatusExpired} \<and>
         bk_StartAt x < pg_ts (bk_EndAt b) \<and> bk_EndAt x > pg_ts (bk_StartAt b) \<and>
         (bk_RoomID x = bk_RoomID b \<or> bk_InstructorID x = bk_InstructorID b)) bs) = [] \<longleftrightarrow>
   \<not> (\<exists>x\<in>set bs. blocking now x \<and> bk_TenantID x = T \<and>
          bk_StartAt x < pg_ts (bk_EndAt b) \<and> pg_ts (bk_StartAt b) < bk_EndAt x \<and>
          (bk_RoomID x = bk_RoomID b \<or> bk_InstructorID x = bk_InstructorID b))"
proof -
  have "blocking now x \<longleftrightarrow> bk_Status x \<notin> {BookingStatusCancelled, BookingStatusExpired} \<and>
      \<not> (case bk_HoldExpiresAt x of None \<Rightarrow> False | Some h \<Rightarrow> now > h)" for x
    by (simp add: blocking_def split: option.split) (simp add: not_less)
  then show ?thesis unfolding pg_conflict_loop_Nil by (simp add: Ball_def Bex_def) blast
qed

lemma detect_eq:
  assumes "pg_faults s = []" "uuid_in env T = Some T" "pg_proper env b"
  obtains conflicts where "detectBookingConflictsTx env T b now [] s = (Inr conflicts, s)"
    "conflicts = [] \<longleftrightarrow> pg_slot_open env (pg_db s) T b now"
proof (cases "List.find (\<lambda>room. rm_TenantID room = T \<and> rm_ID room = bk_RoomID b) (db_rooms (pg_db s))")
  case None
  then have "detectBookingConflictsTx env T b now [] s =
      (Inr [\<lparr>cf_Reason = BookingConflictRoom, cf_Detail = ''room does not exist''\<rparr>], s)"
    by (simp add: detectBookingConflictsTx_def op_bind_def op_try_def pg_room_capacity_eq [OF assms])
  with None that show thesis by (simp add: pg_slot_open_def)
next
  case (Some room)
  then have room: "pg_room_capacity env T (bk_RoomID b) s = (Inr (rm_Capacity room), s)"
    by (simp add: pg_room_capacity_eq [OF assms])
  let ?cs = "(if rm_Capacity room > 0 \<and> bk_Attendees b > rm_Capacity room
        then [\<lparr>cf_Reason = BookingConflictCapacity,
               cf_Detail = ''room capacity '' @ itoa (rm_Capacity room) @
                           '' is lower than attendees '' @ itoa (bk_Attendees b)\<rparr>] else []) @
       (if \<exists>d\<in>set (db_blackout_dates (pg_db s)). bd_TenantID d = T \<and> bd_BlackoutDate d = date_of env (bk_StartAt b)
        then [\<lparr>cf_Reason = BookingConflictRoom,
               cf_Detail = ''requested date is blocked by blackout schedule''\<rparr>] else []) @
       (if (\<exists>p\<in>set (db_class_periods (pg_db s)). cp_TenantID p = T) \<and>
           \<not> (\<exists>p\<in>set (db_class_periods (pg_db s)). cp_TenantID p = T \<and> cp_Weekday p = dow_of env (bk_StartAt b) \<and>
               cp_StartTime p \<le> hms_of env (bk_StartAt b) \<and> hms_of env (bk_EndAt b) \<le> cp_EndTime p)
        then [\<lparr>cf_Reason = BookingConflictRoom,
               cf_Detail = ''requested time is outside configured class periods''\<rparr>] else []) @
       pg_conflict_loop b now [] (filter (\<lambda>x. bk_TenantID x = T \<and>
         bk_Status x \<notin> {BookingStatusCancelled, BookingStatusExpired} \<and>
         bk_StartAt x < pg_ts (bk_EndAt b) \<and> bk_EndAt x > pg_ts (bk_StartAt b) \<and>
         (bk_RoomID x = bk_RoomID b \<or> bk_InstructorID x = bk_InstructorID b)) (db_bookings (pg_db s)))"
  have "detectBookingConflictsTx env T b now [] s = (Inr (pg_dedupeBookingConflicts ?cs), s)"
    unfolding detectBookingConflictsTx_def op_bind_def op_try_def room prod.case sum.case pg_counts_eq [OF assms]
      length_filter_pos length_filter_0 op_return_def ..
  moreover have "pg_dedupeBookingConflicts ?cs = [] \<longleftrightarrow> pg_slot_open env (pg_db s) T b now"
    unfolding pg_dedupeBookingConflicts_def dedupe_Nil_iff append_is_Nil_conv pg_loop_free if_single_Nil
      pg_slot_open_def Some option.case not_less [symmetric] by blast
  ultimately show thesis using that by blast
qed

lemma pg_slot_open_room:
  assumes "pg_slot_open env db T b now" shows "bk_RoomID b \<in> rm_ID ` set (db_rooms db)"
proof -
  from assms obtain room where "List.find (\<lambda>room. rm_TenantID room = T \<and> rm_ID room = bk_RoomID b) (db_rooms db) = Some room"
    by (auto simp: pg_slot_open_def split: option.splits)
  then show ?thesis unfolding find_Some_iff by (metis imageI nth_mem)
qed

lemma pg_insert_ok:
  assumes "pg_faults s = []" "uuid_in env T = Some T" "T \<in> tn_ID ` set (db_tenants (pg_db s))"
    and st: "pg_storable env s b" and "bk_RoomID b \<in> rm_ID ` set (db_rooms (pg_db s))"
  shows "\<exists>h s'. pg_insert_booking env T b hold now s = (Inr h, s') \<and> pg_faults s' = []"
proof -
  let ?mk = "\<lambda>id. held_row id T (bk_UserID b) (bk_RoomID b) (bk_InstructorID b) b hold now"
  have "pg_insert_booking env T b hold now s = pg_put_booking ?mk env s"
    using assms(1,2) st
    by (auto simp: pg_insert_booking_def op_bind_def pg_uuid_def pg_storable_def pg_proper_def)
  moreover have "booking_row_ok (?mk i)" for i
    using st by (simp add: booking_row_ok_def held_row_def pg_storable_def int4_def int8_def)
  ultimately show ?thesis
    using assms by (auto simp: pg_put_booking_def Let_def held_row_def set_bookings_def pg_storable_def pg_rows_def)
qed

text \<open>
  Property C3: a hold is accepted exactly when the slot is open. With the database running and
  a request it can store, \<^verbatim>\<open>CreateHold\<close> succeeds if and only if the room exists and is large
  enough, the date is not blacked out, the times lie within a class period (if any is
  configured), and no blocking booking of the tenant overlaps in the room or with the instructor.
\<close>

theorem pg_hold_iff_open:
  assumes "pg_faults s = []" and "tenant_uuid (pg_db s) (bk_TenantID b) = Some T"
    and "uuid_in env T = Some T" and "pg_storable env s b"
  shows "(\<exists>h s'. pg_CreateHold env b ttl now s = (Inr h, s')) \<longleftrightarrow> pg_slot_open env (pg_db s) T b now"
proof -
  have r: "resolveTenantUUID (bk_TenantID b) s = (Inr T, s)"
    using assms(1,2) by (auto simp: resolveTenantUUID_def pg_query_row_eq tenant_uuid_def find_filter split: list.splits)
  have proper: "pg_proper env b" using assms(4) by (simp add: pg_storable_def)
  obtain conflicts where d: "detectBookingConflictsTx env T b now [] s = (Inr conflicts, s)"
    "conflicts = [] \<longleftrightarrow> pg_slot_open env (pg_db s) T b now"
    using detect_eq [OF assms(1,3) proper] by metis
  have T: "T \<in> tn_ID ` set (db_tenants (pg_db s))" using tenant_uuid_mem [OF assms(2)] by blast
  let ?hold = "if ttl > 0 then Some (now + ttl) else None"
  have eq: "pg_CreateHold env b ttl now s =
      pg_tx (Pair []) (op_bind (op_err (Pair []) (detectBookingConflictsTx env T b now [])) (\<lambda>conflicts.
       if length conflicts > 0 then op_fail (conflicts, ErrNew ''booking conflict'')
       else op_err (Pair []) (pg_insert_booking env T b ?hold now))) s"
    unfolding pg_CreateHold_def by (simp add: op_bind_def op_err_def r)
  show ?thesis
  proof (cases "conflicts = []")
    case True
    then obtain h s' where "pg_insert_booking env T b ?hold now s = (Inr h, s')" "pg_faults s' = []"
      using pg_insert_ok [OF assms(1,3) T assms(4)] pg_slot_open_room d(2) by metis
    then show ?thesis unfolding eq using d True assms(1) by (simp add: pg_tx_def op_bind_def op_err_def)
  next
    case False
    then show ?thesis unfolding eq using d assms(1) by (simp add: pg_tx_def op_bind_def op_err_def)
  qed
qed

theorem pg_hold_iff_open_witness:
  "(\<exists>h s'. pg_CreateHold demo_env (demo_hold (demo_id CHR ''c'') (demo_id CHR ''b'')) 300 7 demo_state = (Inr h, s')) \<and>
   pg_slot_open demo_env demo_db (demo_id CHR ''a'') (demo_hold (demo_id CHR ''c'') (demo_id CHR ''b'')) 7"
proof -
  have "pg_storable demo_env demo_state (demo_hold (demo_id CHR ''c'') (demo_id CHR ''b''))"
    by (simp add: pg_storable_def pg_proper_def demo_hold_def int4_def Booking_zero_def demo_state_def demo_db_def pg_tables_new_def
        pg_rows_def)
  moreover have "tenant_uuid (pg_db demo_state) (bk_TenantID (demo_hold (demo_id CHR ''c'') (demo_id CHR ''b''))) =
      Some (demo_id CHR ''a'')" by code_simp
  moreover have "pg_slot_open demo_env (pg_db demo_state) (demo_id CHR ''a'')
      (demo_hold (demo_id CHR ''c'') (demo_id CHR ''b'')) 7" by code_simp
  ultimately show ?thesis
    using pg_hold_iff_open [of demo_state "demo_hold (demo_id CHR ''c'') (demo_id CHR ''b'')" "demo_id CHR ''a''" demo_env 300 7]
    by (simp add: demo_state_def)
qed

end
