(* ===== verification/Go_Time.thy ===== *)
theory Go_Time
  imports Go_Prelude
begin

text \<open>
  The parts of the package \<^verbatim>\<open>time\<close> the backend uses to read and print instants: the
  proleptic Gregorian calendar, \<^verbatim>\<open>time.Parse\<close> for the four layouts of \<^verbatim>\<open>parseFlexTime\<close>, and
  \<^verbatim>\<open>Format(time.RFC3339)\<close> of an instant in UTC. Parsing follows the library: two-digit
  fields, except that an hour may have one digit; a fraction of a second after the seconds
  even if the layout has none, with a comma or a period and at most nine digits used; an
  offset \<^verbatim>\<open>Z\<close> or \<^verbatim>\<open>+hh:mm\<close>; and no text left over.
\<close>

subsection \<open>The calendar\<close>

definition is_leap :: "int \<Rightarrow> bool" where
  "is_leap y \<longleftrightarrow> y mod 4 = 0 \<and> (y mod 100 \<noteq> 0 \<or> y mod 400 = 0)"

definition days_in :: "int \<Rightarrow> int \<Rightarrow> int" where
  "days_in m y = (if m = 2 then (if is_leap y then 29 else 28)
                  else if m \<in> {4, 6, 9, 11} then 30 else 31)"

text \<open>Days since 1 January 1970; a year is counted from March.\<close>

definition days_from_civil :: "int \<Rightarrow> int \<Rightarrow> int \<Rightarrow> int" where
  "days_from_civil y m d =
     (let y' = (if m \<le> 2 then y - 1 else y); era = y' div 400; yoe = y' - era * 400;
          doy = (153 * (m + (if m > 2 then -3 else 9)) + 2) div 5 + d - 1;
          doe = yoe * 365 + yoe div 4 - yoe div 100 + doy
      in era * 146097 + doe - 719468)"

definition civil_from_days :: "int \<Rightarrow> int \<times> int \<times> int" where
  "civil_from_days n =
     (let z = n + 719468; era = z div 146097; doe = z - era * 146097;
          yoe = (doe - doe div 1460 + doe div 36524 - doe div 146096) div 365;
          doy = doe - (365 * yoe + yoe div 4 - yoe div 100);
          mp = (5 * doy + 2) div 153; d = doy - (153 * mp + 2) div 5 + 1;
          m = (if mp < 10 then mp + 3 else mp - 9)
      in (yoe + era * 400 + (if m \<le> 2 then 1 else 0), m, d))"

definition time_Date :: "int \<Rightarrow> int \<Rightarrow> int \<Rightarrow> int \<Rightarrow> int \<Rightarrow> int \<Rightarrow> int \<Rightarrow> go_time" where
  "time_Date y m d hh mm ss ns =
     (days_from_civil y m d * 86400 + hh * 3600 + mm * 60 + ss) * 1000000000 + ns"

subsection \<open>Printing\<close>

definition two_digits :: "int \<Rightarrow> string" where
  "two_digits n = [char_of (48 + nat (n div 10) mod 10), char_of (48 + nat (n mod 10))]"

definition four_digits :: "int \<Rightarrow> string" where
  "four_digits n = two_digits (n div 100) @ two_digits (n mod 100)"

definition format_rfc3339 :: "go_time \<Rightarrow> string" where
  "format_rfc3339 t =
     (let secs = t div 1000000000; days = secs div 86400; sod = secs mod 86400
      in case civil_from_days days of (y, m, d) \<Rightarrow>
        four_digits y @ ''-'' @ two_digits m @ ''-'' @ two_digits d @ ''T'' @
        two_digits (sod div 3600) @ '':'' @ two_digits (sod div 60 mod 60) @ '':'' @
        two_digits (sod mod 60) @ ''Z'')"

subsection \<open>Parsing\<close>

definition digit_val :: "char \<Rightarrow> int option" where
  "digit_val c = (let n = (of_char c :: nat) in if 48 \<le> n \<and> n \<le> 57 then Some (int n - 48) else None)"

text \<open>\<^verbatim>\<open>getnum(s, fixed)\<close>: one or two digits, exactly two when fixed.\<close>

definition getnum :: "bool \<Rightarrow> string \<Rightarrow> (int \<times> string) option" where
  "getnum fixed s = (case s of [] \<Rightarrow> None | a # r \<Rightarrow>
     (case digit_val a of None \<Rightarrow> None | Some x \<Rightarrow>
       (case r of [] \<Rightarrow> if fixed then None else Some (x, r)
        | b # q \<Rightarrow> (case digit_val b of
             None \<Rightarrow> if fixed then None else Some (x, r)
           | Some y \<Rightarrow> Some (x * 10 + y, q)))))"

definition expect :: "char \<Rightarrow> string \<Rightarrow> string option" where
  "expect c s = (case s of [] \<Rightarrow> None | a # r \<Rightarrow> if a = c then Some r else None)"

text \<open>A field within \<open>lo..hi\<close>.\<close>

definition field :: "bool \<Rightarrow> int \<Rightarrow> int \<Rightarrow> string \<Rightarrow> (int \<times> string) option" where
  "field fixed lo hi s = (case getnum fixed s of None \<Rightarrow> None
     | Some (x, r) \<Rightarrow> if lo \<le> x \<and> x \<le> hi then Some (x, r) else None)"

definition year_field :: "string \<Rightarrow> (int \<times> string) option" where
  "year_field s = (case getnum True s of None \<Rightarrow> None | Some (a, r) \<Rightarrow>
     (case getnum True r of None \<Rightarrow> None | Some (b, q) \<Rightarrow> Some (a * 100 + b, q)))"

text \<open>The fraction of a second that may follow the seconds, in nanoseconds.\<close>

definition is_digit :: "char \<Rightarrow> bool" where
  "is_digit c \<longleftrightarrow> digit_val c \<noteq> None"

definition fraction :: "string \<Rightarrow> int \<times> string" where
  "fraction s = (case s of a # b # r \<Rightarrow>
       if (a = CHR ''.'' \<or> a = CHR '','') \<and> is_digit b
       then (let ds = takeWhile is_digit (b # r);
                 n = foldl (\<lambda>acc c. acc * 10 + the (digit_val c)) 0 (take 9 ds)
             in (n * 10 ^ (9 - length (take 9 ds)), dropWhile is_digit (b # r)))
       else (0, s)
     | _ \<Rightarrow> (0, s))"

text \<open>\<^verbatim>\<open>Z07:00\<close>: the offset from UTC in seconds.\<close>

definition offset_field :: "string \<Rightarrow> (int \<times> string) option" where
  "offset_field s = (case s of [] \<Rightarrow> None | c # r \<Rightarrow>
     if c = CHR ''Z'' then Some (0, r)
     else if c = CHR ''+'' \<or> c = CHR ''-'' then
       (case field True 0 24 r of None \<Rightarrow> None | Some (hh, r1) \<Rightarrow>
       (case expect CHR '':'' r1 of None \<Rightarrow> None | Some r2 \<Rightarrow>
       (case field True 0 60 r2 of None \<Rightarrow> None | Some (mm, r3) \<Rightarrow>
          Some ((if c = CHR ''-'' then -1 else 1) * (hh * 3600 + mm * 60), r3))))
     else None)"

definition date_fields :: "string \<Rightarrow> ((int \<times> int \<times> int) \<times> string) option" where
  "date_fields s =
     (case year_field s of None \<Rightarrow> None | Some (y, s1) \<Rightarrow>
     (case expect CHR ''-'' s1 of None \<Rightarrow> None | Some s2 \<Rightarrow>
     (case field True 1 12 s2 of None \<Rightarrow> None | Some (m, s3) \<Rightarrow>
     (case expect CHR ''-'' s3 of None \<Rightarrow> None | Some s4 \<Rightarrow>
     (case getnum True s4 of None \<Rightarrow> None | Some (d, s5) \<Rightarrow>
        if 1 \<le> d \<and> d \<le> days_in m y then Some ((y, m, d), s5) else None)))))"

definition clock_fields :: "string \<Rightarrow> ((int \<times> int) \<times> string) option" where
  "clock_fields s =
     (case expect CHR ''T'' s of None \<Rightarrow> None | Some s1 \<Rightarrow>
     (case field False 0 23 s1 of None \<Rightarrow> None | Some (hh, s2) \<Rightarrow>
     (case expect CHR '':'' s2 of None \<Rightarrow> None | Some s3 \<Rightarrow>
     (case field True 0 59 s3 of None \<Rightarrow> None | Some (mm, s4) \<Rightarrow> Some ((hh, mm), s4)))))"

definition second_fields :: "string \<Rightarrow> ((int \<times> int) \<times> string) option" where
  "second_fields s =
     (case expect CHR '':'' s of None \<Rightarrow> None | Some s1 \<Rightarrow>
     (case field True 0 59 s1 of None \<Rightarrow> None | Some (ss, s2) \<Rightarrow>
        (case fraction s2 of (ns, s3) \<Rightarrow> Some ((ss, ns), s3))))"

datatype layout = RFC3339 | DateTimeLocal | DateTimeSeconds | DateOnly

definition time_Parse :: "layout \<Rightarrow> string \<Rightarrow> go_time option" where
  "time_Parse l s =
     (case date_fields s of None \<Rightarrow> None | Some ((y, m, d), s1) \<Rightarrow>
      if l = DateOnly then (if s1 = [] then Some (time_Date y m d 0 0 0 0) else None)
      else (case clock_fields s1 of None \<Rightarrow> None | Some ((hh, mm), s2) \<Rightarrow>
        if l = DateTimeLocal then (if s2 = [] then Some (time_Date y m d hh mm 0 0) else None)
        else (case second_fields s2 of None \<Rightarrow> None | Some ((ss, ns), s3) \<Rightarrow>
          if l = DateTimeSeconds then (if s3 = [] then Some (time_Date y m d hh mm ss ns) else None)
          else (case offset_field s3 of None \<Rightarrow> None | Some (off, s4) \<Rightarrow>
            if s4 = [] then Some (time_Date y m d hh mm ss ns - off * 1000000000) else None))))"

end
