(* ===== verification/Audit_Trail.thy ===== *)
theory Audit_Trail
  imports Demo_Database Go_Time
begin

text \<open>
  The audit trail: \<^verbatim>\<open>internal/audit\<close>, \<^verbatim>\<open>internal/service/audit.go\<close>,
  \<^verbatim>\<open>internal/repository/postgres/audit_store.go\<close>, and the worker that expires holds
  (\<^verbatim>\<open>internal/service/hold_expiry_worker.go\<close>), which records what it does. A recorder works on
  the store and on its own list of entries, so its state is a pair.
\<close>

type_synonym 's audited = "'s \<times> AuditEntry list"

type_synonym 's AuditStore = "AuditEntry \<Rightarrow> (unit, 's) op"

text \<open>\<^verbatim>\<open>context.Context\<close> carries the metadata; \<^verbatim>\<open>FromContext\<close> gives the zero value when it is missing.\<close>

definition Metadata_zero :: Metadata where
  "Metadata_zero = \<lparr>md_ActorUserID = '''', md_Reason = '''', md_Who = '''', md_When = ''''\<rparr>"

definition FromContext :: "Metadata option \<Rightarrow> Metadata \<times> bool" where
  "FromContext ctx = (case ctx of None \<Rightarrow> (Metadata_zero, False) | Some md \<Rightarrow> (md, True))"

definition audit_entry :: "string \<Rightarrow> string \<Rightarrow> string \<Rightarrow> string \<Rightarrow> string \<Rightarrow> string \<Rightarrow> Metadata \<Rightarrow> go_time \<Rightarrow>
    AuditEntry" where
  "audit_entry action entityType entityID tenantID oldState newState md now =
     \<lparr>au_ActorUserID = md_ActorUserID md, au_OldState = oldState, au_NewState = newState,
      au_Reason = md_Reason md, au_Who = md_Who md, au_When = md_When md, au_Action = action,
      au_EntityType = entityType, au_EntityID = entityID, au_TenantID = tenantID, au_CreatedAt = now\<rparr>"

definition RecordTransition :: "'s AuditStore option \<Rightarrow> string \<Rightarrow> string \<Rightarrow> string \<Rightarrow> string \<Rightarrow> string \<Rightarrow>
    string \<Rightarrow> Metadata \<Rightarrow> go_time \<Rightarrow> 's audited \<Rightarrow> 's audited" where
  "RecordTransition store action entityType entityID tenantID oldState newState md now st =
     (let entry = audit_entry action entityType entityID tenantID oldState newState md now;
          s = (case store of None \<Rightarrow> fst st | Some write \<Rightarrow> op_ignore (write entry) (fst st))
      in (s, snd st @ [entry]))"

definition Entries :: "'s audited \<Rightarrow> AuditEntry list" where
  "Entries st = snd st"

text \<open>
  The row of \<^verbatim>\<open>audit_logs\<close>: the five texts of the metadata object, the tenant's uuid, and an
  empty actor for \<^verbatim>\<open>NULL\<close>. The table has no unique column but its generated key.
\<close>

definition pg_WriteAuditTransition :: "pg_env \<Rightarrow> AuditEntry \<Rightarrow> (unit, pg_state) op" where
  "pg_WriteAuditTransition env entry =
     op_bind (resolveTenantUUID (au_TenantID entry)) (\<lambda>tenantUUID.
     pg_stmt (
       op_bind (pg_uuid env tenantUUID) (\<lambda>t.
       op_bind (if au_ActorUserID entry = '''' then op_return '''' else pg_uuid env (au_ActorUserID entry)) (\<lambda>u s.
         let db = pg_db s; s' = s\<lparr>pg_next := pg_next s + 1\<rparr>
         in if t \<notin> set (map tn_ID (db_tenants db)) \<or>
               (u \<noteq> '''' \<and> u \<notin> set (map us_ID (db_users db)))
            then (Inl (ErrSQL ''23503''), s')
            else (Inr (), s'\<lparr>pg_db := db\<lparr>db_audit_logs := db_audit_logs db @
                    [entry\<lparr>au_TenantID := t, au_ActorUserID := u, au_CreatedAt := pg_ts (au_CreatedAt entry)\<rparr>]\<rparr>\<rparr>)))))"

subsection \<open>The hold expiry worker\<close>

fun record_expired :: "'s AuditStore option \<Rightarrow> go_time \<Rightarrow> Booking list \<Rightarrow> 's audited \<Rightarrow> 's audited" where
  "record_expired store now [] st = st"
| "record_expired store now (booking # bookings) st =
     record_expired store now bookings
       (RecordTransition store ''booking_expired'' ''booking'' (bk_ID booking) (bk_TenantID booking)
          (status_string BookingStatusHeld) (status_string BookingStatusExpired)
          \<lparr>md_ActorUserID = '''', md_Reason = ''hold timeout'', md_Who = ''system'',
           md_When = format_rfc3339 now\<rparr> now st)"

definition runOnce :: "(go_time \<Rightarrow> (Booking list, 's) op) \<Rightarrow> 's AuditStore option \<Rightarrow> go_time \<Rightarrow>
    's audited \<Rightarrow> 's audited" where
  "runOnce expireHeld store now st =
     (case expireHeld now (fst st) of
        (Inl err, s) \<Rightarrow> (s, snd st)
      | (Inr expired, s) \<Rightarrow> record_expired store now expired (s, snd st))"

text \<open>
  \<^verbatim>\<open>Start\<close> runs once at once and then at every tick until the context ends: a run for every
  instant of the list.
\<close>

fun worker_Start :: "(go_time \<Rightarrow> (Booking list, 's) op) \<Rightarrow> 's AuditStore option \<Rightarrow> go_time list \<Rightarrow>
    's audited \<Rightarrow> 's audited" where
  "worker_Start expireHeld store [] st = st"
| "worker_Start expireHeld store (now # ticks) st =
     worker_Start expireHeld store ticks (runOnce expireHeld store now st)"

subsection \<open>Facts\<close>

lemma RecordTransition_entries:
  "snd (RecordTransition store a et i t old new md now st) = snd st @ [audit_entry a et i t old new md now]"
  by (simp add: RecordTransition_def Let_def)

text \<open>Writing an audit row leaves every other table alone.\<close>

definition same_but_audit :: "pg_tables \<Rightarrow> pg_tables \<Rightarrow> bool" where
  "same_but_audit db db' \<longleftrightarrow> db'\<lparr>db_audit_logs := []\<rparr> = db\<lparr>db_audit_logs := []\<rparr> \<and>
     (\<exists>rows. db_audit_logs db' = db_audit_logs db @ rows)"

lemma same_but_audit_refl [simp]: "same_but_audit db db"
  by (simp add: same_but_audit_def)

lemma same_but_audit_trans: "same_but_audit a b \<Longrightarrow> same_but_audit b c \<Longrightarrow> same_but_audit a c"
  by (auto simp: same_but_audit_def)

lemma same_but_audit_bookings: "same_but_audit db db' \<Longrightarrow> db_bookings db' = db_bookings db"
  unfolding same_but_audit_def by (metis pg_tables.select_convs(8) pg_tables.surjective pg_tables.update_convs(10))

lemma pg_write_keeps: "op_keeps (pg_only (\<lambda>db n. same_but_audit db0 db)) (pg_WriteAuditTransition env e)"
proof -
  have "op_keeps (pg_only (\<lambda>db n. same_but_audit db0 db)) (\<lambda>s.
         let db = pg_db s; s' = s\<lparr>pg_next := pg_next s + 1\<rparr>
         in if t \<notin> set (map tn_ID (db_tenants db)) \<or>
               (u \<noteq> [] \<and> u \<notin> set (map us_ID (db_users db)))
            then (Inl (ErrSQL ''23503''), s')
            else (Inr (), s'\<lparr>pg_db := db\<lparr>db_audit_logs := db_audit_logs db @
                    [e\<lparr>au_TenantID := t, au_ActorUserID := u, au_CreatedAt := pg_ts (au_CreatedAt e)\<rparr>]\<rparr>\<rparr>))" for t u
    by (rule op_keepsI) (auto simp: pg_only_def Let_def same_but_audit_def)
  then show ?thesis unfolding pg_WriteAuditTransition_def by (intro op_invs) simp_all
qed

lemma pg_write_audit:
  "same_but_audit (pg_db s) (pg_db (op_ignore (pg_WriteAuditTransition env e) s))"
proof -
  have "pg_only (\<lambda>db n. same_but_audit (pg_db s) db) s" by (simp add: pg_only_def)
  from op_keepsD [OF pg_write_keeps this] show ?thesis by (simp add: pg_only_def op_ignore_def)
qed

lemma record_expired_pg:
  "same_but_audit (pg_db (fst st)) (pg_db (fst (record_expired (Some (pg_WriteAuditTransition env)) now bs st)))"
proof (induction bs arbitrary: st)
  case (Cons b bs)
  let ?st = "RecordTransition (Some (pg_WriteAuditTransition env)) ''booking_expired'' ''booking'' (bk_ID b)
     (bk_TenantID b) (status_string BookingStatusHeld) (status_string BookingStatusExpired)
     \<lparr>md_ActorUserID = [], md_Reason = ''hold timeout'', md_Who = ''system'', md_When = format_rfc3339 now\<rparr> now st"
  have "same_but_audit (pg_db (fst st)) (pg_db (fst ?st))"
    by (simp add: RecordTransition_def Let_def pg_write_audit)
  from same_but_audit_trans [OF this Cons.IH] show ?case by simp
qed simp

lemma record_expired_entries:
  "snd (record_expired store now bs st) = snd st @
     map (\<lambda>b. audit_entry ''booking_expired'' ''booking'' (bk_ID b) (bk_TenantID b) ''held'' ''expired''
          \<lparr>md_ActorUserID = [], md_Reason = ''hold timeout'', md_Who = ''system'',
           md_When = format_rfc3339 now\<rparr> now) bs"
  by (induction bs arbitrary: st) (simp_all add: RecordTransition_def Let_def status_string_def)

subsection \<open>What the worker achieves\<close>

text \<open>
  Property C10: one run of the hold expiry worker on the PostgreSQL store. If the update
  statement succeeds, afterwards no booking is held past its deadline, the expired ones are the
  only bookings that changed, and the recorder has gained exactly one entry for each of them, in
  order, from held to expired; the rows of the other tables and the older audit rows are kept
  whether or not the audit rows could be written. If the statement fails nothing changes.
\<close>

theorem runOnce_expires:
  assumes "pg_inv u s" and "runOnce pg_ExpireHeldBookings (Some (pg_WriteAuditTransition env)) now (s, log) = (s', log')"
  shows "(\<exists>err. fst (pg_ExpireHeldBookings now s) = Inl err \<and> pg_db s' = pg_db s \<and> log' = log) \<or>
     ((\<forall>b\<in>pg_rows s'. \<not> pg_hold_timed_out now b) \<and>
      same_but_audit ((pg_db s)\<lparr>db_bookings := map (\<lambda>b. if pg_hold_timed_out now b then pg_expire now b else b)
          (db_bookings (pg_db s))\<rparr>) (pg_db s') \<and>
      (\<exists>new. log' = log @ new \<and>
         map (\<lambda>e. (au_Action e, au_EntityID e, au_OldState e, au_NewState e)) new =
         map (\<lambda>b. (''booking_expired'', bk_ID b, ''held'', ''expired''))
           (filter (pg_hold_timed_out now) (db_bookings (pg_db s)))))"
proof -
  obtain r s1 where e: "pg_ExpireHeldBookings now s = (r, s1)" by fastforce
  note E = pg_expire_run [OF assms(1) e [unfolded pg_ExpireHeldBookings_def]]
  show ?thesis
  proof (cases r)
    case (Inl err) with e E assms(2) show ?thesis by (simp add: runOnce_def)
  next
    case (Inr hits)
    let ?bs = "map (\<lambda>b. if pg_hold_timed_out now b then pg_expire now b else b) (db_bookings (pg_db s))"
    from Inr e assms(2) have st: "(s', log') = record_expired (Some (pg_WriteAuditTransition env)) now hits (s1, log)"
      by (simp add: runOnce_def)
    have same: "same_but_audit (pg_db s1) (pg_db s')"
      using record_expired_pg [of "(s1, log)" env now hits] by (simp flip: st)
    have log': "log' = log @ map (\<lambda>b. audit_entry ''booking_expired'' ''booking'' (bk_ID b) (bk_TenantID b) ''held'' ''expired''
          \<lparr>md_ActorUserID = [], md_Reason = ''hold timeout'', md_Who = ''system'',
           md_When = format_rfc3339 now\<rparr> now) hits"
      using record_expired_entries [of "Some (pg_WriteAuditTransition env)" now hits "(s1, log)"] by (simp flip: st)
    have db1: "pg_db s1 = (pg_db s)\<lparr>db_bookings := ?bs\<rparr>"
      and hits: "hits = map (pg_expire now) (filter (pg_hold_timed_out now) (db_bookings (pg_db s)))"
      using E Inr by simp_all
    have exp: "\<not> pg_hold_timed_out now (pg_expire now b)" for b
      by (simp add: pg_hold_timed_out_def pg_expire_def)
    have "\<not> pg_hold_timed_out now (if pg_hold_timed_out now b then pg_expire now b else b)" for b
      using exp [of b] by (cases "pg_hold_timed_out now b") simp_all
    then have "\<forall>b\<in>set ?bs. \<not> pg_hold_timed_out now b" unfolding set_map by blast
    moreover have "db_bookings (pg_db s') = ?bs"
      unfolding same_but_audit_bookings [OF same] db1 by simp
    ultimately have "\<forall>b\<in>pg_rows s'. \<not> pg_hold_timed_out now b" by (simp only: pg_rows_def)
    moreover have "map (\<lambda>e. (au_Action e, au_EntityID e, au_OldState e, au_NewState e)) (drop (length log) log') =
         map (\<lambda>b. (''booking_expired'', bk_ID b, ''held'', ''expired''))
           (filter (pg_hold_timed_out now) (db_bookings (pg_db s)))"
      by (simp add: log' hits audit_entry_def pg_expire_def)
    moreover have "log' = log @ drop (length log) log'" by (simp add: log')
    ultimately show ?thesis using same [unfolded db1] by blast
  qed
qed

theorem runOnce_expires_witness:
  "let st = runOnce pg_ExpireHeldBookings (Some (pg_WriteAuditTransition demo_env)) (2 * time_Minute) (demo_held_state, [])
   in (\<forall>b\<in>pg_rows (fst st). \<not> pg_hold_timed_out (2 * time_Minute) b) \<and>
      map (\<lambda>e. (au_Action e, au_EntityID e, au_OldState e, au_NewState e)) (snd st) =
        [(''booking_expired'', demo_id CHR ''1'', ''held'', ''expired'')]"
proof -
  let ?st = "runOnce pg_ExpireHeldBookings (Some (pg_WriteAuditTransition demo_env)) (2 * time_Minute) (demo_held_state, [])"
  have ok: "fst (pg_ExpireHeldBookings (2 * time_Minute) demo_held_state) \<noteq> Inl err" for err
  proof -
    have "(case fst (pg_ExpireHeldBookings (2 * time_Minute) demo_held_state) of Inl e \<Rightarrow> False | Inr _ \<Rightarrow> True)"
      by code_simp
    then show ?thesis by (metis sum.simps(5))
  qed
  have hit: "filter (pg_hold_timed_out (2 * time_Minute)) (db_bookings (pg_db demo_held_state)) = [demo_held]"
    by (simp add: demo_held_state_def pg_hold_timed_out_def demo_held_def held_row_def pg_ts_def)
  have i: "bk_ID demo_held = demo_id CHR ''1''" by (simp add: demo_held_def held_row_def)
  have "runOnce pg_ExpireHeldBookings (Some (pg_WriteAuditTransition demo_env)) (2 * time_Minute) (demo_held_state, []) =
    (fst ?st, snd ?st)" by simp
  from runOnce_expires [OF demo_held_inv this] ok
  have "(\<forall>b\<in>pg_rows (fst ?st). \<not> pg_hold_timed_out (2 * time_Minute) b) \<and>
      map (\<lambda>e. (au_Action e, au_EntityID e, au_OldState e, au_NewState e)) (snd ?st) =
      map (\<lambda>b. (''booking_expired'', bk_ID b, ''held'', ''expired''))
        (filter (pg_hold_timed_out (2 * time_Minute)) (db_bookings (pg_db demo_held_state)))"
    unfolding append_Nil by blast
  then show ?thesis unfolding Let_def hit by (simp add: i)
qed

end
