(* ===== verification/Http.thy ===== *)
theory Http
  imports Audit_Trail "HOL-Library.Word"
begin

text \<open>
  What a handler sees of a request and what it returns. The tenant and the audit metadata
  come from the context, where the middleware put them; the body is what \<^verbatim>\<open>c.Bind\<close>
  produced, \<open>None\<close> when it reported an error; \<open>rq_clock k\<close> is the \<open>k\<close>-th value of
  \<^verbatim>\<open>time.Now().UTC()\<close> read while the request is handled, \<open>rq_random k\<close> the \<open>k\<close>-th result of
  reading 16 random bytes. Header and parameter names are looked up as the source spells them. A response is a status code with a
  body: the object \<^verbatim>\<open>{"error": text}\<close> or the handler's own reply.
\<close>

type_synonym byte = "8 word"

record http_request =
  rq_path :: string
  rq_tenant :: "string option"
  rq_audit :: "Metadata option"
  rq_header :: "string \<Rightarrow> string"
  rq_param :: "string \<Rightarrow> string"
  rq_query :: "string \<Rightarrow> string"
  rq_cookie :: "string \<Rightarrow> string option"
  rq_tls :: bool
  rq_clock :: "nat \<Rightarrow> go_time"
  rq_random :: "nat \<Rightarrow> byte list option"

datatype 'b http_body = ErrBody string | OkBody 'b

type_synonym 'b response = "nat \<times> 'b http_body"

type_synonym ('b, 's) handler = "http_request \<Rightarrow> 's audited \<Rightarrow> 'b response \<times> 's audited"

definition jsonError :: "nat \<Rightarrow> string \<Rightarrow> 'b response" where
  "jsonError status message = (status, ErrBody message)"

definition tenant_ID :: "http_request \<Rightarrow> string option" where
  "tenant_ID rq = (case rq_tenant rq of None \<Rightarrow> None | Some v \<Rightarrow> if v = '''' then None else Some v)"

definition tenant_WithID :: "string \<Rightarrow> http_request \<Rightarrow> http_request" where
  "tenant_WithID tenantID rq = rq\<lparr>rq_tenant := Some tenantID\<rparr>"

definition actorIdentity :: "http_request \<Rightarrow> string \<times> string" where
  "actorIdentity rq = (trim_space (rq_header rq ''X-Actor-User-ID''),
                       to_lower (trim_space (rq_header rq ''X-Actor-Role'')))"

text \<open>\<^verbatim>\<open>middleware.AuditContext\<close>: the metadata of a request, from its headers.\<close>

definition AuditContext :: "go_time \<Rightarrow> http_request \<Rightarrow> http_request" where
  "AuditContext now rq = rq\<lparr>rq_audit := Some \<lparr>md_ActorUserID = rq_header rq ''X-Actor-User-ID'',
     md_Reason = rq_header rq ''X-Change-Reason'', md_Who = rq_header rq ''X-Actor-Name'',
     md_When = format_rfc3339 now\<rparr>\<rparr>"

text \<open>A store operation inside a handler.\<close>

definition on_store :: "('a, 's, 'e) xop \<Rightarrow> ('a, 's audited, 'e) xop" where
  "on_store m st = (case m (fst st) of (r, s) \<Rightarrow> (r, (s, snd st)))"

lemma on_store_iff: "on_store m st = (r, st') \<longleftrightarrow> m (fst st) = (r, fst st') \<and> snd st' = snd st"
  by (cases st'; cases "m (fst st)") (auto simp: on_store_def)

lemma actorIdentity_role: "snd (actorIdentity rq) = to_lower (trim_space (rq_header rq ''X-Actor-Role''))"
  by (simp add: actorIdentity_def)

end
