(* ===== verification/Booking_Handlers.thy ===== *)
theory Booking_Handlers
  imports Http
begin

text \<open>
  The booking endpoints, \<^verbatim>\<open>internal/api/handlers/booking.go\<close>, over any booking store. Every
  handler is one function from the request, the store and the recorder's entries to a response
  and the store and entries afterwards.
\<close>

subsection \<open>Requests and replies\<close>

record bookingRequest =
  bq_BookingID :: string
  bq_RoomID :: string
  bq_InstructorID :: string
  bq_Title :: string
  bq_StartAt :: string
  bq_EndAt :: string
  bq_Capacity :: int
  bq_Attendees :: int
  bq_Why :: string

record rescheduleRequest =
  rs_BookingID :: string
  rs_NewStart :: string
  rs_NewEnd :: string
  rs_Why :: string

datatype booking_reply =
    ReplyStatus string
  | ReplyBooking Booking
  | ReplyRefused string "BookingConflict list" "AlternativeSlot list"
  | ReplyRooms "Room list"
  | ReplyInstructors "Instructor list"

record 's BookingHandler =
  bh_Bookings :: "'s BookingService"
  bh_Audit :: "'s AuditStore option"

definition parseFlexTime :: "string \<Rightarrow> go_error + go_time" where
  "parseFlexTime val =
     (let val = trim_space val
      in if val = '''' then Inr time_zero
         else case time_Parse RFC3339 val of Some t \<Rightarrow> Inr t | None \<Rightarrow>
              (case time_Parse DateTimeLocal val of Some t \<Rightarrow> Inr t | None \<Rightarrow>
              (case time_Parse DateTimeSeconds val of Some t \<Rightarrow> Inr t | None \<Rightarrow>
              (case time_Parse DateOnly val of Some t \<Rightarrow> Inr t | None \<Rightarrow>
                 Inl (ErrNew ''invalid time format'')))))"

definition authorizeBookingAccess :: "http_request \<Rightarrow> string \<Rightarrow> string \<Rightarrow> go_error option" where
  "authorizeBookingAccess rq resourceTenantID resourceUserID =
     (case tenant_ID rq of
        None \<Rightarrow> Some (ErrNew ''missing tenant claims'')
      | Some claimsTenantID \<Rightarrow>
          if claimsTenantID \<noteq> resourceTenantID then Some (ErrNew ''tenant mismatch'')
          else (case actorIdentity rq of (actorUserID, actorRole) \<Rightarrow>
            if actorRole = ''admin'' then None
            else if resourceUserID = '''' \<or> actorUserID = '''' \<or> resourceUserID \<noteq> actorUserID
              then Some (ErrNew ''booking ownership mismatch'')
            else None))"

text \<open>The metadata of the request; a missing reason is filled in from the body.\<close>

definition request_metadata :: "http_request \<Rightarrow> string \<Rightarrow> Metadata" where
  "request_metadata rq why =
     (let md = fst (FromContext (rq_audit rq))
      in if trim_space (md_Reason md) = '''' then md\<lparr>md_Reason := trim_space why\<rparr> else md)"

subsection \<open>Handlers\<close>

definition BookingHandler_Hold ::
    "'s BookingHandler \<Rightarrow> bookingRequest option \<Rightarrow> (booking_reply, 's) handler" where
  "BookingHandler_Hold h body rq st =
     (case body of None \<Rightarrow> (jsonError 400 ''invalid request body'', st) | Some req \<Rightarrow>
     (case parseFlexTime (bq_StartAt req) of
        Inl _ \<Rightarrow> (jsonError 400 ''invalid start_at format. use YYYY-MM-DDTHH:MM or RFC3339'', st)
      | Inr startAt \<Rightarrow>
     (case parseFlexTime (bq_EndAt req) of
        Inl _ \<Rightarrow> (jsonError 400 ''invalid end_at format. use YYYY-MM-DDTHH:MM or RFC3339'', st)
      | Inr endAt \<Rightarrow>
     (case (if bq_RoomID req = '''' \<or> bq_InstructorID req = '''' \<or> bq_Title req = '''' then None else tenant_ID rq) of
        None \<Rightarrow> (jsonError 400 ''room_id, instructor_id, and title are required'', st)
      | Some tenantID \<Rightarrow>
     (case on_store (BookingService_Hold (bh_Bookings h)
              (Booking_zero\<lparr>bk_TenantID := tenantID, bk_UserID := fst (actorIdentity rq),
                 bk_RoomID := bq_RoomID req, bk_InstructorID := bq_InstructorID req,
                 bk_Title := bq_Title req, bk_StartAt := startAt, bk_EndAt := endAt,
                 bk_Capacity := bq_Capacity req, bk_Attendees := bq_Attendees req\<rparr>) (rq_clock rq 0)) st of
        (Inl (conflicts, alternatives, err), st1) \<Rightarrow>
          ((409, OkBody (ReplyRefused ''Booking could not be placed due to conflicts'' conflicts alternatives)),
           RecordTransition (bh_Audit h) ''booking_hold_failed'' ''booking'' (bq_BookingID req) tenantID '''' ''''
             (request_metadata rq (bq_Why req)) (rq_clock rq 1) st1)
      | (Inr booking, st1) \<Rightarrow>
          ((201, OkBody (ReplyBooking booking)),
           RecordTransition (bh_Audit h) ''booking_held'' ''booking'' (bk_ID booking) tenantID ''''
             (status_string (bk_Status booking)) (request_metadata rq (bq_Why req)) (rq_clock rq 1) st1))))))"

text \<open>
  The part the four handlers on an existing booking have in common: load it, check the access,
  call the service, record the transition.
\<close>

definition transition :: "'s BookingHandler \<Rightarrow> http_request \<Rightarrow> string \<Rightarrow> string \<Rightarrow>
    ('a, 's) op \<Rightarrow> string \<Rightarrow> string \<Rightarrow> ('a \<Rightarrow> BookingStatus) \<Rightarrow> Metadata \<Rightarrow> ('a \<Rightarrow> booking_reply) \<Rightarrow>
    's audited \<Rightarrow> booking_reply response \<times> 's audited" where
  "transition h rq tenantID bookingID act refused action newStatus md reply st =
     (case on_store (st_GetBooking (svc_Store (bh_Bookings h)) tenantID bookingID) st of
        (Inl _, st1) \<Rightarrow> (jsonError 404 ''Booking not found'', st1)
      | (Inr resource, st1) \<Rightarrow>
     (case authorizeBookingAccess rq (bk_TenantID resource) (bk_UserID resource) of
        Some _ \<Rightarrow> (jsonError 403 ''Access denied'', st1)
      | None \<Rightarrow>
     (case on_store act st1 of
        (Inl _, st2) \<Rightarrow> (jsonError 409 refused, st2)
      | (Inr x, st2) \<Rightarrow>
          ((200, OkBody (reply x)),
           RecordTransition (bh_Audit h) action ''booking'' bookingID tenantID
             (status_string (bk_Status resource)) (status_string (newStatus x)) md (rq_clock rq 1) st2))))"

definition BookingHandler_Confirm ::
    "'s BookingHandler \<Rightarrow> bookingRequest option \<Rightarrow> (booking_reply, 's) handler" where
  "BookingHandler_Confirm h body rq st =
     (case body of None \<Rightarrow> (jsonError 400 ''invalid request body'', st) | Some req \<Rightarrow>
     (case tenant_ID rq of None \<Rightarrow> (jsonError 401 ''tenant context required'', st) | Some tenantID \<Rightarrow>
      if trim_space (bq_BookingID req) = '''' then (jsonError 400 ''booking_id is required'', st)
      else transition h rq tenantID (bq_BookingID req)
             (BookingService_Confirm (bh_Bookings h) tenantID (bq_BookingID req) (rq_clock rq 0))
             ''Unable to confirm booking'' ''booking_confirmed'' (\<lambda>_. BookingStatusConfirmed)
             (request_metadata rq (bq_Why req)) (\<lambda>_. ReplyStatus ''confirmed'') st))"

definition BookingHandler_Cancel ::
    "'s BookingHandler \<Rightarrow> bookingRequest option \<Rightarrow> (booking_reply, 's) handler" where
  "BookingHandler_Cancel h body rq st =
     (case body of None \<Rightarrow> (jsonError 400 ''invalid request body'', st) | Some req \<Rightarrow>
     (case tenant_ID rq of None \<Rightarrow> (jsonError 401 ''tenant context required'', st) | Some tenantID \<Rightarrow>
      if trim_space (bq_BookingID req) = '''' then (jsonError 400 ''booking_id is required'', st)
      else transition h rq tenantID (bq_BookingID req)
             (BookingService_Cancel (bh_Bookings h) tenantID (bq_BookingID req) (rq_clock rq 0))
             ''Unable to cancel booking'' ''booking_cancelled'' (\<lambda>_. BookingStatusCancelled)
             (request_metadata rq (bq_Why req)) (\<lambda>_. ReplyStatus ''cancelled'') st))"

definition BookingHandler_Reschedule ::
    "'s BookingHandler \<Rightarrow> rescheduleRequest option \<Rightarrow> (booking_reply, 's) handler" where
  "BookingHandler_Reschedule h body rq st =
     (case body of None \<Rightarrow> (jsonError 400 ''invalid request body'', st) | Some req \<Rightarrow>
     (case parseFlexTime (rs_NewStart req) of
        Inl _ \<Rightarrow> (jsonError 400 ''invalid new_start format'', st) | Inr newStart \<Rightarrow>
     (case parseFlexTime (rs_NewEnd req) of
        Inl _ \<Rightarrow> (jsonError 400 ''invalid new_end format'', st) | Inr newEnd \<Rightarrow>
     (case tenant_ID rq of None \<Rightarrow> (jsonError 401 ''tenant context required'', st) | Some tenantID \<Rightarrow>
      if trim_space (rs_BookingID req) = '''' \<or> newStart = time_zero \<or> newEnd = time_zero \<or> \<not> newEnd > newStart
      then (jsonError 400 ''booking_id and valid new_start/new_end are required'', st)
      else transition h rq tenantID (rs_BookingID req)
             (BookingService_Reschedule (bh_Bookings h) tenantID (rs_BookingID req) newStart newEnd (rq_clock rq 0))
             ''Unable to reschedule booking'' ''booking_rescheduled'' bk_Status
             (request_metadata rq (rs_Why req)) ReplyBooking st))))"

definition BookingHandler_CheckIn :: "'s BookingHandler \<Rightarrow> (booking_reply, 's) handler" where
  "BookingHandler_CheckIn h rq st =
     (case tenant_ID rq of None \<Rightarrow> (jsonError 401 ''tenant context required'', st) | Some tenantID \<Rightarrow>
      (let bookingID = trim_space (rq_param rq ''id'')
       in if bookingID = '''' then (jsonError 400 ''booking id is required'', st)
          else transition h rq tenantID bookingID
                 (BookingService_CheckIn (bh_Bookings h) tenantID bookingID (rq_clock rq 0))
                 ''Only confirmed bookings can be checked in'' ''booking_checked_in'' (\<lambda>_. BookingStatusCheckedIn)
                 (fst (FromContext (rq_audit rq))) (\<lambda>_. ReplyStatus ''checked_in'') st))"

definition BookingHandler_ListRooms :: "'s BookingHandler \<Rightarrow> (booking_reply, 's) handler" where
  "BookingHandler_ListRooms h rq st =
     (case tenant_ID rq of None \<Rightarrow> (jsonError 401 ''tenant context required'', st) | Some tenantID \<Rightarrow>
     (case on_store (st_ListRooms (svc_Store (bh_Bookings h)) tenantID) st of
        (Inl _, st1) \<Rightarrow> (jsonError 500 ''Unable to list rooms'', st1)
      | (Inr rooms, st1) \<Rightarrow> ((200, OkBody (ReplyRooms rooms)), st1)))"

definition BookingHandler_ListInstructors :: "'s BookingHandler \<Rightarrow> (booking_reply, 's) handler" where
  "BookingHandler_ListInstructors h rq st =
     (case tenant_ID rq of None \<Rightarrow> (jsonError 401 ''tenant context required'', st) | Some tenantID \<Rightarrow>
     (case on_store (st_ListInstructors (svc_Store (bh_Bookings h)) tenantID) st of
        (Inl _, st1) \<Rightarrow> (jsonError 500 ''Unable to list instructors'', st1)
      | (Inr instructors, st1) \<Rightarrow> ((200, OkBody (ReplyInstructors instructors)), st1)))"

text \<open>The endpoints that change bookings, as one step.\<close>

datatype booking_http =
    HttpHold "bookingRequest option"
  | HttpConfirm "bookingRequest option"
  | HttpCancel "bookingRequest option"
  | HttpReschedule "rescheduleRequest option"
  | HttpCheckIn

definition booking_http_step :: "'s BookingHandler \<Rightarrow> booking_http \<Rightarrow> (booking_reply, 's) handler" where
  "booking_http_step h c = (case c of
      HttpHold body \<Rightarrow> BookingHandler_Hold h body
    | HttpConfirm body \<Rightarrow> BookingHandler_Confirm h body
    | HttpCancel body \<Rightarrow> BookingHandler_Cancel h body
    | HttpReschedule body \<Rightarrow> BookingHandler_Reschedule h body
    | HttpCheckIn \<Rightarrow> BookingHandler_CheckIn h)"

subsection \<open>Specification\<close>

text \<open>Who may touch a booking: an administrator of its tenant, or its owner.\<close>

definition may_access :: "http_request \<Rightarrow> Booking \<Rightarrow> bool" where
  "may_access rq b \<longleftrightarrow> tenant_ID rq = Some (bk_TenantID b) \<and>
     (snd (actorIdentity rq) = ''admin'' \<or>
      (bk_UserID b \<noteq> [] \<and> fst (actorIdentity rq) = bk_UserID b))"

text \<open>
  What a request did: nothing, a change of one booking the actor may access that is not reported
  (a late confirmation expires the hold), or a reported change with one matching audit entry.
\<close>

definition audited_change :: "http_request \<Rightarrow> Booking set \<Rightarrow> Booking set \<Rightarrow> nat \<Rightarrow>
    AuditEntry list \<Rightarrow> AuditEntry list \<Rightarrow> bool" where
  "audited_change rq R R' code log log' \<longleftrightarrow>
     (if code = 200
      then (\<exists>b b' e. row_update R R' b b' \<and> may_access rq b \<and> log' = log @ [e] \<and>
              au_EntityType e = ''booking'' \<and> Some (au_TenantID e) = tenant_ID rq \<and>
              au_OldState e = status_string (bk_Status b) \<and> au_NewState e = status_string (bk_Status b'))
      else log' = log \<and> (R' = R \<or> (\<exists>b b'. row_update R R' b b' \<and> may_access rq b \<and>
              bk_Status b' = BookingStatusExpired)))"

lemma authorize_None_iff:
  "authorizeBookingAccess rq (bk_TenantID b) (bk_UserID b) = None \<longleftrightarrow> may_access rq b"
  by (auto simp: authorizeBookingAccess_def may_access_def split: option.splits prod.splits)

lemma audited_change_refused: "code \<noteq> 200 \<Longrightarrow> audited_change rq R R code log log"
  by (simp add: audited_change_def)

locale audited_booking_store = booking_store store inv rows find ts
  for store :: "'s BookingStore" and inv rows find ts +
  fixes audit :: "'s AuditStore option"
  assumes audit_keeps: "audit = Some write \<Longrightarrow> inv s \<Longrightarrow>
    inv (op_ignore (write e) s) \<and> rows (op_ignore (write e) s) = rows s"
begin

definition acts :: "string \<Rightarrow> string \<Rightarrow> ('a \<Rightarrow> BookingStatus) \<Rightarrow> ('a, 's) op \<Rightarrow> bool" where
  "acts t i new act \<longleftrightarrow> (\<forall>s r s'. inv s \<longrightarrow> act s = (r, s') \<longrightarrow> inv s' \<and>
     (\<forall>x. r = Inr x \<longrightarrow> (\<exists>b b'. find s t i = Some b \<and> row_update (rows s) (rows s') b b' \<and> bk_Status b' = new x)) \<and>
     (\<forall>e. r = Inl e \<longrightarrow> rows s' = rows s \<or> (\<exists>b b'. find s t i = Some b \<and> row_update (rows s) (rows s') b b' \<and>
          bk_Status b' = BookingStatusExpired)))"

definition good :: "http_request \<Rightarrow> 's audited \<Rightarrow> booking_reply response \<times> 's audited \<Rightarrow> bool" where
  "good rq st out \<longleftrightarrow> inv (fst (snd out)) \<and>
     audited_change rq (rows (fst st)) (rows (fst (snd out))) (fst (fst out)) (snd st) (snd (snd out))"

lemma record_keeps:
  assumes "inv (fst st)"
  shows "inv (fst (RecordTransition audit a et i t old new md now st))"
    and "rows (fst (RecordTransition audit a et i t old new md now st)) = rows (fst st)"
  using assms audit_keeps by (simp_all add: RecordTransition_def Let_def split: option.splits)

lemma good_refuse: "code \<noteq> 200 \<Longrightarrow> inv (fst st) \<Longrightarrow> good rq st (jsonError code msg, st)"
  by (simp add: good_def jsonError_def audited_change_refused)

lemma good_transition:
  assumes h: "bh_Audit h = audit" "svc_Store (bh_Bookings h) = store" and I: "inv (fst st)"
    and t: "tenant_ID rq = Some t" and act: "acts t i new act"
  shows "good rq st (transition h rq t i act refused action new md reply st)"
proof -
  obtain rg s1 where g: "st_GetBooking store t i (fst st) = (rg, s1)" by fastforce
  note G = get [OF I g]
  have g': "on_store (st_GetBooking (svc_Store (bh_Bookings h)) t i) st = (rg, (s1, snd st))"
    using g by (simp add: h on_store_iff)
  show ?thesis
  proof (cases rg)
    case (Inl e)
    with g' G show ?thesis by (simp add: transition_def good_def jsonError_def audited_change_refused)
  next
    case (Inr b)
    with G have G1: "inv s1" "rows s1 = rows (fst st)" "find s1 t i = Some b" by auto
    show ?thesis
    proof (cases "may_access rq b")
      case False
      then obtain err where "authorizeBookingAccess rq (bk_TenantID b) (bk_UserID b) = Some err"
        using authorize_None_iff [of rq b] by auto
      with g' Inr G1 show ?thesis by (simp add: transition_def good_def jsonError_def audited_change_refused)
    next
      case True
      then have a: "authorizeBookingAccess rq (bk_TenantID b) (bk_UserID b) = None"
        by (simp add: authorize_None_iff)
      obtain ra s2 where ra: "act s1 = (ra, s2)" by fastforce
      have A: "inv s2"
        "\<And>x. ra = Inr x \<Longrightarrow> \<exists>b'. row_update (rows (fst st)) (rows s2) b b' \<and> bk_Status b' = new x"
        "\<And>e. ra = Inl e \<Longrightarrow> rows s2 = rows (fst st) \<or>
           (\<exists>b'. row_update (rows (fst st)) (rows s2) b b' \<and> bk_Status b' = BookingStatusExpired)"
        using act G1 ra unfolding acts_def by (metis option.inject)+
      have o: "on_store act (s1, snd st) = (ra, (s2, snd st))" using ra by (simp add: on_store_iff)
      show ?thesis
      proof (cases ra)
        case (Inl e)
        with A(1) A(3) [OF Inl] True g' a o \<open>rg = Inr b\<close> show ?thesis
          by (auto simp: transition_def good_def audited_change_def jsonError_def)
      next
        case (Inr x)
        let ?e = "audit_entry action ''booking'' i t (status_string (bk_Status b)) (status_string (new x)) md (rq_clock rq 1)"
        let ?st = "RecordTransition audit action ''booking'' i t (status_string (bk_Status b))
              (status_string (new x)) md (rq_clock rq 1) (s2, snd st)"
        obtain b' where "row_update (rows (fst st)) (rows s2) b b'" "bk_Status b' = new x"
          using A(2) [OF Inr] by blast
        then have "audited_change rq (rows (fst st)) (rows s2) 200 (snd st) (snd st @ [?e])"
          using True t unfolding audited_change_def
          by (simp, intro exI [of _ b] exI [of _ b']) (simp add: audit_entry_def)
        moreover have "transition h rq t i act refused action new md reply st = ((200, OkBody (reply x)), ?st)"
          using g' a o Inr \<open>rg = Inr b\<close> by (simp add: transition_def h)
        ultimately show ?thesis
          using record_keeps [of "(s2, snd st)"] A(1) by (simp add: good_def RecordTransition_entries)
      qed
    qed
  qed
qed

lemma service_acts:
  assumes "svc_Store svc = store"
  shows "acts t i (\<lambda>_. BookingStatusConfirmed) (BookingService_Confirm svc t i now)"
    and "acts t i (\<lambda>_. BookingStatusCancelled) (BookingService_Cancel svc t i now)"
    and "acts t i (\<lambda>_. BookingStatusCheckedIn) (BookingService_CheckIn svc t i now)"
    and "acts t i bk_Status (BookingService_Reschedule svc t i ns ne now)"
proof -
  have "bk_Status (confirmed_row n b) = BookingStatusConfirmed" "bk_Status (cancelled_row n b) = BookingStatusCancelled"
    "bk_Status (checked_in_row n b) = BookingStatusCheckedIn" for n b
    by (simp_all add: confirmed_row_def cancelled_row_def checked_in_row_def)
  note st = this
  show "acts t i (\<lambda>_. BookingStatusConfirmed) (BookingService_Confirm svc t i now)"
    unfolding acts_def BookingService_Confirm_def assms using confirm st(1) by (metis (full_types) old.unit.exhaust)
  show "acts t i (\<lambda>_. BookingStatusCancelled) (BookingService_Cancel svc t i now)"
    unfolding acts_def using service_cancel [OF assms] st(2) by (metis (full_types) old.unit.exhaust)
  show "acts t i (\<lambda>_. BookingStatusCheckedIn) (BookingService_CheckIn svc t i now)"
    unfolding acts_def BookingService_CheckIn_def assms using check_in st(3) by (metis (full_types) old.unit.exhaust)
  show "acts t i bk_Status (BookingService_Reschedule svc t i ns ne now)"
    unfolding acts_def by (intro allI impI, drule (1) service_reschedule [OF assms]) blast
qed

lemma step_audited:
  assumes h: "bh_Audit h = audit" "svc_Store (bh_Bookings h) = store" and I: "inv (fst st)"
    and "\<And>body. c \<noteq> HttpHold body"
  shows "good rq st (booking_http_step h c rq st)"
proof -
  note acts = service_acts [OF h(2)] and tr = good_transition [OF h I] and refuse = good_refuse [OF _ I]
  show ?thesis
  proof (cases c)
    case (HttpHold body) with assms(4) show ?thesis by blast
  next
    case (HttpConfirm body)
    then show ?thesis by (simp add: booking_http_step_def BookingHandler_Confirm_def tr acts refuse split: option.split)
  next
    case (HttpCancel body)
    then show ?thesis by (simp add: booking_http_step_def BookingHandler_Cancel_def tr acts refuse split: option.split)
  next
    case (HttpReschedule body)
    then show ?thesis
      by (simp add: booking_http_step_def BookingHandler_Reschedule_def tr acts refuse split: option.split sum.split)
  next
    case HttpCheckIn
    then show ?thesis
      by (simp add: booking_http_step_def BookingHandler_CheckIn_def tr acts refuse Let_def split: option.split)
  qed
qed

definition hold_outcome :: "'s audited \<Rightarrow> booking_reply response \<times> 's audited \<Rightarrow> bool" where
  "hold_outcome st out \<longleftrightarrow> (let code = fst (fst out); st' = snd out in inv (fst st') \<and>
     ((code = 400 \<and> st' = st) \<or>
      (code = 409 \<and> rows (fst st') = rows (fst st) \<and>
         (\<exists>e. snd st' = snd st @ [e] \<and> au_Action e = ''booking_hold_failed'')) \<or>
      (code = 201 \<and> (\<exists>b e. b \<in> rows (fst st') \<and> rows (fst st') \<subseteq> insert b (rows (fst st)) \<and>
         bk_Status b = BookingStatusHeld \<and> snd st' = snd st @ [e] \<and>
         au_Action e = ''booking_held'' \<and> au_EntityID e = bk_ID b \<and> au_NewState e = ''held''))))"

lemma hold_refused: "inv (fst st) \<Longrightarrow> hold_outcome st (jsonError 400 msg, st)"
  by (simp add: hold_outcome_def jsonError_def)

lemma hold_audited:
  assumes h: "bh_Audit h = audit" "svc_Store (bh_Bookings h) = store" and I: "inv (fst st)"
  shows "hold_outcome st (BookingHandler_Hold h body rq st)"
proof -
  have call: "hold_outcome st (case on_store (BookingService_Hold (bh_Bookings h) b now) st of
        (Inl (conflicts, alternatives, err), st1) \<Rightarrow>
          ((409, OkBody (ReplyRefused msg conflicts alternatives)),
           RecordTransition (bh_Audit h) ''booking_hold_failed'' ''booking'' i t [] [] md n1 st1)
      | (Inr booking, st1) \<Rightarrow>
          ((201, OkBody (ReplyBooking booking)),
           RecordTransition (bh_Audit h) ''booking_held'' ''booking'' (bk_ID booking) t []
             (status_string (bk_Status booking)) md n1 st1))" for b now msg i t md n1
  proof -
    obtain r s1 where r: "BookingService_Hold (bh_Bookings h) b now (fst st) = (r, s1)" by fastforce
    note H = service_hold [OF h(2) I r]
    have o: "on_store (BookingService_Hold (bh_Bookings h) b now) st = (r, (s1, snd st))"
      using r by (simp add: on_store_iff)
    note K = record_keeps [of "(s1, snd st)", simplified, OF H(1)]
    show ?thesis
    proof (cases r)
      case (Inl x)
      then show ?thesis using o h K H(2) [OF Inl]
        by (cases x) (simp add: hold_outcome_def Let_def RecordTransition_entries audit_entry_def)
    next
      case (Inr b')
      note B = hold [OF I H(3) [OF Inr]]
      from B have b': "b' \<in> rows s1" "rows s1 \<subseteq> insert b' (rows (fst st))" "bk_Status b' = BookingStatusHeld" by simp_all
      show ?thesis unfolding hold_outcome_def Let_def o Inr prod.case sum.case
        using h K H(1) b' by (auto simp: RecordTransition_entries audit_entry_def status_string_def)
    qed
  qed
  show ?thesis
    unfolding BookingHandler_Hold_def
    by (simp add: hold_refused [OF I] call split: option.split sum.split)
qed

end

lemma pg_audited_booking_store:
  assumes "postgres_types env"
  shows "audited_booking_store (pg_BookingStore env) (pg_inv (uuid_in env)) pg_rows (pg_find env) pg_ts
           (Some (pg_WriteAuditTransition env))"
proof (intro audited_booking_store.intro audited_booking_store_axioms.intro)
  show "booking_store (pg_BookingStore env) (pg_inv (uuid_in env)) pg_rows (pg_find env) pg_ts"
    by (rule exclusive_booking_store.axioms(1) [OF pg_exclusive_booking_store [OF assms]])
next
  fix w s e assume "Some (pg_WriteAuditTransition env) = Some w" and I: "pg_inv (uuid_in env) s"
  then have w: "w = pg_WriteAuditTransition env" by simp
  have "db_bookings (pg_db (op_ignore (w e) s)) = db_bookings (pg_db s)"
    unfolding w by (rule same_but_audit_bookings [OF pg_write_audit])
  with I show "pg_inv (uuid_in env) (op_ignore (w e) s) \<and> pg_rows (op_ignore (w e) s) = pg_rows s"
    by (simp add: pg_inv_def db_inv_def pg_rows_def)
qed

sublocale postgres_types \<subseteq> pg_http: audited_booking_store "pg_BookingStore env"
  "pg_inv (uuid_in env)" pg_rows "pg_find env" pg_ts "Some (pg_WriteAuditTransition env)"
  by (rule pg_audited_booking_store) (rule postgres_types_axioms)

text \<open>
  Property C11: access control and audit of the booking endpoints on the PostgreSQL store.
  Whatever a request to confirm, cancel, move or check in answers, it changes at most one
  booking, one that belongs to the tenant of the request and to its actor, unless the actor is
  an administrator. It answers 200 exactly when it recorded one audit entry, whose old and new
  states are the booking's status before and after; otherwise it records nothing and at most
  expires the hold it was asked to confirm.
\<close>

theorem booking_requests_audited:
  assumes "postgres_types env" and "pg_inv (uuid_in env) s" and "\<And>body. c \<noteq> HttpHold body"
    and "booking_http_step \<lparr>bh_Bookings = NewBookingService (pg_BookingStore env),
           bh_Audit = Some (pg_WriteAuditTransition env)\<rparr> c rq (s, log) = ((code, reply), (s', log'))"
  shows "pg_inv (uuid_in env) s' \<and> audited_change rq (pg_rows s) (pg_rows s') code log log'"
proof -
  note S = pg_audited_booking_store [OF assms(1)]
  show ?thesis
    using audited_booking_store.step_audited [OF S, of "\<lparr>bh_Bookings = NewBookingService (pg_BookingStore env),
       bh_Audit = Some (pg_WriteAuditTransition env)\<rparr>" "(s, log)" c rq] assms(2-)
    by (simp add: audited_booking_store.good_def [OF S] NewBookingService_def)
qed

definition demo_handler :: "pg_state BookingHandler" where
  "demo_handler = \<lparr>bh_Bookings = NewBookingService (pg_BookingStore demo_env),
     bh_Audit = Some (pg_WriteAuditTransition demo_env)\<rparr>"

definition demo_request_of :: "string \<Rightarrow> http_request" where
  "demo_request_of role = \<lparr>rq_path = [], rq_tenant = Some (demo_id CHR ''a''), rq_audit = None,
     rq_header = (\<lambda>k. if k = ''X-Actor-Role'' then role else []), rq_param = (\<lambda>_. demo_id CHR ''1''),
     rq_query = (\<lambda>_. []), rq_cookie = (\<lambda>_. None), rq_tls = False,
     rq_clock = (\<lambda>k. 30 * time_Second), rq_random = (\<lambda>_. None)\<rparr>"

definition demo_body :: bookingRequest where
  "demo_body = \<lparr>bq_BookingID = demo_id CHR ''1'', bq_RoomID = demo_id CHR ''c'', bq_InstructorID = demo_id CHR ''b'',
     bq_Title = ''Course'', bq_StartAt = ''2026-03-01T09:00'', bq_EndAt = ''2026-03-01T10:00'',
     bq_Capacity = 10, bq_Attendees = 5, bq_Why = []\<rparr>"

theorem booking_requests_audited_witness:
  "let out = booking_http_step demo_handler (HttpConfirm (Some demo_body)) (demo_request_of ''admin'') (demo_held_state, [])
   in fst (fst out) = 200 \<and>
      audited_change (demo_request_of ''admin'') (pg_rows demo_held_state) (pg_rows (fst (snd out))) 200 [] (snd (snd out))"
proof -
  let ?out = "booking_http_step demo_handler (HttpConfirm (Some demo_body)) (demo_request_of ''admin'') (demo_held_state, [])"
  have code: "fst (fst ?out) = 200" by code_simp
  have "booking_http_step demo_handler (HttpConfirm (Some demo_body)) (demo_request_of ''admin'') (demo_held_state, []) =
    ((fst (fst ?out), snd (fst ?out)), (fst (snd ?out), snd (snd ?out)))" by simp
  from booking_requests_audited [OF demo.postgres_types_axioms demo_held_inv _ this [unfolded demo_handler_def]] code
  show ?thesis unfolding Let_def by (simp add: demo_handler_def)
qed



end
