(* ===== verification/Task_Graph.thy ===== *)
theory Task_Graph
  imports Model_Types
begin

text \<open>
  The dependency check of \<^verbatim>\<open>internal/service/task.go\<close>. \<open>task_graph\<close> is the map
  \<^verbatim>\<open>graph\<close>; \<open>visit\<close> is the recursive closure, whose maps \<^verbatim>\<open>visited\<close> and
  \<^verbatim>\<open>stack\<close> are the pair of sets it passes along. Go visits the keys of a map in an
  order of its own choice, so \<open>ValidateDAG\<close> takes that choice as an argument. The recursion
  ends because every call that goes deeper marks a new node.
\<close>

subsection \<open>The check\<close>

type_synonym graph = "string list gomap"
type_synonym dfs_state = "string set \<times> string set"

fun build_graph :: "Task list \<Rightarrow> graph \<Rightarrow> graph" where
  "build_graph [] graph = graph"
| "build_graph (task # tasks) graph = build_graph tasks (gm_put (tk_ID task) (tk_DependencyIDs task) graph)"

definition deps_of :: "graph \<Rightarrow> string \<Rightarrow> string list" where
  "deps_of graph i = (case gm_get graph i of None \<Rightarrow> [] | Some deps \<Rightarrow> deps)"

function (sequential) visit :: "graph \<Rightarrow> string \<Rightarrow> dfs_state \<Rightarrow> bool \<times> dfs_state"
  and visit_deps :: "graph \<Rightarrow> string list \<Rightarrow> dfs_state \<Rightarrow> bool \<times> dfs_state" where
  "visit graph i (visited, stack) =
     (if i \<in> stack then (True, (visited, stack))
      else if i \<in> visited then (False, (visited, stack))
      else (case visit_deps graph (deps_of graph i) (insert i visited, insert i stack) of
              (True, st) \<Rightarrow> (True, st)
            | (False, (visited', stack')) \<Rightarrow> (False, (visited', stack' - {i}))))"
| "visit_deps graph [] st = (False, st)"
| "visit_deps graph (dep # deps) st =
     (case visit graph dep st of
        (True, st') \<Rightarrow> (True, st')
      | (False, st') \<Rightarrow> visit_deps graph deps st')"
  by pat_completeness auto

text \<open>Nodes stay visited; this is known of every call that returns, before termination is.\<close>

lemma visit_grows_partial:
  "visit_visit_deps_dom (Inl (g, i, st)) \<Longrightarrow> fst st \<subseteq> fst (snd (visit g i st))"
  "visit_visit_deps_dom (Inr (g, ds, st)) \<Longrightarrow> fst st \<subseteq> fst (snd (visit_deps g ds st))"
proof (induction rule: visit_visit_deps.pinduct)
  case (1 g i V S)
  obtain b V' S' where "visit_deps g (deps_of g i) (insert i V, insert i S) = (b, (V', S'))"
    by (metis prod.exhaust)
  with 1 show ?case by (cases b) (auto simp: visit.psimps)
next
  case (2 g st)
  then show ?case by (simp add: visit_deps.psimps)
next
  case (3 g d ds st)
  obtain b st' where "visit g d st = (b, st')" by (metis prod.exhaust)
  with 3 show ?case by (cases b) (auto simp: visit_deps.psimps)
qed

definition nodes :: "graph \<Rightarrow> string set" where
  "nodes graph = fst ` set graph \<union> \<Union> (set ` snd ` set graph)"

lemma finite_nodes [simp]: "finite (nodes g)"
  by (simp add: nodes_def)

lemma deps_of_nodes: "i \<notin> nodes g \<Longrightarrow> deps_of g i = []"
  by (force simp: nodes_def deps_of_def split: option.splits dest: map_of_SomeD)

definition unvisited :: "graph \<Rightarrow> dfs_state \<Rightarrow> nat" where
  "unvisited g st = card (nodes g - fst st)"

lemma unvisited_mono: "fst st \<subseteq> fst st' \<Longrightarrow> unvisited g st' \<le> unvisited g st"
  by (auto simp: unvisited_def intro!: card_mono)

lemma unvisited_insert: "i \<in> nodes g \<Longrightarrow> i \<notin> V \<Longrightarrow> unvisited g (insert i V, S') < unvisited g (V, S)"
  unfolding unvisited_def by (rule psubset_card_mono) auto

termination visit
proof (relation "measures [case_sum (\<lambda>(g, i, st). unvisited g st) (\<lambda>(g, ds, st). unvisited g st),
                           case_sum (\<lambda>_. 1) (\<lambda>(g, ds, st). 2 * length ds)]", goal_cases)
  case 1 show ?case by simp
next
  case (2 g i V S)
  then show ?case
    using unvisited_insert [of i g V "insert i S" S] unvisited_mono [of "(V, S)" "(insert i V, insert i S)" g]
      deps_of_nodes [of i g] by (cases "i \<in> nodes g") (auto simp: le_less)
next
  case (3 g d ds st) show ?case by simp
next
  case (4 g d ds st b st')
  then have "fst st \<subseteq> fst st'" using visit_grows_partial(1) [of g d st] by (metis snd_conv)
  from unvisited_mono [OF this, of g] show ?case by (auto simp: le_less)
qed

fun visit_all :: "graph \<Rightarrow> string list \<Rightarrow> dfs_state \<Rightarrow> bool" where
  "visit_all graph [] st = False"
| "visit_all graph (i # ids) st =
     (case visit graph i st of (True, _) \<Rightarrow> True | (False, st') \<Rightarrow> visit_all graph ids st')"

text \<open>The result is the error, \<open>None\<close> for \<^verbatim>\<open>nil\<close>.\<close>

definition ValidateDAG :: "(string list \<Rightarrow> string list) \<Rightarrow> Task list \<Rightarrow> go_error option" where
  "ValidateDAG order tasks =
     (let graph = build_graph tasks []
      in if visit_all graph (order (map fst graph)) ({}, {}) then Some ErrTaskCycleDetected else None)"

subsection \<open>Correctness\<close>

text \<open>The edges of the graph, and the invariant of the search: finished nodes are closed and on no cycle.\<close>

definition edges :: "graph \<Rightarrow> (string \<times> string) set" where
  "edges g = {(i, d). d \<in> set (deps_of g i)}"

definition dfs_inv :: "graph \<Rightarrow> dfs_state \<Rightarrow> bool" where
  "dfs_inv g st \<longleftrightarrow> snd st \<subseteq> fst st \<and> edges g `` (fst st - snd st) \<subseteq> fst st - snd st \<and>
     (\<forall>v\<in>fst st - snd st. (v, v) \<notin> (edges g)\<^sup>+)"

lemma closed_trancl: "r `` D \<subseteq> D \<Longrightarrow> a \<in> D \<Longrightarrow> (a, b) \<in> r\<^sup>+ \<Longrightarrow> b \<in> D"
  by (metis Image_closed_trancl Image_iff trancl_into_rtrancl)

text \<open>What a search from \<open>ds\<close> promises: a cycle, or the same stack and every node of \<open>ds\<close> finished.\<close>

definition dfs_post :: "graph \<Rightarrow> string list \<Rightarrow> dfs_state \<Rightarrow> bool \<times> dfs_state \<Rightarrow> bool" where
  "dfs_post g ds st r \<longleftrightarrow>
     (if fst r then \<not> acyclic (edges g)
      else snd (snd r) = snd st \<and> fst st \<subseteq> fst (snd r) \<and> set ds \<subseteq> fst (snd r) - snd st \<and> dfs_inv g (snd r))"

lemma dfs_finish:
  assumes I: "dfs_inv g (V', insert i S)" and i: "i \<notin> S" "i \<in> V'"
    and deps: "set (deps_of g i) \<subseteq> V' - insert i S"
  shows "dfs_inv g (V', S)"
proof -
  let ?D = "V' - insert i S"
  from I have cl: "edges g `` ?D \<subseteq> ?D" and ac: "\<forall>v\<in>?D. (v, v) \<notin> (edges g)\<^sup>+" and S: "insert i S \<subseteq> V'"
    by (simp_all add: dfs_inv_def)
  have D: "V' - S = insert i ?D" using i by blast
  have "(i, i) \<notin> (edges g)\<^sup>+"
  proof
    assume "(i, i) \<in> (edges g)\<^sup>+"
    then obtain d where d: "(i, d) \<in> edges g" "(d, i) \<in> (edges g)\<^sup>*" by (meson tranclD)
    with deps have "d \<in> ?D" by (auto simp: edges_def)
    with cl d(2) have "i \<in> ?D" by (metis Image_closed_trancl Image_iff)
    then show False by simp
  qed
  moreover have "edges g `` {i} \<subseteq> ?D" using deps by (auto simp: edges_def)
  ultimately show ?thesis using cl ac S unfolding dfs_inv_def fst_conv snd_conv D by blast
qed

lemma visit_correct:
  "dfs_inv g st \<Longrightarrow> \<forall>s\<in>snd st. (s, i) \<in> (edges g)\<^sup>+ \<Longrightarrow> dfs_post g [i] st (visit g i st)"
  "dfs_inv g st \<Longrightarrow> \<forall>s\<in>snd st. \<forall>d\<in>set ds. (s, d) \<in> (edges g)\<^sup>+ \<Longrightarrow> dfs_post g ds st (visit_deps g ds st)"
proof (induction g i st and g ds st rule: visit_visit_deps.induct)
  case (1 g i V S)
  consider (on) "i \<in> S" | (seen) "i \<notin> S" "i \<in> V" | (new) "i \<notin> S" "i \<notin> V" by blast
  then show ?case
  proof cases
    case on with 1(3) show ?thesis by (auto simp: dfs_post_def acyclic_def)
  next
    case seen with 1(2) show ?thesis by (simp add: dfs_post_def)
  next
    case new
    have "dfs_inv g (insert i V, insert i S)" using 1(2) new by (auto simp: dfs_inv_def)
    moreover have "\<forall>s\<in>insert i S. \<forall>d\<in>set (deps_of g i). (s, d) \<in> (edges g)\<^sup>+"
      using 1(3) by (auto simp: edges_def intro: trancl_into_trancl)
    ultimately have P: "dfs_post g (deps_of g i) (insert i V, insert i S)
        (visit_deps g (deps_of g i) (insert i V, insert i S))" using 1(1) new by simp
    obtain b V' S' where r: "visit_deps g (deps_of g i) (insert i V, insert i S) = (b, (V', S'))"
      by (metis prod.exhaust)
    show ?thesis
    proof (cases b)
      case True with P r new show ?thesis by (simp add: dfs_post_def)
    next
      case False
      with P r have S': "S' = insert i S" "insert i V \<subseteq> V'" "set (deps_of g i) \<subseteq> V' - insert i S"
          "dfs_inv g (V', insert i S)" by (auto simp: dfs_post_def)
      have "dfs_inv g (V', S)" using dfs_finish [OF S'(4) new(1) _ S'(3)] S'(2) by simp
      with False r new S' show ?thesis by (auto simp: dfs_post_def)
    qed
  qed
next
  case (2 g st) then show ?case by (simp add: dfs_post_def)
next
  case (3 g d ds st)
  then have P: "dfs_post g [d] st (visit g d st)" by simp
  obtain b st' where r: "visit g d st = (b, st')" by (metis prod.exhaust)
  show ?case
  proof (cases b)
    case True with P r show ?thesis by (simp add: dfs_post_def)
  next
    case False
    with P r have st': "snd st' = snd st" "fst st \<subseteq> fst st'" "d \<in> fst st' - snd st" "dfs_inv g st'"
      by (simp_all add: dfs_post_def)
    with 3(2) 3(4) False r have "dfs_post g ds st' (visit_deps g ds st')" by simp
    with False r st' show ?thesis by (auto simp: dfs_post_def split: if_splits)
  qed
qed

lemma visit_all_correct:
  "dfs_inv g (V, {}) \<Longrightarrow> if visit_all g ids (V, {}) then \<not> acyclic (edges g)
     else \<exists>V'. V \<union> set ids \<subseteq> V' \<and> dfs_inv g (V', {})"
proof (induction ids arbitrary: V)
  case (Cons i ids)
  obtain b st' where r: "visit g i (V, {}) = (b, st')" by (metis prod.exhaust)
  have P: "dfs_post g [i] (V, {}) (b, st')" using visit_correct(1) [OF Cons.prems, of i] r by simp
  show ?case
  proof (cases b)
    case True with P r show ?thesis by (simp add: dfs_post_def)
  next
    case False
    with P obtain V1 where "st' = (V1, {})" "insert i V \<subseteq> V1" "dfs_inv g (V1, {})"
      by (cases st') (auto simp: dfs_post_def)
    with Cons.IH [of V1] False r show ?thesis by (auto split: if_splits)
  qed
qed auto

text \<open>
  Who depends on whom, read off the list of tasks; of two entries for one identifier the later
  one counts, as for the map. \<open>task_edges\<close> is the plain reading when identifiers are distinct.
\<close>

definition depends_on :: "Task list \<Rightarrow> (string \<times> string) set" where
  "depends_on tasks = {(i, d). \<exists>deps. map_of (rev (map (\<lambda>t. (tk_ID t, tk_DependencyIDs t)) tasks)) i = Some deps \<and>
     d \<in> set deps}"

definition task_edges :: "Task set \<Rightarrow> (string \<times> string) set" where
  "task_edges T = {(i, d). \<exists>t\<in>T. tk_ID t = i \<and> d \<in> set (tk_DependencyIDs t)}"

lemma build_graph_get:
  "gm_get (build_graph ts g) = gm_get g ++ map_of (rev (map (\<lambda>t. (tk_ID t, tk_DependencyIDs t)) ts))"
  by (induction ts arbitrary: g) (auto simp: update_conv' map_add_def split: option.splits)

lemma edges_build_graph: "edges (build_graph ts []) = depends_on ts"
proof -
  have "d \<in> set (deps_of (build_graph ts []) i) \<longleftrightarrow>
    (\<exists>deps. map_of (rev (map (\<lambda>t. (tk_ID t, tk_DependencyIDs t)) ts)) i = Some deps \<and> d \<in> set deps)" for i d
    by (cases "map_of (rev (map (\<lambda>t. (tk_ID t, tk_DependencyIDs t)) ts)) i")
      (simp_all add: deps_of_def build_graph_get)
  then show ?thesis by (simp add: edges_def depends_on_def)
qed

lemma depends_on_distinct:
  assumes "distinct (map tk_ID ts)" shows "depends_on ts = task_edges (set ts)"
proof -
  have "map_of (rev (map (\<lambda>t. (tk_ID t, tk_DependencyIDs t)) ts)) i = Some ds \<longleftrightarrow>
      (i, ds) \<in> set (rev (map (\<lambda>t. (tk_ID t, tk_DependencyIDs t)) ts))" for i ds
    by (rule map_of_eq_Some_iff) (use assms in \<open>simp add: rev_map [symmetric] comp_def\<close>)
  then show ?thesis by (auto simp: depends_on_def task_edges_def)
qed

lemma acyclic_keys:
  assumes "dfs_inv g (V, {})" and "fst ` set g \<subseteq> V" shows "acyclic (edges g)"
  unfolding acyclic_def
proof (intro allI notI)
  fix v assume v: "(v, v) \<in> (edges g)\<^sup>+"
  then obtain d where "(v, d) \<in> edges g" by (meson tranclD)
  then have "v \<in> fst ` set g"
    by (cases "gm_get g v") (auto simp: edges_def deps_of_def dest: map_of_SomeD intro: rev_image_eqI)
  with assms v show False by (auto simp: dfs_inv_def)
qed

lemma ValidateDAG_None:
  assumes "\<And>ks. set (order ks) = set ks"
  shows "ValidateDAG order tasks = None \<longleftrightarrow> acyclic (depends_on tasks)"
proof -
  let ?g = "build_graph tasks []"
  have "dfs_inv ?g ({}, {})" by (simp add: dfs_inv_def)
  from visit_all_correct [OF this, of "order (map fst ?g)"]
  have "visit_all ?g (order (map fst ?g)) ({}, {}) \<longleftrightarrow> \<not> acyclic (edges ?g)"
    using acyclic_keys [of ?g] assms by (fastforce split: if_splits)
  then show ?thesis by (simp add: ValidateDAG_def Let_def edges_build_graph)
qed

text \<open>
  Property C13: the dependency check reports a cycle exactly when the dependency relation has one,
  whatever order the tasks come in and whatever order the keys of the map are visited in, with
  dependencies on unknown tasks, on oneself and repeated ones included. The check is a total function.
\<close>

theorem ValidateDAG_iff_acyclic:
  assumes "\<And>ks. set (order ks) = set ks"
  shows "ValidateDAG order tasks = (if acyclic (depends_on tasks) then None else Some ErrTaskCycleDetected)"
  using ValidateDAG_None [OF assms, of tasks] by (auto simp: ValidateDAG_def Let_def)

definition demo_task :: "string \<Rightarrow> string list \<Rightarrow> Task" where
  "demo_task i deps = \<lparr>tk_ID = i, tk_TenantID = [], tk_MilestoneID = [], tk_ParentTaskID = [], tk_Title = [],
     tk_Description = [], tk_DueDate = None, tk_DependencyIDs = deps, tk_EstimatedMinutes = 0,
     tk_ActualMinutes = 0, tk_Version = 1, tk_CreatedAt = 0, tk_UpdatedAt = 0\<rparr>"

theorem ValidateDAG_iff_acyclic_witness:
  "\<not> acyclic (depends_on [demo_task ''a'' [''b'', ''c''], demo_task ''b'' [''c''], demo_task ''c'' [''a'']]) \<and>
   acyclic (depends_on [demo_task ''a'' [''b'', ''c''], demo_task ''b'' [''c'']])"
proof -
  have "ValidateDAG rev [demo_task ''a'' [''b'', ''c''], demo_task ''b'' [''c''], demo_task ''c'' [''a'']] \<noteq> None"
    by code_simp
  moreover have "ValidateDAG rev [demo_task ''a'' [''b'', ''c''], demo_task ''b'' [''c'']] = None" by code_simp
  ultimately show ?thesis using ValidateDAG_iff_acyclic [of rev] by (auto split: if_splits)
qed

end
