(* ===== verification/Task_Service.thy ===== *)
theory Task_Service
  imports Task_Graph
begin

text \<open>
  The task service of \<^verbatim>\<open>internal/service/task.go\<close> over the interface \<^verbatim>\<open>TaskStore\<close>, and the
  contract a task store keeps: what it lists for a tenant is what was stored, one task for an
  identifier, and storing a task replaces or adds that one task and leaves other tenants alone.
\<close>

record 's TaskStore =
  ts_UpsertTask :: "Task \<Rightarrow> (unit, 's) op"
  ts_GetTask :: "string \<Rightarrow> string \<Rightarrow> (Task, 's) op"
  ts_ListTasks :: "string \<Rightarrow> (Task list, 's) op"
  ts_DeleteTask :: "string \<Rightarrow> string \<Rightarrow> (unit, 's) op"

record 's TaskService =
  tv_Store :: "'s TaskStore"

definition NewTaskService :: "'s TaskStore \<Rightarrow> 's TaskService" where
  "NewTaskService store = \<lparr>tv_Store = store\<rparr>"

fun effort_loop :: "Task list \<Rightarrow> TaskEffortSummary \<Rightarrow> TaskEffortSummary" where
  "effort_loop [] summary = summary"
| "effort_loop (task # tasks) summary = effort_loop tasks
     (summary\<lparr>ef_EstimatedMinutes := i64 (ef_EstimatedMinutes summary + tk_EstimatedMinutes task),
              ef_ActualMinutes := i64 (ef_ActualMinutes summary + tk_ActualMinutes task)\<rparr>)"

definition CalculateEffort :: "Task list \<Rightarrow> TaskEffortSummary" where
  "CalculateEffort tasks =
     (let summary = effort_loop tasks \<lparr>ef_EstimatedMinutes = 0, ef_ActualMinutes = 0, ef_VarianceMinutes = 0\<rparr>
      in summary\<lparr>ef_VarianceMinutes := i64 (ef_ActualMinutes summary - ef_EstimatedMinutes summary)\<rparr>)"

definition UpdateTask :: "'s TaskService \<Rightarrow> Task \<Rightarrow> int \<Rightarrow> (unit, 's) op" where
  "UpdateTask s updated expectedVersion =
     op_bind (ts_GetTask (tv_Store s) (tk_TenantID updated) (tk_ID updated)) (\<lambda>current.
       if tk_Version current \<noteq> expectedVersion then op_fail ErrTaskVersionConflict
       else ts_UpsertTask (tv_Store s) (updated\<lparr>tk_Version := i64 (expectedVersion + 1)\<rparr>))"

definition DependencySummary :: "(string list \<Rightarrow> string list) \<Rightarrow> Task list \<Rightarrow> string" where
  "DependencySummary order tasks =
     (if ValidateDAG order tasks \<noteq> None then ''task dependency cycle detected''
      else itoa (int (length tasks)) @ '' tasks validated'')"

subsection \<open>Effort\<close>

lemma wrap_add:
  fixes a b c m :: int
  shows "((a + c) mod m - c + b + c) mod m = (a + b + c) mod m"
    and "((a + c) mod m - c - ((b + c) mod m - c) + c) mod m = (a - b + c) mod m"
proof -
  have "((a + c) mod m - c + b + c) mod m = ((a + c) mod m + b) mod m" by (simp add: algebra_simps)
  also have "\<dots> = (a + c + b) mod m" by (rule mod_add_left_eq)
  finally show "((a + c) mod m - c + b + c) mod m = (a + b + c) mod m" by (simp add: algebra_simps)
  have "((a + c) mod m - c - ((b + c) mod m - c) + c) mod m = ((a + c) mod m - (b + c) mod m + c) mod m"
    by (simp add: algebra_simps)
  also have "\<dots> = (((a + c) mod m - (b + c) mod m) mod m + c) mod m" by (simp add: mod_add_left_eq)
  also have "\<dots> = (a - b + c) mod m" by (simp add: mod_diff_eq mod_add_left_eq)
  finally show "((a + c) mod m - c - ((b + c) mod m - c) + c) mod m = (a - b + c) mod m" .
qed

lemma i64_add: "i64 (i64 a + b) = i64 (a + b)" "i64 (i64 a - i64 b) = i64 (a - b)"
  unfolding i64_def wrap_add by (rule refl)+

lemma effort_loop_sums:
  "ef_EstimatedMinutes s = i64 e \<Longrightarrow> ef_ActualMinutes s = i64 a \<Longrightarrow>
   effort_loop ts s = s\<lparr>ef_EstimatedMinutes := i64 (e + sum_list (map tk_EstimatedMinutes ts)),
     ef_ActualMinutes := i64 (a + sum_list (map tk_ActualMinutes ts))\<rparr>"
proof (induction ts arbitrary: s e a)
  case Nil then show ?case by (cases s) simp
next
  case (Cons t ts)
  show ?case
    by (simp add: Cons.IH [of _ "e + tk_EstimatedMinutes t" "a + tk_ActualMinutes t"] Cons.prems i64_add add.assoc)
qed

text \<open>
  The effort summary holds the sums of the estimated and the actual minutes and the
  difference of the sums, each reduced to 64 bits once, so neither the order of the tasks nor an
  overflow on the way matters.
\<close>

theorem CalculateEffort_sums:
  "CalculateEffort tasks =
     \<lparr>ef_EstimatedMinutes = i64 (sum_list (map tk_EstimatedMinutes tasks)),
      ef_ActualMinutes = i64 (sum_list (map tk_ActualMinutes tasks)),
      ef_VarianceMinutes = i64 (sum_list (map tk_ActualMinutes tasks) - sum_list (map tk_EstimatedMinutes tasks))\<rparr>"
  using effort_loop_sums [of "\<lparr>ef_EstimatedMinutes = 0, ef_ActualMinutes = 0, ef_VarianceMinutes = 0\<rparr>" 0 0 tasks]
  by (simp add: CalculateEffort_def Let_def i64_add)

subsection \<open>The contract\<close>

text \<open>Storing \<open>t\<close> among the tasks \<open>T\<close> of a tenant.\<close>

definition put_task :: "Task \<Rightarrow> Task set \<Rightarrow> Task set" where
  "put_task t T = insert t {x \<in> T. tk_ID x \<noteq> tk_ID t}"

text \<open>
  \<open>tasks_of s T\<close> are the stored tasks of the tenant called \<open>T\<close>, and \<open>home s T\<close> is what the name stands
  for, since a tenant may have several. A task is \<open>safe\<close> to store when its identifier is in the stored
  form and not in use by another tenant; \<open>named\<close> are the tenant names a store keeps apart, \<open>canon\<close> is the
  stored form of an identifier.
\<close>

locale task_store =
  fixes store :: "'s TaskStore"
    and inv :: "'s \<Rightarrow> bool"
    and tasks_of :: "'s \<Rightarrow> string \<Rightarrow> Task set"
    and home :: "'s \<Rightarrow> string \<Rightarrow> string option"
    and safe :: "'s \<Rightarrow> Task \<Rightarrow> bool"
    and named :: "string \<Rightarrow> bool"
    and canon :: "string \<Rightarrow> string"
  assumes list_ok: "inv s \<Longrightarrow> ts_ListTasks store T s = (Inr ts, s') \<Longrightarrow>
      inv s' \<and> tasks_of s' = tasks_of s \<and> safe s' = safe s \<and> home s' = home s \<and>
      set ts = tasks_of s T \<and> distinct (map tk_ID ts)"
    and list_err: "inv s \<Longrightarrow> ts_ListTasks store T s = (Inl e, s') \<Longrightarrow>
      inv s' \<and> tasks_of s' = tasks_of s \<and> safe s' = safe s \<and> home s' = home s"
    and get_ok: "inv s \<Longrightarrow> named T \<Longrightarrow> ts_GetTask store T i s = (Inr t, s') \<Longrightarrow>
      inv s' \<and> tasks_of s' = tasks_of s \<and> safe s' = safe s \<and> home s' = home s \<and>
      t \<in> tasks_of s T \<and> safe s t \<and> tk_ID t = canon i \<and> named (tk_TenantID t) \<and> home s (tk_TenantID t) = home s T"
    and get_err: "inv s \<Longrightarrow> ts_GetTask store T i s = (Inl e, s') \<Longrightarrow>
      inv s' \<and> tasks_of s' = tasks_of s \<and> safe s' = safe s \<and> home s' = home s"
    and upsert_ok: "inv s \<Longrightarrow> safe s t \<Longrightarrow> ts_UpsertTask store t s = (Inr (), s') \<Longrightarrow>
      inv s' \<and> home s' = home s \<and>
      (\<exists>t'. tk_ID t' = tk_ID t \<and> tk_DependencyIDs t' = tk_DependencyIDs t \<and> tk_Version t' = tk_Version t \<and>
        (\<forall>T. tasks_of s' T = (if home s T = home s (tk_TenantID t) then put_task t' (tasks_of s T) else tasks_of s T)))"
    and upsert_err: "inv s \<Longrightarrow> ts_UpsertTask store t s = (Inl e, s') \<Longrightarrow> inv s' \<and> tasks_of s' = tasks_of s"
    and home_tasks: "home s T = home s U \<Longrightarrow> tasks_of s T = tasks_of s U"
    and safe_cong: "safe s t \<Longrightarrow> tk_ID t' = tk_ID t \<Longrightarrow> tk_TenantID t' = tk_TenantID t \<Longrightarrow> safe s t'"
    and canon_stored: "inv s \<Longrightarrow> t \<in> tasks_of s T \<Longrightarrow> canon (tk_ID t) = tk_ID t"
    and unique: "inv s \<Longrightarrow> inj_on tk_ID (tasks_of s T)"
begin

definition dag :: "'s \<Rightarrow> bool" where
  "dag s \<longleftrightarrow> (\<forall>T. acyclic (task_edges (tasks_of s T)))"

lemma put_keeps_dag:
  assumes "dag s" and I: "inv s" "safe s t" and run: "ts_UpsertTask store t s = (r, s')"
    and ok: "acyclic (task_edges (put_task t (tasks_of s (tk_TenantID t))))"
  shows "dag s' \<and> inv s'"
proof (cases r)
  case (Inl e) with upsert_err [of s t e s'] assms show ?thesis by (simp add: dag_def)
next
  case (Inr u)
  with upsert_ok [OF I, of s'] run obtain t' where t': "tk_ID t' = tk_ID t" "tk_DependencyIDs t' = tk_DependencyIDs t"
    and T: "tasks_of s' T = (if home s T = home s (tk_TenantID t) then put_task t' (tasks_of s T) else tasks_of s T)"
    and "inv s'" for T by auto
  have "task_edges (put_task t' A) = task_edges (put_task t A)" for A
    using t' by (auto simp: task_edges_def put_task_def)
  with T \<open>inv s'\<close> assms(1) ok show ?thesis unfolding dag_def by (metis home_tasks)
qed

text \<open>Versions: an update that succeeds found the version it expected and stored the next one.\<close>

lemma UpdateTask_version:
  assumes I: "inv s" and s: "safe s updated" "tv_Store svc = store" "named (tk_TenantID updated)"
    and x: "x \<in> tasks_of s (tk_TenantID updated)" "tk_ID updated = tk_ID x"
    and run: "UpdateTask svc updated v s = (r, s')"
  shows "inv s' \<and>
    (case r of Inl e \<Rightarrow> tasks_of s' = tasks_of s
     | Inr _ \<Rightarrow> tk_Version x = v \<and> (\<exists>t'. tk_Version t' = i64 (v + 1) \<and> tk_ID t' = tk_ID x \<and>
         tk_DependencyIDs t' = tk_DependencyIDs updated \<and> home s' = home s \<and>
         (\<forall>T. tasks_of s' T = (if home s T = home s (tk_TenantID updated) then put_task t' (tasks_of s T) else tasks_of s T))))"
  using run [unfolded UpdateTask_def s(2)]
proof (cases rule: op_bindE)
  case (err e) with get_err [OF I] show ?thesis by simp
next
  case (ok current s1)
  from get_ok [OF I s(3) ok(1)] have 1: "inv s1" "tasks_of s1 = tasks_of s" "safe s1 = safe s"
    "home s1 = home s" "current \<in> tasks_of s (tk_TenantID updated)" "tk_ID current = canon (tk_ID x)" by (simp_all add: x)
  then have "current = x" using unique [OF I] canon_stored [OF I] x by (metis inj_onD)
  let ?u = "updated\<lparr>tk_Version := i64 (v + 1)\<rparr>"
  have safe: "safe s1 ?u" unfolding 1(3) by (rule safe_cong [OF s(1)]) simp_all
  show ?thesis
  proof (cases "tk_Version x = v")
    case False with ok(2) 1 \<open>current = x\<close> show ?thesis by auto
  next
    case True
    with ok(2) \<open>current = x\<close> have u: "ts_UpsertTask store ?u s1 = (r, s')" by simp
    show ?thesis
    proof (cases r)
      case (Inl e) with upsert_err [OF 1(1)] u 1 True show ?thesis by auto
    next
      case (Inr y)
      with upsert_ok [OF 1(1) safe, of s'] u obtain t' where "inv s'" "tk_Version t' = i64 (v + 1)" "tk_ID t' = tk_ID updated"
        "tk_DependencyIDs t' = tk_DependencyIDs updated" "home s' = home s"
        "\<forall>T. tasks_of s' T = (if home s T = home s (tk_TenantID updated) then put_task t' (tasks_of s T) else tasks_of s T)"
        by (auto simp: 1(2,4))
      with Inr True x show ?thesis by auto
    qed
  qed
qed

end

end
