(* ===== verification/Task_Memory.thy ===== *)
theory Task_Memory
  imports Task_Service
begin

text \<open>
  The in-memory task store, \<^verbatim>\<open>internal/repository/memory/task_store.go\<close>. Its keys are the texts
  \<^verbatim>\<open>tenant:task\<close>, so the contract holds for tenants whose names have no colon.
\<close>

record TaskRepository =
  tr_tasks :: "Task gomap"

definition NewTaskRepository :: TaskRepository where
  "NewTaskRepository = \<lparr>tr_tasks = []\<rparr>"

definition taskKey :: "string \<Rightarrow> string \<Rightarrow> string" where
  "taskKey tenantID taskID = tenantID @ '':'' @ taskID"

definition mem_UpsertTask :: "Task \<Rightarrow> (unit, TaskRepository) op" where
  "mem_UpsertTask task r =
     (Inr (), r\<lparr>tr_tasks := gm_put (taskKey (tk_TenantID task) (tk_ID task)) task (tr_tasks r)\<rparr>)"

definition mem_GetTask :: "string \<Rightarrow> string \<Rightarrow> (Task, TaskRepository) op" where
  "mem_GetTask tenantID taskID r =
     (case gm_get (tr_tasks r) (taskKey tenantID taskID) of
        None \<Rightarrow> (Inl ErrTaskNotFound, r) | Some task \<Rightarrow> (Inr task, r))"

definition mem_ListTasks :: "string \<Rightarrow> (Task list, TaskRepository) op" where
  "mem_ListTasks tenantID r =
     (Inr (sort_key (\<lambda>t. to_lower (tk_Title t)) (filter (\<lambda>t. tk_TenantID t = tenantID) (map snd (tr_tasks r)))), r)"

definition mem_DeleteTask :: "string \<Rightarrow> string \<Rightarrow> (unit, TaskRepository) op" where
  "mem_DeleteTask tenantID taskID r = (Inr (), r\<lparr>tr_tasks := gm_del (taskKey tenantID taskID) (tr_tasks r)\<rparr>)"

definition mem_TaskStore :: "TaskRepository TaskStore" where
  "mem_TaskStore = \<lparr>ts_UpsertTask = mem_UpsertTask, ts_GetTask = mem_GetTask,
     ts_ListTasks = mem_ListTasks, ts_DeleteTask = mem_DeleteTask\<rparr>"

subsection \<open>The contract\<close>

definition plain_name :: "string \<Rightarrow> bool" where
  "plain_name T \<longleftrightarrow> CHR '':'' \<notin> set T"

definition mem_task_key :: "Task \<Rightarrow> string" where
  "mem_task_key t = taskKey (tk_TenantID t) (tk_ID t)"

definition mem_tasks_of :: "TaskRepository \<Rightarrow> string \<Rightarrow> Task set" where
  "mem_tasks_of r T = {t \<in> snd ` set (tr_tasks r). tk_TenantID t = T}"

definition mem_task_inv :: "TaskRepository \<Rightarrow> bool" where
  "mem_task_inv r \<longleftrightarrow> gm_keyed mem_task_key (tr_tasks r) \<and> (\<forall>t\<in>snd ` set (tr_tasks r). plain_name (tk_TenantID t))"

definition mem_task_safe :: "TaskRepository \<Rightarrow> Task \<Rightarrow> bool" where
  "mem_task_safe r t \<longleftrightarrow> plain_name (tk_TenantID t)"

lemma taskKey_inj:
  "plain_name T \<Longrightarrow> plain_name U \<Longrightarrow> taskKey T i = taskKey U j \<longleftrightarrow> T = U \<and> i = j"
  by (auto simp: taskKey_def plain_name_def append_eq_append_conv2 Cons_eq_append_conv append_eq_Cons_conv)

lemma mem_task_inv_new: "mem_task_inv NewTaskRepository"
  by (simp add: mem_task_inv_def NewTaskRepository_def)

lemma mem_task_get:
  assumes "mem_task_inv r"
  shows "gm_get (tr_tasks r) k = Some t \<longleftrightarrow> t \<in> snd ` set (tr_tasks r) \<and> k = mem_task_key t"
proof
  assume "gm_get (tr_tasks r) k = Some t"
  with assms show "t \<in> snd ` set (tr_tasks r) \<and> k = mem_task_key t"
    by (auto simp: mem_task_inv_def gm_keyed_get intro: gm_get_snd)
next
  assume "t \<in> snd ` set (tr_tasks r) \<and> k = mem_task_key t"
  with assms show "gm_get (tr_tasks r) k = Some t"
    by (auto simp: mem_task_inv_def gm_keyed_def simp flip: gm_get_mem)
qed

lemma mem_task_unique: "mem_task_inv r \<Longrightarrow> inj_on tk_ID (mem_tasks_of r T)"
  by (rule inj_onI) (metis (mono_tags, lifting) mem_Collect_eq mem_task_get mem_task_key_def mem_tasks_of_def option.inject)

text \<open>The rows after a task was stored under its key.\<close>

lemma mem_upsert_rows:
  assumes "mem_task_inv r" and "plain_name (tk_TenantID t)"
  shows "snd ` set (gm_put (mem_task_key t) t (tr_tasks r)) =
    insert t {x \<in> snd ` set (tr_tasks r). \<not> (tk_TenantID x = tk_TenantID t \<and> tk_ID x = tk_ID t)}" (is "?L = ?R")
proof -
  let ?m = "gm_put (mem_task_key t) t (tr_tasks r)"
  from assms(1) have ok: "gm_ok (tr_tasks r)" and "gm_ok ?m" by (auto simp: mem_task_inv_def dest: gm_keyed_ok)
  have "x \<in> ?L \<longleftrightarrow> (\<exists>k. gm_get ?m k = Some x)" for x
    using \<open>gm_ok ?m\<close> by (auto simp: gm_get_mem image_iff) (metis gm_get_mem snd_conv)+
  also have "(\<exists>k. gm_get ?m k = Some x) \<longleftrightarrow> x = t \<or> (x \<in> snd ` set (tr_tasks r) \<and> mem_task_key x \<noteq> mem_task_key t)" for x
    by (auto simp: gm_get_put mem_task_get [OF assms(1)])
  also have "(x = t \<or> (x \<in> snd ` set (tr_tasks r) \<and> mem_task_key x \<noteq> mem_task_key t)) \<longleftrightarrow> x \<in> ?R" for x
    using assms by (auto simp: mem_task_key_def taskKey_inj mem_task_inv_def)
  finally show ?thesis by blast
qed

lemma mem_upsert_tasks_of:
  assumes "mem_task_inv r" and "plain_name (tk_TenantID t)" and "mem_UpsertTask t r = (Inr (), r')"
  shows "mem_task_inv r'" and "mem_tasks_of r' T = (if T = tk_TenantID t then put_task t (mem_tasks_of r T) else mem_tasks_of r T)"
proof -
  from assms(3) have r': "tr_tasks r' = gm_put (mem_task_key t) t (tr_tasks r)"
    by (auto simp: mem_UpsertTask_def mem_task_key_def)
  note rows = mem_upsert_rows [OF assms(1,2)]
  from assms(1,2) show "mem_task_inv r'" unfolding mem_task_inv_def r' rows by (auto simp: mem_task_inv_def)
  show "mem_tasks_of r' T = (if T = tk_TenantID t then put_task t (mem_tasks_of r T) else mem_tasks_of r T)"
    unfolding mem_tasks_of_def r' rows by (auto simp: put_task_def)
qed

interpretation mem_tasks: task_store mem_TaskStore mem_task_inv mem_tasks_of "\<lambda>_. Some" mem_task_safe plain_name "\<lambda>i. i"
proof unfold_locales
  fix s T ts s' assume I: "mem_task_inv s" and "ts_ListTasks mem_TaskStore T s = (Inr ts, s')"
  then have ts: "s' = s" "ts = sort_key (\<lambda>t. to_lower (tk_Title t)) (filter (\<lambda>t. tk_TenantID t = T) (map snd (tr_tasks s)))"
    by (auto simp: mem_TaskStore_def mem_ListTasks_def)
  have key: "map mem_task_key (map snd (tr_tasks s)) = map fst (tr_tasks s)"
    using I by (auto simp: mem_task_inv_def gm_keyed_def)
  have "distinct (map mem_task_key (map snd (tr_tasks s)))"
    unfolding key using I by (simp add: mem_task_inv_def gm_keyed_def gm_ok_def)
  then have "distinct (map snd (tr_tasks s))" unfolding distinct_map by simp
  moreover have "set ts = mem_tasks_of s T" unfolding ts mem_tasks_of_def by auto
  ultimately have "distinct ts" and "set ts = mem_tasks_of s T" by (simp_all add: ts)
  with mem_task_unique [OF I, of T] ts(1) I
  show "mem_task_inv s' \<and> mem_tasks_of s' = mem_tasks_of s \<and> mem_task_safe s' = mem_task_safe s \<and> Some = Some \<and>
      set ts = mem_tasks_of s T \<and> distinct (map tk_ID ts)" by (simp add: distinct_map)
next
  fix s T i t s' assume I: "mem_task_inv s" "plain_name T" and "ts_GetTask mem_TaskStore T i s = (Inr t, s')"
  then have "s' = s" "gm_get (tr_tasks s) (taskKey T i) = Some t"
    by (auto simp: mem_TaskStore_def mem_GetTask_def split: option.splits)
  moreover from this I have "t \<in> snd ` set (tr_tasks s)" "taskKey T i = taskKey (tk_TenantID t) (tk_ID t)"
    by (auto simp: mem_task_get mem_task_key_def)
  moreover from this I have "plain_name (tk_TenantID t)" by (auto simp: mem_task_inv_def)
  ultimately show "mem_task_inv s' \<and> mem_tasks_of s' = mem_tasks_of s \<and> mem_task_safe s' = mem_task_safe s \<and> Some = Some \<and>
      t \<in> mem_tasks_of s T \<and> mem_task_safe s t \<and> tk_ID t = i \<and> plain_name (tk_TenantID t) \<and> Some (tk_TenantID t) = Some T"
    using I by (auto simp: taskKey_inj mem_tasks_of_def mem_task_safe_def)
next
  fix s t s' assume I: "mem_task_inv s" "mem_task_safe s t" and u: "ts_UpsertTask mem_TaskStore t s = (Inr (), s')"
  then have p: "plain_name (tk_TenantID t)" "mem_UpsertTask t s = (Inr (), s')"
    by (simp_all add: mem_task_safe_def mem_TaskStore_def)
  note mem_upsert_tasks_of [OF I(1) p]
  then show "mem_task_inv s' \<and> Some = Some \<and>
      (\<exists>t'. tk_ID t' = tk_ID t \<and> tk_DependencyIDs t' = tk_DependencyIDs t \<and> tk_Version t' = tk_Version t \<and>
        (\<forall>T. mem_tasks_of s' T = (if Some T = Some (tk_TenantID t) then put_task t' (mem_tasks_of s T) else mem_tasks_of s T)))"
    by (intro conjI exI [of _ t]) auto
qed (auto simp: mem_TaskStore_def mem_ListTasks_def mem_GetTask_def mem_UpsertTask_def mem_task_safe_def
       mem_task_unique split: option.splits)

end
