(* ===== verification/Task_Postgres.thy ===== *)
theory Task_Postgres
  imports Task_Service Pg_Base
begin

text \<open>
  The tasks of the PostgreSQL store, \<^verbatim>\<open>internal/repository/postgres/workflow_store.go\<close>. The column
  \<^verbatim>\<open>dependency_ids\<close> holds the list that \<^verbatim>\<open>scanTask\<close> reads back; \<^verbatim>\<open>due_date\<close> is a day.
\<close>

definition pg_day :: "go_time \<Rightarrow> go_time" where
  "pg_day t = t div (24 * time_Hour) * (24 * time_Hour)"

definition set_tasks :: "(Task list \<Rightarrow> Task list) \<Rightarrow> pg_state \<Rightarrow> pg_state" where
  "set_tasks f s = s\<lparr>pg_db := (pg_db s)\<lparr>db_tasks := f (db_tasks (pg_db s))\<rparr>\<rparr>"

text \<open>The inserted row, and the row it is merged into when the identifier is taken.\<close>

definition task_row :: "string \<Rightarrow> string \<Rightarrow> string \<Rightarrow> string \<Rightarrow> Task \<Rightarrow> Task" where
  "task_row i t m p task = task\<lparr>tk_ID := i, tk_TenantID := t, tk_MilestoneID := m, tk_ParentTaskID := p,
     tk_DueDate := map_option pg_day (tk_DueDate task), tk_CreatedAt := pg_ts (tk_CreatedAt task),
     tk_UpdatedAt := pg_ts (tk_UpdatedAt task)\<rparr>"

definition task_merge :: "Task \<Rightarrow> Task \<Rightarrow> Task" where
  "task_merge excluded row = row\<lparr>tk_Title := tk_Title excluded, tk_Description := tk_Description excluded,
     tk_DueDate := tk_DueDate excluded, tk_DependencyIDs := tk_DependencyIDs excluded,
     tk_EstimatedMinutes := tk_EstimatedMinutes excluded, tk_ActualMinutes := tk_ActualMinutes excluded,
     tk_Version := tk_Version excluded, tk_UpdatedAt := tk_UpdatedAt excluded\<rparr>"

definition pg_put_task :: "Task \<Rightarrow> (unit, pg_state) op" where
  "pg_put_task row s =
     (let db = pg_db s
      in if tk_ID row = '''' then (Inl (ErrSQL ''23502''), s)
         else if \<not> (int4 (tk_EstimatedMinutes row) \<and> int4 (tk_ActualMinutes row) \<and> int8 (tk_Version row))
           then (Inl (ErrSQL ''22003''), s)
         else if tk_ID row \<in> set (map tk_ID (db_tasks db))
           then (Inr (), set_tasks (map (\<lambda>x. if tk_ID x = tk_ID row then task_merge row x else x)) s)
         else if tk_TenantID row \<notin> set (map tn_ID (db_tenants db)) \<or>
                 (tk_MilestoneID row \<noteq> '''' \<and> tk_MilestoneID row \<notin> set (db_milestones db)) \<or>
                 (tk_ParentTaskID row \<noteq> '''' \<and> tk_ParentTaskID row \<notin> set (tk_ID row # map tk_ID (db_tasks db)))
           then (Inl (ErrSQL ''23503''), s)
         else (Inr (), set_tasks (\<lambda>ts. ts @ [row]) s))"

definition pg_UpsertTask :: "pg_env \<Rightarrow> Task \<Rightarrow> (unit, pg_state) op" where
  "pg_UpsertTask env task =
     op_bind (resolveTenantUUID (tk_TenantID task)) (\<lambda>tenantUUID.
     pg_stmt (
       op_bind (pg_nullif_uuid env (tk_ID task)) (\<lambda>i.
       op_bind (pg_uuid env tenantUUID) (\<lambda>t.
       op_bind (pg_nullif_uuid env (tk_MilestoneID task)) (\<lambda>m.
       op_bind (pg_nullif_uuid env (tk_ParentTaskID task)) (\<lambda>p.
         pg_put_task (task_row i t m p task)))))))"

definition pg_task_key :: "pg_env \<Rightarrow> string \<Rightarrow> string \<Rightarrow>
    ((Task \<Rightarrow> bool) \<Rightarrow> ('a, pg_state) op) \<Rightarrow> ('a, pg_state) op" where
  "pg_task_key env tenantUUID taskID k =
     op_bind (pg_uuid env tenantUUID) (\<lambda>t. op_bind (pg_uuid env taskID) (\<lambda>i.
       k (\<lambda>x. tk_TenantID x = t \<and> tk_ID x = i)))"

definition pg_GetTask :: "pg_env \<Rightarrow> string \<Rightarrow> string \<Rightarrow> (Task, pg_state) op" where
  "pg_GetTask env tenantID taskID =
     op_bind (resolveTenantUUID tenantID) (\<lambda>tenantUUID.
     pg_stmt (pg_task_key env tenantUUID taskID (\<lambda>P. pg_query_row (\<lambda>db. filter P (db_tasks db)))))"

definition pg_ListTasks :: "pg_env \<Rightarrow> string \<Rightarrow> (Task list, pg_state) op" where
  "pg_ListTasks env tenantID =
     op_bind (resolveTenantUUID tenantID) (\<lambda>tenantUUID.
     pg_stmt (op_bind (pg_uuid env tenantUUID) (\<lambda>t.
       pg_query (\<lambda>db. sort_key (\<lambda>x. - tk_UpdatedAt x) (filter (\<lambda>x. tk_TenantID x = t) (db_tasks db))))))"

text \<open>Deleting a task clears \<^verbatim>\<open>parent_task_id\<close> where it referred to it (\<^verbatim>\<open>ON DELETE SET NULL\<close>).\<close>

definition pg_DeleteTask :: "pg_env \<Rightarrow> string \<Rightarrow> string \<Rightarrow> (unit, pg_state) op" where
  "pg_DeleteTask env tenantID taskID =
     op_bind (resolveTenantUUID tenantID) (\<lambda>tenantUUID.
     pg_stmt (pg_task_key env tenantUUID taskID (\<lambda>P s.
       let gone = map tk_ID (filter P (db_tasks (pg_db s)))
       in (Inr (), set_tasks (\<lambda>ts. map (\<lambda>x. if tk_ParentTaskID x \<in> set gone then x\<lparr>tk_ParentTaskID := ''''\<rparr> else x)
                    (filter (\<lambda>x. \<not> P x) ts)) s))))"

definition pg_TaskStore :: "pg_env \<Rightarrow> pg_state TaskStore" where
  "pg_TaskStore env = \<lparr>ts_UpsertTask = pg_UpsertTask env, ts_GetTask = pg_GetTask env,
     ts_ListTasks = pg_ListTasks env, ts_DeleteTask = pg_DeleteTask env\<rparr>"

subsection \<open>The contract\<close>

text \<open>Keys of the tables are canonical uuids, task identifiers are unique, and no slug hides a tenant's identifier.\<close>

definition db_task_inv :: "pg_env \<Rightarrow> pg_tables \<Rightarrow> bool" where
  "db_task_inv env db \<longleftrightarrow> distinct (map tk_ID (db_tasks db)) \<and>
     (\<forall>x\<in>set (db_tenants db). uuid_in env (tn_ID x) = Some (tn_ID x) \<and> tenant_uuid db (tn_ID x) = Some (tn_ID x)) \<and>
     (\<forall>t\<in>set (db_tasks db). uuid_in env (tk_ID t) = Some (tk_ID t) \<and> tk_TenantID t \<in> tn_ID ` set (db_tenants db))"

definition pg_task_inv :: "pg_env \<Rightarrow> pg_state \<Rightarrow> bool" where
  "pg_task_inv env s \<longleftrightarrow> db_task_inv env (pg_db s)"

definition pg_tasks_of :: "pg_state \<Rightarrow> string \<Rightarrow> Task set" where
  "pg_tasks_of s T = {t \<in> set (db_tasks (pg_db s)). tenant_uuid (pg_db s) T = Some (tk_TenantID t)}"

definition pg_home :: "pg_state \<Rightarrow> string \<Rightarrow> string option" where
  "pg_home s = tenant_uuid (pg_db s)"

definition pg_task_safe :: "pg_env \<Rightarrow> pg_state \<Rightarrow> Task \<Rightarrow> bool" where
  "pg_task_safe env s t \<longleftrightarrow> uuid_in env (tk_ID t) = Some (tk_ID t) \<and>
     (\<forall>x\<in>set (db_tasks (pg_db s)). tk_ID x = tk_ID t \<longrightarrow>
        tenant_uuid (pg_db s) (tk_TenantID t) = Some (tk_TenantID x))"

lemma pg_task_views:
  assumes "pg_db s' = pg_db s"
  shows "pg_task_inv env s' = pg_task_inv env s" "pg_tasks_of s' = pg_tasks_of s" "pg_task_safe env s' = pg_task_safe env s"
    "pg_home s' = pg_home s"
  using assms by (simp_all add: fun_eq_iff pg_home_def pg_task_inv_def pg_tasks_of_def pg_task_safe_def)

lemma pg_task_reads:
  "reads_only m \<Longrightarrow> m s = (r, s') \<Longrightarrow> pg_task_inv env s \<Longrightarrow>
   pg_task_inv env s' \<and> pg_tasks_of s' = pg_tasks_of s \<and> pg_task_safe env s' = pg_task_safe env s \<and> pg_home s' = pg_home s"
  by (frule (1) reads_onlyD) (metis pg_task_views)

lemma pg_read_tasks: "reads_only (pg_GetTask env T i)" "reads_only (pg_ListTasks env T)"
  unfolding pg_GetTask_def pg_ListTasks_def pg_task_key_def by (intro reads_onlyI op_invs)+

lemma canonical_tenant:
  "db_task_inv env db \<Longrightarrow> tenant_uuid db T = Some U \<Longrightarrow> uuid_in env U = Some U \<and> tenant_uuid db U = Some U"
  by (auto simp: db_task_inv_def dest!: tenant_uuid_mem)

lemma pg_ListTasks_Inr:
  assumes I: "pg_task_inv env s" and run: "pg_ListTasks env T s = (Inr ts, s')"
  shows "pg_db s' = pg_db s" "set ts = pg_tasks_of s T" "distinct (map tk_ID ts)"
proof -
  show "pg_db s' = pg_db s" using reads_onlyD [OF pg_read_tasks(2) run] by simp
  from run obtain U s1 where r: "resolveTenantUUID T s = (Inr U, s1)" and
    q: "pg_stmt (op_bind (pg_uuid env U) (\<lambda>t. pg_query (\<lambda>db. sort_key (\<lambda>x. - tk_UpdatedAt x)
          (filter (\<lambda>x. tk_TenantID x = t) (db_tasks db))))) s1 = (Inr ts, s')"
    unfolding pg_ListTasks_def op_bind_Inr_iff by blast
  note R = resolve_Inr [OF r]
  have U: "uuid_in env U = Some U" using I R(2) canonical_tenant unfolding pg_task_inv_def by blast
  from q R U have ts: "ts = sort_key (\<lambda>x. - tk_UpdatedAt x) (filter (\<lambda>x. tk_TenantID x = U) (db_tasks (pg_db s)))"
    by (elim pg_stmt_Inr) (auto simp: op_bind_Inr_iff)
  show "set ts = pg_tasks_of s T" unfolding ts using R(2) by (auto simp: pg_tasks_of_def)
  have "distinct (map tk_ID (db_tasks (pg_db s)))" using I by (simp add: pg_task_inv_def db_task_inv_def)
  then show "distinct (map tk_ID ts)" unfolding ts distinct_map by (auto simp: inj_on_def)
qed

lemma pg_GetTask_Inr:
  assumes I: "pg_task_inv env s" and run: "pg_GetTask env T i s = (Inr t, s')"
  shows "pg_db s' = pg_db s" "t \<in> pg_tasks_of s T" "pg_task_safe env s t" "pg_home s (tk_TenantID t) = pg_home s T"
    "tk_ID t = the (uuid_in env i)"
proof -
  show "pg_db s' = pg_db s" using reads_onlyD [OF pg_read_tasks(1) run] by simp
  from run obtain U s1 where r: "resolveTenantUUID T s = (Inr U, s1)" and
    q: "pg_stmt (pg_task_key env U i (\<lambda>P. pg_query_row (\<lambda>db. filter P (db_tasks db)))) s1 = (Inr t, s')"
    unfolding pg_GetTask_def op_bind_Inr_iff by blast
  note R = resolve_Inr [OF r]
  have U: "uuid_in env U = Some U" "tenant_uuid (pg_db s) U = Some U"
    using I R(2) canonical_tenant unfolding pg_task_inv_def by blast+
  from q R U obtain xs j where j: "uuid_in env i = Some j" and "filter (\<lambda>x. tk_TenantID x = U \<and> tk_ID x = j) (db_tasks (pg_db s)) = t # xs"
    by (elim pg_stmt_Inr) (auto simp: op_bind_Inr_iff pg_task_key_def pg_query_row_Inr_iff)
  then have "t \<in> set (filter (\<lambda>x. tk_TenantID x = U \<and> tk_ID x = j) (db_tasks (pg_db s)))" by simp
  then have t: "t \<in> set (db_tasks (pg_db s))" "tk_TenantID t = U" and "tk_ID t = j" by simp_all
  with j show "tk_ID t = the (uuid_in env i)" by simp
  from t R(2) show "t \<in> pg_tasks_of s T" by (simp add: pg_tasks_of_def)
  from t U R(2) show "pg_home s (tk_TenantID t) = pg_home s T" by (simp add: pg_home_def)
  have "x = t" if "x \<in> set (db_tasks (pg_db s))" "tk_ID x = tk_ID t" for x
    using I that t by (auto simp: pg_task_inv_def db_task_inv_def distinct_map dest: inj_onD)
  with I t U show "pg_task_safe env s t" by (auto simp: pg_task_safe_def pg_task_inv_def db_task_inv_def)
qed

text \<open>What a successful upsert stores, by the two branches of \<^verbatim>\<open>ON CONFLICT\<close>.\<close>

lemma pg_UpsertTask_Inr:
  assumes I: "pg_task_inv env s" "pg_task_safe env s task" and run: "pg_UpsertTask env task s = (Inr (), s')"
  obtains U m p where "tenant_uuid (pg_db s) (tk_TenantID task) = Some U"
    and "pg_db s' = (pg_db s)\<lparr>db_tasks :=
      (let row = task_row (tk_ID task) U m p task
       in if tk_ID task \<in> set (map tk_ID (db_tasks (pg_db s)))
          then map (\<lambda>x. if tk_ID x = tk_ID task then task_merge row x else x) (db_tasks (pg_db s))
          else db_tasks (pg_db s) @ [row])\<rparr>"
proof -
  from run obtain U s1 where r: "resolveTenantUUID (tk_TenantID task) s = (Inr U, s1)" and
    q: "pg_stmt (
       op_bind (pg_nullif_uuid env (tk_ID task)) (\<lambda>i.
       op_bind (pg_uuid env U) (\<lambda>t.
       op_bind (pg_nullif_uuid env (tk_MilestoneID task)) (\<lambda>m.
       op_bind (pg_nullif_uuid env (tk_ParentTaskID task)) (\<lambda>p.
         pg_put_task (task_row i t m p task)))))) s1 = (Inr (), s')"
    unfolding pg_UpsertTask_def op_bind_Inr_iff by blast
  note R = resolve_Inr [OF r]
  have U: "uuid_in env U = Some U" using I R(2) canonical_tenant unfolding pg_task_inv_def by blast
  have i: "pg_nullif_uuid env (tk_ID task) x = (if tk_ID task = [] then (Inr [], x) else (Inr (tk_ID task), x))" for x
    using I(2) by (simp add: pg_nullif_uuid_def pg_task_safe_def pg_uuid_def)
  from q obtain fs m p s2 where
    "pg_put_task (task_row (tk_ID task) U m p task) s2 = (Inr (), s')" "pg_db s2 = pg_db s1"
    by (elim pg_stmt_Inr) (auto simp: op_bind_Inr_iff i U dest!: pg_nullif_state split: if_splits)
  with that [OF R(2), of m p] R(1) show thesis
    by (auto simp: pg_put_task_def Let_def set_tasks_def task_row_def split: if_splits)
qed

lemma put_task_replaced:
  assumes "tk_ID t = tk_ID x" "tk_TenantID t = tk_TenantID x" "x \<in> R" "\<And>y. y \<in> R \<Longrightarrow> (tk_ID y = tk_ID x) = (y = x)"
  shows "{y \<in> insert t (R - {x}). P = Some (tk_TenantID y)} =
    (if P = Some (tk_TenantID x) then put_task t {y \<in> R. P = Some (tk_TenantID y)} else {y \<in> R. P = Some (tk_TenantID y)})"
  unfolding put_task_def using assms by auto

lemma pg_upsert_view:
  assumes I: "pg_task_inv env s" "pg_task_safe env s task" and run: "pg_UpsertTask env task s = (Inr (), s')"
  obtains U t' where "tenant_uuid (pg_db s) (tk_TenantID task) = Some U" "pg_task_inv env s'" "pg_home s' = pg_home s"
    and "tk_ID t' = tk_ID task" "tk_DependencyIDs t' = tk_DependencyIDs task" "tk_Version t' = tk_Version task"
    and "\<And>T. pg_tasks_of s' T = (if tenant_uuid (pg_db s) T = Some U then put_task t' (pg_tasks_of s T) else pg_tasks_of s T)"
proof (rule pg_UpsertTask_Inr [OF I run])
  fix U m p
  let ?row = "task_row (tk_ID task) U m p task" and ?ts = "db_tasks (pg_db s)"
  assume U: "tenant_uuid (pg_db s) (tk_TenantID task) = Some U"
    and db: "pg_db s' = (pg_db s)\<lparr>db_tasks := (let row = ?row in if tk_ID task \<in> set (map tk_ID ?ts)
          then map (\<lambda>x. if tk_ID x = tk_ID task then task_merge row x else x) ?ts else ?ts @ [row])\<rparr>"
  have ten: "tenant_uuid (pg_db s') = tenant_uuid (pg_db s)" "db_tenants (pg_db s') = db_tenants (pg_db s)"
    by (simp_all add: db tenant_uuid_def fun_eq_iff)
  have I': "distinct (map tk_ID ?ts)" "U \<in> tn_ID ` set (db_tenants (pg_db s))" "uuid_in env (tk_ID task) = Some (tk_ID task)"
    using I U tenant_uuid_mem [OF U] by (auto simp: pg_task_inv_def db_task_inv_def pg_task_safe_def)
  have row: "tk_ID ?row = tk_ID task" "tk_TenantID ?row = U" by (simp_all add: task_row_def)
  show thesis
  proof (cases "tk_ID task \<in> tk_ID ` set ?ts")
    case False
    with db have ts': "db_tasks (pg_db s') = ?ts @ [?row]" by simp
    show thesis
    proof (rule that [OF U, of ?row])
      show "pg_task_inv env s'" using I(1) I' False
        by (auto simp: pg_task_inv_def db_task_inv_def ts' ten task_row_def)
      show "pg_home s' = pg_home s" by (simp add: pg_home_def ten)
      show "pg_tasks_of s' T = (if tenant_uuid (pg_db s) T = Some U then put_task ?row (pg_tasks_of s T) else pg_tasks_of s T)" for T
        using False row unfolding pg_tasks_of_def ts' ten put_task_def by (auto simp: image_iff)
    qed (simp_all add: task_row_def)
  next
    case True
    then obtain x where x: "x \<in> set ?ts" "tk_ID x = tk_ID task" by auto
    have xU: "tk_TenantID x = U" using I(2) x U by (auto simp: pg_task_safe_def)
    have eq: "(tk_ID y = tk_ID task) = (y = x)" if "y \<in> set ?ts" for y
      using I'(1) that x unfolding distinct_map by (metis inj_onD)
    let ?t = "task_merge ?row x"
    have ts': "db_tasks (pg_db s') = map (\<lambda>y. if tk_ID y = tk_ID task then task_merge ?row y else y) ?ts"
      using db True by simp
    have set': "set (db_tasks (pg_db s')) = insert ?t (set ?ts - {x})"
      unfolding ts' set_map using eq x(1) by force
    have ids: "map tk_ID (db_tasks (pg_db s')) = map tk_ID ?ts" unfolding ts' by (simp add: task_merge_def)
    show thesis
    proof (rule that [OF U, of ?t])
      have "uuid_in env (tk_ID y) = Some (tk_ID y) \<and> tk_TenantID y \<in> tn_ID ` set (db_tenants (pg_db s))"
        if "y \<in> insert ?t (set ?ts - {x})" for y
        using that I(1) I' x xU by (auto simp: pg_task_inv_def db_task_inv_def task_merge_def)
      with I(1) show "pg_task_inv env s'"
        unfolding pg_task_inv_def db_task_inv_def ids set' ten by auto
      show "pg_home s' = pg_home s" by (simp add: pg_home_def ten)
      show "pg_tasks_of s' T = (if tenant_uuid (pg_db s) T = Some U then put_task ?t (pg_tasks_of s T) else pg_tasks_of s T)" for T
        unfolding pg_tasks_of_def set' ten xU [symmetric]
        by (rule put_task_replaced) (use x eq in \<open>simp_all add: task_merge_def x(2) [symmetric]\<close>)
    qed (use x in \<open>simp_all add: task_merge_def task_row_def\<close>)
  qed
qed

lemma pg_UpsertTask_Inl:
  assumes "pg_UpsertTask env task s = (Inl e, s')" shows "pg_db s' = pg_db s"
proof -
  define body where "body U = op_bind (pg_nullif_uuid env (tk_ID task)) (\<lambda>i. op_bind (pg_uuid env U) (\<lambda>t.
       op_bind (pg_nullif_uuid env (tk_MilestoneID task)) (\<lambda>m.
       op_bind (pg_nullif_uuid env (tk_ParentTaskID task)) (\<lambda>p.
         pg_put_task (task_row i t m p task)))))" for U
  have put: "s2 = s1" if "pg_put_task row s1 = (Inl e', s2)" for row e' s1 s2
    using that by (auto simp: pg_put_task_def Let_def split: if_splits)
  have body: "s2 = s1" if "body U s1 = (Inl e', s2)" for U e' s1 s2
    using that unfolding body_def op_bind_Inl_iff by (blast dest: put pg_nullif_state pg_uuid_state)
  have stmt: "pg_db s2 = pg_db s1" if "pg_stmt (body U) s1 = (Inl e', s2)" for U e' s1 s2
    using that by (cases rule: pg_stmt_cases) (auto dest!: body)
  have eq: "pg_UpsertTask env task = op_bind (resolveTenantUUID (tk_TenantID task)) (\<lambda>U. pg_stmt (body U))"
    by (simp add: pg_UpsertTask_def body_def)
  from assms [unfolded eq] show ?thesis
    by (rule op_bindE) (auto dest!: stmt dest: reads_onlyD [OF resolve_reads])
qed

interpretation pg_tasks: task_store "pg_TaskStore env" "pg_task_inv env" pg_tasks_of pg_home
  "pg_task_safe env" "\<lambda>_. True" "\<lambda>i. the (uuid_in env i)" for env
proof unfold_locales
  fix s T ts s' assume I: "pg_task_inv env s" and run: "ts_ListTasks (pg_TaskStore env) T s = (Inr ts, s')"
  then have r: "pg_ListTasks env T s = (Inr ts, s')" by (simp add: pg_TaskStore_def)
  note L = pg_ListTasks_Inr [OF I r]
  from I L(2,3) show "pg_task_inv env s' \<and> pg_tasks_of s' = pg_tasks_of s \<and> pg_task_safe env s' = pg_task_safe env s \<and> pg_home s' = pg_home s \<and>
      set ts = pg_tasks_of s T \<and> distinct (map tk_ID ts)" by (simp add: pg_task_views [OF L(1)])
next
  fix s T e s' assume "pg_task_inv env s" and "ts_ListTasks (pg_TaskStore env) T s = (Inl e, s')"
  then show "pg_task_inv env s' \<and> pg_tasks_of s' = pg_tasks_of s \<and> pg_task_safe env s' = pg_task_safe env s \<and> pg_home s' = pg_home s"
    using pg_task_reads [OF pg_read_tasks(2)] by (simp add: pg_TaskStore_def)
next
  fix s T i t s' assume I: "pg_task_inv env s" and run: "ts_GetTask (pg_TaskStore env) T i s = (Inr t, s')"
  then have r: "pg_GetTask env T i s = (Inr t, s')" by (simp add: pg_TaskStore_def)
  note L = pg_GetTask_Inr [OF I r]
  from I L(2-) show "pg_task_inv env s' \<and> pg_tasks_of s' = pg_tasks_of s \<and> pg_task_safe env s' = pg_task_safe env s \<and> pg_home s' = pg_home s \<and>
      t \<in> pg_tasks_of s T \<and> pg_task_safe env s t \<and> tk_ID t = the (uuid_in env i) \<and> True \<and> pg_home s (tk_TenantID t) = pg_home s T"
    by (simp add: pg_task_views [OF L(1)])
next
  fix s T i e s' assume "pg_task_inv env s" and "ts_GetTask (pg_TaskStore env) T i s = (Inl e, s')"
  then show "pg_task_inv env s' \<and> pg_tasks_of s' = pg_tasks_of s \<and> pg_task_safe env s' = pg_task_safe env s \<and> pg_home s' = pg_home s"
    using pg_task_reads [OF pg_read_tasks(1)] by (simp add: pg_TaskStore_def)
next
  fix s t s' assume I: "pg_task_inv env s" "pg_task_safe env s t" and "ts_UpsertTask (pg_TaskStore env) t s = (Inr (), s')"
  then have run: "pg_UpsertTask env t s = (Inr (), s')" by (simp add: pg_TaskStore_def)
  show "pg_task_inv env s' \<and> pg_home s' = pg_home s \<and>
      (\<exists>t'. tk_ID t' = tk_ID t \<and> tk_DependencyIDs t' = tk_DependencyIDs t \<and> tk_Version t' = tk_Version t \<and>
        (\<forall>T. pg_tasks_of s' T = (if pg_home s T = pg_home s (tk_TenantID t) then put_task t' (pg_tasks_of s T) else pg_tasks_of s T)))"
    by (rule pg_upsert_view [OF I run]) (auto simp: pg_home_def)
next
  fix s t e s' assume I: "pg_task_inv env s" and "ts_UpsertTask (pg_TaskStore env) t s = (Inl e, s')"
  then have "pg_db s' = pg_db s" by (intro pg_UpsertTask_Inl) (simp add: pg_TaskStore_def)
  from I pg_task_views [OF this] show "pg_task_inv env s' \<and> pg_tasks_of s' = pg_tasks_of s" by simp
next
  fix s T U assume "pg_home s T = pg_home s U"
  then show "pg_tasks_of s T = pg_tasks_of s U" by (simp add: pg_home_def pg_tasks_of_def)
next
  fix s and t t' :: Task assume "pg_task_safe env s t" "tk_ID t' = tk_ID t" "tk_TenantID t' = tk_TenantID t"
  then show "pg_task_safe env s t'" by (simp add: pg_task_safe_def)
next
  fix s t T assume "pg_task_inv env s" "t \<in> pg_tasks_of s T"
  then show "the (uuid_in env (tk_ID t)) = tk_ID t" by (simp add: pg_task_inv_def db_task_inv_def pg_tasks_of_def)
next
  fix s T assume "pg_task_inv env s"
  then show "inj_on tk_ID (pg_tasks_of s T)"
    by (auto simp: pg_task_inv_def db_task_inv_def distinct_map pg_tasks_of_def intro: inj_on_subset)
qed

end
