(* ===== verification/Uuid_Text.thy ===== *)
theory Uuid_Text
  imports Http
begin

unbundle bit_operations_syntax

text \<open>
  Fresh identifiers, \<^verbatim>\<open>internal/api/handlers/ids.go\<close>: \<^verbatim>\<open>newUUIDString\<close> sets the version and the
  variant in 16 random bytes and prints them as a uuid; when no random bytes can be read it
  returns the empty text.
\<close>

definition hex_byte :: "byte \<Rightarrow> string" where
  "hex_byte b = [hex_digits ! (unat b div 16), hex_digits ! (unat b mod 16)]"

definition hex_bytes :: "byte list \<Rightarrow> string" where
  "hex_bytes bs = concat (map hex_byte bs)"

definition slice :: "nat \<Rightarrow> nat \<Rightarrow> 'a list \<Rightarrow> 'a list" where
  "slice i j xs = take (j - i) (drop i xs)"

definition newUUIDString :: "byte list option \<Rightarrow> string" where
  "newUUIDString random = (case random of None \<Rightarrow> '''' | Some b0 \<Rightarrow>
     let b1 = b0[6 := ((b0 ! 6) AND 0x0f) OR 0x40];
         b = b1[8 := ((b1 ! 8) AND 0x3f) OR 0x80]
     in hex_bytes (slice 0 4 b) @ ''-'' @ hex_bytes (slice 4 6 b) @ ''-'' @ hex_bytes (slice 6 8 b) @ ''-'' @
        hex_bytes (slice 8 10 b) @ ''-'' @ hex_bytes (slice 10 16 b))"

lemma hex_digits_nth: "n < 16 \<Longrightarrow> hex_digits ! n \<in> set hex_digits"
  by (rule nth_mem) (simp add: hex_digits_def)

lemma hex_byte_digits: "list_all (\<lambda>c. c \<in> set hex_digits) (hex_byte b)"
proof -
  have "unat b div 16 < 16" using unsigned_less [of b, where ?'a = nat] by simp
  then show ?thesis unfolding hex_byte_def by (simp add: hex_digits_nth)
qed

lemma version_nibble: "hex_byte ((x AND 0x0f) OR 0x40) ! 0 = CHR ''4''"
proof -
  have "drop_bit 4 ((x AND 0x0f) OR 0x40) = (4 :: byte)"
    by (simp add: drop_bit_or drop_bit_and)
  then have "unat ((x AND 0x0f) OR 0x40) div 16 = 4"
    using unat_drop_bit_eq [of 4 "(x AND 0x0f) OR 0x40"] by (simp add: drop_bit_eq_div)
  then show ?thesis by (simp add: hex_byte_def hex_digits_def)
qed

lemma variant_nibble: "hex_byte ((x AND 0x3f) OR 0x80) ! 0 \<in> set ''89ab''"
proof -
  define y where "y = drop_bit 4 x AND (3 :: byte)"
  have "drop_bit 4 ((x AND 0x3f) OR 0x80) = y OR 8"
    by (simp add: drop_bit_or drop_bit_and y_def)
  then have u: "unat ((x AND 0x3f) OR 0x80) div 16 = unat (y OR 8)"
    using unat_drop_bit_eq [of 4 "(x AND 0x3f) OR 0x80"] by (simp add: drop_bit_eq_div)
  have "y \<le> 3" unfolding y_def by (rule word_and_le1)
  then have "unat y < 4" by (simp add: word_le_nat_alt)
  then have "unat y \<in> {0, 1, 2, 3}" by auto
  then have "y \<in> {0, 1, 2, 3}" by (auto simp: word_unat_eq_iff)
  then have "unat (y OR 8) \<in> {8, 9, 10, 11}" by (elim insertE) simp_all
  then show ?thesis unfolding hex_byte_def u by (auto simp: hex_digits_def)
qed

lemma newUUIDString_shape:
  assumes "length b = 16"
  shows "uuid_text (newUUIDString (Some b)) \<and> length (newUUIDString (Some b)) = 36 \<and>
    newUUIDString (Some b) ! 14 = CHR ''4'' \<and> newUUIDString (Some b) ! 19 \<in> set ''89ab''"
proof -
  obtain b0 b1 b2 b3 b4 b5 b6 b7 b8 b9 b10 b11 b12 b13 b14 b15 where
    b: "b = [b0, b1, b2, b3, b4, b5, b6, b7, b8, b9, b10, b11, b12, b13, b14, b15]"
    using assms by (auto simp: numeral_eq_Suc length_Suc_conv)
  have h: "\<exists>p q. hex_byte x = [p, q] \<and> p \<in> set hex_digits \<and> q \<in> set hex_digits" for x
    using hex_byte_digits [of x] by (simp add: hex_byte_def)
  define d where "d x = hex_byte x ! 0" for x
  define e where "e x = hex_byte x ! 1" for x
  have de: "hex_byte x = [d x, e x]" for x by (simp add: d_def e_def hex_byte_def)
  have in_hex: "d x \<in> set hex_digits" "e x \<in> set hex_digits" for x
    using h [of x] by (auto simp: d_def e_def)
  let ?v = "(b6 AND 0x0f) OR 0x40" and ?r = "(b8 AND 0x3f) OR 0x80"
  have "newUUIDString (Some b) =
    [d b0, e b0, d b1, e b1, d b2, e b2, d b3, e b3, CHR ''-'', d b4, e b4, d b5, e b5, CHR ''-'',
     d ?v, e ?v, d b7, e b7, CHR ''-'', d ?r, e ?r, d b9, e b9, CHR ''-'',
     d b10, e b10, d b11, e b11, d b12, e b12, d b13, e b13, d b14, e b14, d b15, e b15]"
    unfolding b by (simp add: newUUIDString_def Let_def hex_bytes_def slice_def de numeral_eq_Suc)
  moreover have "d ?v = CHR ''4''" "d ?r \<in> set ''89ab''"
    unfolding d_def by (rule version_nibble, rule variant_nibble)
  moreover have "CHR ''4'' \<in> set hex_digits" by (simp add: hex_digits_def)
  ultimately show ?thesis
    by (simp add: uuid_text_def uuid_dashes_def numeral_eq_Suc in_hex)
qed

text \<open>
  Property C16: a fresh identifier is the canonical text of a uuid of version 4 and of the standard
  variant: 36 characters, hexadecimal digits and dashes in their places, the digit 4 at the version
  and one of 8, 9, a, b at the variant.
\<close>

theorem newUUIDString_v4:
  assumes "length b = 16"
  shows "uuid_text (newUUIDString (Some b)) \<and> length (newUUIDString (Some b)) = 36 \<and>
    newUUIDString (Some b) ! 14 = CHR ''4'' \<and> newUUIDString (Some b) ! 19 \<in> set ''89ab''"
  using assms by (rule newUUIDString_shape)

theorem newUUIDString_v4_witness:
  "uuid_text (newUUIDString (Some (replicate 16 255))) \<and>
   newUUIDString (Some (replicate 16 255)) = ''ffffffff-ffff-4fff-bfff-ffffffffffff''"
proof
  show "uuid_text (newUUIDString (Some (replicate 16 255)))"
    using newUUIDString_v4 [of "replicate 16 255"] by simp
  show "newUUIDString (Some (replicate 16 255)) = ''ffffffff-ffff-4fff-bfff-ffffffffffff''" by code_simp
qed

end
