(* ===== verification/Task_Handlers.thy ===== *)
theory Task_Handlers
  imports Task_Memory Task_Postgres Uuid_Text Demo_Database
begin

text \<open>
  The task endpoints, \<^verbatim>\<open>internal/api/handlers/task.go\<close>, over any task store. \<open>order\<close> is the order
  in which the runtime visits the map of the dependency check.
\<close>

subsection \<open>Handlers\<close>

record createTaskRequest =
  ct_Title :: string
  ct_Description :: string
  ct_DueDate :: string
  ct_DependencyIDs :: "string list"
  ct_EstimatedMinutes :: int
  ct_ActualMinutes :: int

record updateTaskRequest =
  ut_Title :: string
  ut_Description :: string
  ut_DueDate :: string
  ut_DependencyIDs :: "string list"
  ut_EstimatedMinutes :: int
  ut_ActualMinutes :: int
  ut_ExpectedVersion :: int

record 's TaskHandler =
  th_Tasks :: "'s TaskService"
  th_Store :: "'s TaskStore"

datatype task_reply = ReplyTask Task | ReplyTasks "Task list" | ReplyDeleted string

type_synonym ('b, 's) endpoint = "http_request \<Rightarrow> 's \<Rightarrow> 'b response \<times> 's"

definition parseTaskDueDate :: "string \<Rightarrow> go_error + go_time option" where
  "parseTaskDueDate value =
     (let value = trim_space value
      in if value = '''' then Inr None
         else case time_Parse DateOnly value of
           None \<Rightarrow> Inl (ErrNew ''cannot parse'') | Some parsed \<Rightarrow> Inr (Some parsed))"

text \<open>\<^verbatim>\<open>list, _ := call()\<close>: the list, empty after an error.\<close>

definition or_nil :: "('a list, 's) op \<Rightarrow> 's \<Rightarrow> 'a list \<times> 's" where
  "or_nil m s = (case m s of (Inl _, s') \<Rightarrow> ([], s') | (Inr xs, s') \<Rightarrow> (xs, s'))"

definition TaskHandler_Create :: "(string list \<Rightarrow> string list) \<Rightarrow> 's TaskHandler \<Rightarrow>
    createTaskRequest option \<Rightarrow> (task_reply, 's) endpoint" where
  "TaskHandler_Create order h body rq s =
     (case body of None \<Rightarrow> (jsonError 400 ''invalid request body'', s) | Some req \<Rightarrow>
     (case tenant_ID rq of None \<Rightarrow> (jsonError 401 ''tenant context required'', s) | Some tenantID \<Rightarrow>
     (case parseTaskDueDate (ct_DueDate req) of
        Inl _ \<Rightarrow> (jsonError 400 ''due_date must be YYYY-MM-DD'', s) | Inr dueDate \<Rightarrow>
      let task = \<lparr>tk_ID = newUUIDString (rq_random rq 0), tk_TenantID = tenantID,
            tk_MilestoneID = rq_param rq ''id'', tk_ParentTaskID = '''', tk_Title = ct_Title req,
            tk_Description = ct_Description req, tk_DueDate = dueDate, tk_DependencyIDs = ct_DependencyIDs req,
            tk_EstimatedMinutes = ct_EstimatedMinutes req, tk_ActualMinutes = ct_ActualMinutes req,
            tk_Version = 1, tk_CreatedAt = rq_clock rq 0, tk_UpdatedAt = rq_clock rq 1\<rparr>
      in case or_nil (ts_ListTasks (th_Store h) tenantID) s of (existing, s1) \<Rightarrow>
         if ValidateDAG order (existing @ [task]) \<noteq> None then (jsonError 409 ''Circular dependency detected'', s1)
         else (case ts_UpsertTask (th_Store h) task s1 of
             (Inl _, s2) \<Rightarrow> (jsonError 500 ''Unable to create task'', s2)
           | (Inr _, s2) \<Rightarrow> ((201, OkBody (ReplyTask task)), s2)))))"

definition TaskHandler_ListByMilestone :: "'s TaskHandler \<Rightarrow> (task_reply, 's) endpoint" where
  "TaskHandler_ListByMilestone h rq s =
     (case tenant_ID rq of None \<Rightarrow> (jsonError 401 ''tenant context required'', s) | Some tenantID \<Rightarrow>
     (case ts_ListTasks (th_Store h) tenantID s of
        (Inl _, s1) \<Rightarrow> (jsonError 500 ''Unable to list tasks'', s1)
      | (Inr tasks, s1) \<Rightarrow>
          ((200, OkBody (ReplyTasks (filter (\<lambda>t. tk_MilestoneID t = rq_param rq ''id'') tasks))), s1)))"

definition TaskHandler_Update :: "'s TaskHandler \<Rightarrow> updateTaskRequest option \<Rightarrow> (task_reply, 's) endpoint" where
  "TaskHandler_Update h body rq s =
     (case body of None \<Rightarrow> (jsonError 400 ''invalid request body'', s) | Some req \<Rightarrow>
     (case tenant_ID rq of None \<Rightarrow> (jsonError 401 ''tenant context required'', s) | Some tenantID \<Rightarrow>
     (case ts_GetTask (th_Store h) tenantID (rq_param rq ''id'') s of
        (Inl _, s1) \<Rightarrow> (jsonError 404 ''Task not found'', s1)
      | (Inr current, s1) \<Rightarrow>
     (case parseTaskDueDate (ut_DueDate req) of
        Inl _ \<Rightarrow> (jsonError 400 ''due_date must be YYYY-MM-DD'', s1)
      | Inr dueDate \<Rightarrow>
      let current = current\<lparr>tk_Title := ut_Title req, tk_Description := ut_Description req, tk_DueDate := dueDate,
            tk_DependencyIDs := ut_DependencyIDs req, tk_EstimatedMinutes := ut_EstimatedMinutes req,
            tk_ActualMinutes := ut_ActualMinutes req, tk_UpdatedAt := rq_clock rq 0\<rparr>
      in case UpdateTask (th_Tasks h) current (ut_ExpectedVersion req) s1 of
           (Inl err, s2) \<Rightarrow>
             (if err = ErrTaskVersionConflict then jsonError 409 ''Task was updated by another user''
              else jsonError 409 ''Task dependency validation failed'', s2)
         | (Inr _, s2) \<Rightarrow> ((200, OkBody (ReplyTask current)), s2)))))"

definition TaskHandler_Delete :: "'s TaskHandler \<Rightarrow> (task_reply, 's) endpoint" where
  "TaskHandler_Delete h rq s =
     (case tenant_ID rq of None \<Rightarrow> (jsonError 401 ''tenant context required'', s) | Some tenantID \<Rightarrow>
     (case ts_DeleteTask (th_Store h) tenantID (rq_param rq ''id'') s of
        (Inl _, s1) \<Rightarrow> (jsonError 500 ''Unable to delete task'', s1)
      | (Inr _, s1) \<Rightarrow> ((200, OkBody (ReplyDeleted ''deleted'')), s1)))"

definition TaskHandler_AddDependencies :: "(string list \<Rightarrow> string list) \<Rightarrow> 's TaskHandler \<Rightarrow>
    string list option \<Rightarrow> (task_reply, 's) endpoint" where
  "TaskHandler_AddDependencies order h body rq s =
     (case body of None \<Rightarrow> (jsonError 400 ''invalid request body'', s) | Some dependencyIDs \<Rightarrow>
     (case tenant_ID rq of None \<Rightarrow> (jsonError 401 ''tenant context required'', s) | Some tenantID \<Rightarrow>
     (case ts_GetTask (th_Store h) tenantID (rq_param rq ''id'') s of
        (Inl _, s1) \<Rightarrow> (jsonError 404 ''Task not found'', s1)
      | (Inr found, s1) \<Rightarrow>
      let task = found\<lparr>tk_DependencyIDs := dependencyIDs\<rparr>
      in case or_nil (ts_ListTasks (th_Store h) tenantID) s1 of (listed, s2) \<Rightarrow>
         if ValidateDAG order (map (\<lambda>t. if tk_ID t = tk_ID task then task else t) listed) \<noteq> None
         then (jsonError 409 ''Circular dependency detected'', s2)
         else (let task = task\<lparr>tk_UpdatedAt := rq_clock rq 0, tk_Version := i64 (tk_Version task + 1)\<rparr>
               in case ts_UpsertTask (th_Store h) task s2 of
                    (Inl _, s3) \<Rightarrow> (jsonError 500 ''Unable to update task dependencies'', s3)
                  | (Inr _, s3) \<Rightarrow> ((200, OkBody (ReplyTask task)), s3)))))"

subsection \<open>The dependency graph stays acyclic\<close>

lemma depends_on_append:
  assumes "distinct (map tk_ID ts)"
  shows "depends_on (ts @ [t]) = task_edges (put_task t (set ts))"
proof -
  have "map_of (rev (map (\<lambda>t. (tk_ID t, tk_DependencyIDs t)) (ts @ [t]))) i =
      (if i = tk_ID t then Some (tk_DependencyIDs t) else map_of (rev (map (\<lambda>t. (tk_ID t, tk_DependencyIDs t)) ts)) i)" for i
    by simp
  then have "depends_on (ts @ [t]) = {(i, d). if i = tk_ID t then d \<in> set (tk_DependencyIDs t) else (i, d) \<in> depends_on ts}"
    unfolding depends_on_def by auto
  also have "\<dots> = task_edges (put_task t (set ts))"
    unfolding depends_on_distinct [OF assms] by (auto simp: task_edges_def put_task_def)
  finally show ?thesis .
qed

lemma task_edges_replace:
  assumes "x \<in> T" and "tk_ID x = tk_ID t"
  shows "task_edges ((\<lambda>y. if tk_ID y = tk_ID t then t else y) ` T) = task_edges (put_task t T)"
proof -
  have "(\<lambda>y. if tk_ID y = tk_ID t then t else y) ` T = put_task t T"
    using assms unfolding put_task_def by force
  then show ?thesis by simp
qed

lemma depends_on_map:
  assumes "distinct (map tk_ID ts)" and "x \<in> set ts" "tk_ID x = tk_ID t"
  shows "depends_on (map (\<lambda>y. if tk_ID y = tk_ID t then t else y) ts) = task_edges (put_task t (set ts))"
proof -
  have "map tk_ID (map (\<lambda>y. if tk_ID y = tk_ID t then t else y) ts) = map tk_ID ts" by simp
  then have "distinct (map tk_ID (map (\<lambda>y. if tk_ID y = tk_ID t then t else y) ts))" using assms(1) by metis
  then show ?thesis using task_edges_replace [OF assms(2,3)] by (simp only: depends_on_distinct set_map)
qed

lemma put_task_edges_cong:
  "tk_ID t' = tk_ID t \<Longrightarrow> tk_DependencyIDs t' = tk_DependencyIDs t \<Longrightarrow>
   task_edges (put_task t' T) = task_edges (put_task t T)"
  by (auto simp: task_edges_def put_task_def)

lemma i64_succ: "i64 (v + 1) \<noteq> v"
proof
  assume e: "i64 (v + 1) = v"
  with i64_range [of "v + 1"] have r: "- (2 ^ 63) \<le> v" "v < 2 ^ 63" by simp_all
  show False
  proof (cases "v + 1 < 2 ^ 63")
    case True with e r i64_id [of "v + 1"] show False by simp
  next
    case False
    with r have "v = 2 ^ 63 - 1" by simp
    with e show False by (simp add: i64_def)
  qed
qed

context task_store
begin

lemma create_keeps_dag:
  assumes s: "inv s" "dag s" and h: "th_Store h = store" and order: "\<And>ks. set (order ks) = set ks"
    and fresh: "\<And>T t. tenant_ID rq = Some T \<Longrightarrow> tk_ID t = newUUIDString (rq_random rq 0) \<Longrightarrow> tk_TenantID t = T \<Longrightarrow> safe s t"
    and lists: "\<And>T e s1. tenant_ID rq = Some T \<Longrightarrow> ts_ListTasks store T s \<noteq> (Inl e, s1)"
    and run: "TaskHandler_Create order h body rq s = (resp, s')"
  shows "inv s' \<and> dag s'"
proof (cases "body = None \<or> tenant_ID rq = None \<or> (\<exists>e. parseTaskDueDate (ct_DueDate (the body)) = Inl e)")
  case True with run s show ?thesis by (auto simp: TaskHandler_Create_def split: option.splits sum.splits)
next
  case False
  then obtain req T due where b: "body = Some req" "tenant_ID rq = Some T" "parseTaskDueDate (ct_DueDate req) = Inr due"
    by (metis option.exhaust option.sel sum.exhaust)
  define task where "task = \<lparr>tk_ID = newUUIDString (rq_random rq 0), tk_TenantID = T,
            tk_MilestoneID = rq_param rq ''id'', tk_ParentTaskID = [], tk_Title = ct_Title req,
            tk_Description = ct_Description req, tk_DueDate = due, tk_DependencyIDs = ct_DependencyIDs req,
            tk_EstimatedMinutes = ct_EstimatedMinutes req, tk_ActualMinutes = ct_ActualMinutes req,
            tk_Version = 1, tk_CreatedAt = rq_clock rq 0, tk_UpdatedAt = rq_clock rq 1\<rparr>"
  obtain r s1 where l: "ts_ListTasks store T s = (r, s1)" by (metis prod.exhaust)
  with lists [OF b(2)] obtain ts where r: "r = Inr ts" by (cases r) auto
  from list_ok [OF s(1) l [unfolded r]] have L: "inv s1" "tasks_of s1 = tasks_of s" "safe s1 = safe s"
    "set ts = tasks_of s T" "distinct (map tk_ID ts)" by auto
  have d1: "dag s1" using s(2) by (simp add: dag_def L(2))
  show ?thesis
  proof (cases "ValidateDAG order (ts @ [task])")
    case (Some e) with run b l r h L(1) d1 show ?thesis
      by (auto simp: TaskHandler_Create_def or_nil_def Let_def task_def)
  next
    case None
    then have ac: "acyclic (task_edges (put_task task (tasks_of s1 (tk_TenantID task))))"
      using ValidateDAG_None [of order "ts @ [task]"] order depends_on_append [OF L(5)] L(2,4) by (simp add: task_def)
    have "safe s1 task" unfolding L(3) by (rule fresh [OF b(2)]) (simp_all add: task_def)
    obtain ru s2 where u: "ts_UpsertTask store task s1 = (ru, s2)" by (metis prod.exhaust)
    have "s' = s2" using run b l r h None u
      by (cases ru) (auto simp: TaskHandler_Create_def or_nil_def Let_def task_def)
    with put_keeps_dag [OF d1 L(1) \<open>safe s1 task\<close> u ac] show ?thesis by simp
  qed
qed

lemma add_dependencies_keeps_dag:
  assumes s: "inv s" "dag s" and h: "th_Store h = store" and order: "\<And>ks. set (order ks) = set ks"
    and named: "\<And>T. tenant_ID rq = Some T \<Longrightarrow> named T"
    and lists: "\<And>T i t s1 e s2. tenant_ID rq = Some T \<Longrightarrow> ts_GetTask store T i s = (Inr t, s1) \<Longrightarrow>
      ts_ListTasks store T s1 \<noteq> (Inl e, s2)"
    and run: "TaskHandler_AddDependencies order h body rq s = (resp, s')"
  shows "inv s' \<and> dag s'"
proof (cases "body = None \<or> tenant_ID rq = None")
  case True with run s show ?thesis by (auto simp: TaskHandler_AddDependencies_def split: option.splits)
next
  case False
  then obtain deps T where b: "body = Some deps" "tenant_ID rq = Some T" by auto
  obtain g s1 where g: "ts_GetTask store T (rq_param rq ''id'') s = (g, s1)" by (metis prod.exhaust)
  show ?thesis
  proof (cases g)
    case (Inl e)
    from get_err [OF s(1) g [unfolded Inl]] s(2) have "inv s1" "dag s1" by (simp_all add: dag_def)
    with run b h g Inl show ?thesis by (auto simp: TaskHandler_AddDependencies_def)
  next
    case (Inr found)
    from get_ok [OF s(1) named [OF b(2)] g [unfolded Inr]] have G: "inv s1" "tasks_of s1 = tasks_of s" "safe s1 = safe s"
      "found \<in> tasks_of s T" "safe s found" "tasks_of s (tk_TenantID found) = tasks_of s T" using home_tasks by blast+
    define task where "task = found\<lparr>tk_DependencyIDs := deps\<rparr>"
    define new where "new = task\<lparr>tk_UpdatedAt := rq_clock rq 0, tk_Version := i64 (tk_Version task + 1)\<rparr>"
    obtain r s2 where l: "ts_ListTasks store T s1 = (r, s2)" by (metis prod.exhaust)
    with lists [OF b(2) g [unfolded Inr]] obtain ts where r: "r = Inr ts" by (cases r) auto
    from list_ok [OF G(1) l [unfolded r]] have L: "inv s2" "tasks_of s2 = tasks_of s" "safe s2 = safe s"
      "set ts = tasks_of s T" "distinct (map tk_ID ts)" using G(2,3) by auto
    have d2: "dag s2" using s(2) by (simp add: dag_def L(2))
    let ?all = "map (\<lambda>t. if tk_ID t = tk_ID task then task else t) ts"
    have eq: "TaskHandler_AddDependencies order h body rq s =
        (if ValidateDAG order ?all \<noteq> None then (jsonError 409 ''Circular dependency detected'', s2)
         else (case ts_UpsertTask store new s2 of
             (Inl _, s3) \<Rightarrow> (jsonError 500 ''Unable to update task dependencies'', s3)
           | (Inr _, s3) \<Rightarrow> ((200, OkBody (ReplyTask new)), s3)))"
      unfolding task_def new_def by (simp add: TaskHandler_AddDependencies_def b h g Inr l r or_nil_def Let_def split: prod.split sum.split)
    show ?thesis
    proof (cases "ValidateDAG order ?all")
      case (Some e) with run eq L(1) d2 show ?thesis by simp
    next
      case None
      have "found \<in> set ts" "tk_ID found = tk_ID task" by (simp_all add: L(4) G(4) task_def)
      from depends_on_map [OF L(5) this] None ValidateDAG_None [of order ?all] order
      have "acyclic (task_edges (put_task task (set ts)))" by simp
      moreover have "task_edges (put_task new (set ts)) = task_edges (put_task task (set ts))"
        by (rule put_task_edges_cong) (simp_all add: new_def)
      ultimately have ac: "acyclic (task_edges (put_task new (tasks_of s2 (tk_TenantID new))))"
        using G(6) by (simp add: L(2,4) new_def task_def)
      have "safe s2 new" unfolding L(3) by (rule safe_cong [OF G(5)]) (simp_all add: new_def task_def)
      obtain ru s3 where u: "ts_UpsertTask store new s2 = (ru, s3)" by (metis prod.exhaust)
      have "s' = s3" using run eq None u by (cases ru) simp_all
      with put_keeps_dag [OF d2 L(1) \<open>safe s2 new\<close> u ac] show ?thesis by simp
    qed
  qed
qed

text \<open>
  What an update does. It answers 200 when the stored task had the expected version, and then the
  task has the next version and the dependencies of the request; otherwise no task changes.
\<close>

lemma update_versioned:
  assumes s: "inv s" and h: "th_Store h = store" "th_Tasks h = NewTaskService store"
    and T: "tenant_ID rq = Some T" "named T"
    and run: "TaskHandler_Update h (Some req) rq s = ((code, reply), s')"
  shows "inv s' \<and>
    (if code = 200
     then \<exists>x t'. x \<in> tasks_of s T \<and> tk_ID x = canon (rq_param rq ''id'') \<and> tk_Version x = ut_ExpectedVersion req \<and>
       tk_ID t' = tk_ID x \<and> tk_Version t' = i64 (ut_ExpectedVersion req + 1) \<and>
       tk_DependencyIDs t' = ut_DependencyIDs req \<and> tasks_of s' T = put_task t' (tasks_of s T)
     else tasks_of s' = tasks_of s)"
proof -
  obtain g s1 where g: "ts_GetTask store T (rq_param rq ''id'') s = (g, s1)" by (metis prod.exhaust)
  show ?thesis
  proof (cases g)
    case (Inl e)
    with get_err [OF s g [unfolded Inl]] run h T g show ?thesis by (auto simp: TaskHandler_Update_def jsonError_def)
  next
    case (Inr x)
    from get_ok [OF s T(2) g [unfolded Inr]] have G: "inv s1" "tasks_of s1 = tasks_of s" "safe s1 = safe s" "home s1 = home s"
      "x \<in> tasks_of s T" "safe s x" "tk_ID x = canon (rq_param rq ''id'')" "named (tk_TenantID x)"
      "home s (tk_TenantID x) = home s T" by auto
    show ?thesis
    proof (cases "parseTaskDueDate (ut_DueDate req)")
      case (Inl e) with run h T g Inr G show ?thesis by (auto simp: TaskHandler_Update_def jsonError_def)
    next
      case due: (Inr due)
      define new where "new = x\<lparr>tk_Title := ut_Title req, tk_Description := ut_Description req, tk_DueDate := due,
            tk_DependencyIDs := ut_DependencyIDs req, tk_EstimatedMinutes := ut_EstimatedMinutes req,
            tk_ActualMinutes := ut_ActualMinutes req, tk_UpdatedAt := rq_clock rq 0\<rparr>"
      have new: "tk_TenantID new = tk_TenantID x" "tk_ID new = tk_ID x" "tk_DependencyIDs new = ut_DependencyIDs req"
        by (simp_all add: new_def)
      obtain r s2 where u: "UpdateTask (NewTaskService store) new (ut_ExpectedVersion req) s1 = (r, s2)" by (metis prod.exhaust)
      have out: "s' = s2" "code = 200 \<longleftrightarrow> (case r of Inl _ \<Rightarrow> False | Inr _ \<Rightarrow> True)"
        using run h T g Inr due u
        by (auto simp: TaskHandler_Update_def jsonError_def Let_def new_def split: sum.splits if_splits)
      have ns: "safe s1 new" unfolding G(3) by (rule safe_cong [OF G(6)]) (simp_all add: new)
      have "x \<in> tasks_of s1 (tk_TenantID new)" using home_tasks [OF G(9)] G(2,5) by (simp add: new)
      from UpdateTask_version [OF G(1) ns _ _ this new(2) u, unfolded new] G(8)
      have U: "inv s2 \<and> (case r of Inl e \<Rightarrow> tasks_of s2 = tasks_of s1
         | Inr _ \<Rightarrow> tk_Version x = ut_ExpectedVersion req \<and> (\<exists>t'. tk_Version t' = i64 (ut_ExpectedVersion req + 1) \<and>
             tk_ID t' = tk_ID x \<and> tk_DependencyIDs t' = ut_DependencyIDs req \<and> home s2 = home s1 \<and>
             (\<forall>T. tasks_of s2 T = (if home s1 T = home s1 (tk_TenantID x) then put_task t' (tasks_of s1 T) else tasks_of s1 T))))"
        by (simp add: NewTaskService_def)
      show ?thesis
      proof (cases r)
        case (Inl e) with U out G(2) show ?thesis by simp
      next
        case r: (Inr y)
        with U obtain t' where "tk_Version x = ut_ExpectedVersion req" "tk_Version t' = i64 (ut_ExpectedVersion req + 1)"
          "tk_ID t' = tk_ID x" "tk_DependencyIDs t' = ut_DependencyIDs req"
          "tasks_of s2 T = put_task t' (tasks_of s T)" by (auto simp: G(2,4,9))
        with G(5,7) out(1) have "\<exists>x t'. x \<in> tasks_of s T \<and> tk_ID x = canon (rq_param rq ''id'') \<and>
           tk_Version x = ut_ExpectedVersion req \<and> tk_ID t' = tk_ID x \<and> tk_Version t' = i64 (ut_ExpectedVersion req + 1) \<and>
           tk_DependencyIDs t' = ut_DependencyIDs req \<and> tasks_of s' T = put_task t' (tasks_of s T)"
          by (intro exI [of _ x] exI [of _ t'] conjI) simp_all
        with U out r show ?thesis by simp
      qed
    qed
  qed
qed

lemma update_not_twice:
  assumes s: "inv s" and h: "th_Store h = store" "th_Tasks h = NewTaskService store"
    and T: "tenant_ID rq = Some T" "named T" "tenant_ID rq' = Some T" "rq_param rq' ''id'' = rq_param rq ''id''"
    and v: "ut_ExpectedVersion req' = ut_ExpectedVersion req"
    and first: "TaskHandler_Update h (Some req) rq s = ((200, reply), s1)"
    and second: "TaskHandler_Update h (Some req') rq' s1 = ((code, reply'), s2)"
  shows "code \<noteq> 200 \<and> tasks_of s2 = tasks_of s1"
proof -
  from update_versioned [OF s h T(1,2) first] obtain x t' where i: "inv s1" and
    t': "tk_ID t' = canon (rq_param rq ''id'')" "tk_Version t' = i64 (ut_ExpectedVersion req + 1)" "t' \<in> tasks_of s1 T"
    by (auto simp: put_task_def)
  have "code \<noteq> 200"
  proof
    assume "code = 200"
    with update_versioned [OF i h T(3,2) second] obtain y where "y \<in> tasks_of s1 T" "tk_ID y = canon (rq_param rq ''id'')"
      "tk_Version y = ut_ExpectedVersion req" by (auto simp: T(4) v)
    with t' unique [OF i] have "y = t'" by (metis inj_onD)
    with t' \<open>tk_Version y = ut_ExpectedVersion req\<close> show False by (simp add: i64_succ)
  qed
  with update_versioned [OF i h T(3,2) second] show ?thesis by simp
qed

end

subsection \<open>On the PostgreSQL store\<close>

lemma pg_ListTasks_running:
  assumes "pg_faults s = []" "pg_task_inv env s" "tenant_uuid (pg_db s) T = Some U"
  shows "\<exists>ts. pg_ListTasks env T s = (Inr ts, s)"
proof -
  have "uuid_in env U = Some U" using assms canonical_tenant unfolding pg_task_inv_def by blast
  with assms show ?thesis by (simp add: pg_ListTasks_def op_bind_def resolve_running pg_uuid_def)
qed

lemma pg_GetTask_running:
  assumes "pg_faults s = []" "pg_GetTask env T i s = (Inr t, s1)"
  shows "s1 = s \<and> (\<exists>U. tenant_uuid (pg_db s) T = Some U)"
proof (cases "tenant_uuid (pg_db s) T")
  case None with assms show ?thesis by (simp add: pg_GetTask_def op_bind_def resolve_running)
next
  case (Some U) with assms show ?thesis
    by (auto simp: pg_GetTask_def pg_task_key_def op_bind_Inr_iff resolve_running pg_query_row_Inr_iff)
qed

lemma pg_Create_unknown_tenant:
  assumes "pg_faults s = []" "tenant_ID rq = Some T" "tenant_uuid (pg_db s) T = None"
    and "TaskHandler_Create order \<lparr>th_Tasks = svc, th_Store = pg_TaskStore env\<rparr> body rq s = (resp, s')"
  shows "s' = s"
  using assms by (auto simp: TaskHandler_Create_def or_nil_def Let_def pg_TaskStore_def pg_ListTasks_def
      pg_UpsertTask_def op_bind_def resolve_running split: option.splits sum.splits if_splits)

text \<open>
  Property C14: creating a task and setting the dependencies of a task keep the dependency graph of
  every tenant free of cycles on a running PostgreSQL database, whatever the request says, provided
  the fresh identifier is not in use. (Replacing a task's fields does not, see below.)
\<close>

theorem task_graph_stays_acyclic:
  assumes "postgres_types env" "pg_task_inv env s" "pg_faults s = []" "\<And>ks. set (order ks) = set ks"
    and "\<And>T. acyclic (task_edges (pg_tasks_of s T))"
    and "rq_random rq 0 = Some b" "length b = 16" "newUUIDString (Some b) \<notin> tk_ID ` set (db_tasks (pg_db s))"
    and "h = \<lparr>th_Tasks = NewTaskService (pg_TaskStore env), th_Store = pg_TaskStore env\<rparr>"
    and "TaskHandler_Create order h create rq s = (resp, s') \<or> TaskHandler_AddDependencies order h deps rq s = (resp, s')"
  shows "pg_task_inv env s' \<and> acyclic (task_edges (pg_tasks_of s' T))"
  using assms(10)
proof
  have D: "pg_tasks.dag s" using assms(5) by (simp add: pg_tasks.dag_def)
  have h: "th_Store h = pg_TaskStore env" by (simp add: assms(9))
  {
    assume run: "TaskHandler_Create order h create rq s = (resp, s')"
    show ?thesis
    proof (cases "\<exists>T. tenant_ID rq = Some T \<and> tenant_uuid (pg_db s) T = None")
      case True
      with pg_Create_unknown_tenant [OF assms(3)] run assms(9) have "s' = s" by blast
      with assms(2,5) show ?thesis by simp
    next
      case False
      have "pg_task_inv env s' \<and> pg_tasks.dag s'"
      proof (rule pg_tasks.create_keeps_dag [OF assms(2) D h assms(4) _ _ run])
        fix T and t :: Task assume "tk_ID t = newUUIDString (rq_random rq 0)"
        moreover have "uuid_in env (newUUIDString (Some b)) = Some (newUUIDString (Some b))"
          using newUUIDString_shape [OF assms(7)] postgres_types.uuid_reads [OF assms(1)] by blast
        ultimately show "pg_task_safe env s t" using assms(6,8) by (auto simp: pg_task_safe_def image_iff)
      next
        fix T e s1 assume "tenant_ID rq = Some T"
        with False obtain U where "tenant_uuid (pg_db s) T = Some U" by auto
        from pg_ListTasks_running [OF assms(3,2) this]
        show "ts_ListTasks (pg_TaskStore env) T s \<noteq> (Inl e, s1)" by (auto simp: pg_TaskStore_def)
      qed
      then show ?thesis by (simp add: pg_tasks.dag_def)
    qed
  next
    assume run: "TaskHandler_AddDependencies order h deps rq s = (resp, s')"
    have "pg_task_inv env s' \<and> pg_tasks.dag s'"
    proof (rule pg_tasks.add_dependencies_keeps_dag [OF assms(2) D h assms(4) _ _ run])
      fix T i t s1 e s2 assume "ts_GetTask (pg_TaskStore env) T i s = (Inr t, s1)"
      then have "s1 = s \<and> (\<exists>U. tenant_uuid (pg_db s) T = Some U)"
        by (intro pg_GetTask_running [OF assms(3)]) (simp add: pg_TaskStore_def)
      with pg_ListTasks_running [OF assms(3,2), of T]
      show "ts_ListTasks (pg_TaskStore env) T s1 \<noteq> (Inl e, s2)" by (fastforce simp: pg_TaskStore_def)
    qed simp
    then show ?thesis by (simp add: pg_tasks.dag_def)
  }
qed

subsection \<open>A concrete database\<close>

definition demo_task_row :: "char \<Rightarrow> string list \<Rightarrow> Task" where
  "demo_task_row c deps = (demo_task (demo_id c) deps)\<lparr>tk_TenantID := demo_id CHR ''a''\<rparr>"

definition demo_tasks :: pg_state where
  "demo_tasks = demo_state\<lparr>pg_db := demo_db\<lparr>db_tasks :=
     [demo_task_row CHR ''1'' [], demo_task_row CHR ''2'' [demo_id CHR ''1'']]\<rparr>\<rparr>"

definition demo_task_request :: http_request where
  "demo_task_request = \<lparr>rq_path = [], rq_tenant = Some ''academy'', rq_audit = None, rq_header = (\<lambda>_. []),
     rq_param = (\<lambda>_. demo_id CHR ''1''), rq_query = (\<lambda>_. []), rq_cookie = (\<lambda>_. None), rq_tls = False,
     rq_clock = (\<lambda>k. 0), rq_random = (\<lambda>_. Some (replicate 16 255))\<rparr>"

definition demo_task_handler :: "pg_state TaskHandler" where
  "demo_task_handler = \<lparr>th_Tasks = NewTaskService (pg_TaskStore demo_env), th_Store = pg_TaskStore demo_env\<rparr>"

definition demo_update :: updateTaskRequest where
  "demo_update = \<lparr>ut_Title = ''Plan'', ut_Description = [], ut_DueDate = [], ut_DependencyIDs = [demo_id CHR ''1''],
     ut_EstimatedMinutes = 0, ut_ActualMinutes = 0, ut_ExpectedVersion = 1\<rparr>"

lemma demo_tasks_inv: "pg_task_inv demo_env demo_tasks"
proof -
  have "tenant_uuid (pg_db demo_tasks) (demo_id CHR ''a'') = Some (demo_id CHR ''a'')" by code_simp
  then show ?thesis
    by (simp add: pg_task_inv_def db_task_inv_def demo_tasks_def demo_db_def demo_task_row_def demo_task_def
        pg_tables_new_def) (simp add: demo_id_def)
qed

lemma demo_tasks_acyclic: "acyclic (task_edges (pg_tasks_of demo_tasks T))"
proof -
  let ?ts = "[demo_task_row CHR ''1'' [], demo_task_row CHR ''2'' [demo_id CHR ''1'']]"
  have "ValidateDAG (\<lambda>ks. ks) ?ts = None" by code_simp
  then have "acyclic (depends_on ?ts)" using ValidateDAG_None [of "\<lambda>ks. ks"] by simp
  moreover have "distinct (map tk_ID ?ts)" by code_simp
  ultimately have "acyclic (task_edges (set ?ts))" by (simp only: depends_on_distinct)
  moreover have "task_edges (pg_tasks_of demo_tasks T) \<subseteq> task_edges (set ?ts)"
    by (auto simp: task_edges_def pg_tasks_of_def demo_tasks_def)
  ultimately show ?thesis by (rule acyclic_subset)
qed

text \<open>Asking that task 1 depend on task 2, which depends on it, is refused.\<close>

theorem task_graph_stays_acyclic_witness:
  "fst (fst (TaskHandler_AddDependencies rev demo_task_handler (Some [demo_id CHR ''2'']) demo_task_request demo_tasks)) = 409 \<and>
   acyclic (task_edges (pg_tasks_of (snd (TaskHandler_AddDependencies rev demo_task_handler (Some [demo_id CHR ''2''])
     demo_task_request demo_tasks)) ''academy''))"
proof
  let ?out = "TaskHandler_AddDependencies rev demo_task_handler (Some [demo_id CHR ''2'']) demo_task_request demo_tasks"
  show "fst (fst ?out) = 409" by code_simp
  have f: "newUUIDString (Some (replicate 16 255)) \<notin> tk_ID ` set (db_tasks (pg_db demo_tasks))" by code_simp
  have n: "pg_faults demo_tasks = []" by (simp add: demo_tasks_def demo_state_def)
  have r: "rq_random demo_task_request 0 = Some (replicate 16 255)" by (simp add: demo_task_request_def)
  have "TaskHandler_Create rev demo_task_handler None demo_task_request demo_tasks = (fst ?out, snd ?out) \<or> ?out = (fst ?out, snd ?out)"
    by simp
  from task_graph_stays_acyclic [OF demo.postgres_types_axioms demo_tasks_inv n set_rev demo_tasks_acyclic r _ f
      demo_task_handler_def this]
  show "acyclic (task_edges (pg_tasks_of (snd ?out) ''academy''))" by simp
qed

text \<open>
  Property C15: optimistic locking of task updates on the PostgreSQL store. When an update that
  expects version \<open>v\<close> succeeds, the stored task had version \<open>v\<close> and has the next version afterwards; a
  second update that still expects \<open>v\<close> is then refused and changes no task, even at the wrap-around.
\<close>

theorem task_update_optimistic:
  assumes "pg_task_inv env s" "h = \<lparr>th_Tasks = NewTaskService (pg_TaskStore env), th_Store = pg_TaskStore env\<rparr>"
    and "tenant_ID rq = Some T" "tenant_ID rq' = Some T" "rq_param rq' ''id'' = rq_param rq ''id''"
    and "ut_ExpectedVersion req' = ut_ExpectedVersion req"
    and "TaskHandler_Update h (Some req) rq s = ((200, reply), s1)"
    and "TaskHandler_Update h (Some req') rq' s1 = ((code, reply'), s2)"
  shows "(\<exists>x t'. x \<in> pg_tasks_of s T \<and> tk_Version x = ut_ExpectedVersion req \<and> tk_ID t' = tk_ID x \<and>
      tk_Version t' = i64 (ut_ExpectedVersion req + 1) \<and> pg_tasks_of s1 T = put_task t' (pg_tasks_of s T)) \<and>
    code \<noteq> 200 \<and> pg_tasks_of s2 = pg_tasks_of s1"
proof
  have h: "th_Store h = pg_TaskStore env" "th_Tasks h = NewTaskService (pg_TaskStore env)" by (simp_all add: assms(2))
  show "\<exists>x t'. x \<in> pg_tasks_of s T \<and> tk_Version x = ut_ExpectedVersion req \<and> tk_ID t' = tk_ID x \<and>
      tk_Version t' = i64 (ut_ExpectedVersion req + 1) \<and> pg_tasks_of s1 T = put_task t' (pg_tasks_of s T)"
    using pg_tasks.update_versioned [OF assms(1) h assms(3) TrueI assms(7)] by (simp only: if_True refl) blast
  show "code \<noteq> 200 \<and> pg_tasks_of s2 = pg_tasks_of s1"
    by (rule pg_tasks.update_not_twice [OF assms(1) h assms(3) TrueI assms(4-8)])
qed

theorem task_update_optimistic_witness:
  "let out = TaskHandler_Update demo_task_handler (Some demo_update) demo_task_request demo_tasks
   in fst (fst out) = 200 \<and>
      fst (fst (TaskHandler_Update demo_task_handler (Some demo_update) demo_task_request (snd out))) \<noteq> 200"
proof -
  let ?out = "TaskHandler_Update demo_task_handler (Some demo_update) demo_task_request demo_tasks"
  let ?out2 = "TaskHandler_Update demo_task_handler (Some demo_update) demo_task_request (snd ?out)"
  have c: "fst (fst ?out) = 200" by code_simp
  have 1: "?out = ((200, snd (fst ?out)), snd ?out)" by (simp flip: c)
  have 2: "?out2 = ((fst (fst ?out2), snd (fst ?out2)), snd ?out2)" by simp
  have t: "tenant_ID demo_task_request = Some ''academy''" by (simp add: demo_task_request_def tenant_ID_def)
  from task_update_optimistic [OF demo_tasks_inv demo_task_handler_def t t refl refl 1 2] c show ?thesis by simp
qed

text \<open>
  Replacing a task's fields stores the dependencies of the request unchecked. An accepted
  update whose dependencies name the task itself leaves the tenant with a dependency cycle.
\<close>

theorem task_update_unchecked:
  assumes "pg_task_inv env s" "h = \<lparr>th_Tasks = NewTaskService (pg_TaskStore env), th_Store = pg_TaskStore env\<rparr>"
    and "tenant_ID rq = Some T" "TaskHandler_Update h (Some req) rq s = ((200, reply), s')"
    and "the (uuid_in env (rq_param rq ''id'')) \<in> set (ut_DependencyIDs req)"
  shows "\<not> acyclic (task_edges (pg_tasks_of s' T))"
proof -
  have h: "th_Store h = pg_TaskStore env" "th_Tasks h = NewTaskService (pg_TaskStore env)" by (simp_all add: assms(2))
  from pg_tasks.update_versioned [OF assms(1) h assms(3) TrueI assms(4)]
  obtain t' where "t' \<in> pg_tasks_of s' T" "tk_ID t' = the (uuid_in env (rq_param rq ''id''))"
    "tk_DependencyIDs t' = ut_DependencyIDs req" by (auto simp: put_task_def)
  with assms(5) have "(tk_ID t', tk_ID t') \<in> task_edges (pg_tasks_of s' T)" by (auto simp: task_edges_def)
  then show ?thesis by (auto simp: acyclic_def)
qed

theorem task_update_unchecked_witness:
  "\<not> acyclic (task_edges (pg_tasks_of (snd (TaskHandler_Update demo_task_handler (Some demo_update)
     demo_task_request demo_tasks)) ''academy''))"
proof -
  let ?out = "TaskHandler_Update demo_task_handler (Some demo_update) demo_task_request demo_tasks"
  have c: "fst (fst ?out) = 200" by code_simp
  have 1: "?out = ((200, snd (fst ?out)), snd ?out)" by (simp flip: c)
  have t: "tenant_ID demo_task_request = Some ''academy''" by (simp add: demo_task_request_def tenant_ID_def)
  show ?thesis
    by (rule task_update_unchecked [OF demo_tasks_inv demo_task_handler_def t 1])
      (simp add: demo_task_request_def demo_update_def)
qed

end
