(* ===== verification/Security.thy ===== *)
theory Security
  imports Go_Prelude
begin

text \<open>
  \<^verbatim>\<open>internal/security\<close>: account lockout, the password policy, masking of personal data, the vault
  and the session tokens. What the packages \<^verbatim>\<open>crypto\<close>, \<^verbatim>\<open>encoding/json\<close> and the tables of
  \<^verbatim>\<open>unicode\<close> compute is a parameter; UTF-8, hexadecimal and base64 are given in full.
\<close>

subsection \<open>Lockout\<close>

definition MaxFailedAttempts :: int where
  "MaxFailedAttempts = 5"

definition LockoutDuration :: duration where
  "LockoutDuration = 15 * time_Minute"

definition IsLocked :: "int \<Rightarrow> go_time option \<Rightarrow> go_time \<Rightarrow> bool" where
  "IsLocked failedAttempts lockedUntil now = (case lockedUntil of
      None \<Rightarrow> failedAttempts \<ge> MaxFailedAttempts
    | Some t \<Rightarrow> now < t)"

definition NextLockout :: "go_time \<Rightarrow> go_time" where
  "NextLockout now = now + LockoutDuration"

subsection \<open>Password policy\<close>

text \<open>
  \<^verbatim>\<open>for _, r := range s\<close> decodes UTF-8: \<open>decode_rune\<close> gives the code point at the first byte and the
  number of further bytes it takes; a byte that starts no valid sequence is U+FFFD.
\<close>

definition byte_at :: "string \<Rightarrow> nat \<Rightarrow> nat" where
  "byte_at cs i = (if i < length cs then of_char (cs ! i) else 0)"

definition cont :: "nat \<Rightarrow> bool" where
  "cont b \<longleftrightarrow> 128 \<le> b \<and> b \<le> 191"

definition decode_rune :: "nat \<Rightarrow> string \<Rightarrow> nat \<times> nat" where
  "decode_rune b cs =
     (let b1 = byte_at cs 0; b2 = byte_at cs 1; b3 = byte_at cs 2
      in if b < 128 then (b, 0)
         else if 194 \<le> b \<and> b \<le> 223 \<and> cont b1 then ((b - 192) * 64 + (b1 - 128), 1)
         else if 224 \<le> b \<and> b \<le> 239 \<and> cont b1 \<and> (b = 224 \<longrightarrow> 160 \<le> b1) \<and> (b = 237 \<longrightarrow> b1 \<le> 159) \<and> cont b2
           then ((b - 224) * 4096 + (b1 - 128) * 64 + (b2 - 128), 2)
         else if 240 \<le> b \<and> b \<le> 244 \<and> cont b1 \<and> (b = 240 \<longrightarrow> 144 \<le> b1) \<and> (b = 244 \<longrightarrow> b1 \<le> 143) \<and> cont b2 \<and> cont b3
           then ((b - 240) * 262144 + (b1 - 128) * 4096 + (b2 - 128) * 64 + (b3 - 128), 3)
         else (65533, 0))"

fun runes :: "string \<Rightarrow> nat list" where
  "runes [] = []"
| "runes (c # cs) = (case decode_rune (of_char c) cs of (r, n) \<Rightarrow> r # runes (drop n cs))"

text \<open>The categories of the code points from 128 on are looked up in the tables.\<close>

record unicode_tables =
  uni_Upper :: "nat \<Rightarrow> bool"
  uni_Lower :: "nat \<Rightarrow> bool"
  uni_Digit :: "nat \<Rightarrow> bool"
  uni_Punct :: "nat \<Rightarrow> bool"
  uni_Symbol :: "nat \<Rightarrow> bool"

definition IsUpper :: "unicode_tables \<Rightarrow> nat \<Rightarrow> bool" where
  "IsUpper uni r = (if r < 128 then 65 \<le> r \<and> r \<le> 90 else uni_Upper uni r)"

definition IsLower :: "unicode_tables \<Rightarrow> nat \<Rightarrow> bool" where
  "IsLower uni r = (if r < 128 then 97 \<le> r \<and> r \<le> 122 else uni_Lower uni r)"

definition IsDigit :: "unicode_tables \<Rightarrow> nat \<Rightarrow> bool" where
  "IsDigit uni r = (if r < 128 then 48 \<le> r \<and> r \<le> 57 else uni_Digit uni r)"

text \<open>ASCII punctuation is the printable rest but for the nine symbols \<^verbatim>\<open>$ + < = > ^ ` | ~\<close>.\<close>

definition ascii_symbols :: "nat list" where
  "ascii_symbols = [36, 43, 60, 61, 62, 94, 96, 124, 126]"

definition IsSymbol :: "unicode_tables \<Rightarrow> nat \<Rightarrow> bool" where
  "IsSymbol uni r = (if r < 128 then r \<in> set ascii_symbols else uni_Symbol uni r)"

definition IsPunct :: "unicode_tables \<Rightarrow> nat \<Rightarrow> bool" where
  "IsPunct uni r = (if r < 128 then (33 \<le> r \<and> r \<le> 47 \<or> 58 \<le> r \<and> r \<le> 64 \<or> 91 \<le> r \<and> r \<le> 96 \<or> 123 \<le> r \<and> r \<le> 126) \<and>
       r \<notin> set ascii_symbols else uni_Punct uni r)"

text \<open>The loop over the runes; the flags are upper, lower, number, symbol.\<close>

fun password_loop :: "unicode_tables \<Rightarrow> nat list \<Rightarrow> bool \<times> bool \<times> bool \<times> bool \<Rightarrow> bool \<times> bool \<times> bool \<times> bool" where
  "password_loop uni [] flags = flags"
| "password_loop uni (r # rs) (hasUpper, hasLower, hasNumber, hasSymbol) = password_loop uni rs
     (if IsUpper uni r then (True, hasLower, hasNumber, hasSymbol)
      else if IsLower uni r then (hasUpper, True, hasNumber, hasSymbol)
      else if IsDigit uni r then (hasUpper, hasLower, True, hasSymbol)
      else if IsPunct uni r \<or> IsSymbol uni r then (hasUpper, hasLower, hasNumber, True)
      else (hasUpper, hasLower, hasNumber, hasSymbol))"

definition ValidatePassword :: "unicode_tables \<Rightarrow> string \<Rightarrow> go_error option" where
  "ValidatePassword uni password =
     (if length password < 12 then Some ErrPasswordTooWeak
      else case password_loop uni (runes password) (False, False, False, False) of
        (hasUpper, hasLower, hasNumber, hasSymbol) \<Rightarrow>
          if \<not> hasUpper \<or> \<not> hasLower \<or> \<not> hasNumber \<or> \<not> hasSymbol then Some ErrPasswordTooWeak else None)"

subsection \<open>Masking\<close>

definition Mask :: "string \<Rightarrow> string" where
  "Mask value =
     (if value = '''' then ''''
      else if length value \<le> 4 then replicate (length value) CHR ''*''
      else take 2 value @ replicate (length value - 4) CHR ''*'' @ drop (length value - 2) value)"

definition MaskEmail :: "string \<Rightarrow> string" where
  "MaskEmail email =
     (let email = trim_space (to_lower email)
      in case split_on CHR ''@'' email of
        [local_part, domain] \<Rightarrow>
          if length local_part \<le> 2 then replicate (length local_part) CHR ''*'' @ ''@'' @ domain
          else take 2 local_part @ replicate (length local_part - 2) CHR ''*'' @ ''@'' @ domain
      | _ \<Rightarrow> Mask email)"

subsection \<open>Vault\<close>

definition hex_val :: "char \<Rightarrow> nat option" where
  "hex_val c = (let n = (of_char c :: nat)
     in if 48 \<le> n \<and> n \<le> 57 then Some (n - 48)
        else if 97 \<le> n \<and> n \<le> 102 then Some (n - 87)
        else if 65 \<le> n \<and> n \<le> 70 then Some (n - 55) else None)"

fun hex_DecodeString :: "string \<Rightarrow> string option" where
  "hex_DecodeString [] = Some []"
| "hex_DecodeString [c] = None"
| "hex_DecodeString (c # d # cs) = (case (hex_val c, hex_val d, hex_DecodeString cs) of
     (Some x, Some y, Some bs) \<Rightarrow> Some (char_of (16 * x + y) # bs) | _ \<Rightarrow> None)"

record Vault =
  vt_key :: string

definition NewVault :: "string \<Rightarrow> go_error + Vault" where
  "NewVault masterKey = (case hex_DecodeString masterKey of
      None \<Rightarrow> Inl (ErrNew ''vault master key must be 32 hex characters for AES-256'')
    | Some key \<Rightarrow> if length key \<noteq> 32 then Inl (ErrNew ''vault master key must be 32 hex characters for AES-256'')
                  else Inr \<lparr>vt_key = key\<rparr>)"

text \<open>
  AES in Galois/counter mode: \<open>gcm_Seal key nonce text\<close> and \<open>gcm_Open key nonce text\<close>; the nonce has 12
  bytes. The random nonce is an argument, \<open>None\<close> when it cannot be read.
\<close>

record gcm =
  gcm_Seal :: "string \<Rightarrow> string \<Rightarrow> string \<Rightarrow> string"
  gcm_Open :: "string \<Rightarrow> string \<Rightarrow> string \<Rightarrow> string option"

definition aes_NewCipher :: "string \<Rightarrow> go_error option" where
  "aes_NewCipher key = (if length key \<in> {16, 24, 32} then None else Some (ErrNew ''invalid key size''))"

definition Vault_Encrypt :: "gcm \<Rightarrow> Vault \<Rightarrow> string option \<Rightarrow> string \<Rightarrow> go_error + string" where
  "Vault_Encrypt g v random plainText = (case aes_NewCipher (vt_key v) of Some err \<Rightarrow> Inl err | None \<Rightarrow>
     (case random of None \<Rightarrow> Inl (ErrNew ''rand'')
      | Some nonce \<Rightarrow> Inr (nonce @ gcm_Seal g (vt_key v) nonce plainText)))"

definition Vault_Decrypt :: "gcm \<Rightarrow> Vault \<Rightarrow> string \<Rightarrow> go_error + string" where
  "Vault_Decrypt g v cipherText = (case aes_NewCipher (vt_key v) of Some err \<Rightarrow> Inl err | None \<Rightarrow>
     (let nonceSize = 12
      in if length cipherText < nonceSize then Inl (ErrNew ''ciphertext too short'')
         else case gcm_Open g (vt_key v) (take nonceSize cipherText) (drop nonceSize cipherText) of
           None \<Rightarrow> Inl (ErrNew ''cipher: message authentication failed'') | Some plainText \<Rightarrow> Inr plainText))"

subsection \<open>Base64\<close>

text \<open>\<^verbatim>\<open>base64.RawURLEncoding\<close>: no padding; the decoder skips line breaks and ignores trailing bits.\<close>

definition b64_alphabet :: string where
  "b64_alphabet = ''ABCDEFGHIJKLMNOPQRSTUVWXYZabcdefghijklmnopqrstuvwxyz0123456789-_''"

definition b64_char :: "nat \<Rightarrow> char" where
  "b64_char n = b64_alphabet ! n"

definition b64_val :: "char \<Rightarrow> nat option" where
  "b64_val c = map_of (zip b64_alphabet [0..<64]) c"

fun b64_groups :: "nat list \<Rightarrow> nat list" where
  "b64_groups [] = []"
| "b64_groups [a] = [a div 4, a mod 4 * 16]"
| "b64_groups [a, b] = [a div 4, a mod 4 * 16 + b div 16, b mod 16 * 4]"
| "b64_groups (a # b # c # r) = a div 4 # (a mod 4 * 16 + b div 16) # (b mod 16 * 4 + c div 64) # c mod 64 # b64_groups r"

definition base64_EncodeToString :: "string \<Rightarrow> string" where
  "base64_EncodeToString s = map b64_char (b64_groups (map of_char s))"

fun b64_ungroup :: "nat list \<Rightarrow> nat list option" where
  "b64_ungroup [] = Some []"
| "b64_ungroup [a] = None"
| "b64_ungroup [a, b] = Some [a * 4 + b div 16]"
| "b64_ungroup [a, b, c] = Some [a * 4 + b div 16, b mod 16 * 16 + c div 4]"
| "b64_ungroup (a # b # c # d # r) =
     map_option (\<lambda>bs. (a * 4 + b div 16) # (b mod 16 * 16 + c div 4) # (c mod 4 * 64 + d) # bs) (b64_ungroup r)"

definition base64_DecodeString :: "string \<Rightarrow> string option" where
  "base64_DecodeString s =
     (let cs = filter (\<lambda>c. (of_char c :: nat) \<notin> {10, 13}) s
      in if list_all (\<lambda>c. b64_val c \<noteq> None) cs
         then map_option (map char_of) (b64_ungroup (map (\<lambda>c. the (b64_val c)) cs)) else None)"

subsection \<open>Session tokens\<close>

record SessionClaims =
  cl_UserID :: string
  cl_TenantID :: string
  cl_Email :: string
  cl_Role :: string
  cl_SessionID :: string
  cl_ExpiresAt :: int

text \<open>HMAC-SHA256 under a key, and the JSON text of the claims.\<close>

record token_lib =
  hmac_sha256 :: "string \<Rightarrow> string \<Rightarrow> string"
  json_marshal :: "SessionClaims \<Rightarrow> string"
  json_unmarshal :: "string \<Rightarrow> SessionClaims option"

definition token_header :: string where
  "token_header = ''{'' @ [CHR 0x22] @ ''alg'' @ [CHR 0x22] @ '':'' @ [CHR 0x22] @ ''HS256'' @ [CHR 0x22] @ '','' @
     [CHR 0x22] @ ''typ'' @ [CHR 0x22] @ '':'' @ [CHR 0x22] @ ''JWT'' @ [CHR 0x22] @ ''}''"

definition SignSessionToken :: "token_lib \<Rightarrow> string \<Rightarrow> SessionClaims \<Rightarrow> string" where
  "SignSessionToken lib secret claims =
     (let headerEncoded = base64_EncodeToString token_header;
          payloadEncoded = base64_EncodeToString (json_marshal lib claims);
          signingInput = headerEncoded @ ''.'' @ payloadEncoded;
          signature = base64_EncodeToString (hmac_sha256 lib secret signingInput)
      in signingInput @ ''.'' @ signature)"

definition VerifySessionToken :: "token_lib \<Rightarrow> string \<Rightarrow> string \<Rightarrow> go_time \<Rightarrow> go_error + SessionClaims" where
  "VerifySessionToken lib secret token now =
     (case split_on CHR ''.'' token of
        [p0, p1, p2] \<Rightarrow>
          (let expected = base64_EncodeToString (hmac_sha256 lib secret (p0 @ ''.'' @ p1))
           in if p2 \<noteq> expected then Inl (ErrNew ''invalid token signature'')
              else case base64_DecodeString p1 of None \<Rightarrow> Inl (ErrNew ''invalid token payload'') | Some raw \<Rightarrow>
              (case json_unmarshal lib raw of None \<Rightarrow> Inl (ErrNew ''invalid token claims'') | Some claims \<Rightarrow>
                 if cl_UserID claims = '''' \<or> cl_TenantID claims = '''' \<or> cl_ExpiresAt claims = 0
                 then Inl (ErrNew ''token missing required claims'')
                 else if time_Unix now \<ge> cl_ExpiresAt claims then Inl (ErrNew ''token expired'')
                 else Inr claims))
      | _ \<Rightarrow> Inl (ErrNew ''invalid token format''))"

end
