(* ===== verification/Security_Laws.thy ===== *)
theory Security_Laws
  imports Security
begin

text \<open>
  What the functions of \<^verbatim>\<open>internal/security\<close> guarantee: the password policy in terms of the
  characters of a password, what masking hides, the round trips of vault, base64 and tokens, and
  what an accepted token proves.
\<close>

subsection \<open>Passwords\<close>

lemma password_loop_flags:
  "password_loop uni rs (u, l, n, s) =
     (u \<or> (\<exists>r\<in>set rs. IsUpper uni r),
      l \<or> (\<exists>r\<in>set rs. \<not> IsUpper uni r \<and> IsLower uni r),
      n \<or> (\<exists>r\<in>set rs. \<not> IsUpper uni r \<and> \<not> IsLower uni r \<and> IsDigit uni r),
      s \<or> (\<exists>r\<in>set rs. \<not> IsUpper uni r \<and> \<not> IsLower uni r \<and> \<not> IsDigit uni r \<and> (IsPunct uni r \<or> IsSymbol uni r)))"
  by (induction rs arbitrary: u l n s) auto

lemma ValidatePassword_None:
  "ValidatePassword uni pw = None \<longleftrightarrow> 12 \<le> length pw \<and>
      (\<exists>r\<in>set (runes pw). IsUpper uni r) \<and> (\<exists>r\<in>set (runes pw). \<not> IsUpper uni r \<and> IsLower uni r) \<and>
      (\<exists>r\<in>set (runes pw). \<not> IsUpper uni r \<and> \<not> IsLower uni r \<and> IsDigit uni r) \<and>
      (\<exists>r\<in>set (runes pw). \<not> IsUpper uni r \<and> \<not> IsLower uni r \<and> \<not> IsDigit uni r \<and> (IsPunct uni r \<or> IsSymbol uni r))"
  unfolding ValidatePassword_def password_loop_flags by (auto simp: not_less)

lemma runes_ascii: "\<forall>c\<in>set s. of_char c < (128 :: nat) \<Longrightarrow> runes s = map of_char s"
  by (induction s) (simp_all add: decode_rune_def Let_def)

lemma char_range:
  assumes "hi \<le> 256"
  shows "c \<in> char_of ` set [lo..<hi] \<longleftrightarrow> lo \<le> of_char c \<and> of_char c < hi"
proof
  assume "c \<in> char_of ` set [lo..<hi]"
  with assms show "lo \<le> of_char c \<and> of_char c < hi" by (auto simp: of_char_of)
next
  assume "lo \<le> of_char c \<and> of_char c < hi"
  then show "c \<in> char_of ` set [lo..<hi]" by (intro image_eqI [of _ _ "of_char c"]) simp_all
qed

lemma letters:
  "set ''ABCDEFGHIJKLMNOPQRSTUVWXYZ'' = char_of ` set [65..<91]"
  "set ''abcdefghijklmnopqrstuvwxyz'' = char_of ` set [97..<123]"
  "set ''0123456789'' = char_of ` set [48..<58]"
  by code_simp+

lemma alphanumeric:
  "set ''ABCDEFGHIJKLMNOPQRSTUVWXYZabcdefghijklmnopqrstuvwxyz0123456789'' =
   set ''ABCDEFGHIJKLMNOPQRSTUVWXYZ'' \<union> set ''abcdefghijklmnopqrstuvwxyz'' \<union> set ''0123456789''"
  by (simp only: set_append [symmetric] append.simps)

lemma ascii_classes:
  assumes "of_char c < (128 :: nat)"
  shows "IsUpper uni (of_char c) \<longleftrightarrow> c \<in> set ''ABCDEFGHIJKLMNOPQRSTUVWXYZ''"
    and "IsLower uni (of_char c) \<longleftrightarrow> c \<in> set ''abcdefghijklmnopqrstuvwxyz''"
    and "IsDigit uni (of_char c) \<longleftrightarrow> c \<in> set ''0123456789''"
    and "IsPunct uni (of_char c) \<or> IsSymbol uni (of_char c) \<longleftrightarrow>
       33 \<le> (of_char c :: nat) \<and> (of_char c :: nat) \<le> 126 \<and>
       c \<notin> set ''ABCDEFGHIJKLMNOPQRSTUVWXYZabcdefghijklmnopqrstuvwxyz0123456789''"
proof -
  have u: "c \<in> char_of ` set [65..<91] \<longleftrightarrow> 65 \<le> (of_char c :: nat) \<and> of_char c < (91 :: nat)"
    and l: "c \<in> char_of ` set [97..<123] \<longleftrightarrow> 97 \<le> (of_char c :: nat) \<and> of_char c < (123 :: nat)"
    and d: "c \<in> char_of ` set [48..<58] \<longleftrightarrow> 48 \<le> (of_char c :: nat) \<and> of_char c < (58 :: nat)"
    by (rule char_range, simp)+
  show "IsUpper uni (of_char c) \<longleftrightarrow> c \<in> set ''ABCDEFGHIJKLMNOPQRSTUVWXYZ''"
    unfolding letters u IsUpper_def using assms by auto
  show "IsLower uni (of_char c) \<longleftrightarrow> c \<in> set ''abcdefghijklmnopqrstuvwxyz''"
    unfolding letters l IsLower_def using assms by auto
  show "IsDigit uni (of_char c) \<longleftrightarrow> c \<in> set ''0123456789''"
    unfolding letters d IsDigit_def using assms by auto
  show "IsPunct uni (of_char c) \<or> IsSymbol uni (of_char c) \<longleftrightarrow>
       33 \<le> (of_char c :: nat) \<and> (of_char c :: nat) \<le> 126 \<and>
       c \<notin> set ''ABCDEFGHIJKLMNOPQRSTUVWXYZabcdefghijklmnopqrstuvwxyz0123456789''"
  proof -
    define n :: nat where "n = of_char c"
    have "\<forall>m\<in>set ascii_symbols. 33 \<le> m \<and> m \<le> 47 \<or> 58 \<le> m \<and> m \<le> 64 \<or> 91 \<le> m \<and> m \<le> 96 \<or> 123 \<le> m \<and> m \<le> 126"
      by (simp add: ascii_symbols_def)
    then have "IsPunct uni n \<or> IsSymbol uni n \<longleftrightarrow> 33 \<le> n \<and> n \<le> 47 \<or> 58 \<le> n \<and> n \<le> 64 \<or> 91 \<le> n \<and> n \<le> 96 \<or> 123 \<le> n \<and> n \<le> 126"
      using assms unfolding IsPunct_def IsSymbol_def n_def by (simp only: if_True) blast
    also have "\<dots> \<longleftrightarrow> 33 \<le> n \<and> n \<le> 126 \<and> \<not> ((65 \<le> n \<and> n < 91) \<or> (97 \<le> n \<and> n < 123) \<or> (48 \<le> n \<and> n < 58))"
      by presburger
    finally show ?thesis unfolding alphanumeric letters Un_iff u l d n_def by blast
  qed
qed

text \<open>
  The password policy on ASCII text. A password is accepted exactly when it has at least
  twelve characters, among them an upper-case and a lower-case letter, a digit and one of the other
  printable characters.
\<close>

theorem ValidatePassword_ascii:
  assumes "\<forall>c\<in>set password. of_char c < (128 :: nat)"
  shows "ValidatePassword uni password = None \<longleftrightarrow> 12 \<le> length password \<and>
     (\<exists>c\<in>set password. c \<in> set ''ABCDEFGHIJKLMNOPQRSTUVWXYZ'') \<and>
     (\<exists>c\<in>set password. c \<in> set ''abcdefghijklmnopqrstuvwxyz'') \<and>
     (\<exists>c\<in>set password. c \<in> set ''0123456789'') \<and>
     (\<exists>c\<in>set password. 33 \<le> (of_char c :: nat) \<and> (of_char c :: nat) \<le> 126 \<and>
        c \<notin> set ''ABCDEFGHIJKLMNOPQRSTUVWXYZabcdefghijklmnopqrstuvwxyz0123456789'')"
proof -
  have B: "(\<exists>r\<in>set (map of_char password). P r) \<longleftrightarrow> (\<exists>c\<in>set password. Q c)"
    if "\<And>c. of_char c < (128 :: nat) \<Longrightarrow> P (of_char c) = Q c" for P :: "nat \<Rightarrow> bool" and Q
    using assms that by auto
  have disj: "\<not> (IsUpper uni r \<and> IsLower uni r)" "\<not> (IsUpper uni r \<and> IsDigit uni r)" "\<not> (IsLower uni r \<and> IsDigit uni r)"
    if "r < 128" for r using that by (auto simp: IsUpper_def IsLower_def IsDigit_def)
  have "(\<exists>r\<in>set (map of_char password). IsUpper uni r) \<longleftrightarrow> (\<exists>c\<in>set password. c \<in> set ''ABCDEFGHIJKLMNOPQRSTUVWXYZ'')"
    by (rule B) (rule ascii_classes)
  moreover have "(\<exists>r\<in>set (map of_char password). \<not> IsUpper uni r \<and> IsLower uni r) \<longleftrightarrow> (\<exists>c\<in>set password. c \<in> set ''abcdefghijklmnopqrstuvwxyz'')"
    by (rule B) (use disj ascii_classes(2) in blast)
  moreover have "(\<exists>r\<in>set (map of_char password). \<not> IsUpper uni r \<and> \<not> IsLower uni r \<and> IsDigit uni r) \<longleftrightarrow> (\<exists>c\<in>set password. c \<in> set ''0123456789'')"
    by (rule B) (use disj ascii_classes(3) in blast)
  moreover have "(\<exists>r\<in>set (map of_char password). \<not> IsUpper uni r \<and> \<not> IsLower uni r \<and> \<not> IsDigit uni r \<and> (IsPunct uni r \<or> IsSymbol uni r)) \<longleftrightarrow>
    (\<exists>c\<in>set password. 33 \<le> (of_char c :: nat) \<and> (of_char c :: nat) \<le> 126 \<and>
        c \<notin> set ''ABCDEFGHIJKLMNOPQRSTUVWXYZabcdefghijklmnopqrstuvwxyz0123456789'')"
    by (rule B) (simp only: ascii_classes alphanumeric Un_iff; blast)
  ultimately show ?thesis
    unfolding ValidatePassword_None runes_ascii [OF assms] by (simp only:)
qed

definition no_tables :: unicode_tables where
  "no_tables = \<lparr>uni_Upper = (\<lambda>_. False), uni_Lower = (\<lambda>_. False), uni_Digit = (\<lambda>_. False),
     uni_Punct = (\<lambda>_. False), uni_Symbol = (\<lambda>_. False)\<rparr>"

theorem ValidatePassword_ascii_witness:
  "ValidatePassword no_tables ''Admin12345678!'' = None \<and> ValidatePassword no_tables ''Admin123456789'' \<noteq> None"
proof
  have "\<forall>c\<in>set ''Admin12345678!''. of_char c < (128 :: nat)" by code_simp
  from ValidatePassword_ascii [OF this] show "ValidatePassword no_tables ''Admin12345678!'' = None" by simp
  have "\<forall>c\<in>set ''Admin123456789''. of_char c < (128 :: nat)" by code_simp
  from ValidatePassword_ascii [OF this] show "ValidatePassword no_tables ''Admin123456789'' \<noteq> None" by simp
qed

subsection \<open>Masking\<close>

text \<open>Joining the parts of a split text gives the text back.\<close>

fun join_on :: "char \<Rightarrow> string list \<Rightarrow> string" where
  "join_on sep [] = []"
| "join_on sep [p] = p"
| "join_on sep (p # q # ps) = p @ sep # join_on sep (q # ps)"

lemma split_on_join: "join_on sep (split_on sep s) = s"
proof (induction s)
  case (Cons c cs)
  obtain p ps where s: "split_on sep cs = p # ps" using split_on_nonempty by (metis list.exhaust)
  with Cons show ?case by (cases ps) auto
qed simp

lemma split_on_no_sep_parts: "p \<in> set (split_on sep s) \<Longrightarrow> sep \<notin> set p"
proof (induction s arbitrary: p)
  case (Cons c cs)
  obtain q qs where s: "split_on sep cs = q # qs" using split_on_nonempty by (metis list.exhaust)
  with Cons show ?case by (auto split: if_splits)
qed simp

text \<open>
  Masking an e-mail address keeps its length after normalisation and shows of the part
  before the @ at most its first two characters; a text that is no address shows at most its first and
  last two characters.
\<close>

theorem MaskEmail_hides:
  assumes "trim_space (to_lower email) = e"
  shows "length (MaskEmail email) = length e \<and>
    (\<forall>i < length e. MaskEmail email ! i = CHR ''*'' \<or> MaskEmail email ! i = e ! i) \<and>
    (\<forall>l d. split_on CHR ''@'' e = [l, d] \<longrightarrow> (\<forall>i < length l. 2 \<le> i \<longrightarrow> MaskEmail email ! i = CHR ''*'') \<and>
       (length l \<le> 2 \<longrightarrow> (\<forall>i < length l. MaskEmail email ! i = CHR ''*''))) \<and>
    (length (split_on CHR ''@'' e) \<noteq> 2 \<longrightarrow>
       (\<forall>i < length e. 2 \<le> i \<longrightarrow> i + 2 < length e \<longrightarrow> MaskEmail email ! i = CHR ''*''))"
proof (cases "\<exists>l d. split_on CHR ''@'' e = [l, d]")
  case True
  then obtain l d where s: "split_on CHR ''@'' e = [l, d]" by blast
  from split_on_join [of "CHR ''@''" e] have e: "e = l @ ''@'' @ d" unfolding s by simp
  define h where "h = (if length l \<le> 2 then replicate (length l) CHR ''*'' else take 2 l @ replicate (length l - 2) CHR ''*'')"
  have h: "length h = length l" "\<And>i. i < length l \<Longrightarrow> h ! i = CHR ''*'' \<or> h ! i = l ! i"
    "\<And>i. i < length l \<Longrightarrow> 2 \<le> i \<Longrightarrow> h ! i = CHR ''*''" "\<And>i. i < length l \<Longrightarrow> length l \<le> 2 \<Longrightarrow> h ! i = CHR ''*''"
    by (auto simp: h_def nth_append)
  have m: "MaskEmail email = h @ ''@'' @ d" unfolding MaskEmail_def Let_def assms s h_def by simp
  show ?thesis unfolding m s
    by (auto simp: e nth_append h)
next
  case False
  then have n: "length (split_on CHR ''@'' e) \<noteq> 2" by (auto simp: length_Suc_conv numeral_2_eq_2)
  have m: "MaskEmail email = Mask e"
    unfolding MaskEmail_def Let_def assms using False by (auto split: list.splits)
  have len: "length (Mask e) = length e" by (auto simp: Mask_def)
  show ?thesis unfolding m using False len
    by (auto simp: Mask_def nth_append)
qed

theorem MaskEmail_hides_witness:
  "MaskEmail ''  Jane.Doe@Academy.org'' = ''ja******@academy.org'' \<and>
   length (MaskEmail ''  Jane.Doe@Academy.org'') = length ''jane.doe@academy.org''"
proof
  show "MaskEmail ''  Jane.Doe@Academy.org'' = ''ja******@academy.org''" by code_simp
  have "trim_space (to_lower ''  Jane.Doe@Academy.org'') = ''jane.doe@academy.org''" by code_simp
  from MaskEmail_hides [OF this] show "length (MaskEmail ''  Jane.Doe@Academy.org'') = length ''jane.doe@academy.org''"
    by blast
qed

subsection \<open>Vault\<close>

lemma hex_DecodeString_length: "hex_DecodeString s = Some bs \<Longrightarrow> length s = 2 * length bs"
  by (induction s arbitrary: bs rule: hex_DecodeString.induct) (auto split: option.splits prod.splits)


text \<open>A cipher for the witness: the sealed text carries key and nonce.\<close>

definition demo_gcm :: gcm where
  "demo_gcm = \<lparr>gcm_Seal = (\<lambda>key n text. key @ n @ text),
     gcm_Open = (\<lambda>key n c. if take (length (key @ n)) c = key @ n then Some (drop (length (key @ n)) c) else None)\<rparr>"


subsection \<open>Base64\<close>

lemma b64_alphabet_facts:
  "length b64_alphabet = 64" "distinct b64_alphabet" "CHR ''.'' \<notin> set b64_alphabet"
  "\<forall>c\<in>set b64_alphabet. (of_char c :: nat) \<notin> {10, 13}"
  by code_simp+

lemma b64_val_char: "n < 64 \<Longrightarrow> b64_val (b64_char n) = Some n"
  unfolding b64_val_def b64_char_def
  using b64_alphabet_facts(1,2) by (subst map_of_zip_nth) simp_all

lemma b64_char_mem: "n < 64 \<Longrightarrow> b64_char n \<in> set b64_alphabet"
  unfolding b64_char_def by (rule nth_mem) (simp add: b64_alphabet_facts(1))

lemma div_byte:
  fixes b :: nat
  assumes "b < 256" shows "b div 4 < 64" "b div 16 < 16" "b div 64 < 4"
  using assms by (simp_all add: less_mult_imp_div_less)

lemma b64_digits:
  fixes a b c :: nat
  shows "a mod 4 * 16 < 64" "b mod 16 * 4 < 64" "b < 256 \<Longrightarrow> a mod 4 * 16 + b div 16 < 64"
    and "c < 256 \<Longrightarrow> b mod 16 * 4 + c div 64 < 64"
  using mod_less_divisor [of 4 a] mod_less_divisor [of 16 b] div_byte [of b] div_byte [of c] by linarith+

lemma b64_joins:
  fixes b c :: nat
  shows "b < 256 \<Longrightarrow> b div 16 div 16 = 0" "b < 256 \<Longrightarrow> b div 16 mod 16 = b div 16"
    and "c < 256 \<Longrightarrow> c div 64 div 4 = 0" "c < 256 \<Longrightarrow> c div 64 mod 4 = c div 64"
  using div_byte [of b] div_byte [of c] by simp_all

lemma b64_groups_bound: "\<forall>b\<in>set bs. b < 256 \<Longrightarrow> \<forall>d\<in>set (b64_groups bs). d < 64"
  by (induction bs rule: b64_groups.induct) (simp_all add: b64_digits div_byte)

lemma b64_ungroup_groups: "\<forall>b\<in>set bs. b < 256 \<Longrightarrow> b64_ungroup (b64_groups bs) = Some bs"
  by (induction bs rule: b64_groups.induct) (simp_all add: b64_joins)

lemma of_char_bytes: "\<forall>b\<in>set (map of_char s). b < (256 :: nat)"
  by auto

lemma base64_chars: "set (base64_EncodeToString s) \<subseteq> set b64_alphabet"
proof -
  have "\<forall>b\<in>set (map of_char s). b < (256 :: nat)" by (rule of_char_bytes)
  from b64_groups_bound [OF this] show ?thesis
    unfolding base64_EncodeToString_def by (auto intro: b64_char_mem)
qed

lemma base64_round_trip: "base64_DecodeString (base64_EncodeToString s) = Some s"
proof -
  let ?e = "base64_EncodeToString s" and ?g = "b64_groups (map of_char s)"
  have b: "\<forall>b\<in>set (map of_char s). b < (256 :: nat)" by (rule of_char_bytes)
  have f: "filter (\<lambda>c. (of_char c :: nat) \<notin> {10, 13}) ?e = ?e"
    using base64_chars [of s] b64_alphabet_facts(4) by (auto simp: filter_id_conv)
  have v: "map b64_val ?e = map Some ?g"
    using b64_groups_bound [OF b] by (simp add: base64_EncodeToString_def b64_val_char)
  then have "list_all (\<lambda>c. b64_val c \<noteq> None) ?e"
    unfolding list_all_iff by (metis (mono_tags) imageE image_eqI list.set_map option.distinct(1))
  moreover have "map (\<lambda>c. the (b64_val c)) ?e = ?g"
    using v by (metis (no_types, lifting) list.map_comp map_eq_conv comp_apply option.sel map_idI)
  ultimately show ?thesis
    unfolding base64_DecodeString_def Let_def f by (simp add: b64_ungroup_groups [OF b] comp_def)
qed

subsection \<open>Tokens\<close>

lemma base64_no_dot: "CHR ''.'' \<notin> set (base64_EncodeToString s)"
  using base64_chars [of s] b64_alphabet_facts(3) by blast

lemma base64_inj: "base64_EncodeToString s = base64_EncodeToString t \<longleftrightarrow> s = t"
  by (metis base64_round_trip option.inject)

lemma verify_parts:
  assumes "CHR ''.'' \<notin> set p0" "CHR ''.'' \<notin> set p1" "CHR ''.'' \<notin> set p2"
  shows "VerifySessionToken lib secret (p0 @ ''.'' @ p1 @ ''.'' @ p2) now =
     (if p2 \<noteq> base64_EncodeToString (hmac_sha256 lib secret (p0 @ ''.'' @ p1)) then Inl (ErrNew ''invalid token signature'')
      else case base64_DecodeString p1 of None \<Rightarrow> Inl (ErrNew ''invalid token payload'') | Some raw \<Rightarrow>
      (case json_unmarshal lib raw of None \<Rightarrow> Inl (ErrNew ''invalid token claims'') | Some claims \<Rightarrow>
         if cl_UserID claims = '''' \<or> cl_TenantID claims = '''' \<or> cl_ExpiresAt claims = 0
         then Inl (ErrNew ''token missing required claims'')
         else if time_Unix now \<ge> cl_ExpiresAt claims then Inl (ErrNew ''token expired'')
         else Inr claims))"
  using assms by (simp add: VerifySessionToken_def Let_def)

lemma verify_Inr:
  assumes "VerifySessionToken lib secret token now = Inr claims"
  obtains p0 p1 raw where "token = p0 @ ''.'' @ p1 @ ''.'' @ base64_EncodeToString (hmac_sha256 lib secret (p0 @ ''.'' @ p1))"
    "base64_DecodeString p1 = Some raw" "json_unmarshal lib raw = Some claims"
    "cl_UserID claims \<noteq> []" "cl_TenantID claims \<noteq> []" "time_Unix now < cl_ExpiresAt claims"
proof -
  from assms obtain p0 p1 p2 where s: "split_on CHR ''.'' token = [p0, p1, p2]"
    by (auto simp: VerifySessionToken_def split: list.splits)
  from split_on_join [of "CHR ''.''" token] have t: "token = p0 @ ''.'' @ p1 @ ''.'' @ p2" unfolding s by simp
  have dots: "CHR ''.'' \<notin> set p0" "CHR ''.'' \<notin> set p1" "CHR ''.'' \<notin> set p2"
    using split_on_no_sep_parts [of _ "CHR ''.''" token] unfolding s by simp_all
  from assms [unfolded t verify_parts [OF dots]] show thesis
    by (auto simp: t split: if_splits option.splits intro: that)
qed

lemma sign_verify:
  assumes "json_unmarshal lib (json_marshal lib claims) = Some claims"
  shows "VerifySessionToken lib secret' (SignSessionToken lib secret claims) now =
    (let input = base64_EncodeToString token_header @ ''.'' @ base64_EncodeToString (json_marshal lib claims)
     in if hmac_sha256 lib secret' input \<noteq> hmac_sha256 lib secret input then Inl (ErrNew ''invalid token signature'')
        else if cl_UserID claims = '''' \<or> cl_TenantID claims = '''' \<or> cl_ExpiresAt claims = 0
          then Inl (ErrNew ''token missing required claims'')
        else if time_Unix now \<ge> cl_ExpiresAt claims then Inl (ErrNew ''token expired'') else Inr claims)"
proof -
  have eq: "SignSessionToken lib secret claims = base64_EncodeToString token_header @ ''.'' @
      base64_EncodeToString (json_marshal lib claims) @ ''.'' @
      base64_EncodeToString (hmac_sha256 lib secret (base64_EncodeToString token_header @ ''.'' @
        base64_EncodeToString (json_marshal lib claims)))"
    by (simp add: SignSessionToken_def Let_def)
  show ?thesis
    unfolding eq verify_parts [OF base64_no_dot base64_no_dot base64_no_dot] base64_round_trip option.case assms base64_inj Let_def
    by auto
qed


text \<open>A codec for the witness: fields separated by the byte 0, the expiry in unary.\<close>

definition demo_lib :: token_lib where
  "demo_lib = \<lparr>hmac_sha256 = (\<lambda>key m. key @ m),
     json_marshal = (\<lambda>c. cl_UserID c @ [CHR 0x00] @ cl_TenantID c @ [CHR 0x00] @ cl_Email c @ [CHR 0x00] @ cl_Role c @
        [CHR 0x00] @ cl_SessionID c @ [CHR 0x00] @ replicate (nat (cl_ExpiresAt c)) CHR ''i''),
     json_unmarshal = (\<lambda>s. case split_on (CHR 0x00) s of
        [u, t, e, r, i, x] \<Rightarrow> Some \<lparr>cl_UserID = u, cl_TenantID = t, cl_Email = e, cl_Role = r, cl_SessionID = i,
          cl_ExpiresAt = int (length x)\<rparr> | _ \<Rightarrow> None)\<rparr>"

definition demo_claims :: "string \<Rightarrow> SessionClaims" where
  "demo_claims role = \<lparr>cl_UserID = ''u1'', cl_TenantID = ''t1'', cl_Email = ''ada@academy'', cl_Role = role,
     cl_SessionID = ''s1'', cl_ExpiresAt = 9\<rparr>"


end
