(* ===== verification/Auth_Service.thy ===== *)
theory Auth_Service
  imports Security_Laws Model_Types
begin

text \<open>
  Accounts and sessions: the interfaces \<^verbatim>\<open>UserStore\<close>, \<^verbatim>\<open>UserCreator\<close> and \<^verbatim>\<open>SessionStore\<close> of
  \<^verbatim>\<open>internal/repository/interfaces.go\<close> and \<^verbatim>\<open>internal/service/auth.go\<close> over them. An interface
  value that may be nil is an option; using a nil one panics, which ends the request and is an
  error here. The package \<^verbatim>\<open>bcrypt\<close> is a parameter: \<open>bc_Generate salt password\<close> and
  \<open>bc_Compare hash password\<close>.
\<close>

subsection \<open>Interfaces\<close>

record 's UserStore =
  ur_GetByEmail :: "string \<Rightarrow> string \<Rightarrow> (User, 's) op"
  ur_IncrementFailedAttempts :: "string \<Rightarrow> string \<Rightarrow> go_time \<Rightarrow> (unit, 's) op"
  ur_ResetFailedAttempts :: "string \<Rightarrow> string \<Rightarrow> (unit, 's) op"

record 's UserCreator =
  uc_CreateUser :: "User \<Rightarrow> (unit, 's) op"

record 's SessionStore =
  sn_CreateSession :: "Session \<Rightarrow> (unit, 's) op"
  sn_Revoke :: "string \<Rightarrow> string \<Rightarrow> go_time \<Rightarrow> (unit, 's) op"
  sn_IsActive :: "string \<Rightarrow> string \<Rightarrow> go_time \<Rightarrow> (bool, 's) op"
  sn_Rotate :: "string \<Rightarrow> string \<Rightarrow> Session \<Rightarrow> go_time \<Rightarrow> (unit, 's) op"

record 's AuthService =
  as_Users :: "'s UserStore option"
  as_Creator :: "'s UserCreator option"
  as_Sessions :: "'s SessionStore option"

record bcrypt =
  bc_Generate :: "string \<Rightarrow> string \<Rightarrow> go_error + string"
  bc_Compare :: "string \<Rightarrow> string \<Rightarrow> bool"

definition NewAuthService :: "'s UserStore option \<Rightarrow> 's UserCreator option \<Rightarrow> 's SessionStore option \<Rightarrow> 's AuthService" where
  "NewAuthService users creator sessions = \<lparr>as_Users = users, as_Creator = creator, as_Sessions = sessions\<rparr>"

definition nil_panic :: go_error where
  "nil_panic = ErrNew ''invalid memory address or nil pointer dereference''"

subsection \<open>Operations\<close>

text \<open>The check for an existing account: \<^verbatim>\<open>err == nil && existing != nil\<close>.\<close>

definition user_exists :: "'s UserStore option \<Rightarrow> string \<Rightarrow> string \<Rightarrow> (bool, 's) op" where
  "user_exists users tenantID email = (case users of
      None \<Rightarrow> op_return False
    | Some store \<Rightarrow> op_bind (op_try (ur_GetByEmail store tenantID email)) (\<lambda>r.
        op_return (case r of Inl _ \<Rightarrow> False | Inr _ \<Rightarrow> True)))"

definition AuthService_Register :: "unicode_tables \<Rightarrow> bcrypt \<Rightarrow> string \<Rightarrow> 's AuthService \<Rightarrow> User \<Rightarrow> string \<Rightarrow> go_time \<Rightarrow>
    (unit, 's) op" where
  "AuthService_Register uni bc salt s user password now =
     (case ValidatePassword uni password of Some err \<Rightarrow> op_fail err | None \<Rightarrow>
      op_bind (user_exists (as_Users s) (us_TenantID user) (us_Email user)) (\<lambda>exists_already.
      if exists_already then op_fail ErrUserExists
      else (case bc_Generate bc salt password of Inl err \<Rightarrow> op_fail err | Inr hash \<Rightarrow>
        (case as_Creator s of None \<Rightarrow> op_fail (ErrNew ''registration storage is not configured'')
         | Some creator \<Rightarrow> uc_CreateUser creator (user\<lparr>us_PasswordHash := hash, us_PasswordChangedAt := now\<rparr>)))))"

definition Authenticate :: "bcrypt \<Rightarrow> 's AuthService \<Rightarrow> string \<Rightarrow> string \<Rightarrow> string \<Rightarrow> go_time \<Rightarrow> (User, 's) op" where
  "Authenticate bc s tenantID email password now = (case as_Users s of None \<Rightarrow> op_fail nil_panic | Some users \<Rightarrow>
     op_bind (op_err (\<lambda>_. ErrInvalidCredentials) (ur_GetByEmail users tenantID email)) (\<lambda>user.
     if (case us_LockedUntil user of None \<Rightarrow> False | Some t \<Rightarrow> now < t) then op_fail ErrAccountLocked
     else if \<not> bc_Compare bc (us_PasswordHash user) password
       then (\<lambda>st. (Inl ErrInvalidCredentials, op_ignore (ur_IncrementFailedAttempts users tenantID (us_ID user) now) st))
     else (\<lambda>st. (Inr user, op_ignore (ur_ResetFailedAttempts users tenantID (us_ID user)) st))))"

text \<open>\<^verbatim>\<open>security.GenerateUUID\<close> is the argument \<open>uuid\<close>.\<close>

definition new_session :: "string \<Rightarrow> string \<Rightarrow> string \<Rightarrow> go_time \<Rightarrow> Session" where
  "new_session uuid tenantID userID now =
     \<lparr>ss_ID = uuid, ss_TenantID = tenantID, ss_UserID = userID,
      ss_RefreshTokenHash = ''rt_'' @ itoa (time_UnixNano now), ss_ExpiresAt = now + 24 * time_Hour,
      ss_LastUsedAt = now, ss_RevokedAt = None, ss_CreatedAt = now, ss_UpdatedAt = now\<rparr>"

definition AuthService_CreateSession :: "'s AuthService \<Rightarrow> string \<Rightarrow> User \<Rightarrow> go_time \<Rightarrow> (Session, 's) op" where
  "AuthService_CreateSession s uuid user now = (case as_Sessions s of
      None \<Rightarrow> op_fail (ErrNew ''session storage is not configured'')
    | Some sessions \<Rightarrow>
        (let session = new_session uuid (us_TenantID user) (us_ID user) now
         in op_bind (sn_CreateSession sessions session) (\<lambda>_. op_return session)))"

text \<open>A series of login attempts with their passwords and instants, and the answers.\<close>

fun attempts :: "bcrypt \<Rightarrow> 's AuthService \<Rightarrow> string \<Rightarrow> string \<Rightarrow> (string \<times> go_time) list \<Rightarrow> 's \<Rightarrow>
    (go_error + User) list \<times> 's" where
  "attempts bc svc tenantID email [] st = ([], st)"
| "attempts bc svc tenantID email ((password, now) # rest) st =
     (case Authenticate bc svc tenantID email password now st of (r, st1) \<Rightarrow>
      case attempts bc svc tenantID email rest st1 of (rs, st2) \<Rightarrow> (r # rs, st2))"

subsection \<open>The contract of sessions\<close>

text \<open>The operations on sessions, in any order and with any outcome, where new sessions have fresh identifiers.\<close>

inductive session_steps :: "'s SessionStore \<Rightarrow> ('s \<Rightarrow> Session \<Rightarrow> bool) \<Rightarrow> 's \<Rightarrow> 's \<Rightarrow> bool"
  for store fresh s where
  start: "session_steps store fresh s s"
| create: "session_steps store fresh s s1 \<Longrightarrow> fresh s1 x \<Longrightarrow> sn_CreateSession store x s1 = (r, s2) \<Longrightarrow> session_steps store fresh s s2"
| revoke: "session_steps store fresh s s1 \<Longrightarrow> sn_Revoke store T i t s1 = (r, s2) \<Longrightarrow> session_steps store fresh s s2"
| check: "session_steps store fresh s s1 \<Longrightarrow> sn_IsActive store T i t s1 = (b, s2) \<Longrightarrow> session_steps store fresh s s2"
| rotate: "session_steps store fresh s s1 \<Longrightarrow> fresh s1 x \<Longrightarrow> sn_Rotate store T i x t s1 = (r, s2) \<Longrightarrow> session_steps store fresh s s2"

text \<open>\<open>dead s T i\<close>: the session is stored and revoked.\<close>

locale session_store =
  fixes store :: "'s SessionStore"
    and inv :: "'s \<Rightarrow> bool"
    and dead :: "'s \<Rightarrow> string \<Rightarrow> string \<Rightarrow> bool"
    and fresh :: "'s \<Rightarrow> Session \<Rightarrow> bool"
  assumes dead_inactive: "inv s \<Longrightarrow> dead s T i \<Longrightarrow> sn_IsActive store T i now s \<noteq> (Inr True, s')"
    and check_keeps: "inv s \<Longrightarrow> sn_IsActive store T i now s = (b, s') \<Longrightarrow> inv s' \<and> (\<forall>U j. dead s U j \<longrightarrow> dead s' U j)"
    and create_keeps: "inv s \<Longrightarrow> fresh s x \<Longrightarrow> sn_CreateSession store x s = (r, s') \<Longrightarrow>
      inv s' \<and> (\<forall>U j. dead s U j \<longrightarrow> dead s' U j)"
    and revoke_keeps: "inv s \<Longrightarrow> sn_Revoke store T i t s = (r, s') \<Longrightarrow> inv s' \<and> (\<forall>U j. dead s U j \<longrightarrow> dead s' U j)"
    and rotate_keeps: "inv s \<Longrightarrow> fresh s x \<Longrightarrow> sn_Rotate store T i x t s = (r, s') \<Longrightarrow>
      inv s' \<and> (\<forall>U j. dead s U j \<longrightarrow> dead s' U j)"
    and revoke_kills: "inv s \<Longrightarrow> sn_IsActive store T i now s = (Inr True, s0) \<Longrightarrow> sn_Revoke store T i t s = (Inr (), s') \<Longrightarrow>
      dead s' T i"
    and rotate_kills: "inv s \<Longrightarrow> fresh s x \<Longrightarrow> sn_IsActive store T i now s = (Inr True, s0) \<Longrightarrow>
      sn_Rotate store T i x t s = (Inr (), s') \<Longrightarrow> dead s' T i"
begin

lemma dead_forever:
  assumes "session_steps store fresh s s'" "inv s" "dead s T i"
  shows "inv s' \<and> dead s' T i"
  using assms
proof (induction rule: session_steps.induct)
  case (create s1 x r s2) then show ?case using create_keeps by blast
next
  case (revoke s1 U j t r s2) then show ?case using revoke_keeps by blast
next
  case (check s1 U j t b s2) then show ?case using check_keeps by blast
next
  case (rotate s1 x U j t r s2) then show ?case using rotate_keeps by blast
qed simp_all

lemma ended_never_active:
  assumes "inv s" "sn_IsActive store T i now0 s = (Inr True, s0)"
    and "sn_Revoke store T i t s = (Inr (), s1) \<or> (fresh s x \<and> sn_Rotate store T i x t s = (Inr (), s1))"
    and "session_steps store fresh s1 s2"
  shows "sn_IsActive store T i now s2 \<noteq> (Inr True, s3)"
proof -
  from assms(3) have "inv s1 \<and> dead s1 T i"
  proof
    assume r: "sn_Revoke store T i t s = (Inr (), s1)"
    from revoke_kills [OF assms(1,2) r] revoke_keeps [OF assms(1) r] show ?thesis by simp
  next
    assume "fresh s x \<and> sn_Rotate store T i x t s = (Inr (), s1)"
    then have r: "fresh s x" "sn_Rotate store T i x t s = (Inr (), s1)" by simp_all
    from rotate_kills [OF assms(1) r(1) assms(2) r(2)] rotate_keeps [OF assms(1) r] show ?thesis by simp
  qed
  with dead_forever [OF assms(4)] dead_inactive show ?thesis by blast
qed

end

end
