(* ===== verification/Auth_Memory.thy ===== *)
theory Auth_Memory
  imports Auth_Service
begin

text \<open>
  The in-memory store of users and sessions, \<^verbatim>\<open>internal/repository/memory/store.go\<close>, and the
  lockout it gives: the number of wrong passwords anybody can try is bounded.
\<close>

record MemStore =
  ms_users :: "User gomap"
  ms_sessions :: "Session gomap"

definition NewStore :: MemStore where
  "NewStore = \<lparr>ms_users = [], ms_sessions = []\<rparr>"

definition userKey :: "string \<Rightarrow> string \<Rightarrow> string" where
  "userKey tenantID email = tenantID @ '':'' @ to_lower (trim_space email)"

definition sessionKey :: "string \<Rightarrow> string \<Rightarrow> string" where
  "sessionKey tenantID sessionID = tenantID @ '':'' @ sessionID"

definition mem_GetByEmail :: "string \<Rightarrow> string \<Rightarrow> (User, MemStore) op" where
  "mem_GetByEmail tenantID email s = (case gm_get (ms_users s) (userKey tenantID email) of
      None \<Rightarrow> (Inl ErrNotFound, s) | Some user \<Rightarrow> (Inr user, s))"

definition mem_SaveUser :: "User \<Rightarrow> MemStore \<Rightarrow> MemStore" where
  "mem_SaveUser user s = s\<lparr>ms_users := gm_put (userKey (us_TenantID user) (us_Email user)) user (ms_users s)\<rparr>"

definition mem_CreateUser :: "User \<Rightarrow> (unit, MemStore) op" where
  "mem_CreateUser user s =
     (let key = userKey (us_TenantID user) (us_Email user)
      in case gm_get (ms_users s) key of
           Some _ \<Rightarrow> (Inl ErrAlreadyExists, s)
         | None \<Rightarrow> (Inr (), s\<lparr>ms_users := gm_put key user (ms_users s)\<rparr>))"

text \<open>The loop \<^verbatim>\<open>for key, user := range s.users\<close> that changes the first user it finds.\<close>

fun change_user :: "string \<Rightarrow> string \<Rightarrow> (User \<Rightarrow> User) \<Rightarrow> User gomap \<Rightarrow> User gomap option" where
  "change_user tenantID userID f [] = None"
| "change_user tenantID userID f ((key, user) # rest) =
     (if us_TenantID user = tenantID \<and> us_ID user = userID then Some ((key, f user) # rest)
      else map_option (\<lambda>m. (key, user) # m) (change_user tenantID userID f rest))"

definition count_failure :: "go_time \<Rightarrow> User \<Rightarrow> User" where
  "count_failure now user =
     (let user = user\<lparr>us_FailedAttempts := i64 (us_FailedAttempts user + 1)\<rparr>
      in if us_FailedAttempts user \<ge> 5 then user\<lparr>us_LockedUntil := Some (now + 15 * time_Minute)\<rparr> else user)"

definition mem_IncrementFailedAttempts :: "string \<Rightarrow> string \<Rightarrow> go_time \<Rightarrow> (unit, MemStore) op" where
  "mem_IncrementFailedAttempts tenantID userID now s =
     (case change_user tenantID userID (count_failure now) (ms_users s) of
        None \<Rightarrow> (Inl ErrNotFound, s) | Some users \<Rightarrow> (Inr (), s\<lparr>ms_users := users\<rparr>))"

definition mem_ResetFailedAttempts :: "string \<Rightarrow> string \<Rightarrow> (unit, MemStore) op" where
  "mem_ResetFailedAttempts tenantID userID s =
     (case change_user tenantID userID (\<lambda>user. user\<lparr>us_FailedAttempts := 0, us_LockedUntil := None\<rparr>) (ms_users s) of
        None \<Rightarrow> (Inl ErrNotFound, s) | Some users \<Rightarrow> (Inr (), s\<lparr>ms_users := users\<rparr>))"

definition mem_CreateSession :: "Session \<Rightarrow> (unit, MemStore) op" where
  "mem_CreateSession session s =
     (Inr (), s\<lparr>ms_sessions := gm_put (sessionKey (ss_TenantID session) (ss_ID session)) session (ms_sessions s)\<rparr>)"

definition mem_Revoke :: "string \<Rightarrow> string \<Rightarrow> go_time \<Rightarrow> (unit, MemStore) op" where
  "mem_Revoke tenantID sessionID revokedAt s =
     (let key = sessionKey tenantID sessionID
      in case gm_get (ms_sessions s) key of
           None \<Rightarrow> (Inl ErrNotFound, s)
         | Some session \<Rightarrow> (Inr (), s\<lparr>ms_sessions := gm_put key (session\<lparr>ss_RevokedAt := Some revokedAt\<rparr>) (ms_sessions s)\<rparr>))"

definition mem_IsActive :: "string \<Rightarrow> string \<Rightarrow> go_time \<Rightarrow> (bool, MemStore) op" where
  "mem_IsActive tenantID sessionID now s = (case gm_get (ms_sessions s) (sessionKey tenantID sessionID) of
      None \<Rightarrow> (Inl ErrNotFound, s)
    | Some session \<Rightarrow>
        if ss_RevokedAt session \<noteq> None then (Inr False, s)
        else if now > ss_ExpiresAt session then (Inr False, s)
        else (Inr True, s))"

definition mem_Rotate :: "string \<Rightarrow> string \<Rightarrow> Session \<Rightarrow> go_time \<Rightarrow> (unit, MemStore) op" where
  "mem_Rotate tenantID oldSessionID next_session revokedAt s =
     (let key = sessionKey tenantID oldSessionID
      in case gm_get (ms_sessions s) key of
           None \<Rightarrow> (Inl ErrNotFound, s)
         | Some current \<Rightarrow>
             (let sessions = gm_put key (current\<lparr>ss_RevokedAt := Some revokedAt, ss_UpdatedAt := revokedAt\<rparr>) (ms_sessions s)
              in (Inr (), s\<lparr>ms_sessions :=
                   gm_put (sessionKey (ss_TenantID next_session) (ss_ID next_session)) next_session sessions\<rparr>)))"

definition mem_UserStore :: "MemStore UserStore" where
  "mem_UserStore = \<lparr>ur_GetByEmail = mem_GetByEmail, ur_IncrementFailedAttempts = mem_IncrementFailedAttempts,
     ur_ResetFailedAttempts = mem_ResetFailedAttempts\<rparr>"

definition mem_UserCreator :: "MemStore UserCreator" where
  "mem_UserCreator = \<lparr>uc_CreateUser = mem_CreateUser\<rparr>"

definition mem_SessionStore :: "MemStore SessionStore" where
  "mem_SessionStore = \<lparr>sn_CreateSession = mem_CreateSession, sn_Revoke = mem_Revoke,
     sn_IsActive = mem_IsActive, sn_Rotate = mem_Rotate\<rparr>"

definition mem_auth :: "MemStore AuthService" where
  "mem_auth = NewAuthService (Some mem_UserStore) (Some mem_UserCreator) (Some mem_SessionStore)"

subsection \<open>One account\<close>

text \<open>The account found under a tenant and an e-mail address, its identifier used by no other user of the tenant.\<close>

definition mem_account :: "MemStore \<Rightarrow> string \<Rightarrow> string \<Rightarrow> User \<Rightarrow> bool" where
  "mem_account s T e u \<longleftrightarrow> gm_ok (ms_users s) \<and> gm_get (ms_users s) (userKey T e) = Some u \<and> us_TenantID u = T \<and>
     (\<forall>(k, v)\<in>set (ms_users s). us_TenantID v = T \<and> us_ID v = us_ID u \<longrightarrow> k = userKey T e)"

lemma change_user_eq:
  assumes "gm_ok m" "gm_get m k = Some u" "us_TenantID u = T" "us_ID u = i"
    and "\<forall>(k', v)\<in>set m. us_TenantID v = T \<and> us_ID v = i \<longrightarrow> k' = k"
  shows "\<exists>m'. change_user T i f m = Some m' \<and> gm_get m' = (gm_get m)(k \<mapsto> f u) \<and>
     map fst m' = map fst m \<and> (\<forall>(k', v)\<in>set m'. k' \<noteq> k \<longrightarrow> (k', v) \<in> set m)"
  using assms
proof (induction m)
  case (Cons kv m)
  obtain k1 v1 where kv: "kv = (k1, v1)" by fastforce
  show ?case
  proof (cases "us_TenantID v1 = T \<and> us_ID v1 = i")
    case True
    with Cons.prems kv have "k1 = k" "v1 = u" by auto
    then show ?thesis using True kv by auto
  next
    case False
    with Cons.prems kv have "k1 \<noteq> k" by auto
    have "gm_ok m" "gm_get m k = Some u" "\<forall>(k', v)\<in>set m. us_TenantID v = T \<and> us_ID v = i \<longrightarrow> k' = k"
      using Cons.prems kv \<open>k1 \<noteq> k\<close> by (auto simp: gm_ok_def)
    from Cons.IH [OF this(1,2) Cons.prems(3,4) this(3)] obtain m' where "change_user T i f m = Some m'" "gm_get m' = (gm_get m)(k \<mapsto> f u)"
      "map fst m' = map fst m" "\<forall>(k', v)\<in>set m'. k' \<noteq> k \<longrightarrow> (k', v) \<in> set m"
      by blast
    with kv False \<open>k1 \<noteq> k\<close> show ?thesis by auto
  qed
qed simp

lemma mem_account_change:
  assumes "mem_account s T e u" and "\<And>x. us_TenantID (f x) = us_TenantID x \<and> us_ID (f x) = us_ID x"
  obtains users where "change_user T (us_ID u) f (ms_users s) = Some users" "mem_account (s\<lparr>ms_users := users\<rparr>) T e (f u)"
proof -
  from assms(1) obtain users where c: "change_user T (us_ID u) f (ms_users s) = Some users"
    and g: "gm_get users = (gm_get (ms_users s))(userKey T e \<mapsto> f u)" "map fst users = map fst (ms_users s)"
      "\<forall>(k', v)\<in>set users. k' \<noteq> userKey T e \<longrightarrow> (k', v) \<in> set (ms_users s)"
    using change_user_eq [of "ms_users s" "userKey T e" u T "us_ID u" f] by (auto simp: mem_account_def)
  have "mem_account (s\<lparr>ms_users := users\<rparr>) T e (f u)"
    using assms g by (fastforce simp: mem_account_def gm_ok_def)
  with c show thesis by (rule that)
qed

lemma mem_login:
  assumes "mem_account s T e u"
  shows "\<exists>u' s'. Authenticate bc mem_auth T e pw now s =
     ((if (case us_LockedUntil u of None \<Rightarrow> False | Some t \<Rightarrow> now < t) then Inl ErrAccountLocked
       else if \<not> bc_Compare bc (us_PasswordHash u) pw then Inl ErrInvalidCredentials else Inr u), s') \<and>
     mem_account s' T e u' \<and>
     u' = (if (case us_LockedUntil u of None \<Rightarrow> False | Some t \<Rightarrow> now < t) then u
           else if \<not> bc_Compare bc (us_PasswordHash u) pw then count_failure now u
           else u\<lparr>us_FailedAttempts := 0, us_LockedUntil := None\<rparr>)"
proof -
  let ?locked = "case us_LockedUntil u of None \<Rightarrow> False | Some t \<Rightarrow> now < t"
  have get: "mem_GetByEmail T e s = (Inr u, s)" using assms by (simp add: mem_account_def mem_GetByEmail_def)
  obtain m1 where m1: "change_user T (us_ID u) (count_failure now) (ms_users s) = Some m1"
      "mem_account (s\<lparr>ms_users := m1\<rparr>) T e (count_failure now u)"
    by (rule mem_account_change [OF assms, of "count_failure now"]) (auto simp: count_failure_def Let_def)
  obtain m2 where m2: "change_user T (us_ID u) (\<lambda>user. user\<lparr>us_FailedAttempts := 0, us_LockedUntil := None\<rparr>) (ms_users s) = Some m2"
      "mem_account (s\<lparr>ms_users := m2\<rparr>) T e (u\<lparr>us_FailedAttempts := 0, us_LockedUntil := None\<rparr>)"
    by (rule mem_account_change [OF assms, of "\<lambda>user. user\<lparr>us_FailedAttempts := 0, us_LockedUntil := None\<rparr>"]) auto
  show ?thesis
    using assms m1 m2
    by (auto simp: Authenticate_def mem_auth_def NewAuthService_def mem_UserStore_def op_bind_def op_err_def get
        op_ignore_def mem_IncrementFailedAttempts_def mem_ResetFailedAttempts_def)
qed

subsection \<open>Guessing passwords\<close>

definition wrong_answers :: "(go_error + User) list \<Rightarrow> nat" where
  "wrong_answers rs = length (filter (\<lambda>r. r = Inl ErrInvalidCredentials) rs)"

text \<open>
  How many wrong passwords are compared up to the instant \<open>t1\<close>, from \<open>t0\<close> on: the attempts left before
  the first lockout and one for every lockout period after it.
\<close>

definition guesses :: "User \<Rightarrow> go_time \<Rightarrow> go_time \<Rightarrow> nat" where
  "guesses u t0 t1 =
     (if us_FailedAttempts u < 5 then nat (5 - us_FailedAttempts u) + nat ((t1 - t0) div LockoutDuration)
      else case us_LockedUntil u of None \<Rightarrow> 0
        | Some t \<Rightarrow> if t1 < t then 0 else nat ((t1 - t) div LockoutDuration) + 1)"

definition lock_ok :: "User \<Rightarrow> nat \<Rightarrow> bool" where
  "lock_ok u n \<longleftrightarrow> 0 \<le> us_FailedAttempts u \<and> us_FailedAttempts u + int n < 2 ^ 63 \<and>
     (5 \<le> us_FailedAttempts u \<longrightarrow> us_LockedUntil u \<noteq> None)"

lemma count_failure_fields:
  assumes "lock_ok u (Suc n)"
  shows "us_FailedAttempts (count_failure now u) = us_FailedAttempts u + 1"
    "us_LockedUntil (count_failure now u) = (if 4 \<le> us_FailedAttempts u then Some (now + LockoutDuration) else us_LockedUntil u)"
    "us_PasswordHash (count_failure now u) = us_PasswordHash u" "lock_ok (count_failure now u) n"
  using assms by (auto simp: count_failure_def Let_def lock_ok_def LockoutDuration_def)

lemma div_step:
  fixes a D :: int
  assumes "0 < D" "0 \<le> a"
  shows "(if a < D then 0 else nat ((a - D) div D) + 1) = nat (a div D)"
proof (cases "a < D")
  case False
  have "(a - D) div D = a div D - 1" using div_mult_self4 [of D "-1" a] assms(1) by simp
  moreover have "1 \<le> a div D" using False assms by (simp add: int_one_le_iff_zero_less pos_imp_zdiv_pos_iff)
  ultimately show ?thesis using False by simp
qed (use assms in simp)

lemma guesses_later:
  assumes "t0 \<le> t" shows "guesses u t t1 \<le> guesses u t0 t1"
proof -
  have "(t1 - t) div LockoutDuration \<le> (t1 - t0) div LockoutDuration"
    using assms by (intro zdiv_mono1) (simp_all add: LockoutDuration_def)
  then show ?thesis by (auto simp: guesses_def split: option.splits)
qed

lemma guesses_failure:
  assumes "lock_ok u (Suc n)" "t0 \<le> t" "t \<le> t1" "\<not> (case us_LockedUntil u of None \<Rightarrow> False | Some l \<Rightarrow> t < l)"
  shows "Suc (guesses (count_failure t u) t t1) \<le> guesses u t0 t1"
proof -
  let ?D = LockoutDuration
  note f = count_failure_fields [OF assms(1), of t]
  have D: "0 < ?D" by (simp add: LockoutDuration_def)
  have mono: "(t1 - t) div ?D \<le> (t1 - x) div ?D" if "x \<le> t" for x using that D by (intro zdiv_mono1) auto
  have step: "(if t1 < t + ?D then 0 else nat ((t1 - (t + ?D)) div ?D) + 1) = nat ((t1 - t) div ?D)"
  proof -
    have "t1 < t + ?D \<longleftrightarrow> t1 - t < ?D" "t1 - (t + ?D) = t1 - t - ?D" by linarith+
    then show ?thesis using div_step [OF D, of "t1 - t"] assms(3) by (simp only:)
  qed
  consider (first) "us_FailedAttempts u < 4" | (fifth) "us_FailedAttempts u = 4" | (later) "5 \<le> us_FailedAttempts u" by linarith
  then show ?thesis
  proof cases
    case first
    with mono [OF assms(2)] show ?thesis using assms(1) by (simp add: guesses_def f lock_ok_def)
  next
    case fifth
    then have "guesses (count_failure t u) t t1 = nat ((t1 - t) div ?D)"
      by (simp add: guesses_def f step del: nat_mult_distrib)
    with fifth mono [OF assms(2)] show ?thesis by (simp add: guesses_def)
  next
    case later
    then obtain l where l: "us_LockedUntil u = Some l" "l \<le> t" using assms(1,4) by (auto simp: lock_ok_def)
    from later have "guesses (count_failure t u) t t1 = nat ((t1 - t) div ?D)" by (simp add: guesses_def f step)
    with later l mono [OF l(2)] assms(3) show ?thesis by (simp add: guesses_def)
  qed
qed

lemma wrong_guesses_bound:
  assumes "mem_account s T e u" "lock_ok u (length as)" "\<forall>(pw, t)\<in>set as. \<not> bc_Compare bc (us_PasswordHash u) pw"
    and "sorted (map snd as)" "\<forall>(pw, t)\<in>set as. t0 \<le> t \<and> t \<le> t1"
  shows "wrong_answers (fst (attempts bc mem_auth T e as s)) \<le> guesses u t0 t1"
  using assms
proof (induction as arbitrary: s u t0)
  case Nil then show ?case by (simp add: wrong_answers_def)
next
  case (Cons a as)
  obtain pw t where a: "a = (pw, t)" by fastforce
  let ?locked = "case us_LockedUntil u of None \<Rightarrow> False | Some l \<Rightarrow> t < l"
  from Cons.prems a have pw: "\<not> bc_Compare bc (us_PasswordHash u) pw" and t: "t0 \<le> t" "t \<le> t1"
    and later: "\<forall>(p, x)\<in>set as. t \<le> x \<and> x \<le> t1" "sorted (map snd as)" by auto
  from mem_login [OF Cons.prems(1), of bc pw t, unfolded if_P [OF pw]] obtain s' where
    l: "Authenticate bc mem_auth T e pw t s = ((if ?locked then Inl ErrAccountLocked else Inl ErrInvalidCredentials), s')"
    and u': "mem_account s' T e (if ?locked then u else count_failure t u)" by blast
  obtain rs s'' where rs: "attempts bc mem_auth T e as s' = (rs, s'')" by fastforce
  show ?case
  proof (cases ?locked)
    case True
    have "wrong_answers (fst (attempts bc mem_auth T e as s')) \<le> guesses u t t1"
      by (rule Cons.IH) (use u' True Cons.prems later in \<open>auto simp: lock_ok_def\<close>)
    with True l rs guesses_later [OF t(1), of u t1] show ?thesis by (simp add: a wrong_answers_def)
  next
    case False
    have lo: "lock_ok u (Suc (length as))" using Cons.prems(2) a by simp
    have "wrong_answers (fst (attempts bc mem_auth T e as s')) \<le> guesses (count_failure t u) t t1"
      by (rule Cons.IH) (use u' False Cons.prems later count_failure_fields [OF lo] in \<open>auto\<close>)
    with False l rs guesses_failure [OF lo t False] show ?thesis by (simp add: a wrong_answers_def)
  qed
qed

text \<open>
  Property C19: guessing a password on the in-memory store. Of any series of wrong passwords for an
  account without earlier failures, made within a time \<open>d\<close>, at most five and one more for every 15
  minutes of \<open>d\<close> are compared with the stored hash; the others are answered as locked.
\<close>

theorem mem_guesses_bounded:
  assumes "mem_account s T e u" "us_FailedAttempts u = 0" "length as < 2 ^ 63"
    and "\<forall>(pw, t)\<in>set as. \<not> bc_Compare bc (us_PasswordHash u) pw"
    and "sorted (map snd as)" "\<forall>(pw, t)\<in>set as. t0 \<le> t \<and> t \<le> t0 + d"
  shows "wrong_answers (fst (attempts bc mem_auth T e as s)) \<le> 5 + nat (d div (15 * time_Minute))"
proof -
  have "lock_ok u (length as)" using assms(2,3) by (simp add: lock_ok_def)
  from wrong_guesses_bound [OF assms(1) this assms(4-6)] assms(2) show ?thesis
    by (simp add: guesses_def LockoutDuration_def)
qed

definition demo_bcrypt :: bcrypt where
  "demo_bcrypt = \<lparr>bc_Generate = (\<lambda>salt pw. Inr pw), bc_Compare = (=)\<rparr>"

definition demo_user :: User where
  "demo_user = \<lparr>us_ID = ''u1'', us_TenantID = ''t1'', us_Email = ''ada@academy'', us_DisplayName = ''Ada'', us_Role = ''learner'',
     us_PasswordHash = ''Password123!A'', us_FailedAttempts = 0, us_LockedUntil = None, us_PIIEncrypted = None,
     us_PasswordChangedAt = 0, us_CreatedAt = 0, us_UpdatedAt = 0\<rparr>"

lemma demo_user_account: "mem_account (mem_SaveUser demo_user NewStore) ''t1'' ''ada@academy'' demo_user"
proof -
  have "userKey ''t1'' ''ada@academy'' = userKey (us_TenantID demo_user) (us_Email demo_user)" by (simp add: demo_user_def)
  then show ?thesis by (simp add: mem_account_def mem_SaveUser_def NewStore_def demo_user_def gm_ok_def)
qed

theorem mem_guesses_bounded_witness:
  "wrong_answers (fst (attempts demo_bcrypt mem_auth ''t1'' ''ada@academy'' (replicate 9 (''guess'', 7))
     (mem_SaveUser demo_user NewStore))) \<le> 5"
  using mem_guesses_bounded [OF demo_user_account, of "replicate 9 (''guess'', 7)" demo_bcrypt 7 0]
  by (simp add: demo_user_def demo_bcrypt_def)

text \<open>
  Five wrong passwords lock the account on the in-memory store: until 15 minutes after the
  fifth every attempt is refused, the right password included, and changes nothing.
\<close>

theorem mem_locked_out:
  assumes "mem_account s T e u" "us_FailedAttempts u = 4" "\<not> bc_Compare bc (us_PasswordHash u) pw"
    and "\<not> (case us_LockedUntil u of None \<Rightarrow> False | Some l \<Rightarrow> t < l)" "t' < t + 15 * time_Minute"
  shows "\<exists>s'. attempts bc mem_auth T e [(pw, t), (pw', t')] s = ([Inl ErrInvalidCredentials, Inl ErrAccountLocked], s') \<and>
    mem_account s' T e (count_failure t u)"
proof -
  from mem_login [OF assms(1), of bc pw t, unfolded if_P [OF assms(3)] if_not_P [OF assms(4)]]
  obtain s1 where 1: "Authenticate bc mem_auth T e pw t s = (Inl ErrInvalidCredentials, s1)" "mem_account s1 T e (count_failure t u)"
    by blast
  have "lock_ok u 1" using assms(2) by (simp add: lock_ok_def)
  then have "us_LockedUntil (count_failure t u) = Some (t + 15 * time_Minute)"
    using count_failure_fields(2) [of u 0 t] assms(2) by (simp add: LockoutDuration_def)
  with mem_login [OF 1(2), of bc pw' t'] assms(5)
  obtain s2 where "Authenticate bc mem_auth T e pw' t' s1 = (Inl ErrAccountLocked, s2)" "mem_account s2 T e (count_failure t u)"
    by auto
  with 1 show ?thesis by simp
qed

theorem mem_locked_out_witness:
  "\<exists>s'. attempts demo_bcrypt mem_auth ''t1'' ''ada@academy'' [(''guess'', 7), (''Password123!A'', 8)]
     (mem_SaveUser (demo_user\<lparr>us_FailedAttempts := 4\<rparr>) NewStore) = ([Inl ErrInvalidCredentials, Inl ErrAccountLocked], s')"
proof -
  let ?u = "demo_user\<lparr>us_FailedAttempts := 4\<rparr>"
  have "userKey ''t1'' ''ada@academy'' = userKey (us_TenantID ?u) (us_Email ?u)" by (simp add: demo_user_def)
  then have "mem_account (mem_SaveUser ?u NewStore) ''t1'' ''ada@academy'' ?u"
    by (simp add: mem_account_def mem_SaveUser_def NewStore_def demo_user_def gm_ok_def)
  note A = this
  have "us_FailedAttempts ?u = 4" "\<not> bc_Compare demo_bcrypt (us_PasswordHash ?u) ''guess''"
    "\<not> (case us_LockedUntil ?u of None \<Rightarrow> False | Some l \<Rightarrow> 7 < l)" "8 < 7 + 15 * time_Minute"
    by (simp_all add: demo_user_def demo_bcrypt_def)
  from mem_locked_out [OF A this, of "''Password123!A''"] show ?thesis by blast
qed

subsection \<open>Sessions\<close>

definition mem_dead :: "MemStore \<Rightarrow> string \<Rightarrow> string \<Rightarrow> bool" where
  "mem_dead s T i \<longleftrightarrow> (\<exists>x. gm_get (ms_sessions s) (sessionKey T i) = Some x \<and> ss_RevokedAt x \<noteq> None)"

definition mem_fresh :: "MemStore \<Rightarrow> Session \<Rightarrow> bool" where
  "mem_fresh s x \<longleftrightarrow> gm_get (ms_sessions s) (sessionKey (ss_TenantID x) (ss_ID x)) = None"

interpretation mem_sessions: session_store mem_SessionStore "\<lambda>_. True" mem_dead mem_fresh
  by unfold_locales
    (auto simp: mem_SessionStore_def mem_IsActive_def mem_CreateSession_def mem_Revoke_def mem_Rotate_def mem_dead_def
      mem_fresh_def gm_get_put Let_def split: option.splits if_splits)

end
