(* ===== verification/Middleware.thy ===== *)
theory Middleware
  imports Http Auth_Service
begin

text \<open>
  The middleware of \<^verbatim>\<open>internal/api/middleware\<close>: \<^verbatim>\<open>AuthGuard\<close> with its session cookie,
  \<^verbatim>\<open>TenantContext\<close>, \<^verbatim>\<open>AuditContext\<close> (in \<open>Http\<close>) and \<^verbatim>\<open>RequireRole\<close>. An endpoint returns its response
  with the cookies it sets and the state; a middleware takes the next endpoint. What a middleware reads of
  the clock is gone for the next one (\<open>tick\<close>). \<^verbatim>\<open>StructuredLogging\<close> only writes log lines and passes
  request and response on.
\<close>

record Cookie =
  ck_Name :: string
  ck_Value :: string
  ck_Path :: string
  ck_HttpOnly :: bool
  ck_Secure :: bool
  ck_SameSite :: string
  ck_Expires :: go_time

type_synonym ('b, 's) endpoint = "http_request \<Rightarrow> 's audited \<Rightarrow> ('b response \<times> Cookie list) \<times> 's audited"

type_synonym ('b, 's) middleware = "('b, 's) endpoint \<Rightarrow> ('b, 's) endpoint"

text \<open>An endpoint that sets no cookie.\<close>

definition plain :: "('b, 's) handler \<Rightarrow> ('b, 's) endpoint" where
  "plain h rq st = (case h rq st of (resp, st') \<Rightarrow> ((resp, []), st'))"

definition answer :: "nat \<Rightarrow> string \<Rightarrow> 's audited \<Rightarrow> ('b response \<times> Cookie list) \<times> 's audited" where
  "answer status message st = (((status, ErrBody message), []), st)"

definition tick :: "nat \<Rightarrow> http_request \<Rightarrow> http_request" where
  "tick n rq = rq\<lparr>rq_clock := (\<lambda>k. rq_clock rq (k + n))\<rparr>"

definition set_header :: "string \<Rightarrow> string \<Rightarrow> http_request \<Rightarrow> http_request" where
  "set_header k v rq = rq\<lparr>rq_header := (rq_header rq)(k := v)\<rparr>"

definition add_cookies :: "Cookie list \<Rightarrow> ('b response \<times> Cookie list) \<times> 's audited \<Rightarrow> ('b response \<times> Cookie list) \<times> 's audited" where
  "add_cookies cs r = (case r of ((resp, cookies), st) \<Rightarrow> ((resp, cs @ cookies), st))"

subsection \<open>Authentication\<close>

definition bearerToken :: "string \<Rightarrow> string" where
  "bearerToken header =
     (let scheme = takeWhile (\<lambda>c. c \<noteq> CHR '' '') header; rest = dropWhile (\<lambda>c. c \<noteq> CHR '' '') header
      in if header = '''' then ''''
         else if rest = '''' then ''''
         else if \<not> equal_fold scheme ''Bearer'' then ''''
         else trim_space (tl rest))"

definition useSecureCookie :: "http_request \<Rightarrow> bool" where
  "useSecureCookie rq = (if rq_tls rq then True else equal_fold (trim_space (rq_header rq ''X-Forwarded-Proto'')) ''https'')"

definition session_cookie :: "http_request \<Rightarrow> string \<Rightarrow> go_time \<Rightarrow> Cookie" where
  "session_cookie rq token expires = \<lparr>ck_Name = ''trainingops_session'', ck_Value = token, ck_Path = ''/'', ck_HttpOnly = True,
     ck_Secure = useSecureCookie rq, ck_SameSite = ''Strict'', ck_Expires = expires\<rparr>"

definition setSessionCookie :: "token_lib \<Rightarrow> http_request \<Rightarrow> string \<Rightarrow> SessionClaims \<Rightarrow> go_time \<Rightarrow> Cookie list" where
  "setSessionCookie lib rq signingKey claims now =
     (let claims = claims\<lparr>cl_ExpiresAt := time_Unix (now + 24 * time_Hour)\<rparr>
      in [session_cookie rq (SignSessionToken lib signingKey claims) (cl_ExpiresAt claims * time_Second)])"

definition share_prefix :: string where
  "share_prefix = ''/v1/content/share/''"

definition presented_token :: "http_request \<Rightarrow> string" where
  "presented_token rq =
     (let token = bearerToken (rq_header rq ''Authorization'')
      in if token = '''' then (case rq_cookie rq ''trainingops_session'' of None \<Rightarrow> '''' | Some v \<Rightarrow> trim_space v) else token)"

text \<open>The request that the next endpoint sees: tenant and actor are those of the claims.\<close>

definition identified :: "SessionClaims \<Rightarrow> http_request \<Rightarrow> http_request" where
  "identified claims rq =
     set_header ''X-Session-ID'' (cl_SessionID claims) (
     set_header ''X-Actor-Role'' (cl_Role claims) (
     set_header ''X-Actor-Email'' (cl_Email claims) (
     set_header ''X-Actor-User-ID'' (cl_UserID claims) (
     set_header ''X-Tenant-ID'' (cl_TenantID claims) (
     tenant_WithID (cl_TenantID claims) rq)))))"

definition AuthGuard :: "token_lib \<Rightarrow> string \<Rightarrow> 's SessionStore option \<Rightarrow> (string \<Rightarrow> bool) \<Rightarrow> ('b, 's) middleware" where
  "AuthGuard lib signingKey sessions publicPaths next_ep rq st =
     (if publicPaths (rq_path rq) \<or> take (length share_prefix) (rq_path rq) = share_prefix then next_ep rq st
      else let token = presented_token rq
      in if token = '''' then answer 401 ''missing bearer token'' st
      else case VerifySessionToken lib signingKey token (rq_clock rq 0) of
        Inl _ \<Rightarrow> answer 401 ''invalid session'' st
      | Inr claims \<Rightarrow>
          let now = rq_clock rq 1;
              rest = (\<lambda>st'. add_cookies (setSessionCookie lib rq signingKey claims now) (next_ep (tick 2 (identified claims rq)) st'))
          in case sessions of
            None \<Rightarrow> rest st
          | Some store \<Rightarrow>
              (case on_store (sn_IsActive store (cl_TenantID claims) (cl_SessionID claims) now) st of
                 (Inl _, st') \<Rightarrow> answer 401 ''session expired or revoked'' st'
               | (Inr active, st') \<Rightarrow> if \<not> active then answer 401 ''session expired or revoked'' st' else rest st'))"

text \<open>Rotation of a session is not called by the guard; \<open>uuid\<close> is the new identifier.\<close>

definition rotateSession :: "string \<Rightarrow> 's SessionStore \<Rightarrow> SessionClaims \<Rightarrow> go_time \<Rightarrow> (SessionClaims, 's) op" where
  "rotateSession uuid sessions current now =
     (let next_session = new_session uuid (cl_TenantID current) (cl_UserID current) now
      in op_bind (sn_Rotate sessions (cl_TenantID current) (cl_SessionID current) next_session now) (\<lambda>_.
         op_return (current\<lparr>cl_SessionID := uuid, cl_ExpiresAt := time_Unix (ss_ExpiresAt next_session)\<rparr>)))"

subsection \<open>Tenant, roles and resources\<close>

definition TenantContext :: "('b, 's) middleware" where
  "TenantContext next_ep rq =
     (let tenantID = rq_header rq ''X-Tenant-ID'';
          tenantID = (if tenantID = '''' then rq_query rq ''tenant_id'' else tenantID)
      in next_ep (tenant_WithID tenantID rq))"

definition AuditContext_mw :: "('b, 's) middleware" where
  "AuditContext_mw next_ep rq = next_ep (tick 1 (AuditContext (rq_clock rq 0) rq))"

definition RequireRole :: "string list \<Rightarrow> ('b, 's) middleware" where
  "RequireRole roles next_ep rq st =
     (let allowed = (\<lambda>r. r \<in> set (map (\<lambda>role. to_lower (trim_space role)) roles));
          role = to_lower (trim_space (rq_header rq ''X-Actor-Role''))
      in if role = '''' then answer 401 ''missing role claim'' st
         else if role = ''admin'' then next_ep rq st
         else if \<not> allowed role then answer 403 ''insufficient role privileges'' st
         else next_ep rq st)"

definition ErrForbiddenTenant :: go_error where
  "ErrForbiddenTenant = ErrNew ''forbidden resource access''"

definition VerifyResourceAccess :: "string \<Rightarrow> string \<Rightarrow> go_error option" where
  "VerifyResourceAccess resourceTenantID claimsTenantID =
     (if resourceTenantID = '''' \<or> claimsTenantID = '''' then Some ErrForbiddenTenant
      else if resourceTenantID \<noteq> claimsTenantID then Some ErrForbiddenTenant
      else None)"

text \<open>The chain in the order of the calls of \<^verbatim>\<open>e.Use\<close>.\<close>

definition chain :: "token_lib \<Rightarrow> string \<Rightarrow> 's SessionStore option \<Rightarrow> (string \<Rightarrow> bool) \<Rightarrow> ('b, 's) middleware" where
  "chain lib signingKey sessions publicPaths ep = AuthGuard lib signingKey sessions publicPaths (TenantContext (AuditContext_mw ep))"


subsection \<open>What the guard lets through\<close>

definition guarded_path :: "(string \<Rightarrow> bool) \<Rightarrow> string \<Rightarrow> bool" where
  "guarded_path publicPaths path \<longleftrightarrow> \<not> publicPaths path \<and> take (length share_prefix) path \<noteq> share_prefix"

definition role_allowed :: "string list \<Rightarrow> string \<Rightarrow> bool" where
  "role_allowed roles role \<longleftrightarrow> to_lower (trim_space role) \<noteq> '''' \<and>
     (to_lower (trim_space role) = ''admin'' \<or> to_lower (trim_space role) \<in> set (map (\<lambda>r. to_lower (trim_space r)) roles))"

text \<open>The request that reaches the endpoint behind the whole chain.\<close>

definition chained :: "SessionClaims \<Rightarrow> http_request \<Rightarrow> http_request" where
  "chained claims rq = tick 1 (AuditContext (rq_clock rq 2) (tenant_WithID (cl_TenantID claims) (tick 2 (identified claims rq))))"

lemma chained_facts:
  "tenant_ID (chained claims rq) = (if cl_TenantID claims = '''' then None else Some (cl_TenantID claims))"
  "rq_header (chained claims rq) ''X-Tenant-ID'' = cl_TenantID claims"
  "rq_header (chained claims rq) ''X-Actor-User-ID'' = cl_UserID claims"
  "rq_header (chained claims rq) ''X-Actor-Email'' = cl_Email claims"
  "rq_header (chained claims rq) ''X-Actor-Role'' = cl_Role claims"
  "rq_header (chained claims rq) ''X-Session-ID'' = cl_SessionID claims"
  "actorIdentity (chained claims rq) = (trim_space (cl_UserID claims), to_lower (trim_space (cl_Role claims)))"
  "map_option md_ActorUserID (rq_audit (chained claims rq)) = Some (cl_UserID claims)"
  "rq_path (chained claims rq) = rq_path rq" "rq_param (chained claims rq) = rq_param rq"
  "rq_clock (chained claims rq) k = rq_clock rq (k + 3)"
  by (simp_all add: chained_def identified_def set_header_def tenant_WithID_def tick_def AuditContext_def tenant_ID_def actorIdentity_def numeral_eq_Suc)

lemma TenantContext_identified:
  assumes "cl_TenantID claims \<noteq> ''''"
  shows "TenantContext (AuditContext_mw ep) (tick 2 (identified claims rq)) = ep (chained claims rq)"
  using assms
  by (simp add: TenantContext_def AuditContext_mw_def chained_def identified_def set_header_def tenant_WithID_def tick_def AuditContext_def
      Let_def numeral_2_eq_2)

text \<open>The chain on a guarded path with a session store, as one equation.\<close>

lemma chain_guarded:
  assumes "guarded_path publicPaths (rq_path rq)"
  shows "chain lib key (Some store) publicPaths ep rq st =
    (if presented_token rq = '''' then answer 401 ''missing bearer token'' st
     else case VerifySessionToken lib key (presented_token rq) (rq_clock rq 0) of
       Inl _ \<Rightarrow> answer 401 ''invalid session'' st
     | Inr claims \<Rightarrow>
        (case on_store (sn_IsActive store (cl_TenantID claims) (cl_SessionID claims) (rq_clock rq 1)) st of
           (Inr True, st') \<Rightarrow> add_cookies (setSessionCookie lib rq key claims (rq_clock rq 1)) (ep (chained claims rq) st')
         | (_, st') \<Rightarrow> answer 401 ''session expired or revoked'' st'))"
proof (cases "presented_token rq = '''' \<or> (\<exists>e. VerifySessionToken lib key (presented_token rq) (rq_clock rq 0) = Inl e)")
  case True with assms show ?thesis by (auto simp: chain_def AuthGuard_def guarded_path_def Let_def)
next
  case False
  then obtain claims where v: "VerifySessionToken lib key (presented_token rq) (rq_clock rq 0) = Inr claims"
    by (cases "VerifySessionToken lib key (presented_token rq) (rq_clock rq 0)") auto
  then have "cl_TenantID claims \<noteq> ''''" by (rule verify_Inr) simp
  then have tc: "TenantContext (AuditContext_mw ep) (tick 2 (identified claims rq)) = ep (chained claims rq)"
    by (rule TenantContext_identified)
  show ?thesis
    using assms False v tc unfolding chain_def AuthGuard_def guarded_path_def
    by (auto simp: Let_def split: prod.split sum.split bool.split)
qed

lemma RequireRole_eq: "RequireRole roles ep rq st =
    (if role_allowed roles (rq_header rq ''X-Actor-Role'') then ep rq st
     else if to_lower (trim_space (rq_header rq ''X-Actor-Role'')) = '''' then answer 401 ''missing role claim'' st
     else answer 403 ''insufficient role privileges'' st)"
  by (simp add: RequireRole_def role_allowed_def Let_def)

text \<open>
  Property C22. On a guarded path the endpoint runs only behind a token that verifies, for a session that the store
  reports active, and with an allowed role; the request that it sees has the tenant, the actor, the role, the
  session and the audit metadata of that token, whatever headers the client sent: what an endpoint does on
  other requests makes no difference to the answer, nor to what is stored.
\<close>

theorem guarded_endpoint:
  assumes "guarded_path publicPaths (rq_path rq)"
    and same: "\<And>claims rq' st'. VerifySessionToken lib key (presented_token rq) (rq_clock rq 0) = Inr claims \<Longrightarrow>
      on_store (sn_IsActive store (cl_TenantID claims) (cl_SessionID claims) (rq_clock rq 1)) st = (Inr True, st') \<Longrightarrow>
      role_allowed roles (cl_Role claims) \<Longrightarrow> tenant_ID rq' = Some (cl_TenantID claims) \<Longrightarrow>
      actorIdentity rq' = (trim_space (cl_UserID claims), to_lower (trim_space (cl_Role claims))) \<Longrightarrow>
      rq_header rq' ''X-Session-ID'' = cl_SessionID claims \<Longrightarrow> map_option md_ActorUserID (rq_audit rq') = Some (cl_UserID claims) \<Longrightarrow>
      ep rq' st' = ep' rq' st'"
  shows "chain lib key (Some store) publicPaths (RequireRole roles ep) rq st =
    chain lib key (Some store) publicPaths (RequireRole roles ep') rq st"
proof (cases "VerifySessionToken lib key (presented_token rq) (rq_clock rq 0)")
  case (Inl e) then show ?thesis unfolding chain_guarded [OF assms(1)] by simp
next
  case (Inr claims)
  then have t: "cl_TenantID claims \<noteq> ''''" by (rule verify_Inr) simp
  obtain b st' where a: "on_store (sn_IsActive store (cl_TenantID claims) (cl_SessionID claims) (rq_clock rq 1)) st = (b, st')"
    by (cases "on_store (sn_IsActive store (cl_TenantID claims) (cl_SessionID claims) (rq_clock rq 1)) st")
  have "ep (chained claims rq) st' = ep' (chained claims rq) st'" if "b = Inr True" "role_allowed roles (cl_Role claims)"
    using same [OF Inr _ that(2), of st' "chained claims rq"] a that(1) t by (simp add: chained_facts)
  then show ?thesis unfolding chain_guarded [OF assms(1)] RequireRole_eq chained_facts Inr a sum.case prod.case
    by (auto split: sum.split bool.split)
qed

text \<open>A request with the token of an administrator.\<close>

definition demo_request :: "string \<Rightarrow> string \<Rightarrow> http_request" where
  "demo_request path authorization = \<lparr>rq_path = path, rq_tenant = None, rq_audit = None,
     rq_header = (\<lambda>k. if k = ''Authorization'' then authorization else ''''), rq_param = (\<lambda>_. ''''), rq_query = (\<lambda>_. ''''),
     rq_cookie = (\<lambda>_. None), rq_tls = True, rq_clock = (\<lambda>_. 0), rq_random = (\<lambda>_. None)\<rparr>"

definition open_sessions :: "unit SessionStore" where
  "open_sessions = \<lparr>sn_CreateSession = (\<lambda>_. op_return ()), sn_Revoke = (\<lambda>_ _ _. op_return ()),
     sn_IsActive = (\<lambda>_ _ _. op_return True), sn_Rotate = (\<lambda>_ _ _ _. op_return ())\<rparr>"

definition demo_bearer :: string where
  "demo_bearer = ''Bearer '' @ SignSessionToken demo_lib ''k'' (demo_claims ''admin'')"

lemma demo_bearer_verifies:
  "VerifySessionToken demo_lib ''k'' (presented_token (demo_request path demo_bearer)) 0 = Inr (demo_claims ''admin'')"
proof -
  have "rq_header (demo_request path demo_bearer) = rq_header (demo_request [] demo_bearer)"
    "rq_cookie (demo_request path demo_bearer) = rq_cookie (demo_request [] demo_bearer)" by (simp_all add: demo_request_def)
  then have "presented_token (demo_request path demo_bearer) = presented_token (demo_request [] demo_bearer)"
    by (simp only: presented_token_def)
  moreover have "VerifySessionToken demo_lib ''k'' (presented_token (demo_request [] demo_bearer)) 0 = Inr (demo_claims ''admin'')"
    by code_simp
  ultimately show ?thesis by simp
qed

theorem guarded_endpoint_witness:
  "chain demo_lib ''k'' (Some open_sessions) (\<lambda>_. False)
     (RequireRole [''coordinator''] (\<lambda>rq st. if tenant_ID rq = Some ''t1'' then (((200, OkBody True), []), st) else answer 500 ''?'' st))
     (demo_request ''/v1/bookings/hold'' demo_bearer) ((), []) =
   chain demo_lib ''k'' (Some open_sessions) (\<lambda>_. False)
     (RequireRole [''coordinator''] (\<lambda>rq st. (((200, OkBody True), []), st)))
     (demo_request ''/v1/bookings/hold'' demo_bearer) ((), [])"
proof (rule guarded_endpoint)
  show "guarded_path (\<lambda>_. False) (rq_path (demo_request ''/v1/bookings/hold'' demo_bearer))"
    by (simp add: guarded_path_def share_prefix_def demo_request_def)
next
  fix claims rq' and st' :: "unit audited"
  assume "VerifySessionToken demo_lib ''k'' (presented_token (demo_request ''/v1/bookings/hold'' demo_bearer))
      (rq_clock (demo_request ''/v1/bookings/hold'' demo_bearer) 0) = Inr claims" "tenant_ID rq' = Some (cl_TenantID claims)"
  then have "tenant_ID rq' = Some ''t1''"
    using demo_bearer_verifies by (auto simp: demo_request_def demo_claims_def)
  then show "(if tenant_ID rq' = Some ''t1'' then (((200, OkBody True), []), st') else answer 500 ''?'' st') = (((200, OkBody True), []), st')"
    by simp
qed

end
