(* ===== verification/Auth_Postgres.thy ===== *)
theory Auth_Postgres
  imports Auth_Service Demo_Database
begin

text \<open>
  Users and sessions of the PostgreSQL store, \<^verbatim>\<open>internal/repository/postgres/store.go\<close>. The
  vault is the function that encrypts a text, or none.
\<close>

subsection \<open>Users\<close>

text \<open>\<^verbatim>\<open>LEFT JOIN user_roles ... LEFT JOIN roles\<close>: the role names of a user, \<open>None\<close> for \<^verbatim>\<open>NULL\<close>.\<close>

definition role_names :: "pg_tables \<Rightarrow> User \<Rightarrow> string option list" where
  "role_names db u =
     (let links = filter (\<lambda>(t, uid, rid). t = us_TenantID u \<and> uid = us_ID u) (db_user_roles db)
      in if links = [] then [None]
         else concat (map (\<lambda>(t, uid, rid). case filter (\<lambda>r. ro_ID r = rid) (db_roles db) of
                [] \<Rightarrow> [None] | rs \<Rightarrow> map (\<lambda>r. Some (ro_Name r)) rs) links))"

definition coalesce_role :: "string option \<Rightarrow> string" where
  "coalesce_role r = (case r of None \<Rightarrow> ''learner'' | Some name \<Rightarrow> name)"

definition users_by_email :: "string \<Rightarrow> string \<Rightarrow> pg_tables \<Rightarrow> User list" where
  "users_by_email t email db =
     concat (map (\<lambda>u. map (\<lambda>r. u\<lparr>us_Role := coalesce_role r\<rparr>) (role_names db u))
       (filter (\<lambda>u. us_TenantID u = t \<and> to_lower (us_Email u) = to_lower email) (db_users db)))"

definition pg_GetByEmail :: "pg_env \<Rightarrow> string \<Rightarrow> string \<Rightarrow> (User, pg_state) op" where
  "pg_GetByEmail env tenantID email =
     op_bind (resolveTenantUUID tenantID) (\<lambda>tenantUUID.
     op_bind (op_try (pg_stmt (op_bind (pg_uuid env tenantUUID) (\<lambda>t. pg_query_row (users_by_email t email))))) (\<lambda>r.
     case r of
       Inl err \<Rightarrow> if err = ErrNoRows then op_fail (ErrNew ''not found'') else op_fail err
     | Inr user \<Rightarrow> op_return user))"

definition set_users :: "(User list \<Rightarrow> User list) \<Rightarrow> pg_state \<Rightarrow> pg_state" where
  "set_users f s = s\<lparr>pg_db := (pg_db s)\<lparr>db_users := f (db_users (pg_db s))\<rparr>\<rparr>"

definition user_row :: "pg_env \<Rightarrow> string \<Rightarrow> string \<Rightarrow> string option \<Rightarrow> User \<Rightarrow> User" where
  "user_row env i t pii user =
     \<lparr>us_ID = i, us_TenantID = t, us_Email = us_Email user, us_DisplayName = us_DisplayName user, us_Role = '''',
      us_PasswordHash = us_PasswordHash user, us_FailedAttempts = 0, us_LockedUntil = None, us_PIIEncrypted = pii,
      us_PasswordChangedAt = pg_ts (us_PasswordChangedAt user), us_CreatedAt = sql_now env, us_UpdatedAt = sql_now env\<rparr>"

text \<open>\<^verbatim>\<open>INSERT INTO users ... ON CONFLICT (tenant_id, email) DO NOTHING\<close>.\<close>

definition pg_insert_user :: "pg_env \<Rightarrow> string \<Rightarrow> string option \<Rightarrow> User \<Rightarrow> (unit, pg_state) op" where
  "pg_insert_user env tenantUUID pii user = pg_stmt (
     op_bind (pg_uuid env tenantUUID) (\<lambda>t s.
       let row = user_row env (gen_random_uuid env (pg_next s)) t pii user; s' = s\<lparr>pg_next := pg_next s + 1\<rparr>; db = pg_db s
       in if (t, us_Email user) \<in> set (map (\<lambda>u. (us_TenantID u, us_Email u)) (db_users db)) then (Inr (), s')
          else if us_ID row \<in> set (map us_ID (db_users db)) then (Inl (ErrSQL ''23505''), s')
          else if t \<notin> set (map tn_ID (db_tenants db)) then (Inl (ErrSQL ''23503''), s')
          else (Inr (), set_users (\<lambda>us. us @ [row]) s')))"

definition pg_role_id :: "pg_env \<Rightarrow> string \<Rightarrow> string \<Rightarrow> (string, pg_state) op" where
  "pg_role_id env tenantUUID role = pg_stmt (op_bind (pg_uuid env tenantUUID) (\<lambda>t.
     pg_query_row (\<lambda>db. map ro_ID (filter (\<lambda>r. ro_TenantID r = t \<and> ro_Name r = role) (db_roles db)))))"

definition pg_user_id :: "pg_env \<Rightarrow> string \<Rightarrow> string \<Rightarrow> (string, pg_state) op" where
  "pg_user_id env tenantUUID email = pg_stmt (op_bind (pg_uuid env tenantUUID) (\<lambda>t.
     pg_query_row (\<lambda>db. map us_ID (filter (\<lambda>u. us_TenantID u = t \<and> to_lower (us_Email u) = to_lower email) (db_users db)))))"

definition pg_grant_role :: "pg_env \<Rightarrow> string \<Rightarrow> string \<Rightarrow> string \<Rightarrow> (unit, pg_state) op" where
  "pg_grant_role env tenantUUID userID roleID = pg_stmt (
     op_bind (pg_uuid env tenantUUID) (\<lambda>t. op_bind (pg_uuid env userID) (\<lambda>u. op_bind (pg_uuid env roleID) (\<lambda>r s.
       let db = pg_db s
       in if (t, u, r) \<in> set (db_user_roles db) then (Inr (), s)
          else if t \<notin> set (map tn_ID (db_tenants db)) \<or> u \<notin> set (map us_ID (db_users db)) \<or>
                  r \<notin> set (map ro_ID (db_roles db)) then (Inl (ErrSQL ''23503''), s)
          else (Inr (), s\<lparr>pg_db := db\<lparr>db_user_roles := db_user_roles db @ [(t, u, r)]\<rparr>\<rparr>)))))"

definition pg_CreateUser :: "pg_env \<Rightarrow> (string \<Rightarrow> go_error + string) option \<Rightarrow> User \<Rightarrow> (unit, pg_state) op" where
  "pg_CreateUser env vault user =
     op_bind (resolveTenantUUID (us_TenantID user)) (\<lambda>tenantUUID.
     let encryptedPII = (case vault of None \<Rightarrow> None
           | Some encrypt \<Rightarrow> (case encrypt (us_Email user) of Inl _ \<Rightarrow> None | Inr c \<Rightarrow> Some c))
     in op_bind (pg_insert_user env tenantUUID encryptedPII user) (\<lambda>_.
     if us_Role user \<noteq> '''' then
       op_bind (op_try (pg_role_id env tenantUUID (us_Role user))) (\<lambda>role. case role of Inl _ \<Rightarrow> op_return ()
       | Inr roleID \<Rightarrow>
       op_bind (op_try (pg_user_id env tenantUUID (us_Email user))) (\<lambda>found. case found of Inl _ \<Rightarrow> op_return ()
       | Inr userID \<Rightarrow>
       op_bind (op_try (pg_grant_role env tenantUUID userID roleID)) (\<lambda>_. op_return ())))
     else op_return ()))"

text \<open>
  PostgreSQL derives the types of the parameters of a statement from their uses. A parameter below the
  highest number that the statement never uses has no type, and the statement is refused with SQLSTATE
  42P18 (indeterminate datatype). Every statement uses all its parameters but the one of
  \<^verbatim>\<open>IncrementFailedAttempts\<close>, which is passed four and uses \<^verbatim>\<open>$1\<close>, \<^verbatim>\<open>$2\<close> and \<^verbatim>\<open>$4\<close>.
\<close>

definition pg_params :: "nat list \<Rightarrow> (unit, pg_state) op" where
  "pg_params used = (if set [1..<Suc (foldr max used 0)] \<subseteq> set used then op_return () else op_fail (ErrSQL ''42P18''))"

definition pg_update_user :: "pg_env \<Rightarrow> string \<Rightarrow> string \<Rightarrow> (User \<Rightarrow> User) \<Rightarrow> (unit, pg_state) op" where
  "pg_update_user env tenantUUID userID f =
     op_bind (pg_uuid env tenantUUID) (\<lambda>t. op_bind (pg_uuid env userID) (\<lambda>u s.
       let hit = (\<lambda>x. us_TenantID x = t \<and> us_ID x = u)
       in if list_all (\<lambda>x. int4 (us_FailedAttempts (f x))) (filter hit (db_users (pg_db s)))
          then (Inr (), set_users (map (\<lambda>x. if hit x then f x else x)) s)
          else (Inl (ErrSQL ''22003''), s)))"

definition pg_IncrementFailedAttempts :: "pg_env \<Rightarrow> string \<Rightarrow> string \<Rightarrow> go_time \<Rightarrow> (unit, pg_state) op" where
  "pg_IncrementFailedAttempts env tenantID userID now =
     op_bind (resolveTenantUUID tenantID) (\<lambda>tenantUUID.
     pg_stmt (op_bind (pg_params [1, 2, 4]) (\<lambda>_.
       pg_update_user env tenantUUID userID (\<lambda>x. x\<lparr>us_FailedAttempts := us_FailedAttempts x + 1,
         us_LockedUntil := (if us_FailedAttempts x + 1 \<ge> 5 then Some (pg_ts (now + 15 * time_Minute)) else us_LockedUntil x),
         us_UpdatedAt := sql_now env\<rparr>))))"

definition pg_ResetFailedAttempts :: "pg_env \<Rightarrow> string \<Rightarrow> string \<Rightarrow> (unit, pg_state) op" where
  "pg_ResetFailedAttempts env tenantID userID =
     op_bind (resolveTenantUUID tenantID) (\<lambda>tenantUUID.
     pg_stmt (op_bind (pg_params [1, 2]) (\<lambda>_.
       pg_update_user env tenantUUID userID (\<lambda>x. x\<lparr>us_FailedAttempts := 0, us_LockedUntil := None,
         us_UpdatedAt := sql_now env\<rparr>))))"

definition pg_UserStore :: "pg_env \<Rightarrow> pg_state UserStore" where
  "pg_UserStore env = \<lparr>ur_GetByEmail = pg_GetByEmail env, ur_IncrementFailedAttempts = pg_IncrementFailedAttempts env,
     ur_ResetFailedAttempts = pg_ResetFailedAttempts env\<rparr>"

definition pg_UserCreator :: "pg_env \<Rightarrow> (string \<Rightarrow> go_error + string) option \<Rightarrow> pg_state UserCreator" where
  "pg_UserCreator env vault = \<lparr>uc_CreateUser = pg_CreateUser env vault\<rparr>"

subsection \<open>Sessions\<close>

definition set_sessions :: "((Session \<times> string) list \<Rightarrow> (Session \<times> string) list) \<Rightarrow> pg_state \<Rightarrow> pg_state" where
  "set_sessions f s = s\<lparr>pg_db := (pg_db s)\<lparr>db_sessions := f (db_sessions (pg_db s))\<rparr>\<rparr>"

definition session_row :: "string \<Rightarrow> string \<Rightarrow> string \<Rightarrow> go_time option \<Rightarrow> Session \<Rightarrow> Session" where
  "session_row i t u revoked x = x\<lparr>ss_ID := i, ss_TenantID := t, ss_UserID := u, ss_ExpiresAt := pg_ts (ss_ExpiresAt x),
     ss_LastUsedAt := pg_ts (ss_LastUsedAt x), ss_RevokedAt := map_option pg_ts revoked,
     ss_CreatedAt := pg_ts (ss_CreatedAt x), ss_UpdatedAt := pg_ts (ss_UpdatedAt x)\<rparr>"

definition pg_insert_session :: "pg_env \<Rightarrow> string \<Rightarrow> go_time option \<Rightarrow> Session \<Rightarrow> (unit, pg_state) op" where
  "pg_insert_session env tenantUUID revoked x = pg_stmt (
     op_bind (pg_uuid env (ss_ID x)) (\<lambda>i. op_bind (pg_uuid env tenantUUID) (\<lambda>t. op_bind (pg_uuid env (ss_UserID x)) (\<lambda>u s.
       let db = pg_db s
       in if i \<in> set (map (\<lambda>(y, _). ss_ID y) (db_sessions db)) then (Inl (ErrSQL ''23505''), s)
          else if t \<notin> set (map tn_ID (db_tenants db)) \<or> u \<notin> set (map us_ID (db_users db)) then (Inl (ErrSQL ''23503''), s)
          else (Inr (), set_sessions (\<lambda>ss. ss @ [(session_row i t u revoked x, '''')]) s)))))"

definition pg_CreateSession :: "pg_env \<Rightarrow> Session \<Rightarrow> (unit, pg_state) op" where
  "pg_CreateSession env x =
     op_bind (resolveTenantUUID (ss_TenantID x)) (\<lambda>tenantUUID. pg_insert_session env tenantUUID (ss_RevokedAt x) x)"

definition pg_update_session :: "pg_env \<Rightarrow> string \<Rightarrow> string \<Rightarrow> (Session \<times> string \<Rightarrow> Session \<times> string) \<Rightarrow> (unit, pg_state) op" where
  "pg_update_session env tenantUUID sessionID f =
     op_bind (pg_uuid env tenantUUID) (\<lambda>t. op_bind (pg_uuid env sessionID) (\<lambda>i s.
       (Inr (), set_sessions (map (\<lambda>(x, y). if ss_TenantID x = t \<and> ss_ID x = i then f (x, y) else (x, y))) s)))"

definition pg_Revoke :: "pg_env \<Rightarrow> string \<Rightarrow> string \<Rightarrow> go_time \<Rightarrow> (unit, pg_state) op" where
  "pg_Revoke env tenantID sessionID revokedAt =
     op_bind (resolveTenantUUID tenantID) (\<lambda>tenantUUID.
     pg_stmt (pg_update_session env tenantUUID sessionID
       (\<lambda>(x, y). (x\<lparr>ss_RevokedAt := Some (pg_ts revokedAt), ss_UpdatedAt := sql_now env\<rparr>, y))))"

definition session_live :: "go_time \<Rightarrow> Session \<Rightarrow> bool" where
  "session_live now x = (if ss_RevokedAt x \<noteq> None then False else if ss_ExpiresAt x \<le> pg_ts now then False else True)"

definition pg_IsActive :: "pg_env \<Rightarrow> string \<Rightarrow> string \<Rightarrow> go_time \<Rightarrow> (bool, pg_state) op" where
  "pg_IsActive env tenantID sessionID now =
     op_bind (resolveTenantUUID tenantID) (\<lambda>tenantUUID.
     op_bind (op_try (pg_stmt (op_bind (pg_uuid env tenantUUID) (\<lambda>t. op_bind (pg_uuid env sessionID) (\<lambda>i.
       pg_query_row (\<lambda>db. map (session_live now) (filter (\<lambda>x. ss_TenantID x = t \<and> ss_ID x = i) (map fst (db_sessions db))))))))) (\<lambda>r.
     case r of
       Inl err \<Rightarrow> if err = ErrNoRows then op_return False else op_fail err
     | Inr active \<Rightarrow> op_return active))"

definition pg_Rotate :: "pg_env \<Rightarrow> string \<Rightarrow> string \<Rightarrow> Session \<Rightarrow> go_time \<Rightarrow> (unit, pg_state) op" where
  "pg_Rotate env tenantID oldSessionID next_session revokedAt =
     op_bind (resolveTenantUUID tenantID) (\<lambda>tenantUUID.
     pg_tx id (
       op_bind (pg_stmt (op_bind (pg_uuid env (ss_ID next_session)) (\<lambda>n.
         pg_update_session env tenantUUID oldSessionID
           (\<lambda>(x, y). (x\<lparr>ss_RevokedAt := Some (pg_ts revokedAt), ss_UpdatedAt := sql_now env\<rparr>, n))))) (\<lambda>_.
       pg_insert_session env tenantUUID None next_session)))"

definition pg_SessionStore :: "pg_env \<Rightarrow> pg_state SessionStore" where
  "pg_SessionStore env = \<lparr>sn_CreateSession = pg_CreateSession env, sn_Revoke = pg_Revoke env,
     sn_IsActive = pg_IsActive env, sn_Rotate = pg_Rotate env\<rparr>"

definition pg_auth :: "pg_env \<Rightarrow> (string \<Rightarrow> go_error + string) option \<Rightarrow> pg_state AuthService" where
  "pg_auth env vault = NewAuthService (Some (pg_UserStore env)) (Some (pg_UserCreator env vault)) (Some (pg_SessionStore env))"

subsection \<open>The contract of sessions\<close>

definition session_ids :: "pg_tables \<Rightarrow> string list" where
  "session_ids db = map (\<lambda>(x, _). ss_ID x) (db_sessions db)"

definition db_dead :: "pg_env \<Rightarrow> pg_tables \<Rightarrow> string \<Rightarrow> string \<Rightarrow> bool" where
  "db_dead env db T i \<longleftrightarrow> (\<exists>U t j x. tenant_uuid db T = Some U \<and> uuid_in env U = Some t \<and> uuid_in env i = Some j \<and>
     x \<in> fst ` set (db_sessions db) \<and> ss_TenantID x = t \<and> ss_ID x = j \<and> ss_RevokedAt x \<noteq> None)"

text \<open>Session identifiers are unique, and the session stays dead if it was (\<open>D\<close>).\<close>

definition sess_ok :: "pg_env \<Rightarrow> bool \<Rightarrow> string \<Rightarrow> string \<Rightarrow> pg_tables \<Rightarrow> nat \<Rightarrow> bool" where
  "sess_ok env D T i db n \<longleftrightarrow> distinct (session_ids db) \<and> (D \<longrightarrow> db_dead env db T i)"

lemma db_dead_later:
  assumes "db_dead env db T i" "db_tenants db' = db_tenants db"
    and "\<And>x. x \<in> fst ` set (db_sessions db) \<Longrightarrow> ss_RevokedAt x \<noteq> None \<Longrightarrow>
      \<exists>x'\<in>fst ` set (db_sessions db'). ss_ID x' = ss_ID x \<and> ss_TenantID x' = ss_TenantID x \<and> ss_RevokedAt x' \<noteq> None"
  shows "db_dead env db' T i"
proof -
  from assms(1) obtain U t j x where "tenant_uuid db T = Some U" "uuid_in env U = Some t" "uuid_in env i = Some j"
     and x: "x \<in> fst ` set (db_sessions db)" "ss_TenantID x = t" "ss_ID x = j" "ss_RevokedAt x \<noteq> None"
    unfolding db_dead_def by blast
  moreover from assms(3) [OF x(1,4)] obtain x' where "x' \<in> fst ` set (db_sessions db')" "ss_ID x' = ss_ID x"
    "ss_TenantID x' = ss_TenantID x" "ss_RevokedAt x' \<noteq> None" by blast
  moreover have "tenant_uuid db' T = tenant_uuid db T" by (simp add: tenant_uuid_def assms(2))
  ultimately show ?thesis unfolding db_dead_def by (intro exI [of _ U] exI [of _ t] exI [of _ j] exI [of _ x']) simp
qed

lemma sess_update_keeps:
  assumes "\<And>x y. ss_ID (fst (f (x, y))) = ss_ID x \<and> ss_TenantID (fst (f (x, y))) = ss_TenantID x \<and> ss_RevokedAt (fst (f (x, y))) \<noteq> None"
  shows "op_keeps (pg_only (sess_ok env D T i)) (pg_update_session env U j f)"
proof -
  have "pg_only (sess_ok env D T i) (set_sessions (map (\<lambda>(x, y). if ss_TenantID x = t \<and> ss_ID x = k then f (x, y) else (x, y))) s)"
    if s: "pg_only (sess_ok env D T i) s" for s t k
  proof -
    let ?g = "\<lambda>(x, y). if ss_TenantID x = t \<and> ss_ID x = k then f (x, y) else (x, y)"
    let ?db = "(pg_db s)\<lparr>db_sessions := map ?g (db_sessions (pg_db s))\<rparr>"
    have g: "ss_ID (fst (?g (x, y))) = ss_ID x" "ss_TenantID (fst (?g (x, y))) = ss_TenantID x"
      "ss_RevokedAt x \<noteq> None \<Longrightarrow> ss_RevokedAt (fst (?g (x, y))) \<noteq> None" for x y using assms by auto
    have "session_ids ?db = session_ids (pg_db s)"
    proof -
      have "ss_ID (fst (f p)) = ss_ID (fst p)" for p using assms [of "fst p" "snd p"] by simp
      then show ?thesis unfolding session_ids_def by (simp add: comp_def case_prod_beta)
    qed
    moreover have "db_dead env ?db T i" if "db_dead env (pg_db s) T i"
    proof (rule db_dead_later [OF that])
      fix x assume x: "x \<in> fst ` set (db_sessions (pg_db s))" "ss_RevokedAt x \<noteq> None"
      then obtain y where "(x, y) \<in> set (db_sessions (pg_db s))" by auto
      then have "fst (?g (x, y)) \<in> fst ` set (map ?g (db_sessions (pg_db s)))" 
        unfolding set_map by (rule imageI [OF imageI])
      with g [of x y] x(2) show "\<exists>x'\<in>fst ` set (db_sessions ?db). ss_ID x' = ss_ID x \<and> ss_TenantID x' = ss_TenantID x \<and> ss_RevokedAt x' \<noteq> None"
        by (intro bexI [of _ "fst (?g (x, y))"] conjI) simp_all
    qed simp
    ultimately show ?thesis using s by (simp add: pg_only_def sess_ok_def set_sessions_def)
  qed
  then show ?thesis unfolding pg_update_session_def by (intro op_invs op_keepsI) simp
qed

lemma sess_insert_keeps: "op_keeps (pg_only (sess_ok env D T i)) (pg_insert_session env U r x)"
proof -
  have "pg_only (sess_ok env D T i) (snd (let db = pg_db s
       in if j \<in> set (map (\<lambda>(y, _). ss_ID y) (db_sessions db)) then (Inl (ErrSQL ''23505''), s)
          else if t \<notin> set (map tn_ID (db_tenants db)) \<or> u \<notin> set (map us_ID (db_users db)) then (Inl (ErrSQL ''23503''), s)
          else (Inr (), set_sessions (\<lambda>ss. ss @ [(session_row j t u r x, [])]) s)))"
    if s: "pg_only (sess_ok env D T i) s" for s j t u
  proof (cases "j \<in> set (session_ids (pg_db s)) \<or> t \<notin> set (map tn_ID (db_tenants (pg_db s))) \<or> u \<notin> set (map us_ID (db_users (pg_db s)))")
    case True with s show ?thesis by (auto simp: session_ids_def Let_def)
  next
    case False
    let ?db = "(pg_db s)\<lparr>db_sessions := db_sessions (pg_db s) @ [(session_row j t u r x, [])]\<rparr>"
    have "db_dead env ?db T i" if "db_dead env (pg_db s) T i"
      by (rule db_dead_later [OF that]) auto
    moreover have "session_ids ?db = session_ids (pg_db s) @ [j]" by (simp add: session_ids_def session_row_def)
    ultimately have "sess_ok env D T i ?db n" for n using s False by (simp add: sess_ok_def pg_only_def)
    with False show ?thesis by (auto simp: session_ids_def Let_def pg_only_def set_sessions_def)
  qed
  then show ?thesis unfolding pg_insert_session_def by (intro op_invs op_keepsI) simp
qed

lemma sess_ops_keep:
  "op_keeps (pg_only (sess_ok env D T i)) (pg_CreateSession env x)"
  "op_keeps (pg_only (sess_ok env D T i)) (pg_Revoke env U j t)"
  "op_keeps (pg_only (sess_ok env D T i)) (pg_IsActive env U j t)"
  "op_keeps (pg_only (sess_ok env D T i)) (pg_Rotate env U j x t)"
proof -
  show "op_keeps (pg_only (sess_ok env D T i)) (pg_CreateSession env x)"
    unfolding pg_CreateSession_def by (intro op_invs sess_insert_keeps)
  show "op_keeps (pg_only (sess_ok env D T i)) (pg_Revoke env U j t)"
    unfolding pg_Revoke_def by (intro op_invs sess_update_keeps) auto
  show "op_keeps (pg_only (sess_ok env D T i)) (pg_IsActive env U j t)"
    unfolding pg_IsActive_def by (intro op_invs)
  show "op_keeps (pg_only (sess_ok env D T i)) (pg_Rotate env U j x t)"
    unfolding pg_Rotate_def by (intro op_invs sess_update_keeps sess_insert_keeps) (auto simp: sess_ok_def)
qed

definition pg_sess_inv :: "pg_state \<Rightarrow> bool" where
  "pg_sess_inv s \<longleftrightarrow> distinct (session_ids (pg_db s))"

lemma pg_sess_keeps:
  assumes "\<And>D T i. op_keeps (pg_only (sess_ok env D T i)) m" "pg_sess_inv s" "m s = (r, s')"
  shows "pg_sess_inv s' \<and> (\<forall>U j. db_dead env (pg_db s) U j \<longrightarrow> db_dead env (pg_db s') U j)"
proof -
  have "pg_only (sess_ok env (db_dead env (pg_db s) U j) U j) s'" for U j
    by (rule op_keeps_eq [OF assms(1) _ assms(3)]) (use assms(2) in \<open>simp add: pg_only_def sess_ok_def pg_sess_inv_def\<close>)
  then show ?thesis by (auto simp: pg_only_def sess_ok_def pg_sess_inv_def)
qed

lemma filter_key_unique:
  assumes "distinct (map key xs)" "x \<in> set xs" "P x" "key x = j"
  shows "filter (\<lambda>x. P x \<and> key x = j) xs = [x]"
  using assms
proof (induction xs)
  case (Cons y ys)
  show ?case
  proof (cases "x = y")
    case True
    with Cons.prems have "key z \<noteq> j" if "z \<in> set ys" for z using that by (metis distinct.simps(2) image_eqI list.set_map list.simps(9))
    then have "filter (\<lambda>x. P x \<and> key x = j) ys = []" by (simp add: filter_empty_conv)
    with True Cons.prems show ?thesis by simp
  next
    case False
    with Cons.prems have "key y \<noteq> j" by auto
    with False Cons show ?thesis by simp
  qed
qed simp

lemma session_row_unique:
  assumes "distinct (session_ids db)" "x \<in> fst ` set (db_sessions db)" "ss_TenantID x = t" "ss_ID x = j"
  shows "filter (\<lambda>x. ss_TenantID x = t \<and> ss_ID x = j) (map fst (db_sessions db)) = [x]"
proof -
  have "session_ids db = map ss_ID (map fst (db_sessions db))" by (simp add: session_ids_def case_prod_beta)
  then show ?thesis using assms by (intro filter_key_unique) auto
qed

definition session_query :: "pg_env \<Rightarrow> string \<Rightarrow> string \<Rightarrow> go_time \<Rightarrow> (bool, pg_state) op" where
  "session_query env U i now = pg_stmt (op_bind (pg_uuid env U) (\<lambda>t. op_bind (pg_uuid env i) (\<lambda>i.
       pg_query_row (\<lambda>db. map (session_live now) (filter (\<lambda>x. ss_TenantID x = t \<and> ss_ID x = i) (map fst (db_sessions db)))))))"

lemma pg_IsActive_alt: "pg_IsActive env T i now = op_bind (resolveTenantUUID T) (\<lambda>U. op_bind (op_try (session_query env U i now)) (\<lambda>r.
     case r of Inl err \<Rightarrow> if err = ErrNoRows then op_return False else op_fail err | Inr active \<Rightarrow> op_return active))"
  by (simp add: pg_IsActive_def session_query_def)

lemma session_query_Inr:
  assumes "session_query env U i now s = (Inr True, s')"
  obtains t j where "uuid_in env U = Some t" "uuid_in env i = Some j"
    "filter (\<lambda>x. ss_TenantID x = t \<and> ss_ID x = j) (map fst (db_sessions (pg_db s))) \<noteq> []"
    "session_live now (hd (filter (\<lambda>x. ss_TenantID x = t \<and> ss_ID x = j) (map fst (db_sessions (pg_db s)))))"
proof (rule pg_stmt_Inr [OF assms [unfolded session_query_def]])
  fix fs
  let ?rows = "\<lambda>t j. filter (\<lambda>x. ss_TenantID x = t \<and> ss_ID x = j) (map fst (db_sessions (pg_db s)))"
  assume "op_bind (pg_uuid env U) (\<lambda>t. op_bind (pg_uuid env i) (\<lambda>i. pg_query_row (\<lambda>db. map (session_live now)
     (filter (\<lambda>x. ss_TenantID x = t \<and> ss_ID x = i) (map fst (db_sessions db)))))) (s\<lparr>pg_faults := fs\<rparr>) = (Inr True, s')"
  then obtain t j where u: "uuid_in env U = Some t" "uuid_in env i = Some j"
    and q: "pg_query_row (\<lambda>db. map (session_live now) (filter (\<lambda>x. ss_TenantID x = t \<and> ss_ID x = j) (map fst (db_sessions db))))
        (s\<lparr>pg_faults := fs\<rparr>) = (Inr True, s')"
    unfolding op_bind_Inr_iff by auto
  from q obtain rest where "map (session_live now) (?rows t j) = True # rest"
    by (auto simp: pg_query_row_Inr_iff)
  then have "?rows t j \<noteq> []" "session_live now (hd (?rows t j))" by (cases "?rows t j"; simp)+
  with u that show thesis by blast
qed

lemma pg_IsActive_Inr:
  assumes "pg_IsActive env T i now s = (Inr True, s')"
  obtains U t j where "tenant_uuid (pg_db s) T = Some U" "uuid_in env U = Some t" "uuid_in env i = Some j"
    "filter (\<lambda>x. ss_TenantID x = t \<and> ss_ID x = j) (map fst (db_sessions (pg_db s))) \<noteq> []"
    "session_live now (hd (filter (\<lambda>x. ss_TenantID x = t \<and> ss_ID x = j) (map fst (db_sessions (pg_db s)))))"
proof -
  from assms [unfolded pg_IsActive_alt op_bind_Inr_iff op_try_iff] obtain U s1 r s2
    where res: "resolveTenantUUID T s = (Inr U, s1)" and q: "session_query env U i now s1 = (r, s2)"
    and r: "(case r of Inl err \<Rightarrow> if err = ErrNoRows then op_return False else op_fail err | Inr active \<Rightarrow> op_return active) s2 = (Inr True, s')"
    by (elim exE conjE)
  from r have "r = Inr True" by (cases r) (simp_all split: if_splits)
  with q have "session_query env U i now s1 = (Inr True, s2)" by simp
  then show thesis
    by (rule session_query_Inr) (rule that [OF resolve_Inr(2) [OF res]], simp_all only: resolve_Inr(1) [OF res] not_False_eq_True)
qed

lemma dead_not_live:
  assumes "pg_sess_inv s" "db_dead env (pg_db s) T i"
  shows "pg_IsActive env T i now s \<noteq> (Inr True, s')"
proof
  assume "pg_IsActive env T i now s = (Inr True, s')"
  then show False
  proof (rule pg_IsActive_Inr)
    fix U t j
    let ?rows = "filter (\<lambda>x. ss_TenantID x = t \<and> ss_ID x = j) (map fst (db_sessions (pg_db s)))"
    assume a: "tenant_uuid (pg_db s) T = Some U" "uuid_in env U = Some t" "uuid_in env i = Some j" "session_live now (hd ?rows)"
    with assms(2) obtain x where x: "x \<in> fst ` set (db_sessions (pg_db s))" "ss_TenantID x = t" "ss_ID x = j" "ss_RevokedAt x \<noteq> None"
      by (auto simp: db_dead_def)
    from session_row_unique [OF _ x(1-3)] assms(1) have "?rows = [x]" by (simp add: pg_sess_inv_def)
    with a(4) x(4) show False by (simp add: session_live_def)
  qed
qed

text \<open>After an update by key every matching row carries what \<open>f\<close> set.\<close>

lemma pg_update_session_kills:
  assumes "pg_update_session env U i f s = (Inr (), s')" "tenant_uuid (pg_db s) T = Some U" "uuid_in env U = Some t" "uuid_in env i = Some j"
    and "filter (\<lambda>x. ss_TenantID x = t \<and> ss_ID x = j) (map fst (db_sessions (pg_db s))) \<noteq> []"
    and f: "\<And>x y. ss_ID (fst (f (x, y))) = ss_ID x \<and> ss_TenantID (fst (f (x, y))) = ss_TenantID x \<and> ss_RevokedAt (fst (f (x, y))) \<noteq> None"
  shows "db_dead env (pg_db s') T i"
proof -
  from assms(5) obtain x y where x: "(x, y) \<in> set (db_sessions (pg_db s))" "ss_TenantID x = t" "ss_ID x = j"
    by (auto simp: filter_empty_conv)
  have db: "pg_db s' = (pg_db s)\<lparr>db_sessions := map (\<lambda>(x, y). if ss_TenantID x = t \<and> ss_ID x = j then f (x, y) else (x, y)) (db_sessions (pg_db s))\<rparr>"
    using assms(1,3,4) by (auto simp: pg_update_session_def op_bind_Inr_iff set_sessions_def)
  have "f (x, y) \<in> set (db_sessions (pg_db s'))" unfolding db using x by force
  then have "fst (f (x, y)) \<in> fst ` set (db_sessions (pg_db s'))" by (rule imageI)
  moreover have "tenant_uuid (pg_db s') T = Some U" using assms(2) by (simp add: db tenant_uuid_def)
  ultimately show ?thesis unfolding db_dead_def using f [of x y] x assms(3,4) by blast
qed


lemma pg_revoke_kills:
  assumes "pg_IsActive env T i now s = (Inr True, s0)" "pg_Revoke env T i r s = (Inr (), s')"
  shows "db_dead env (pg_db s') T i"
proof -
  from assms(2) [unfolded pg_Revoke_def op_bind_Inr_iff] obtain U s1 where res: "resolveTenantUUID T s = (Inr U, s1)"
    and st: "pg_stmt (pg_update_session env U i (\<lambda>(x, y). (x\<lparr>ss_RevokedAt := Some (pg_ts r), ss_UpdatedAt := sql_now env\<rparr>, y))) s1 = (Inr (), s')"
    by (elim exE conjE)
  note R = resolve_Inr [OF res]
  from assms(1) show ?thesis
  proof (rule pg_IsActive_Inr)
    fix U' t j assume a: "tenant_uuid (pg_db s) T = Some U'" "uuid_in env U' = Some t" "uuid_in env i = Some j"
      "filter (\<lambda>x. ss_TenantID x = t \<and> ss_ID x = j) (map fst (db_sessions (pg_db s))) \<noteq> []"
    then have U: "U' = U" using R(2) by simp
    from st show ?thesis
    proof (rule pg_stmt_Inr)
      fix fs assume "pg_update_session env U i (\<lambda>(x, y). (x\<lparr>ss_RevokedAt := Some (pg_ts r), ss_UpdatedAt := sql_now env\<rparr>, y))
        (s1\<lparr>pg_faults := fs\<rparr>) = (Inr (), s')"
      then show ?thesis by (rule pg_update_session_kills [where T = T]) (use R(1) a U in simp_all)
    qed
  qed
qed

lemma pg_rotate_kills:
  assumes "pg_sess_inv s" "pg_IsActive env T i now s = (Inr True, s0)" "pg_Rotate env T i x r s = (Inr (), s')"
  shows "db_dead env (pg_db s') T i"
proof -
  let ?f = "\<lambda>n (x, y). (x\<lparr>ss_RevokedAt := Some (pg_ts r), ss_UpdatedAt := sql_now env\<rparr>, n)"
  from assms(3) [unfolded pg_Rotate_def op_bind_Inr_iff] obtain U s1 where res: "resolveTenantUUID T s = (Inr U, s1)"
    and tx: "pg_tx id (op_bind (pg_stmt (op_bind (pg_uuid env (ss_ID x)) (\<lambda>n. pg_update_session env U i (?f n))))
       (\<lambda>_. pg_insert_session env U None x)) s1 = (Inr (), s')" by (elim exE conjE)
  note R = resolve_Inr [OF res]
  from tx show ?thesis
  proof (cases rule: pg_tx_cases)
    case (ok u s2 s3 fs)
    from ok(3) obtain s4 where up: "pg_stmt (op_bind (pg_uuid env (ss_ID x)) (\<lambda>n. pg_update_session env U i (?f n))) s2 = (Inr (), s4)"
      and ins: "pg_insert_session env U None x s4 = (Inr u, s3)" unfolding op_bind_Inr_iff by auto
    have "pg_sess_inv s2" using assms(1) ok(2) R(1) by (simp add: pg_sess_inv_def)
    have keep: "op_keeps (pg_only (sess_ok env D V k)) (pg_stmt (op_bind (pg_uuid env (ss_ID x)) (\<lambda>n. pg_update_session env U i (?f n))))" for D V k
      by (intro op_invs sess_update_keeps) auto
    from assms(2) have "db_dead env (pg_db s4) T i"
    proof (rule pg_IsActive_Inr)
      fix U' t j assume a: "tenant_uuid (pg_db s) T = Some U'" "uuid_in env U' = Some t" "uuid_in env i = Some j"
        "filter (\<lambda>x. ss_TenantID x = t \<and> ss_ID x = j) (map fst (db_sessions (pg_db s))) \<noteq> []"
      then have U: "U' = U" using R(2) by simp
      from up show ?thesis
      proof (rule pg_stmt_Inr)
        fix fs' assume "op_bind (pg_uuid env (ss_ID x)) (\<lambda>n. pg_update_session env U i (?f n)) (s2\<lparr>pg_faults := fs'\<rparr>) = (Inr (), s4)"
        then obtain n where "pg_update_session env U i (?f n) (s2\<lparr>pg_faults := fs'\<rparr>) = (Inr (), s4)"
          unfolding op_bind_Inr_iff by auto
        then show ?thesis by (rule pg_update_session_kills [where T = T]) (use R(1) a U ok(2) in simp_all)
      qed
    qed
    moreover have "pg_sess_inv s4" using pg_sess_keeps [OF keep \<open>pg_sess_inv s2\<close> up] by simp
    ultimately show ?thesis using pg_sess_keeps [OF sess_insert_keeps _ ins] ok(4) by auto
  qed simp
qed

lemma pg_SessionStore_sel [simp]:
  "sn_CreateSession (pg_SessionStore env) = pg_CreateSession env" "sn_Revoke (pg_SessionStore env) = pg_Revoke env"
  "sn_IsActive (pg_SessionStore env) = pg_IsActive env" "sn_Rotate (pg_SessionStore env) = pg_Rotate env"
  by (simp_all add: pg_SessionStore_def)

interpretation pg_sessions: session_store "pg_SessionStore env" pg_sess_inv "\<lambda>s. db_dead env (pg_db s)" "\<lambda>_ _. True" for env
proof (unfold_locales, unfold pg_SessionStore_sel)
  fix s T i now s' assume "pg_sess_inv s" "db_dead env (pg_db s) T i"
  then show "pg_IsActive env T i now s \<noteq> (Inr True, s')" by (rule dead_not_live)
next
  fix s T i now b s' assume "pg_sess_inv s" "pg_IsActive env T i now s = (b, s')"
  then show "pg_sess_inv s' \<and> (\<forall>U j. db_dead env (pg_db s) U j \<longrightarrow> db_dead env (pg_db s') U j)"
    by (rule pg_sess_keeps [OF sess_ops_keep(3)])
next
  fix s x r s' assume "pg_sess_inv s" "pg_CreateSession env x s = (r, s')"
  then show "pg_sess_inv s' \<and> (\<forall>U j. db_dead env (pg_db s) U j \<longrightarrow> db_dead env (pg_db s') U j)"
    by (rule pg_sess_keeps [OF sess_ops_keep(1)])
next
  fix s T i t r s' assume "pg_sess_inv s" "pg_Revoke env T i t s = (r, s')"
  then show "pg_sess_inv s' \<and> (\<forall>U j. db_dead env (pg_db s) U j \<longrightarrow> db_dead env (pg_db s') U j)"
    by (rule pg_sess_keeps [OF sess_ops_keep(2)])
next
  fix s x T i t r s' assume "pg_sess_inv s" "pg_Rotate env T i x t s = (r, s')"
  then show "pg_sess_inv s' \<and> (\<forall>U j. db_dead env (pg_db s) U j \<longrightarrow> db_dead env (pg_db s') U j)"
    by (rule pg_sess_keeps [OF sess_ops_keep(4)])
next
  fix s T i now s0 t s' assume "pg_IsActive env T i now s = (Inr True, s0)" "pg_Revoke env T i t s = (Inr (), s')"
  then show "db_dead env (pg_db s') T i" by (rule pg_revoke_kills)
next
  fix s x T i now s0 t s' assume "pg_sess_inv s" "pg_IsActive env T i now s = (Inr True, s0)" "pg_Rotate env T i x t s = (Inr (), s')"
  then show "db_dead env (pg_db s') T i" by (rule pg_rotate_kills)
qed

subsection \<open>Lockout\<close>

lemma pg_params_gap [simp]: "pg_params [1, 2, 4] = op_fail (ErrSQL ''42P18'')"
proof -
  have "(3 :: nat) \<in> set [1..<Suc (foldr max [1, 2, 4] 0)]" "(3 :: nat) \<notin> set [1, 2, 4]" by simp_all
  then show ?thesis unfolding pg_params_def by (meson subsetD)
qed

lemma pg_increment_refused:
  "pg_faults s = [] \<Longrightarrow> op_ignore (pg_IncrementFailedAttempts env T i now) s = s"
  unfolding op_ignore_def pg_IncrementFailedAttempts_def pg_params_gap op_bind_def
  by (simp add: resolveTenantUUID_def pg_query_row_eq split: list.split prod.split sum.split)

lemma pg_GetByEmail_found:
  assumes "pg_faults s = []" "tenant_uuid (pg_db s) T = Some U" "uuid_in env U = Some t"
    and "users_by_email t email (pg_db s) = u # rest"
  shows "pg_GetByEmail env T email s = (Inr u, s)"
proof -
  have "resolveTenantUUID T s = (Inr U, s)"
    using assms(1,2) by (auto simp: resolveTenantUUID_def pg_query_row_eq tenant_uuid_def find_filter split: list.splits)
  with assms show ?thesis by (simp add: pg_GetByEmail_def op_bind_def op_try_def pg_uuid_def pg_query_row_eq)
qed

lemma pg_attempt_refused:
  assumes "pg_faults s = []" "pg_GetByEmail env T email s = (Inr u, s)" "us_LockedUntil u = None"
    and "\<not> bc_Compare bc (us_PasswordHash u) password"
  shows "Authenticate bc (pg_auth env vault) T email password now s = (Inl ErrInvalidCredentials, s)"
  using assms by (simp add: Authenticate_def pg_auth_def NewAuthService_def pg_UserStore_def op_bind_def op_err_def pg_increment_refused)

subsection \<open>Properties\<close>

text \<open>
  Property C17. Once a live session of the PostgreSQL store has been revoked, or rotated into another
  one, no later sequence of session operations (any of them may fail) makes it active again.
\<close>

theorem pg_ended_session_stays_dead:
  assumes "distinct (session_ids (pg_db s))"
    and "pg_IsActive env T i now0 s = (Inr True, s0)"
    and "pg_Revoke env T i t s = (Inr (), s1) \<or> pg_Rotate env T i x t s = (Inr (), s1)"
    and "session_steps (pg_SessionStore env) (\<lambda>_ _. True) s1 s2"
  shows "fst (pg_IsActive env T i now s2) \<noteq> Inr True"
  using pg_sessions.ended_never_active [of s env T i now0 s0 t s1 x s2 now "snd (pg_IsActive env T i now s2)"] assms
  by (auto simp: pg_sess_inv_def prod_eq_iff)

text \<open>
  Property C20. On PostgreSQL failed logins are never counted: with the database up, any number of
  wrong passwords are all answered with invalid credentials, never with a locked account, and leave
  the whole database as it was.
\<close>

theorem pg_lockout_never_engages:
  assumes "pg_faults s = []" "tenant_uuid (pg_db s) T = Some U" "uuid_in env U = Some t"
    and "users_by_email t email (pg_db s) = u # rest" "us_LockedUntil u = None"
    and "\<forall>(password, now)\<in>set tries. \<not> bc_Compare bc (us_PasswordHash u) password"
  shows "attempts bc (pg_auth env vault) T email tries s = (replicate (length tries) (Inl ErrInvalidCredentials), s)"
  using assms(6)
proof (induction tries)
  case (Cons a tries)
  obtain password now where "a = (password, now)" by fastforce
  with Cons pg_attempt_refused [OF assms(1) pg_GetByEmail_found [OF assms(1-4)] assms(5)] show ?case by auto
qed simp

definition demo_session :: Session where
  "demo_session = new_session (demo_id CHR ''e'') (demo_id CHR ''a'') (demo_id CHR ''b'') 0"

definition demo_signed_in :: pg_state where
  "demo_signed_in = demo_state\<lparr>pg_db := demo_db\<lparr>db_sessions := [(demo_session, [])]\<rparr>\<rparr>"

lemma demo_tenant:
  "tenant_uuid (demo_db\<lparr>db_sessions := ss\<rparr>) ''academy'' = Some (demo_id CHR ''a'')"
  "tenant_uuid demo_db ''academy'' = Some (demo_id CHR ''a'')"
  by (simp_all add: tenant_uuid_def demo_db_def pg_tables_new_def demo_id_def demo_prefix_def)

theorem pg_ended_session_stays_dead_witness:
  "fst (pg_IsActive demo_env ''academy'' (demo_id CHR ''e'') 1
     (snd (pg_Revoke demo_env ''academy'' (demo_id CHR ''e'') 0 demo_signed_in))) \<noteq> Inr True"
proof -
  let ?s = demo_signed_in
  have res: "resolveTenantUUID ''academy'' ?s = (Inr (demo_id CHR ''a''), ?s)"
    by (simp add: resolveTenantUUID_def demo_signed_in_def demo_state_def pg_query_row_eq demo_db_def pg_tables_new_def demo_id_def demo_prefix_def)
  have "pg_IsActive demo_env ''academy'' (demo_id CHR ''e'') 0 ?s = (Inr True, ?s)"
    unfolding pg_IsActive_def op_bind_def res
    by (simp add: op_try_def op_bind_def pg_uuid_def pg_query_row_eq demo_signed_in_def demo_state_def demo_session_def new_session_def session_live_def pg_ts_def)
  moreover obtain s1 where r: "pg_Revoke demo_env ''academy'' (demo_id CHR ''e'') 0 ?s = (Inr (), s1)"
    unfolding pg_Revoke_def op_bind_def res
    by (simp add: pg_update_session_def op_bind_def pg_uuid_def demo_signed_in_def demo_state_def)
  moreover have "distinct (session_ids (pg_db ?s))" by (simp add: demo_signed_in_def session_ids_def)
  ultimately show ?thesis
    using pg_ended_session_stays_dead [of ?s demo_env "''academy''" "demo_id CHR ''e''" 0 ?s 0 s1 _ s1 1, OF _ _ _ session_steps.start] by simp
qed

theorem pg_lockout_never_engages_witness:
  "attempts \<lparr>bc_Generate = (\<lambda>_ p. Inr p), bc_Compare = (=)\<rparr> (pg_auth demo_env None) ''academy'' ''ada@academy''
     (map (\<lambda>n. (''guess'', int n)) [0..<10]) demo_state = (replicate 10 (Inl ErrInvalidCredentials), demo_state)"
proof -
  have "\<exists>u. users_by_email (demo_id CHR ''a'') ''ada@academy'' demo_db = [u] \<and> us_LockedUntil u = None \<and> us_PasswordHash u \<noteq> ''guess''"
    by (simp add: users_by_email_def demo_db_def pg_tables_new_def role_names_def)
  then obtain u where u: "users_by_email (demo_id CHR ''a'') ''ada@academy'' (pg_db demo_state) = [u]" "us_LockedUntil u = None"
     "us_PasswordHash u \<noteq> ''guess''" by (auto simp: demo_state_def)
  show ?thesis
    using pg_lockout_never_engages [of demo_state "''academy''" "demo_id CHR ''a''" demo_env _ "''ada@academy''", OF _ _ _ u(1,2),
        of "map (\<lambda>n. (''guess'', int n)) [0..<10]" "\<lparr>bc_Generate = (\<lambda>_ p. Inr p), bc_Compare = (=)\<rparr>" None] u(3) demo_tenant(2)
    by (simp add: demo_state_def)
qed

end
