(* ===== verification/Tenant_Setup.thy ===== *)
theory Tenant_Setup
  imports Auth_Postgres
begin

text \<open>
  The first tenant: \<^verbatim>\<open>internal/repository/postgres/tenant_store.go\<close> (counting and creating tenants
  with their roles and the permission keys) and \<^verbatim>\<open>internal/service/setup.go\<close> over it and the account
  service, with \<^verbatim>\<open>seedDefaultUsers\<close> of \<^verbatim>\<open>internal/api/router.go\<close>.
\<close>

subsection \<open>Slugs\<close>

definition slug_char :: "char \<Rightarrow> bool" where
  "slug_char c \<longleftrightarrow> c \<in> set ''abcdefghijklmnopqrstuvwxyz0123456789-''"

text \<open>\<^verbatim>\<open>slugCleaner\<close> replaces every run of other characters by one dash; the flag says whether a run is open.\<close>

fun slugCleaner :: "bool \<Rightarrow> string \<Rightarrow> string" where
  "slugCleaner open_run [] = []"
| "slugCleaner open_run (c # cs) =
     (if slug_char c then c # slugCleaner False cs
      else if open_run then slugCleaner True cs
      else CHR ''-'' # slugCleaner True cs)"

text \<open>\<^verbatim>\<open>strings.ReplaceAll(value, "--", "-")\<close>\<close>

fun undouble :: "string \<Rightarrow> string" where
  "undouble [] = []"
| "undouble [c] = [c]"
| "undouble (c # d # cs) = (if c = CHR ''-'' \<and> d = CHR ''-'' then CHR ''-'' # undouble cs else c # undouble (d # cs))"

definition trim_dash :: "string \<Rightarrow> string" where
  "trim_dash s = rev (dropWhile (\<lambda>c. c = CHR ''-'') (rev (dropWhile (\<lambda>c. c = CHR ''-'') s)))"

definition toSlug :: "string \<Rightarrow> string" where
  "toSlug v =
     (let v = to_lower (trim_space v);
          v = map (\<lambda>c. if c = CHR ''_'' then CHR ''-'' else c) v;
          v = map (\<lambda>c. if c = CHR '' '' then CHR ''-'' else c) v;
          v = slugCleaner False v;
          v = trim_dash v
      in undouble v)"

subsection \<open>Tenants\<close>

definition pg_CountTenants :: "(int, pg_state) op" where
  "pg_CountTenants = pg_stmt (pg_query (\<lambda>db. int (length (db_tenants db))))"

text \<open>A statement that inserts one row with a generated identifier; \<open>f\<close> says what it does to the tables.\<close>

definition pg_insert :: "pg_env \<Rightarrow> (string \<Rightarrow> pg_tables \<Rightarrow> go_error + ('a \<times> pg_tables)) \<Rightarrow> ('a, pg_state) op" where
  "pg_insert env f s =
     (let s' = s\<lparr>pg_next := pg_next s + 1\<rparr>
      in case f (gen_random_uuid env (pg_next s)) (pg_db s) of
           Inl e \<Rightarrow> (Inl e, s')
         | Inr (x, db) \<Rightarrow> (Inr x, s'\<lparr>pg_db := db\<rparr>))"

definition insert_tenant :: "string \<Rightarrow> string \<Rightarrow> go_time \<Rightarrow> string \<Rightarrow> pg_tables \<Rightarrow> go_error + (Tenant \<times> pg_tables)" where
  "insert_tenant name slug now i db =
     (let row = \<lparr>tn_ID = i, tn_Name = name, tn_Slug = slug, tn_CreatedAt = pg_ts now, tn_UpdatedAt = pg_ts now\<rparr>
      in if i \<in> set (map tn_ID (db_tenants db)) \<or> slug \<in> set (map tn_Slug (db_tenants db)) then Inl (ErrSQL ''23505'')
         else Inr (row, db\<lparr>db_tenants := db_tenants db @ [row]\<rparr>))"

definition insert_role :: "string \<Rightarrow> string \<Rightarrow> go_time \<Rightarrow> string \<Rightarrow> pg_tables \<Rightarrow> go_error + (unit \<times> pg_tables)" where
  "insert_role t name now i db =
     (if (t, name) \<in> set (map (\<lambda>r. (ro_TenantID r, ro_Name r)) (db_roles db)) then Inr ((), db)
      else if i \<in> set (map ro_ID (db_roles db)) then Inl (ErrSQL ''23505'')
      else if t \<notin> set (map tn_ID (db_tenants db)) then Inl (ErrSQL ''23503'')
      else Inr ((), db\<lparr>db_roles := db_roles db @ [\<lparr>ro_ID = i, ro_TenantID = t, ro_Name = name,
             ro_CreatedAt = pg_ts now, ro_UpdatedAt = pg_ts now\<rparr>]\<rparr>))"

definition insert_permission :: "string \<Rightarrow> go_time \<Rightarrow> string \<Rightarrow> pg_tables \<Rightarrow> go_error + (unit \<times> pg_tables)" where
  "insert_permission key now i db =
     (if key \<in> set (map pe_Key (db_permissions db)) then Inr ((), db)
      else if i \<in> set (map pe_ID (db_permissions db)) then Inl (ErrSQL ''23505'')
      else Inr ((), db\<lparr>db_permissions := db_permissions db @ [\<lparr>pe_ID = i, pe_Key = key, pe_CreatedAt = pg_ts now\<rparr>]\<rparr>))"

text \<open>A loop of statements that ends with the first error.\<close>

fun op_each :: "('a \<Rightarrow> (unit, 's) op) \<Rightarrow> 'a list \<Rightarrow> (unit, 's) op" where
  "op_each f [] = op_return ()"
| "op_each f (x # xs) = op_bind (f x) (\<lambda>_. op_each f xs)"

definition roleNames :: "string list" where
  "roleNames = [''admin'', ''coordinator'', ''instructor'', ''learner'']"

definition permissionKeys :: "string list" where
  "permissionKeys = [''bookings.manage'', ''bookings.view'', ''content.manage'', ''content.view'', ''tasks.manage'',
     ''tasks.view'', ''reports.view'', ''tenants.manage'', ''users.manage'']"

definition tenant_slug :: "string \<Rightarrow> string \<Rightarrow> go_time \<Rightarrow> string" where
  "tenant_slug name slug now =
     (let slug = (if trim_space slug = '''' then toSlug name else slug)
      in if slug = '''' then ''tenant-'' @ itoa (time_Unix now) else slug)"

definition pg_CreateTenant :: "pg_env \<Rightarrow> string \<Rightarrow> string \<Rightarrow> go_time \<Rightarrow> (Tenant, pg_state) op" where
  "pg_CreateTenant env name slug now =
     pg_tx id (
       op_bind (pg_stmt (pg_insert env (insert_tenant (trim_space name) (tenant_slug name slug now) now))) (\<lambda>tenant.
       op_bind (op_each (\<lambda>roleName. pg_stmt (op_bind (pg_uuid env (tn_ID tenant)) (\<lambda>t.
         pg_insert env (insert_role t roleName now)))) roleNames) (\<lambda>_.
       op_bind (op_each (\<lambda>key. pg_stmt (pg_insert env (insert_permission key now))) permissionKeys) (\<lambda>_.
       op_return tenant))))"

record 's TenantStore =
  te_CountTenants :: "(int, 's) op"
  te_CreateTenant :: "string \<Rightarrow> string \<Rightarrow> go_time \<Rightarrow> (Tenant, 's) op"

definition pg_TenantStore :: "pg_env \<Rightarrow> pg_state TenantStore" where
  "pg_TenantStore env = \<lparr>te_CountTenants = pg_CountTenants, te_CreateTenant = pg_CreateTenant env\<rparr>"

subsection \<open>Setup service\<close>

record 's SetupService =
  su_Tenants :: "'s TenantStore"
  su_Auth :: "'s AuthService"

definition NewSetupService :: "'s TenantStore \<Rightarrow> 's AuthService \<Rightarrow> 's SetupService" where
  "NewSetupService tenants auth = \<lparr>su_Tenants = tenants, su_Auth = auth\<rparr>"

definition NeedsSetup :: "'s SetupService \<Rightarrow> (bool, 's) op" where
  "NeedsSetup s = op_bind (te_CountTenants (su_Tenants s)) (\<lambda>count. op_return (count = 0))"

definition User_zero :: User where
  "User_zero = \<lparr>us_ID = '''', us_TenantID = '''', us_Email = '''', us_DisplayName = '''', us_Role = '''',
     us_PasswordHash = '''', us_FailedAttempts = 0, us_LockedUntil = None, us_PIIEncrypted = None,
     us_PasswordChangedAt = time_zero, us_CreatedAt = time_zero, us_UpdatedAt = time_zero\<rparr>"

definition BootstrapTenant :: "unicode_tables \<Rightarrow> bcrypt \<Rightarrow> string \<Rightarrow> 's SetupService \<Rightarrow> string \<Rightarrow> string \<Rightarrow> string \<Rightarrow>
    string \<Rightarrow> string \<Rightarrow> go_time \<Rightarrow> (Tenant, 's) op" where
  "BootstrapTenant uni bc salt s tenantName tenantSlug adminEmail adminDisplayName adminPassword now =
     op_bind (NeedsSetup s) (\<lambda>needsSetup.
     if \<not> needsSetup then op_fail ErrSetupAlreadyCompleted
     else
       (let tenantName = trim_space tenantName; tenantSlug = trim_space tenantSlug;
            adminEmail = to_lower (trim_space adminEmail); adminDisplayName = trim_space adminDisplayName
        in if tenantName = '''' \<or> adminEmail = '''' \<or> adminDisplayName = '''' \<or> trim_space adminPassword = ''''
           then op_fail (ErrNew ''tenant_name, admin_email, admin_username, and admin_password are required'')
           else
             op_bind (te_CreateTenant (su_Tenants s) tenantName tenantSlug now) (\<lambda>tenant.
             op_bind (AuthService_Register uni bc salt (su_Auth s)
               (User_zero\<lparr>us_TenantID := tn_ID tenant, us_Email := adminEmail, us_DisplayName := adminDisplayName,
                  us_Role := ''admin''\<rparr>) adminPassword now) (\<lambda>_.
             op_return tenant))))"

text \<open>\<^verbatim>\<open>os.Getenv\<close> is the argument \<open>getenv\<close>.\<close>

definition seedDefaultUsers :: "(string \<Rightarrow> string) \<Rightarrow> unicode_tables \<Rightarrow> bcrypt \<Rightarrow> string \<Rightarrow> go_time \<Rightarrow> 's SetupService \<Rightarrow> 's \<Rightarrow> 's" where
  "seedDefaultUsers getenv uni bc salt now setup =
     (let email = trim_space (getenv ''ADMIN_SEED_EMAIL''); password = trim_space (getenv ''ADMIN_SEED_PASSWORD'')
      in if email = '''' \<or> password = '''' then (\<lambda>s. s)
         else op_ignore (BootstrapTenant uni bc salt setup ''tenant-1'' ''tenant-1'' email ''Default Admin'' password now))"

definition pg_setup :: "pg_env \<Rightarrow> (string \<Rightarrow> go_error + string) option \<Rightarrow> pg_state SetupService" where
  "pg_setup env vault = NewSetupService (pg_TenantStore env) (pg_auth env vault)"

subsection \<open>What creating a tenant leaves\<close>

lemma trim_space_idem [simp]: "trim_space (trim_space s) = trim_space s"
proof -
  define t u where "t = dropWhile is_space s" and "u = dropWhile is_space (rev t)"
  have u: "dropWhile is_space u = u" by (simp add: u_def)
  have "dropWhile is_space (rev u) = rev u"
  proof (cases "u = []")
    case False
    then have "last u = last (rev t)" unfolding u_def by (metis dropWhile_eq_drop last_drop drop_eq_Nil linorder_not_le)
    moreover have "t \<noteq> []" using False by (auto simp: u_def)
    ultimately have "\<not> is_space (hd (rev u))" using False hd_dropWhile [of is_space s] by (simp add: hd_rev last_rev t_def)
    with False show ?thesis by (metis dropWhile.simps(2) list.collapse rev_is_Nil_conv)
  qed simp
  then show ?thesis by (simp add: trim_space_def u t_def [symmetric] u_def [symmetric])
qed

lemma to_lower_Nil [simp]: "to_lower s = [] \<longleftrightarrow> s = []"
  by (simp add: to_lower_def)

lemma op_keeps_each [op_invs]: "(\<And>x. op_keeps P (f x)) \<Longrightarrow> op_keeps P (op_each f xs)"
  by (induction xs) (auto intro: op_invs)

lemma op_keeps_insert:
  assumes "\<And>k db x db' n. Q db n \<Longrightarrow> f (gen_random_uuid env k) db = Inr (x, db') \<Longrightarrow> Q db' n" "\<And>db n n'. Q db n \<Longrightarrow> Q db n'"
  shows "op_keeps (pg_only Q) (pg_insert env f)"
proof (rule op_keepsI)
  fix s assume s: "pg_only Q s"
  show "pg_only Q (snd (pg_insert env f s))"
  proof (cases "f (gen_random_uuid env (pg_next s)) (pg_db s)")
    case (Inl e)
    moreover have "Q (pg_db s) (Suc (pg_next s))" by (rule assms(2)) (use s in \<open>simp add: pg_only_def\<close>)
    ultimately show ?thesis by (simp add: pg_insert_def pg_only_def)
  next
    case (Inr p)
    then obtain x db where f: "f (gen_random_uuid env (pg_next s)) (pg_db s) = Inr (x, db)" by (cases p) simp
    have "Q db (Suc (pg_next s))" by (rule assms(2), rule assms(1) [OF _ f]) (use s in \<open>simp add: pg_only_def\<close>)
    with f show ?thesis by (simp add: pg_insert_def pg_only_def)
  qed
qed

lemma pg_insert_row_Inr:
  "pg_insert env f s = (Inr x, s') \<longleftrightarrow>
    (\<exists>db. f (gen_random_uuid env (pg_next s)) (pg_db s) = Inr (x, db) \<and> s' = s\<lparr>pg_db := db, pg_next := pg_next s + 1\<rparr>)"
  by (auto simp: pg_insert_def Let_def split: sum.splits)

text \<open>\<open>kept env us urs ts R\<close>: users, role grants and tenants are these, role identifiers are unique uuids, and the roles in \<open>R\<close> exist.\<close>

definition kept :: "pg_env \<Rightarrow> User list \<Rightarrow> (string \<times> string \<times> string) list \<Rightarrow> Tenant list \<Rightarrow> (string \<times> string) set \<Rightarrow> pg_tables \<Rightarrow> nat \<Rightarrow> bool" where
  "kept env us urs ts R db n \<longleftrightarrow> db_users db = us \<and> db_user_roles db = urs \<and> db_tenants db = ts \<and>
     distinct (map ro_ID (db_roles db)) \<and> (\<forall>r\<in>set (db_roles db). uuid_in env (ro_ID r) = Some (ro_ID r)) \<and> R \<subseteq> (\<lambda>r. (ro_TenantID r, ro_Name r)) ` set (db_roles db)"

lemma kept_role:
  assumes "postgres_types env"
  shows "op_keeps (pg_only (kept env us urs ts R)) (pg_insert env (insert_role t name now))"
  by (rule op_keeps_insert) (use postgres_types.gen_canonical [OF assms] in \<open>auto simp: kept_def insert_role_def split: if_splits\<close>)

lemma kept_permission: "op_keeps (pg_only (kept env us urs ts R)) (pg_insert env (insert_permission key now))"
  by (rule op_keeps_insert) (auto simp: kept_def insert_permission_def split: if_splits)

lemma insert_role_adds:
  assumes "pg_stmt (op_bind (pg_uuid env u) (\<lambda>t. pg_insert env (insert_role t name now))) s = (Inr x, s')"
    and "pg_only (kept env us urs ts R) s" "uuid_in env u = Some t"
    and "postgres_types env"
  shows "pg_only (kept env us urs ts (insert (t, name) R)) s'"
proof -
  have k: "op_keeps (pg_only (kept env us urs ts R)) (pg_stmt (op_bind (pg_uuid env u) (\<lambda>t. pg_insert env (insert_role t name now))))"
    by (intro op_invs kept_role assms(4))
  have "pg_only (kept env us urs ts R) s'" by (rule op_keeps_eq [OF k assms(2,1)])
  moreover from assms(1) obtain fs where "op_bind (pg_uuid env u) (\<lambda>t. pg_insert env (insert_role t name now)) (s\<lparr>pg_faults := fs\<rparr>) = (Inr x, s')"
    by (rule pg_stmt_Inr)
  then have "(t, name) \<in> (\<lambda>r. (ro_TenantID r, ro_Name r)) ` set (db_roles (pg_db s'))"
    using assms(3) by (auto simp: op_bind_Inr_iff pg_insert_row_Inr insert_role_def image_iff split: if_splits)
  ultimately show ?thesis by (simp add: pg_only_def kept_def)
qed

lemma faults_stay:
  "op_keeps (\<lambda>s. pg_faults s = []) (pg_insert env f)"
  "op_keeps (\<lambda>s. pg_faults s = []) m \<Longrightarrow> op_keeps (\<lambda>s. pg_faults s = []) (pg_stmt m)"
  by (auto simp: op_keeps_def pg_insert_def Let_def split: sum.splits)

lemma pg_tx_running:
  assumes "pg_faults s = []" "op_keeps (\<lambda>s. pg_faults s = []) body" "pg_tx wrap body s = (Inr x, s')"
  shows "body s = (Inr x, s')"
proof -
  obtain r s1 where b: "body s = (r, s1)" by fastforce
  with assms(1,2) have "pg_faults s1 = []" by (auto dest: op_keeps_eq)
  with assms(1,3) b show ?thesis by (auto simp: pg_tx_def split: sum.splits)
qed

lemma pg_CreateTenant_running:
  assumes "postgres_types env" "pg_faults s = []" "pg_CreateTenant env name slug now s = (Inr tenant, s')"
    and "distinct (map ro_ID (db_roles (pg_db s)))" "\<forall>r\<in>set (db_roles (pg_db s)). uuid_in env (ro_ID r) = Some (ro_ID r)"
  shows "pg_faults s' = []" "uuid_in env (tn_ID tenant) = Some (tn_ID tenant)"
    and "pg_only (kept env (db_users (pg_db s)) (db_user_roles (pg_db s)) (db_tenants (pg_db s) @ [tenant]) {(tn_ID tenant, ''admin'')}) s'"
proof -
  let ?role = "\<lambda>tenant roleName. pg_stmt (op_bind (pg_uuid env (tn_ID tenant)) (\<lambda>t. pg_insert env (insert_role t roleName now)))"
  let ?perm = "\<lambda>key. pg_stmt (pg_insert env (insert_permission key now))"
  have body: "op_bind (pg_stmt (pg_insert env (insert_tenant (trim_space name) (tenant_slug name slug now) now))) (\<lambda>tenant.
       op_bind (op_each (?role tenant) roleNames) (\<lambda>_. op_bind (op_each ?perm permissionKeys) (\<lambda>_. op_return tenant))) s = (Inr tenant, s')"
    by (rule pg_tx_running [OF assms(2) _ assms(3) [unfolded pg_CreateTenant_def]]) (intro op_invs faults_stay)
  have "op_keeps (\<lambda>s. pg_faults s = []) (op_bind (pg_stmt (pg_insert env (insert_tenant (trim_space name) (tenant_slug name slug now) now))) (\<lambda>tenant.
       op_bind (op_each (?role tenant) roleNames) (\<lambda>_. op_bind (op_each ?perm permissionKeys) (\<lambda>_. op_return tenant))))"
    by (intro op_invs faults_stay)
  from op_keeps_eq [OF this assms(2) body] show f: "pg_faults s' = []" .
  from body assms(2) obtain s1 s2 s3 where 1: "pg_insert env (insert_tenant (trim_space name) (tenant_slug name slug now) now) s = (Inr tenant, s1)"
    and 2: "?role tenant ''admin'' s1 = (Inr (), s2)" and 3: "op_each (?role tenant) [''coordinator'', ''instructor'', ''learner''] s2 = (Inr (), s3)"
    and 4: "op_each ?perm permissionKeys s3 = (Inr (), s')"
    unfolding op_bind_Inr_iff roleNames_def by (auto simp: op_bind_Inr_iff)
  from 1 have i: "tn_ID tenant = gen_random_uuid env (pg_next s)" and s1: "pg_db s1 = (pg_db s)\<lparr>db_tenants := db_tenants (pg_db s) @ [tenant]\<rparr>"
    unfolding pg_insert_row_Inr by (auto simp: insert_tenant_def Let_def split: if_splits)
  then show u: "uuid_in env (tn_ID tenant) = Some (tn_ID tenant)" using postgres_types.gen_canonical [OF assms(1)] by simp
  let ?K = "kept env (db_users (pg_db s)) (db_user_roles (pg_db s)) (db_tenants (pg_db s) @ [tenant])"
  have "pg_only (?K {}) s1" using assms(4,5) by (simp add: pg_only_def kept_def s1)
  from insert_role_adds [OF 2 this u assms(1)] have s2: "pg_only (?K {(tn_ID tenant, ''admin'')}) s2" .
  have roles: "op_keeps (pg_only (?K {(tn_ID tenant, ''admin'')})) (op_each (?role tenant) [''coordinator'', ''instructor'', ''learner''])"
    by (intro op_invs kept_role assms(1))
  have perms: "op_keeps (pg_only (?K {(tn_ID tenant, ''admin'')})) (op_each ?perm permissionKeys)"
    by (intro op_invs kept_permission)
  show "pg_only (?K {(tn_ID tenant, ''admin'')}) s'" by (rule op_keeps_eq [OF perms op_keeps_eq [OF roles s2 3] 4])
qed

subsection \<open>Registration and login\<close>

text \<open>
  What registration relies on: every granted role belongs to a stored user, the role's name leads to exactly one
  stored role, whose identifier is a uuid, and no user of the tenant has the address.
\<close>

definition can_register :: "pg_env \<Rightarrow> pg_tables \<Rightarrow> string \<Rightarrow> string \<Rightarrow> string \<Rightarrow> bool" where
  "can_register env db t role email \<longleftrightarrow> uuid_in env t = Some t \<and>
     distinct (map ro_ID (db_roles db)) \<and> (\<forall>r\<in>set (db_roles db). uuid_in env (ro_ID r) = Some (ro_ID r)) \<and>
     (t, role) \<in> (\<lambda>r. (ro_TenantID r, ro_Name r)) ` set (db_roles db) \<and>
     (\<forall>(_, u, _)\<in>set (db_user_roles db). u \<in> us_ID ` set (db_users db)) \<and>
     (\<forall>u\<in>set (db_users db). us_TenantID u = t \<longrightarrow> to_lower (us_Email u) \<noteq> to_lower email)"

lemma pg_insert_user_running:
  assumes "pg_faults s = []" "uuid_in env t = Some t" "pg_insert_user env t pii user s = (Inr (), s1)"
    and "\<forall>u\<in>set (db_users (pg_db s)). us_TenantID u = t \<longrightarrow> to_lower (us_Email u) \<noteq> to_lower (us_Email user)"
  shows "s1 = s\<lparr>pg_next := pg_next s + 1, pg_db := (pg_db s)\<lparr>db_users := db_users (pg_db s) @ [user_row env (gen_random_uuid env (pg_next s)) t pii user]\<rparr>\<rparr>"
    and "gen_random_uuid env (pg_next s) \<notin> us_ID ` set (db_users (pg_db s))" "t \<in> tn_ID ` set (db_tenants (pg_db s))"
proof -
  let ?i = "gen_random_uuid env (pg_next s)"
  have "\<not> (t, us_Email user) \<in> set (map (\<lambda>u. (us_TenantID u, us_Email u)) (db_users (pg_db s)))" using assms(4) by auto
  with assms(1-3) have *: "?i \<notin> us_ID ` set (db_users (pg_db s))" "t \<in> tn_ID ` set (db_tenants (pg_db s))"
    "(Inr (), s1) = (Inr () :: go_error + unit, set_users (\<lambda>us. us @ [user_row env ?i t pii user]) (s\<lparr>pg_next := pg_next s + 1\<rparr>))"
    by (auto simp: pg_insert_user_def op_bind_def pg_uuid_def Let_def user_row_def split: if_splits)
  then show "?i \<notin> us_ID ` set (db_users (pg_db s))" "t \<in> tn_ID ` set (db_tenants (pg_db s))" by simp_all
  from *(3) show "s1 = s\<lparr>pg_next := pg_next s + 1, pg_db := (pg_db s)\<lparr>db_users := db_users (pg_db s) @ [user_row env ?i t pii user]\<rparr>\<rparr>"
    by (simp add: set_users_def)
qed

lemma pg_CreateUser_running:
  assumes "pg_faults s = []" "postgres_types env" "tenant_uuid (pg_db s) (us_TenantID user) = Some t" "us_Role user \<noteq> []"
    and ok: "can_register env (pg_db s) t (us_Role user) (us_Email user)"
    and "pg_CreateUser env vault user s = (Inr (), s')"
  shows "\<exists>i pii r. i \<notin> us_ID ` set (db_users (pg_db s)) \<and> pg_faults s' = [] \<and> r \<in> set (db_roles (pg_db s)) \<and> ro_Name r = us_Role user \<and>
    pg_db s' = (pg_db s)\<lparr>db_users := db_users (pg_db s) @ [user_row env i t pii user],
       db_user_roles := db_user_roles (pg_db s) @ [(t, i, ro_ID r)]\<rparr>"
proof -
  define i where "i = gen_random_uuid env (pg_next s)"
  define pii where "pii = (case vault of None \<Rightarrow> None
           | Some encrypt \<Rightarrow> (case encrypt (us_Email user) of Inl _ \<Rightarrow> None | Inr c \<Rightarrow> Some c))"
  have tu: "uuid_in env t = Some t" using ok by (simp add: can_register_def)
  have iu: "uuid_in env i = Some i" using postgres_types.gen_canonical [OF assms(2)] by (simp add: i_def)
  note create = assms(6) [unfolded pg_CreateUser_def Let_def pii_def [symmetric]]
  from create obtain s1 where ins: "pg_insert_user env t pii user s = (Inr (), s1)"
    by (auto simp: op_bind_Inr_iff resolve_running [OF assms(1)] assms(3))
  have fresh: "\<forall>u\<in>set (db_users (pg_db s)). us_TenantID u = t \<longrightarrow> to_lower (us_Email u) \<noteq> to_lower (us_Email user)"
    using ok by (simp add: can_register_def)
  note s1 = pg_insert_user_running [OF assms(1) tu ins fresh, folded i_def]
  have f: "pg_faults s1 = []" and db: "db_roles (pg_db s1) = db_roles (pg_db s)" "db_user_roles (pg_db s1) = db_user_roles (pg_db s)"
    "db_tenants (pg_db s1) = db_tenants (pg_db s)" "db_users (pg_db s1) = db_users (pg_db s) @ [user_row env i t pii user]"
    using s1(1) assms(1) by simp_all
  let ?P = "\<lambda>r. ro_TenantID r = t \<and> ro_Name r = us_Role user"
  have "filter ?P (db_roles (pg_db s)) \<noteq> []" using ok by (auto simp: can_register_def filter_empty_conv)
  then obtain r rs where rs: "filter ?P (db_roles (pg_db s)) = r # rs" by (cases "filter ?P (db_roles (pg_db s))") auto
  then have "r \<in> set (filter ?P (db_roles (pg_db s)))" by simp
  then have r: "r \<in> set (db_roles (pg_db s))" "ro_Name r = us_Role user" "uuid_in env (ro_ID r) = Some (ro_ID r)"
    using ok by (auto simp: can_register_def)
  have role: "pg_role_id env t (us_Role user) s1 = (Inr (ro_ID r), s1)"
    using tu rs f db by (simp add: pg_role_id_def op_bind_def pg_uuid_def pg_query_row_eq)
  have "filter (\<lambda>u. us_TenantID u = t \<and> to_lower (us_Email u) = to_lower (us_Email user)) (db_users (pg_db s)) = []"
    using fresh by (auto simp: filter_empty_conv)
  then have uid: "pg_user_id env t (us_Email user) s1 = (Inr i, s1)"
    using tu f db by (simp add: pg_user_id_def op_bind_def pg_uuid_def pg_query_row_eq user_row_def)
  have new: "(t, i, ro_ID r) \<notin> set (db_user_roles (pg_db s))" using ok s1(2) by (auto simp: can_register_def)
  have grant: "pg_grant_role env t i (ro_ID r) s1 = (Inr (), s1\<lparr>pg_db := (pg_db s1)\<lparr>db_user_roles := db_user_roles (pg_db s) @ [(t, i, ro_ID r)]\<rparr>\<rparr>)"
    using tu s1(3) db iu r new f by (auto simp: pg_grant_role_def op_bind_def pg_uuid_def Let_def user_row_def image_iff)
  have "(Inr (), s') = (Inr () :: go_error + unit, s1\<lparr>pg_db := (pg_db s1)\<lparr>db_user_roles := db_user_roles (pg_db s) @ [(t, i, ro_ID r)]\<rparr>\<rparr>)"
    using create by (simp add: op_bind_def op_try_def resolve_running assms(1,3,4) ins role uid grant)
  then show ?thesis using s1(1,2) r f by (intro exI [of _ i] exI [of _ pii] exI [of _ r]) simp
qed

lemma Register_Inr:
  assumes "AuthService_Register uni bc salt (pg_auth env vault) user password now s = (Inr (), s')"
  obtains hash s1 where "bc_Generate bc salt password = Inr hash" "user_exists (Some (pg_UserStore env)) (us_TenantID user) (us_Email user) s = (Inr False, s1)"
    "pg_CreateUser env vault (user\<lparr>us_PasswordHash := hash, us_PasswordChangedAt := now\<rparr>) s1 = (Inr (), s')"
  using assms
  by (auto simp: AuthService_Register_def pg_auth_def NewAuthService_def pg_UserCreator_def op_bind_Inr_iff split: option.splits if_splits sum.splits)

lemma user_exists_running:
  assumes "pg_faults s = []" "user_exists (Some (pg_UserStore env)) T e s = (r, s1)"
  shows "s1 = s"
proof -
  have "snd (pg_GetByEmail env T e s) = s"
    using assms(1) by (auto simp: pg_GetByEmail_def op_bind_def op_try_def resolve_running pg_uuid_def pg_query_row_eq split: option.split list.split sum.split)
  with assms(2) show ?thesis by (auto simp: user_exists_def pg_UserStore_def op_bind_def op_try_def split: prod.splits)
qed

text \<open>A registered user logs in with the registered role, under any name of the tenant.\<close>

lemma registered_login:
  assumes "pg_faults s = []" "postgres_types env" "tenant_uuid (pg_db s) (us_TenantID user) = Some t" "us_Role user \<noteq> []"
    and ok: "can_register env (pg_db s) t (us_Role user) (us_Email user)"
    and bc: "\<forall>salt password hash. bc_Generate bc salt password = Inr hash \<longrightarrow> bc_Compare bc hash password"
    and reg: "AuthService_Register uni bc salt (pg_auth env vault) user password now s = (Inr (), s')"
    and "tenant_uuid (pg_db s) T = Some t" "to_lower e = to_lower (us_Email user)"
  shows "\<exists>u. fst (Authenticate bc (pg_auth env vault) T e password now' s') = Inr u \<and> us_Role u = us_Role user \<and>
      us_TenantID u = t \<and> us_Email u = us_Email user"
    and "pg_faults s' = []" "db_tenants (pg_db s') = db_tenants (pg_db s)"
proof -
  from reg obtain hash s1 where hash: "bc_Generate bc salt password = Inr hash"
    and ex: "user_exists (Some (pg_UserStore env)) (us_TenantID user) (us_Email user) s = (Inr False, s1)"
    and cu: "pg_CreateUser env vault (user\<lparr>us_PasswordHash := hash, us_PasswordChangedAt := now\<rparr>) s1 = (Inr (), s')"
    by (rule Register_Inr)
  have s1: "s1 = s" using user_exists_running [OF assms(1) ex] .
  let ?user = "user\<lparr>us_PasswordHash := hash, us_PasswordChangedAt := now\<rparr>"
  from pg_CreateUser_running [OF assms(1,2), of ?user t vault s'] assms(3,4) ok cu s1
  obtain i pii r where i: "i \<notin> us_ID ` set (db_users (pg_db s))" and f: "pg_faults s' = []"
    and r: "r \<in> set (db_roles (pg_db s))" "ro_Name r = us_Role user"
    and db: "pg_db s' = (pg_db s)\<lparr>db_users := db_users (pg_db s) @ [user_row env i t pii ?user],
       db_user_roles := db_user_roles (pg_db s) @ [(t, i, ro_ID r)]\<rparr>" by auto
  define u where "u = (user_row env i t pii ?user)\<lparr>us_Role := us_Role user\<rparr>"
  have "filter (\<lambda>x. True \<and> ro_ID x = ro_ID r) (db_roles (pg_db s)) = [r]"
    by (rule filter_key_unique) (use ok r in \<open>auto simp: can_register_def\<close>)
  moreover have "filter (\<lambda>(t', uid, rid). t' = t \<and> uid = i) (db_user_roles (pg_db s)) = []"
    using ok i by (auto simp: can_register_def filter_empty_conv)
  ultimately have names: "role_names (pg_db s') (user_row env i t pii ?user) = [Some (us_Role user)]"
    using r(2) by (simp add: role_names_def db user_row_def)
  have "filter (\<lambda>u. us_TenantID u = t \<and> to_lower (us_Email u) = to_lower e) (db_users (pg_db s)) = []"
    using ok assms(9) by (auto simp: can_register_def filter_empty_conv)
  then have "filter (\<lambda>u. us_TenantID u = t \<and> to_lower (us_Email u) = to_lower e) (db_users (pg_db s')) = [user_row env i t pii ?user]"
    using assms(9) by (simp add: db user_row_def)
  then have "users_by_email t e (pg_db s') = [u]" by (simp add: users_by_email_def names u_def coalesce_role_def)
  moreover have "tenant_uuid (pg_db s') T = Some t" using assms(8) by (simp add: db tenant_uuid_def)
  ultimately have g: "pg_GetByEmail env T e s' = (Inr u, s')"
    using pg_GetByEmail_found [OF f] ok unfolding can_register_def by blast
  have "us_LockedUntil u = None" "us_PasswordHash u = hash" by (simp_all add: u_def user_row_def)
  with g bc hash have "fst (Authenticate bc (pg_auth env vault) T e password now' s') = Inr u"
    by (simp add: Authenticate_def pg_auth_def NewAuthService_def pg_UserStore_def op_bind_def op_err_def)
  then show "\<exists>u. fst (Authenticate bc (pg_auth env vault) T e password now' s') = Inr u \<and> us_Role u = us_Role user \<and>
      us_TenantID u = t \<and> us_Email u = us_Email user" by (simp add: u_def user_row_def)
  show "pg_faults s' = []" "db_tenants (pg_db s') = db_tenants (pg_db s)" using f db by simp_all
qed

subsection \<open>The administrator of the first tenant\<close>

lemma BootstrapTenant_Inr:
  assumes "BootstrapTenant uni bc salt (pg_setup env vault) name slug email display password now s = (Inr tenant, s')" "pg_faults s = []"
  obtains s1 hash where "db_tenants (pg_db s) = []" "pg_CreateTenant env (trim_space name) (trim_space slug) now s = (Inr tenant, s1)"
    "AuthService_Register uni bc salt (pg_auth env vault) (User_zero\<lparr>us_TenantID := tn_ID tenant, us_Email := to_lower (trim_space email),
       us_DisplayName := trim_space display, us_Role := ''admin''\<rparr>) password now s1 = (Inr (), s')"
  using assms
  by (auto simp: BootstrapTenant_def pg_setup_def NewSetupService_def pg_TenantStore_def NeedsSetup_def pg_CountTenants_def
      op_bind_Inr_iff Let_def split: if_splits)

text \<open>
  Property C25. The account that the setup creates can be used: after a successful setup of an empty database,
  logging in with the tenant's identifier or slug, the administrator's address in any letter case and the chosen
  password succeeds as an administrator of that tenant, and no further setup is accepted. The password
  hash is only assumed to match the password it was generated from.
\<close>

theorem bootstrap_then_login:
  assumes "postgres_types env" "pg_faults s = []" "db_users (pg_db s) = []" "db_roles (pg_db s) = []" "db_user_roles (pg_db s) = []"
    and "\<forall>salt password hash. bc_Generate bc salt password = Inr hash \<longrightarrow> bc_Compare bc hash password"
    and "BootstrapTenant uni bc salt (pg_setup env vault) name slug email display password now s = (Inr tenant, s')"
    and "T = tn_ID tenant \<or> T = tn_Slug tenant" "to_lower e = to_lower (to_lower (trim_space email))"
  shows "(\<exists>u. fst (Authenticate bc (pg_auth env vault) T e password now' s') = Inr u \<and> us_Role u = ''admin'' \<and>
      us_TenantID u = tn_ID tenant \<and> us_Email u = to_lower (trim_space email)) \<and>
    fst (BootstrapTenant uni bc salt' (pg_setup env vault) name' slug' email' display' password' now' s') = Inl ErrSetupAlreadyCompleted"
proof -
  from assms(7,2) obtain s1 where empty: "db_tenants (pg_db s) = []"
    and ct: "pg_CreateTenant env (trim_space name) (trim_space slug) now s = (Inr tenant, s1)"
    and reg: "AuthService_Register uni bc salt (pg_auth env vault) (User_zero\<lparr>us_TenantID := tn_ID tenant, us_Email := to_lower (trim_space email),
       us_DisplayName := trim_space display, us_Role := ''admin''\<rparr>) password now s1 = (Inr (), s')"
    by (rule BootstrapTenant_Inr)
  note tenant = pg_CreateTenant_running [OF assms(1,2) ct, unfolded assms(3-5) empty kept_def pg_only_def, simplified]
  let ?user = "User_zero\<lparr>us_TenantID := tn_ID tenant, us_Email := to_lower (trim_space email),
       us_DisplayName := trim_space display, us_Role := ''admin''\<rparr>"
  have t: "tenant_uuid (pg_db s1) (tn_ID tenant) = Some (tn_ID tenant)" "tenant_uuid (pg_db s1) T = Some (tn_ID tenant)"
    using tenant(3) assms(8) by (auto simp: tenant_uuid_def)
  have "can_register env (pg_db s1) (tn_ID tenant) (us_Role ?user) (us_Email ?user)"
    using tenant by (auto simp: can_register_def)
  from registered_login [OF tenant(1) assms(1) _ _ this assms(6) reg t(2)] t(1) assms(9)
  have login: "\<exists>u. fst (Authenticate bc (pg_auth env vault) T e password now' s') = Inr u \<and> us_Role u = ''admin'' \<and>
      us_TenantID u = tn_ID tenant \<and> us_Email u = to_lower (trim_space email)"
    and s': "pg_faults s' = []" "db_tenants (pg_db s') = db_tenants (pg_db s1)" by auto
  have "fst (BootstrapTenant uni bc salt' (pg_setup env vault) name' slug' email' display' password' now' s') = Inl ErrSetupAlreadyCompleted"
    using s' tenant(3) by (simp add: BootstrapTenant_def pg_setup_def NewSetupService_def pg_TenantStore_def NeedsSetup_def pg_CountTenants_def op_bind_def)
  with login show ?thesis by blast
qed

text \<open>
  Seeding with a password that the policy refuses closes the setup for good: the tenant is
  created and committed before the account is refused, so the database has a tenant without any user, and
  every later setup is answered with already completed.
\<close>

theorem seed_weak_password_closes_setup:
  assumes "pg_faults s = []" "db_tenants (pg_db s) = []" "postgres_types env"
    and "distinct (map ro_ID (db_roles (pg_db s)))" "\<forall>r\<in>set (db_roles (pg_db s)). uuid_in env (ro_ID r) = Some (ro_ID r)"
    and "trim_space (getenv ''ADMIN_SEED_EMAIL'') \<noteq> []" "trim_space (getenv ''ADMIN_SEED_PASSWORD'') \<noteq> []"
    and "ValidatePassword uni (trim_space (getenv ''ADMIN_SEED_PASSWORD'')) \<noteq> None"
    and "pg_CreateTenant env ''tenant-1'' ''tenant-1'' now s = (Inr tenant, s1)"
  shows "seedDefaultUsers getenv uni bc salt now (pg_setup env vault) s = s1 \<and> db_tenants (pg_db s1) = [tenant] \<and>
    db_users (pg_db s1) = db_users (pg_db s) \<and>
    fst (BootstrapTenant uni bc salt' (pg_setup env vault) name slug email display password now' s1) = Inl ErrSetupAlreadyCompleted"
proof -
  note tenant = pg_CreateTenant_running [OF assms(3,1,9,4,5), unfolded kept_def pg_only_def assms(2), simplified]
  obtain err where err: "ValidatePassword uni (trim_space (getenv ''ADMIN_SEED_PASSWORD'')) = Some err" using assms(8) by auto
  have trim: "trim_space ''tenant-1'' = ''tenant-1''" "trim_space ''Default Admin'' = ''Default Admin''" by code_simp+
  have "op_ignore (BootstrapTenant uni bc salt (pg_setup env vault) ''tenant-1'' ''tenant-1'' (trim_space (getenv ''ADMIN_SEED_EMAIL''))
      ''Default Admin'' (trim_space (getenv ''ADMIN_SEED_PASSWORD'')) now) s = s1"
    using assms(1,2,6,7,9) err
    by (simp add: Let_def op_ignore_def BootstrapTenant_def pg_setup_def NewSetupService_def pg_TenantStore_def NeedsSetup_def
        pg_CountTenants_def op_bind_def trim AuthService_Register_def)
  then have "seedDefaultUsers getenv uni bc salt now (pg_setup env vault) s = s1"
    using assms(6,7) by (simp add: seedDefaultUsers_def)
  moreover have "fst (BootstrapTenant uni bc salt' (pg_setup env vault) name slug email display password now' s1) = Inl ErrSetupAlreadyCompleted"
    using tenant(1,3) by (simp add: BootstrapTenant_def pg_setup_def NewSetupService_def pg_TenantStore_def NeedsSetup_def pg_CountTenants_def op_bind_def)
  ultimately show ?thesis using tenant(3) by simp
qed

subsection \<open>A concrete setup\<close>

definition setup_env :: pg_env where
  "setup_env = demo_env\<lparr>gen_random_uuid := \<lambda>n. demo_id (hex_digits ! (n mod 16))\<rparr>"

interpretation setup_types: postgres_types setup_env
proof unfold_locales
  fix n
  have "n mod 16 < length hex_digits" by (simp add: hex_digits_def)
  then have "uuid_text (demo_id (hex_digits ! (n mod 16)))" by (intro demo_text nth_mem)
  then show "uuid_in setup_env (gen_random_uuid setup_env n) = Some (gen_random_uuid setup_env n)"
    using demo.uuid_reads by (simp add: setup_env_def)
qed (use demo.uuid_reads demo.uuid_canonical in \<open>simp_all add: setup_env_def\<close>)

definition fresh_state :: pg_state where
  "fresh_state = \<lparr>pg_db = pg_tables_new, pg_faults = [], pg_next = 0\<rparr>"

definition plain_bcrypt :: bcrypt where
  "plain_bcrypt = \<lparr>bc_Generate = (\<lambda>salt password. Inr (salt @ password)),
     bc_Compare = (\<lambda>hash password. drop (length hash - length password) hash = password)\<rparr>"

definition demo_setup :: "(go_error + Tenant) \<times> pg_state" where
  "demo_setup = BootstrapTenant no_tables plain_bcrypt ''salt'' (pg_setup setup_env None) '' Training Academy '' [] ''Ada@Academy.org''
     ''Ada'' ''Admin12345678!'' 0 fresh_state"

lemma demo_setup_ok: "\<exists>t s'. demo_setup = (Inr t, s') \<and> tn_Slug t = ''training-academy''"
proof -
  have "(case fst demo_setup of Inl _ \<Rightarrow> False | Inr t \<Rightarrow> tn_Slug t = ''training-academy'')" by code_simp
  then obtain t where "fst demo_setup = Inr t" "tn_Slug t = ''training-academy''" by (cases "fst demo_setup") auto
  then show ?thesis by (metis prod.collapse)
qed

theorem bootstrap_then_login_witness:
  "\<exists>u. fst (Authenticate plain_bcrypt (pg_auth setup_env None) ''training-academy'' ''ADA@academy.org'' ''Admin12345678!'' 1 (snd demo_setup)) = Inr u \<and>
     us_Role u = ''admin''"
proof -
  from demo_setup_ok obtain t s' where d: "demo_setup = (Inr t, s')" "tn_Slug t = ''training-academy''" by blast
  have e: "to_lower ''ADA@academy.org'' = to_lower (to_lower (trim_space ''Ada@Academy.org''))" by code_simp
  have "\<forall>salt password hash. bc_Generate plain_bcrypt salt password = Inr hash \<longrightarrow> bc_Compare plain_bcrypt hash password"
    by (auto simp: plain_bcrypt_def)
  note login = bootstrap_then_login [OF setup_types.postgres_types_axioms _ _ _ _ this d(1) [unfolded demo_setup_def] disjI2 e, OF _ _ _ _ d(2) [symmetric]]
  have "pg_faults fresh_state = []" "db_users (pg_db fresh_state) = []" "db_roles (pg_db fresh_state) = []" "db_user_roles (pg_db fresh_state) = []"
    by (simp_all add: fresh_state_def pg_tables_new_def)
  from conjunct1 [OF login [OF this, of 1]] show ?thesis unfolding d(1) snd_conv by blast
qed

theorem seed_weak_password_closes_setup_witness:
  "fst (BootstrapTenant no_tables plain_bcrypt ''salt'' (pg_setup setup_env None) ''Academy'' [] ''ada@academy.org'' ''Ada'' ''Admin12345678!'' 1
     (seedDefaultUsers (\<lambda>_. ''admin@x'') no_tables plain_bcrypt ''salt'' 0 (pg_setup setup_env None) fresh_state)) = Inl ErrSetupAlreadyCompleted"
proof -
  have "(case fst (pg_CreateTenant setup_env ''tenant-1'' ''tenant-1'' 0 fresh_state) of Inl _ \<Rightarrow> False | Inr _ \<Rightarrow> True)" by code_simp
  then obtain t s1 where c: "pg_CreateTenant setup_env ''tenant-1'' ''tenant-1'' 0 fresh_state = (Inr t, s1)"
    by (cases "pg_CreateTenant setup_env ''tenant-1'' ''tenant-1'' 0 fresh_state") (auto split: sum.splits)
  have trim: "trim_space ''admin@x'' = ''admin@x''" "to_lower ''admin@x'' = ''admin@x''" by code_simp+
  have weak: "ValidatePassword no_tables ''admin@x'' \<noteq> None" by (simp add: ValidatePassword_def)
  from seed_weak_password_closes_setup [of fresh_state setup_env "\<lambda>_. ''admin@x''", OF _ _ setup_types.postgres_types_axioms _ _ _ _ _ c] trim weak
  show ?thesis by (simp add: fresh_state_def pg_tables_new_def)
qed

end
