(* ===== verification/Auth_Handlers.thy ===== *)
theory Auth_Handlers
  imports Middleware Tenant_Setup Uuid_Text
begin

text \<open>
  The account endpoints \<^verbatim>\<open>internal/api/handlers/auth.go\<close> and the setup endpoints
  \<^verbatim>\<open>internal/api/handlers/setup.go\<close>. The packages they use are one record of parameters: the Unicode
  tables, \<^verbatim>\<open>bcrypt\<close> with the salt it draws, the token codec and the uuid of the new session.
\<close>

record auth_env =
  ae_uni :: unicode_tables
  ae_bcrypt :: bcrypt
  ae_salt :: string
  ae_token :: token_lib
  ae_uuid :: string

record 's AuthHandler =
  ah_Auth :: "'s AuthService"
  ah_Setup :: "'s SetupService option"
  ah_TokenKey :: string
  ah_TokenTTL :: duration
  ah_TokenClock :: "go_time option"

record registerRequest =
  rr_TenantID :: string
  rr_TenantName :: string
  rr_TenantSlug :: string
  rr_Email :: string
  rr_DisplayName :: string
  rr_Password :: string
  rr_Role :: string

record loginRequest =
  lq_TenantID :: string
  lq_Email :: string
  lq_Password :: string

datatype auth_reply =
    ReplyRegistered string string string
  | ReplyLogin string string string string string string string string
  | ReplyRevoked
  | ReplySession string string string string string string
  | ReplySetupStatus bool
  | ReplySetup string string string string string

definition defaultTenantID :: string where
  "defaultTenantID = ''tenant-1''"

definition normalizeRole :: "string \<Rightarrow> string" where
  "normalizeRole v =
     (let r = to_lower (trim_space v)
      in if r = ''administrator'' then ''admin''
         else if r \<in> {''admin'', ''coordinator'', ''instructor'', ''learner''} then r
         else ''learner'')"

definition AuthHandler_now :: "'s AuthHandler \<Rightarrow> http_request \<Rightarrow> go_time" where
  "AuthHandler_now h rq = (case ah_TokenClock h of Some t \<Rightarrow> t | None \<Rightarrow> rq_clock rq 0)"

definition shouldUseSecureCookie :: "http_request \<Rightarrow> bool" where
  "shouldUseSecureCookie rq = (if rq_tls rq then True else equal_fold (trim_space (rq_header rq ''X-Forwarded-Proto'')) ''https'')"

subsection \<open>Registration\<close>

text \<open>
  The tenant of the registration, its role and how often the clock was read: the tenant of the body, of the
  context, or for the first user a new one, whose user becomes administrator. \<open>Inl\<close> is an early response.
\<close>

definition register_tenant :: "'s AuthHandler \<Rightarrow> http_request \<Rightarrow> registerRequest \<Rightarrow> 's audited \<Rightarrow>
    ((nat \<times> string) + (string \<times> string \<times> nat)) \<times> 's audited" where
  "register_tenant h rq req st =
     (let tenantID = trim_space (rr_TenantID req);
          tenantID = (if tenantID = '''' then (case tenant_ID rq of Some t \<Rightarrow> t | None \<Rightarrow> tenantID) else tenantID)
      in case (if tenantID = '''' then ah_Setup h else None) of
           None \<Rightarrow> (Inr (tenantID, rr_Role req, 0), st)
         | Some setup \<Rightarrow>
             (case on_store (NeedsSetup setup) st of
                (Inr True, st1) \<Rightarrow>
                  if trim_space (rr_TenantName req) = ''''
                  then (Inl (400, ''tenant_name is required for first user registration''), st1)
                  else (case on_store (te_CreateTenant (su_Tenants setup) (trim_space (rr_TenantName req))
                              (trim_space (rr_TenantSlug req)) (rq_clock rq 0)) st1 of
                      (Inl _, st2) \<Rightarrow> (Inl (400, ''Unable to create tenant for first user''), st2)
                    | (Inr tenant, st2) \<Rightarrow> (Inr (tn_ID tenant, ''admin'', 1), st2))
              | (_, st1) \<Rightarrow> (Inr (tenantID, rr_Role req, 0), st1)))"

definition AuthHandler_Register :: "auth_env \<Rightarrow> 's AuthHandler \<Rightarrow> registerRequest option \<Rightarrow> (auth_reply, 's) handler" where
  "AuthHandler_Register ae h body rq st = (case body of
     None \<Rightarrow> (jsonError 400 ''invalid request body'', st)
   | Some req \<Rightarrow>
     (case register_tenant h rq req st of
        (Inl (status, message), st1) \<Rightarrow> (jsonError status message, st1)
      | (Inr (tenantID, role, k), st1) \<Rightarrow>
        let tenantID = (if tenantID = '''' then defaultTenantID else tenantID);
            email = to_lower (trim_space (rr_Email req));
            displayName = trim_space (rr_DisplayName req);
            role = normalizeRole role
        in if tenantID = '''' \<or> email = '''' \<or> rr_Password req = '''' \<or> displayName = ''''
           then (jsonError 400 ''tenant_id, email, display_name, and password are required'', st1)
           else
             let user = User_zero\<lparr>us_ID := newUUIDString (rq_random rq 0), us_TenantID := tenantID, us_Email := email,
                          us_DisplayName := displayName, us_Role := role\<rparr>
             in case on_store (AuthService_Register (ae_uni ae) (ae_bcrypt ae) (ae_salt ae) (ah_Auth h) user
                         (rr_Password req) (rq_clock rq k)) st1 of
                  (Inl _, st2) \<Rightarrow> (jsonError 400 ''Unable to register user'', st2)
                | (Inr _, st2) \<Rightarrow> ((201, OkBody (ReplyRegistered (us_ID user) tenantID (MaskEmail email))), st2)))"

subsection \<open>Login, logout and the current session\<close>

definition auth_cookie :: "http_request \<Rightarrow> string \<Rightarrow> go_time \<Rightarrow> Cookie" where
  "auth_cookie rq token expires = \<lparr>ck_Name = ''trainingops_session'', ck_Value = token, ck_Path = ''/'', ck_HttpOnly = True,
     ck_Secure = shouldUseSecureCookie rq, ck_SameSite = ''Strict'', ck_Expires = expires\<rparr>"

definition login_claims :: "User \<Rightarrow> Session \<Rightarrow> SessionClaims" where
  "login_claims user session = \<lparr>cl_UserID = us_ID user, cl_TenantID = us_TenantID user, cl_Email = us_Email user,
     cl_Role = normalizeRole (us_Role user), cl_SessionID = ss_ID session, cl_ExpiresAt = time_Unix (ss_ExpiresAt session)\<rparr>"

text \<open>The part of \<^verbatim>\<open>Login\<close> after the checks of the request.\<close>

definition login_user :: "auth_env \<Rightarrow> 's AuthHandler \<Rightarrow> string \<Rightarrow> string \<Rightarrow> string \<Rightarrow> (auth_reply, 's) endpoint" where
  "login_user ae h tenantID email password rq st =
     (let now = AuthHandler_now h rq
      in case on_store (Authenticate (ae_bcrypt ae) (ah_Auth h) tenantID email password now) st of
           (Inl err, st1) \<Rightarrow> if err = ErrAccountLocked then answer 423 ''Account is temporarily locked'' st1
                            else answer 401 ''Invalid credentials'' st1
         | (Inr user, st1) \<Rightarrow>
           (case on_store (AuthService_CreateSession (ah_Auth h) (ae_uuid ae) user now) st1 of
              (Inl _, st2) \<Rightarrow> answer 500 ''Unable to start session'' st2
            | (Inr session, st2) \<Rightarrow>
                let token = SignSessionToken (ae_token ae) (ah_TokenKey h) (login_claims user session)
                in (((200, OkBody (ReplyLogin (us_ID user) (us_TenantID user) (MaskEmail (us_Email user)) (us_DisplayName user)
                       (normalizeRole (us_Role user)) token (format_rfc3339 (ss_ExpiresAt session)) (ss_ID session))),
                     [auth_cookie rq token (ss_ExpiresAt session)]), st2)))"

definition AuthHandler_Login :: "auth_env \<Rightarrow> 's AuthHandler \<Rightarrow> loginRequest option \<Rightarrow> (auth_reply, 's) endpoint" where
  "AuthHandler_Login ae h body rq st = (case body of
     None \<Rightarrow> answer 400 ''invalid request body'' st
   | Some req \<Rightarrow>
     let tenantID = trim_space (lq_TenantID req);
         tenantID = (if tenantID = '''' then (case tenant_ID rq of Some t \<Rightarrow> t | None \<Rightarrow> tenantID) else tenantID);
         tenantID = (if tenantID = '''' then defaultTenantID else tenantID);
         email = to_lower (trim_space (lq_Email req))
     in if tenantID = '''' \<or> email = '''' \<or> lq_Password req = ''''
        then answer 400 ''tenant_id, email, and password are required'' st
        else login_user ae h tenantID email (lq_Password req) rq st)"

text \<open>The error of \<^verbatim>\<open>Revoke\<close> is dropped.\<close>

definition AuthHandler_Logout :: "'s AuthHandler \<Rightarrow> (auth_reply, 's) endpoint" where
  "AuthHandler_Logout h rq st = (case tenant_ID rq of
     None \<Rightarrow> answer 401 ''tenant context required'' st
   | Some tenantID \<Rightarrow>
     let sessionID = rq_header rq ''X-Session-ID'';
         revoked = (case as_Sessions (ah_Auth h) of
             Some sessions \<Rightarrow> if sessionID \<noteq> '''' then op_ignore (on_store (sn_Revoke sessions tenantID sessionID (rq_clock rq 0))) st else st
           | None \<Rightarrow> st)
     in (((200, OkBody ReplyRevoked), [auth_cookie rq '''' 0]), revoked))"

definition AuthHandler_Session :: "(auth_reply, 's) handler" where
  "AuthHandler_Session rq st = (case tenant_ID rq of
     None \<Rightarrow> (jsonError 401 ''tenant context required'', st)
   | Some tenantID \<Rightarrow>
     let userID = trim_space (rq_header rq ''X-Actor-User-ID'');
         email = trim_space (rq_header rq ''X-Actor-Email'');
         role = normalizeRole (rq_header rq ''X-Actor-Role'');
         sessionID = trim_space (rq_header rq ''X-Session-ID'')
     in if userID = '''' \<or> email = '''' \<or> sessionID = '''' then (jsonError 401 ''session not found'', st)
        else ((200, OkBody (ReplySession userID tenantID (MaskEmail email) role sessionID
                (format_rfc3339 (rq_clock rq 0 + 24 * time_Hour)))), st))"

subsection \<open>Setup\<close>

record setupTenantRequest =
  sr_TenantName :: string
  sr_TenantSlug :: string
  sr_AdminUsername :: string
  sr_AdminEmail :: string
  sr_AdminPassword :: string

definition SetupHandler_Status :: "'s SetupService \<Rightarrow> (auth_reply, 's) handler" where
  "SetupHandler_Status h rq st = (case on_store (NeedsSetup h) st of
     (Inl _, st1) \<Rightarrow> (jsonError 500 ''Unable to check setup status'', st1)
   | (Inr needsSetup, st1) \<Rightarrow> if needsSetup then ((404, OkBody (ReplySetupStatus True)), st1)
                              else ((200, OkBody (ReplySetupStatus False)), st1))"

definition SetupHandler_BootstrapTenant :: "auth_env \<Rightarrow> 's SetupService \<Rightarrow> setupTenantRequest option \<Rightarrow> (auth_reply, 's) handler" where
  "SetupHandler_BootstrapTenant ae h body rq st = (case body of
     None \<Rightarrow> (jsonError 400 ''invalid request body'', st)
   | Some req \<Rightarrow>
     let tenantName = trim_space (sr_TenantName req); tenantSlug = trim_space (sr_TenantSlug req);
         adminUsername = trim_space (sr_AdminUsername req); adminEmail = to_lower (trim_space (sr_AdminEmail req))
     in if tenantName = '''' \<or> adminUsername = '''' \<or> adminEmail = '''' \<or> trim_space (sr_AdminPassword req) = ''''
        then (jsonError 400 ''tenant_name, admin_username, admin_email, and admin_password are required'', st)
        else if ValidatePassword (ae_uni ae) (sr_AdminPassword req) \<noteq> None
        then (jsonError 400 ''Admin password does not meet policy requirements'', st)
        else (case on_store (BootstrapTenant (ae_uni ae) (ae_bcrypt ae) (ae_salt ae) h tenantName tenantSlug adminEmail
                     adminUsername (sr_AdminPassword req) (rq_clock rq 0)) st of
             (Inl err, st1) \<Rightarrow> if err = ErrSetupAlreadyCompleted then (jsonError 409 ''Setup already completed'', st1)
                              else (jsonError 400 ''Unable to bootstrap tenant'', st1)
           | (Inr tenant, st1) \<Rightarrow> ((201, OkBody (ReplySetup (tn_ID tenant) (tn_Name tenant) (tn_Slug tenant) (MaskEmail adminEmail)
                 (format_rfc3339 (rq_clock rq 1)))), st1)))"


subsection \<open>Logging out\<close>

lemma verify_same_claims:
  assumes "VerifySessionToken lib key token t = Inr claims" "VerifySessionToken lib key token t' = Inr claims'"
  shows "claims' = claims"
  using assms by (auto simp: VerifySessionToken_def split: list.splits if_splits option.splits)

lemma verify_nonempty: "VerifySessionToken lib key [] t \<noteq> Inr claims"
  by (simp add: VerifySessionToken_def)

lemma pg_IsActive_running:
  assumes "pg_faults s = []"
  shows "snd (pg_IsActive env T i now s) = s"
  using assms by (auto simp: pg_IsActive_def op_bind_def op_try_def resolve_running pg_uuid_def pg_query_row_eq
      split: option.split list.split sum.split)

lemma pg_Revoke_running:
  assumes "pg_faults s = []" "pg_IsActive env T i now s = (Inr True, s0)"
  obtains s1 where "pg_Revoke env T i t s = (Inr (), s1)"
proof -
  from assms(2) obtain U t' j where "tenant_uuid (pg_db s) T = Some U" "uuid_in env U = Some t'" "uuid_in env i = Some j"
    by (rule pg_IsActive_Inr)
  with assms(1) that show thesis
    by (simp add: pg_Revoke_def op_bind_def resolve_running pg_update_session_def pg_uuid_def)
qed

text \<open>A dead session is refused on every guarded path.\<close>

lemma chain_refuses:
  assumes "guarded_path pub (rq_path rq)"
    and "\<And>claims. VerifySessionToken lib key (presented_token rq) (rq_clock rq 0) = Inr claims \<Longrightarrow>
      fst (sn_IsActive store (cl_TenantID claims) (cl_SessionID claims) (rq_clock rq 1) (fst st)) \<noteq> Inr True"
  shows "fst (fst (fst (chain lib key (Some store) pub ep rq st))) = 401"
proof (cases "VerifySessionToken lib key (presented_token rq) (rq_clock rq 0)")
  case (Inl e) then show ?thesis unfolding chain_guarded [OF assms(1)] by (simp add: answer_def)
next
  case (Inr claims)
  obtain r s' where a: "sn_IsActive store (cl_TenantID claims) (cl_SessionID claims) (rq_clock rq 1) (fst st) = (r, s')"
    by (cases "sn_IsActive store (cl_TenantID claims) (cl_SessionID claims) (rq_clock rq 1) (fst st)")
  with assms(2) [OF Inr] have "r \<noteq> Inr True" by simp
  with a show ?thesis unfolding chain_guarded [OF assms(1)] Inr on_store_def a sum.case prod.case
    by (auto simp: answer_def split: sum.split bool.split)
qed

text \<open>
  Property C24. With the database up, a logout request with a live session is answered 200 and ends the
  session: from then on, whatever session operations follow and whichever of their statements fail,
  every request with the same token on a guarded path is answered 401.
\<close>

theorem logout_ends_session:
  assumes "pg_faults (fst st) = []" "distinct (session_ids (pg_db (fst st)))" "guarded_path pub (rq_path rq)"
    and v: "VerifySessionToken lib key (presented_token rq) (rq_clock rq 0) = Inr claims" and "cl_SessionID claims \<noteq> []"
    and a: "fst (pg_IsActive env (cl_TenantID claims) (cl_SessionID claims) (rq_clock rq 1) (fst st)) = Inr True"
    and "as_Sessions (ah_Auth h) = Some (pg_SessionStore env)"
    and ch: "chain lib key (Some (pg_SessionStore env)) pub (AuthHandler_Logout h) rq st = ((resp, cookies), st')"
    and steps: "session_steps (pg_SessionStore env) (\<lambda>_ _. True) (fst st') s2"
    and "guarded_path pub (rq_path rq2)" "presented_token rq2 = presented_token rq"
  shows "fst resp = 200 \<and> fst (fst (fst (chain lib key (Some (pg_SessionStore env)) pub ep rq2 (s2, log)))) = 401"
proof -
  let ?T = "cl_TenantID claims" and ?i = "cl_SessionID claims"
  have act: "pg_IsActive env ?T ?i (rq_clock rq 1) (fst st) = (Inr True, fst st)"
    using a pg_IsActive_running [OF assms(1)] by (simp add: prod_eq_iff)
  from v have T: "?T \<noteq> []" by (rule verify_Inr) simp
  have tok: "presented_token rq \<noteq> []" using v verify_nonempty by auto
  from pg_Revoke_running [OF assms(1) act] obtain s1 where r: "pg_Revoke env ?T ?i (rq_clock rq 3) (fst st) = (Inr (), s1)" .
  have st: "on_store (pg_IsActive env ?T ?i (rq_clock rq 1)) st = (Inr True, st)" using act by (simp add: on_store_iff)
  have "((resp, cookies), st') = add_cookies (setSessionCookie lib rq key claims (rq_clock rq 1)) (AuthHandler_Logout h (chained claims rq) st)"
    using ch tok unfolding chain_guarded [OF assms(3)] by (simp add: v st del: One_nat_def)
  then have "fst resp = 200" "fst st' = s1"
    using T assms(5,7) r
    by (auto simp: AuthHandler_Logout_def chained_facts Let_def add_cookies_def op_ignore_def on_store_def numeral_3_eq_3 split: prod.splits)
  moreover have "fst (sn_IsActive (pg_SessionStore env) (cl_TenantID c) (cl_SessionID c) (rq_clock rq2 1) (fst (s2, log))) \<noteq> Inr True"
    if c: "VerifySessionToken lib key (presented_token rq2) (rq_clock rq2 0) = Inr c" for c
  proof
    assume f: "fst (sn_IsActive (pg_SessionStore env) (cl_TenantID c) (cl_SessionID c) (rq_clock rq2 1) (fst (s2, log))) = Inr True"
    have "c = claims" using verify_same_claims [OF v] c assms(11) by simp
    with f have "pg_IsActive env ?T ?i (rq_clock rq2 1) s2 = (Inr True, snd (pg_IsActive env ?T ?i (rq_clock rq2 1) s2))"
      by (simp add: prod_eq_iff)
    moreover have "session_steps (pg_SessionStore env) (\<lambda>_ _. True) s1 s2" using steps \<open>fst st' = s1\<close> by simp
    ultimately show False
      using pg_sessions.ended_never_active [of "fst st" env ?T ?i "rq_clock rq 1" "fst st" "rq_clock rq 3" s1] act r assms(2)
      by (simp add: pg_sess_inv_def)
  qed
  ultimately show ?thesis using chain_refuses [OF assms(10), of lib key "pg_SessionStore env" "(s2, log)" ep] by blast
qed


subsection \<open>Logging in\<close>

lemma pg_CreateSession_running:
  assumes "pg_faults s = []" "pg_CreateSession env x s = (Inr (), s')"
  obtains U t i u where "tenant_uuid (pg_db s) (ss_TenantID x) = Some U" "uuid_in env U = Some t" "uuid_in env (ss_ID x) = Some i"
    "i \<notin> set (session_ids (pg_db s))" "s' = set_sessions (\<lambda>ss. ss @ [(session_row i t u (ss_RevokedAt x) x, [])]) s"
  using assms
  by (auto simp: pg_CreateSession_def pg_insert_session_def op_bind_Inr_iff resolve_running Let_def session_ids_def
      split: option.splits if_splits)

lemma created_session_active:
  assumes "pg_faults s = []" "pg_CreateSession env x s = (Inr (), s')" "ss_RevokedAt x = None" "pg_ts now < pg_ts (ss_ExpiresAt x)"
  shows "pg_IsActive env (ss_TenantID x) (ss_ID x) now s' = (Inr True, s')" "pg_faults s' = []"
proof -
  from assms(1,2) obtain U t i u where x: "tenant_uuid (pg_db s) (ss_TenantID x) = Some U" "uuid_in env U = Some t"
    "uuid_in env (ss_ID x) = Some i" "i \<notin> set (session_ids (pg_db s))"
    and s': "s' = set_sessions (\<lambda>ss. ss @ [(session_row i t u (ss_RevokedAt x) x, [])]) s"
    by (rule pg_CreateSession_running)
  show f: "pg_faults s' = []" using assms(1) by (simp add: s' set_sessions_def)
  have "filter (\<lambda>y. ss_TenantID y = t \<and> ss_ID y = i) (map fst (db_sessions (pg_db s))) = []"
    using x(4) by (auto simp: session_ids_def filter_empty_conv case_prod_beta)
  then have "filter (\<lambda>y. ss_TenantID y = t \<and> ss_ID y = i) (map fst (db_sessions (pg_db s'))) = [session_row i t u None x]"
    by (simp add: s' set_sessions_def session_row_def assms(3))
  moreover have "session_live now (session_row i t u None x)" using assms(4) by (simp add: session_live_def session_row_def)
  moreover have "tenant_uuid (pg_db s') (ss_TenantID x) = Some U" using x(1) by (simp add: s' set_sessions_def tenant_uuid_def)
  ultimately show "pg_IsActive env (ss_TenantID x) (ss_ID x) now s' = (Inr True, s')"
    using f x(2,3) by (simp add: pg_IsActive_def op_bind_def op_try_def resolve_running pg_uuid_def pg_query_row_eq)
qed

lemma op_keeps_ignore: "op_keeps P m \<Longrightarrow> P s \<Longrightarrow> P (op_ignore m s)"
  by (simp add: op_keeps_def op_ignore_def)

lemma faults_stay_update: "op_keeps (\<lambda>s. pg_faults s = []) (pg_update_user env U i f)"
  by (rule op_keepsI) (simp add: pg_update_user_def op_bind_def pg_uuid_def Let_def set_users_def split: option.split)

lemma faults_stay_resolve: "op_keeps (\<lambda>s. pg_faults s = []) (resolveTenantUUID T)"
  by (rule op_keepsI) (simp add: resolve_running)

lemma faults_stay_params: "op_keeps (\<lambda>s. pg_faults s = []) (pg_params ns)"
  by (rule op_keepsI) (simp add: pg_params_def)

lemma reset_faults: "op_keeps (\<lambda>s. pg_faults s = []) (pg_ResetFailedAttempts env T i)"
  unfolding pg_ResetFailedAttempts_def by (intro op_invs faults_stay faults_stay_update faults_stay_resolve faults_stay_params)

text \<open>A login that is answered 200 created the session and signed its claims.\<close>

lemma Login_200:
  assumes "pg_faults (fst st) = []" "ah_Auth h = pg_auth env vault" "T = trim_space (lq_TenantID req)" "T \<noteq> []"
    and "fst (pg_GetByEmail env T (to_lower (trim_space (lq_Email req))) (fst st)) = Inr user"
    and "AuthHandler_Login ae h (Some req) rq st = ((resp, cookies), st')" "fst resp = 200"
    and x: "x = new_session (ae_uuid ae) (us_TenantID user) (us_ID user) (AuthHandler_now h rq)"
  shows "\<exists>s1. pg_faults s1 = [] \<and> pg_CreateSession env x s1 = (Inr (), fst st') \<and>
    map ck_Value cookies = [SignSessionToken (ae_token ae) (ah_TokenKey h) (login_claims user x)]"
proof -
  let ?email = "to_lower (trim_space (lq_Email req))" and ?now = "AuthHandler_now h rq"
  let ?auth = "Authenticate (ae_bcrypt ae) (pg_auth env vault) T ?email (lq_Password req) ?now"
  have "snd (pg_GetByEmail env T ?email (fst st)) = fst st"
    using assms(1) by (auto simp: pg_GetByEmail_def op_bind_def op_try_def resolve_running pg_uuid_def pg_query_row_eq
        split: option.split list.split sum.split)
  with assms(5) have g: "pg_GetByEmail env T ?email (fst st) = (Inr user, fst st)" by (simp add: prod_eq_iff)
  obtain r s1 where a: "?auth (fst st) = (r, s1)" by fastforce
  have login: "AuthHandler_Login ae h (Some req) rq st = login_user ae h T ?email (lq_Password req) rq st"
    using assms(3,4,6,7) by (auto simp: AuthHandler_Login_def answer_def Let_def split: if_splits)
  obtain u where u: "r = Inr u"
  proof (cases r)
    case (Inl e)
    then have "fst (fst (fst (AuthHandler_Login ae h (Some req) rq st))) \<noteq> 200"
      unfolding login login_user_def by (simp add: on_store_def a answer_def assms(2))
    with assms(6,7) show thesis by simp
  qed
  with a g have s1: "u = user" "s1 = op_ignore (pg_ResetFailedAttempts env T (us_ID user)) (fst st)"
    by (auto simp: Authenticate_def pg_auth_def NewAuthService_def pg_UserStore_def op_bind_def op_err_def split: if_splits option.splits)
  obtain r' s2 where c: "pg_CreateSession env x s1 = (r', s2)" by fastforce
  have create: "AuthService_CreateSession (pg_auth env vault) (ae_uuid ae) user ?now s1 = (case r' of Inl e \<Rightarrow> (Inl e, s2) | Inr _ \<Rightarrow> (Inr x, s2))"
    using c by (simp add: AuthService_CreateSession_def pg_auth_def NewAuthService_def op_bind_def x Let_def split: sum.split)
  have "r' = Inr () \<and> fst st' = s2 \<and> map ck_Value cookies = [SignSessionToken (ae_token ae) (ah_TokenKey h) (login_claims user x)]"
  proof (cases r')
    case (Inl e)
    then have "fst (fst (fst (AuthHandler_Login ae h (Some req) rq st))) \<noteq> 200"
      unfolding login login_user_def by (simp add: on_store_def a u s1(1) create answer_def assms(2))
    with assms(6,7) show ?thesis by simp
  next
    case (Inr v)
    then have "fst (snd (AuthHandler_Login ae h (Some req) rq st)) = s2"
      "map ck_Value (snd (fst (AuthHandler_Login ae h (Some req) rq st))) = [SignSessionToken (ae_token ae) (ah_TokenKey h) (login_claims user x)]"
      unfolding login login_user_def by (simp_all add: on_store_def a u s1(1) create auth_cookie_def Let_def assms(2))
    with Inr assms(6) show ?thesis by simp
  qed
  moreover have "pg_faults s1 = []" unfolding s1(2) by (rule op_keeps_ignore [OF reset_faults assms(1)])
  ultimately show ?thesis using c by (intro exI [of _ s1]) auto
qed



subsection \<open>Registering\<close>

lemma normalizeRole_nonempty: "normalizeRole r \<noteq> []"
  by (auto simp: normalizeRole_def Let_def to_lower_def)

lemma Register_201:
  assumes "ah_Auth h = pg_auth env vault" "T = trim_space (rr_TenantID req)" "T \<noteq> []"
    and "AuthHandler_Register ae h (Some req) rq st = (resp, st')" "fst resp = 201"
  shows "AuthService_Register (ae_uni ae) (ae_bcrypt ae) (ae_salt ae) (pg_auth env vault)
    (User_zero\<lparr>us_ID := newUUIDString (rq_random rq 0), us_TenantID := T, us_Email := to_lower (trim_space (rr_Email req)),
       us_DisplayName := trim_space (rr_DisplayName req), us_Role := normalizeRole (rr_Role req)\<rparr>) (rr_Password req) (rq_clock rq 0) (fst st)
     = (Inr (), fst st')"
proof -
  have rt: "register_tenant h rq req st = (Inr (T, rr_Role req, 0), st)"
    using assms(2,3) by (simp add: register_tenant_def Let_def)
  show ?thesis using assms(1,3-5)
    by (auto simp: AuthHandler_Register_def rt Let_def jsonError_def on_store_def split: if_splits prod.splits sum.splits)
qed

text \<open>
  The public registration lets the client choose its role: on a running database, a registration into
  an existing tenant that is answered 201 can log in at once, with the role of the request, administrator
  included.
\<close>

theorem register_chooses_role:
  assumes "pg_faults (fst st) = []" "postgres_types env" "ah_Auth h = pg_auth env vault"
    and "T = trim_space (rr_TenantID req)" "T \<noteq> []" "tenant_uuid (pg_db (fst st)) T = Some t"
    and "can_register env (pg_db (fst st)) t (normalizeRole (rr_Role req)) (to_lower (trim_space (rr_Email req)))"
    and "\<forall>salt password hash. bc_Generate (ae_bcrypt ae) salt password = Inr hash \<longrightarrow> bc_Compare (ae_bcrypt ae) hash password"
    and "AuthHandler_Register ae h (Some req) rq st = (resp, st')" "fst resp = 201"
  shows "\<exists>u. fst (Authenticate (ae_bcrypt ae) (pg_auth env vault) T (to_lower (trim_space (rr_Email req))) (rr_Password req) now (fst st')) = Inr u \<and>
    us_Role u = normalizeRole (rr_Role req) \<and> us_TenantID u = t"
proof -
  note reg = Register_201 [OF assms(3-5,9,10)]
  have "\<exists>u. fst (Authenticate (ae_bcrypt ae) (pg_auth env vault) T (to_lower (trim_space (rr_Email req))) (rr_Password req) now (fst st')) = Inr u \<and>
    us_Role u = us_Role (User_zero\<lparr>us_ID := newUUIDString (rq_random rq 0), us_TenantID := T, us_Email := to_lower (trim_space (rr_Email req)),
       us_DisplayName := trim_space (rr_DisplayName req), us_Role := normalizeRole (rr_Role req)\<rparr>) \<and> us_TenantID u = t \<and>
    us_Email u = us_Email (User_zero\<lparr>us_ID := newUUIDString (rq_random rq 0), us_TenantID := T, us_Email := to_lower (trim_space (rr_Email req)),
       us_DisplayName := trim_space (rr_DisplayName req), us_Role := normalizeRole (rr_Role req)\<rparr>)"
    by (rule registered_login(1) [OF assms(1,2) _ _ _ assms(8) reg]) (use assms(6,7) normalizeRole_nonempty in simp_all)
  then show ?thesis by auto
qed

subsection \<open>A concrete login\<close>

text \<open>A codec that writes the fields between NUL characters, the expiry as hours and seconds.\<close>

definition hours_lib :: token_lib where
  "hours_lib = demo_lib\<lparr>
     json_marshal := (\<lambda>c. cl_UserID c @ [CHR 0x00] @ cl_TenantID c @ [CHR 0x00] @ cl_Email c @ [CHR 0x00] @ cl_Role c @
        [CHR 0x00] @ cl_SessionID c @ [CHR 0x00] @ replicate (nat (cl_ExpiresAt c div 3600)) CHR ''h'' @
        replicate (nat (cl_ExpiresAt c mod 3600)) CHR ''s''),
     json_unmarshal := (\<lambda>s. case split_on (CHR 0x00) s of
        [u, t, e, r, i, x] \<Rightarrow> Some \<lparr>cl_UserID = u, cl_TenantID = t, cl_Email = e, cl_Role = r, cl_SessionID = i,
          cl_ExpiresAt = sum_list (map (\<lambda>c. if c = CHR ''h'' then 3600 else 1) x)\<rparr> | _ \<Rightarrow> None)\<rparr>"

definition any_bcrypt :: bcrypt where
  "any_bcrypt = \<lparr>bc_Generate = (\<lambda>_ _. Inr ''hash''), bc_Compare = (\<lambda>_ _. True)\<rparr>"

definition demo_ae :: auth_env where
  "demo_ae = \<lparr>ae_uni = no_tables, ae_bcrypt = any_bcrypt, ae_salt = ''salt'', ae_token = hours_lib, ae_uuid = demo_id CHR ''e''\<rparr>"

definition demo_handler :: "pg_state AuthHandler" where
  "demo_handler = \<lparr>ah_Auth = pg_auth demo_env None, ah_Setup = Some (pg_setup demo_env None), ah_TokenKey = ''k'',
     ah_TokenTTL = 24 * time_Hour, ah_TokenClock = None\<rparr>"

definition demo_login_request :: loginRequest where
  "demo_login_request = \<lparr>lq_TenantID = ''academy'', lq_Email = ''ADA@academy'', lq_Password = ''pw''\<rparr>"

definition demo_login :: "(auth_reply response \<times> Cookie list) \<times> pg_state audited" where
  "demo_login = AuthHandler_Login demo_ae demo_handler (Some demo_login_request) (demo_request ''/v1/auth/login'' []) (demo_state, [])"

definition demo_account :: User where
  "demo_account = (hd (db_users demo_db))\<lparr>us_Role := ''learner''\<rparr>"

definition demo_started :: "(go_error + Session) \<times> pg_state" where
  "demo_started = AuthService_CreateSession (pg_auth demo_env None) (demo_id CHR ''e'') demo_account 0
     (snd (Authenticate any_bcrypt (pg_auth demo_env None) ''academy'' ''ada@academy'' ''pw'' 0 demo_state))"

definition demo_new_session :: Session where
  "demo_new_session = new_session (demo_id CHR ''e'') (us_TenantID demo_account) (us_ID demo_account) 0"

definition demo_token :: string where
  "demo_token = SignSessionToken hours_lib ''k'' (login_claims demo_account demo_new_session)"

lemma demo_login_steps:
  "fst (pg_GetByEmail demo_env ''academy'' ''ada@academy'' demo_state) = Inr demo_account"
  "fst (Authenticate any_bcrypt (pg_auth demo_env None) ''academy'' ''ada@academy'' ''pw'' 0 demo_state) = Inr demo_account"
  "fst demo_started = Inr demo_new_session"
proof -
  show "fst (pg_GetByEmail demo_env ''academy'' ''ada@academy'' demo_state) = Inr demo_account" by code_simp
  show "fst (Authenticate any_bcrypt (pg_auth demo_env None) ''academy'' ''ada@academy'' ''pw'' 0 demo_state) = Inr demo_account" by code_simp
  show "fst demo_started = Inr demo_new_session" by code_simp
qed

lemma demo_json:
  "json_unmarshal hours_lib (json_marshal hours_lib (login_claims demo_account demo_new_session)) = Some (login_claims demo_account demo_new_session)"
  by code_simp

lemma demo_login_200: "fst (fst (fst demo_login)) = 200" "map ck_Value (snd (fst demo_login)) = [demo_token]"
    "snd demo_login = (snd demo_started, [])"
proof -
  obtain s1 where a: "Authenticate any_bcrypt (pg_auth demo_env None) ''academy'' ''ada@academy'' ''pw'' 0 demo_state = (Inr demo_account, s1)"
    using demo_login_steps(2) by (metis prod.collapse)
  obtain s2 where c: "AuthService_CreateSession (pg_auth demo_env None) (demo_id CHR ''e'') demo_account 0 s1 = (Inr demo_new_session, s2)"
    using demo_login_steps(3) a unfolding demo_started_def by (metis prod.collapse snd_conv)
  have req: "trim_space ''academy'' = ''academy''" "to_lower (trim_space ''ADA@academy'') = ''ada@academy''" by code_simp+
  have core: "demo_login = login_user demo_ae demo_handler ''academy'' ''ada@academy'' ''pw'' (demo_request ''/v1/auth/login'' []) (demo_state, [])"
    unfolding demo_login_def AuthHandler_Login_def option.case demo_login_request_def loginRequest.simps req Let_def by simp
  have now: "AuthHandler_now demo_handler (demo_request ''/v1/auth/login'' []) = 0"
    by (simp add: AuthHandler_now_def demo_handler_def demo_request_def)
  have env: "ae_bcrypt demo_ae = any_bcrypt" "ae_uuid demo_ae = demo_id CHR ''e''" "ae_token demo_ae = hours_lib"
    "ah_Auth demo_handler = pg_auth demo_env None" "ah_TokenKey demo_handler = ''k''"
    by (simp_all add: demo_ae_def demo_handler_def)
  have "demo_login = (((200, OkBody (ReplyLogin (us_ID demo_account) (us_TenantID demo_account) (MaskEmail (us_Email demo_account))
      (us_DisplayName demo_account) (normalizeRole (us_Role demo_account)) demo_token (format_rfc3339 (ss_ExpiresAt demo_new_session)) (ss_ID demo_new_session))),
      [auth_cookie (demo_request ''/v1/auth/login'' []) demo_token (ss_ExpiresAt demo_new_session)]), (s2, []))"
    unfolding core login_user_def now env on_store_def fst_conv snd_conv a c prod.case sum.case Let_def demo_token_def ..
  note login = this
  have "snd demo_started = s2" unfolding demo_started_def a snd_conv c ..
  then show "fst (fst (fst demo_login)) = 200" "map ck_Value (snd (fst demo_login)) = [demo_token]"
    "snd demo_login = (snd demo_started, [])" unfolding login auth_cookie_def by simp_all
qed

lemma trim_space_id: "\<forall>c\<in>set s. \<not> is_space c \<Longrightarrow> trim_space s = s"
proof -
  assume "\<forall>c\<in>set s. \<not> is_space c"
  then have "dropWhile is_space t = t" if "set t = set s" for t using that by (cases t) auto
  then show ?thesis by (simp add: trim_space_def)
qed

lemma token_no_space: "c \<in> set (SignSessionToken lib key claims) \<Longrightarrow> \<not> is_space c"
proof -
  assume "c \<in> set (SignSessionToken lib key claims)"
  then have "c \<in> set b64_alphabet \<union> {CHR ''.''}"
    using base64_chars by (auto simp: SignSessionToken_def Let_def)
  moreover have "\<forall>c\<in>set b64_alphabet \<union> {CHR ''.''}. \<not> is_space c"
    by (simp add: b64_alphabet_def is_space_def)
  ultimately show ?thesis by blast
qed

lemma presented_bearer:
  "presented_token (demo_request path (''Bearer '' @ SignSessionToken lib key claims)) = SignSessionToken lib key claims"
proof -
  have "SignSessionToken lib key claims \<noteq> []" by (simp add: SignSessionToken_def Let_def)
  moreover have "trim_space (SignSessionToken lib key claims) = SignSessionToken lib key claims"
    using token_no_space by (intro trim_space_id) blast
  moreover have "equal_fold ''Bearer'' ''Bearer''" by (simp add: equal_fold_def)
  ultimately show ?thesis by (simp add: presented_token_def bearerToken_def demo_request_def)
qed



theorem logout_ends_session_witness:
  "\<exists>st'. snd (chain hours_lib ''k'' (Some (pg_SessionStore demo_env)) (\<lambda>_. False) (AuthHandler_Logout demo_handler)
      (demo_request ''/v1/auth/logout'' (''Bearer '' @ demo_token)) (snd demo_login)) = st' \<and>
    fst (fst (fst (chain hours_lib ''k'' (Some (pg_SessionStore demo_env)) (\<lambda>_. False) (\<lambda>_. answer 200 ''ok'')
      (demo_request ''/v1/bookings/rooms'' (''Bearer '' @ demo_token)) (fst st', [])))) = 401"
proof -
  let ?rq = "demo_request ''/v1/auth/logout'' (''Bearer '' @ demo_token)"
  let ?rq2 = "demo_request ''/v1/bookings/rooms'' (''Bearer '' @ demo_token)"
  let ?c = "login_claims demo_account demo_new_session"
  obtain resp cookies st' where l: "chain hours_lib ''k'' (Some (pg_SessionStore demo_env)) (\<lambda>_. False) (AuthHandler_Logout demo_handler) ?rq (snd demo_login) = ((resp, cookies), st')"
    by (cases "chain hours_lib ''k'' (Some (pg_SessionStore demo_env)) (\<lambda>_. False) (AuthHandler_Logout demo_handler) ?rq (snd demo_login)") auto
  have f: "pg_faults (snd demo_started) = []" "distinct (session_ids (pg_db (snd demo_started)))"
    "fst (pg_IsActive demo_env (cl_TenantID ?c) (cl_SessionID ?c) 0 (snd demo_started)) = Inr True" by code_simp+
  have c: "cl_UserID ?c \<noteq> []" "cl_TenantID ?c \<noteq> []" "cl_SessionID ?c \<noteq> []" "0 < cl_ExpiresAt ?c" by code_simp+
  have v: "VerifySessionToken hours_lib ''k'' (presented_token ?rq) (rq_clock ?rq 0) = Inr ?c"
    using c unfolding demo_token_def presented_bearer sign_verify [OF demo_json] by (simp add: demo_request_def time_Unix_def)
  have "fst resp = 200 \<and> fst (fst (fst (chain hours_lib ''k'' (Some (pg_SessionStore demo_env)) (\<lambda>_. False) (\<lambda>_. answer 200 ''ok'') ?rq2 (fst st', [])))) = 401"
  proof (rule logout_ends_session [OF _ _ _ v c(3) _ _ l session_steps.start])
    show "presented_token ?rq2 = presented_token ?rq" unfolding demo_token_def presented_bearer ..
    show "as_Sessions (ah_Auth demo_handler) = Some (pg_SessionStore demo_env)"
      by (simp add: demo_handler_def pg_auth_def NewAuthService_def)
    show "fst (pg_IsActive demo_env (cl_TenantID ?c) (cl_SessionID ?c) (rq_clock ?rq 1) (fst (snd demo_login))) = Inr True"
      using f(3) by (simp add: demo_login_200(3) demo_request_def)
  qed (use f(1,2) in \<open>simp_all add: demo_login_200(3) demo_request_def guarded_path_def share_prefix_def\<close>)
  with l show ?thesis by auto
qed

definition demo_register_request :: registerRequest where
  "demo_register_request = \<lparr>rr_TenantID = ''academy'', rr_TenantName = [], rr_TenantSlug = [], rr_Email = ''Eve@x'', rr_DisplayName = ''Eve'',
     rr_Password = ''Admin12345678!'', rr_Role = ''Administrator''\<rparr>"

definition role_state :: pg_state where
  "role_state = demo_state\<lparr>pg_db := demo_db\<lparr>db_roles := [\<lparr>ro_ID = demo_id CHR ''9'', ro_TenantID = demo_id CHR ''a'', ro_Name = ''admin'',
     ro_CreatedAt = 0, ro_UpdatedAt = 0\<rparr>]\<rparr>\<rparr>"

definition demo_register :: "auth_reply response \<times> pg_state audited" where
  "demo_register = AuthHandler_Register demo_ae demo_handler (Some demo_register_request) (demo_request ''/v1/auth/register'' []) (role_state, [])"

theorem register_chooses_role_witness:
  "\<exists>u. fst (Authenticate any_bcrypt (pg_auth demo_env None) ''academy'' ''eve@x'' ''Admin12345678!'' 1 (fst (snd demo_register))) = Inr u \<and> us_Role u = ''admin''"
proof -
  have req: "''academy'' = trim_space (rr_TenantID demo_register_request)" "to_lower (trim_space (rr_Email demo_register_request)) = ''eve@x''"
    "normalizeRole (rr_Role demo_register_request) = ''admin''" by code_simp+
  have "tenant_uuid (pg_db role_state) ''academy'' = Some (demo_id CHR ''a'')" by code_simp
  moreover have "can_register demo_env (pg_db role_state) (demo_id CHR ''a'') ''admin'' ''eve@x''" by code_simp
  moreover have "fst (fst demo_register) = 201" by code_simp
  ultimately have "\<exists>u. fst (Authenticate (ae_bcrypt demo_ae) (pg_auth demo_env None) ''academy'' (to_lower (trim_space (rr_Email demo_register_request)))
      (rr_Password demo_register_request) 1 (fst (snd demo_register))) = Inr u \<and> us_Role u = normalizeRole (rr_Role demo_register_request) \<and> us_TenantID u = demo_id CHR ''a''"
    by (intro register_chooses_role [where st = "(role_state, [])" and h = demo_handler and T = "''academy''" and rq = "demo_request ''/v1/auth/register'' []" and resp = "fst demo_register"] req(1))
      (simp_all add: role_state_def demo_state_def demo.postgres_types_axioms demo_handler_def demo_ae_def any_bcrypt_def demo_register_def req(2,3)
        del: req(1))
  then show ?thesis unfolding req by (auto simp: demo_ae_def demo_register_request_def)
qed

end
