(* ===== verification/Router.thy ===== *)
theory Router
  imports Auth_Handlers
begin

text \<open>
  The route table of \<^verbatim>\<open>internal/api/router.go\<close> and the dispatcher of the bundled \<^verbatim>\<open>echo\<close>
  (\<^verbatim>\<open>third_party/echo/echo.go\<close>): the first route with the method whose pattern matches the path serves the
  request, behind the middleware chain. A route names its handler; \<open>impl\<close> says what the names stand for.
\<close>

record route =
  rt_method :: string
  rt_pattern :: string
  rt_roles :: "string list option"
  rt_handler :: string

abbreviation route :: "string \<Rightarrow> string \<Rightarrow> string list option \<Rightarrow> string \<Rightarrow> route" where
  "route m p r h \<equiv> \<lparr>rt_method = m, rt_pattern = p, rt_roles = r, rt_handler = h\<rparr>"

subsection \<open>Matching\<close>

definition trim_slash :: "string \<Rightarrow> string" where
  "trim_slash s = rev (dropWhile (\<lambda>c. c = CHR ''/'') (rev (dropWhile (\<lambda>c. c = CHR ''/'') s)))"

fun match_parts :: "string list \<Rightarrow> string list \<Rightarrow> (string \<times> string) list option" where
  "match_parts [] [] = Some []"
| "match_parts (p # ps) (q # qs) =
     (if take 1 p = '':'' then map_option ((#) (drop 1 p, q)) (match_parts ps qs)
      else if p \<noteq> q then None
      else match_parts ps qs)"
| "match_parts _ _ = None"

definition match_path :: "string \<Rightarrow> string \<Rightarrow> (string \<times> string) list option" where
  "match_path pattern path = match_parts (split_on CHR ''/'' (trim_slash pattern)) (split_on CHR ''/'' (trim_slash path))"

fun dispatch :: "route list \<Rightarrow> string \<Rightarrow> string \<Rightarrow> (route \<times> (string \<times> string) list) option" where
  "dispatch [] meth path = None"
| "dispatch (rt # rts) meth path =
     (if meth \<noteq> rt_method rt then dispatch rts meth path
      else case match_path (rt_pattern rt) path of
             Some params \<Rightarrow> Some (rt, params)
           | None \<Rightarrow> dispatch rts meth path)"

text \<open>\<^verbatim>\<open>c.Param\<close>: the last binding of the name, the empty text without one.\<close>

definition param_of :: "(string \<times> string) list \<Rightarrow> string \<Rightarrow> string" where
  "param_of params name = (case map_of (rev params) name of None \<Rightarrow> '''' | Some v \<Rightarrow> v)"

subsection \<open>The server\<close>

definition publicPaths :: "string \<Rightarrow> bool" where
  "publicPaths path \<longleftrightarrow> path \<in> {''/healthz'', ''/readyz'', ''/v1/auth/register'', ''/v1/auth/login'', ''/v1/setup/status'', ''/v1/setup/tenant''}"

definition server_routes :: "route list" where
  "server_routes = [
     route ''GET'' ''/healthz'' None ''healthz'',
     route ''GET'' ''/readyz'' None ''readyz'',
     route ''POST'' ''/v1/auth/register'' None ''authHandler.Register'',
     route ''POST'' ''/v1/auth/login'' None ''authHandler.Login'',
     route ''POST'' ''/v1/auth/logout'' None ''authHandler.Logout'',
     route ''GET'' ''/v1/auth/session'' None ''authHandler.Session'',
     route ''GET'' ''/v1/setup/status'' None ''setupHandler.Status'',
     route ''POST'' ''/v1/setup/tenant'' None ''setupHandler.BootstrapTenant'',
     route ''GET'' ''/v1/workspaces/:role/dashboard'' None ''dashboardHandler.Get'',
     route ''POST'' ''/v1/bookings/hold'' (Some [''coordinator'']) ''bookingHandler.Hold'',
     route ''GET'' ''/v1/bookings/rooms'' (Some [''admin'', ''coordinator'', ''learner'']) ''bookingHandler.ListRooms'',
     route ''GET'' ''/v1/bookings/instructors'' (Some [''admin'', ''coordinator'', ''learner'']) ''bookingHandler.ListInstructors'',
     route ''POST'' ''/v1/bookings/confirm'' (Some [''coordinator'']) ''bookingHandler.Confirm'',
     route ''POST'' ''/v1/bookings/cancel'' (Some [''coordinator'']) ''bookingHandler.Cancel'',
     route ''POST'' ''/v1/bookings/reschedule'' (Some [''coordinator'']) ''bookingHandler.Reschedule'',
     route ''PUT'' ''/v1/bookings/reschedule'' (Some [''coordinator'']) ''bookingHandler.Reschedule'',
     route ''POST'' ''/v1/bookings/:id/check-in'' (Some [''instructor'', ''coordinator'']) ''bookingHandler.CheckIn'',
     route ''POST'' ''/v1/schedule/periods'' (Some [''admin'', ''coordinator'']) ''scheduleHandler.CreateClassPeriod'',
     route ''GET'' ''/v1/schedule/periods'' (Some [''admin'', ''coordinator'']) ''scheduleHandler.ListClassPeriods'',
     route ''POST'' ''/v1/schedule/class-periods'' (Some [''admin'', ''coordinator'']) ''scheduleHandler.CreateClassPeriod'',
     route ''GET'' ''/v1/schedule/class-periods'' (Some [''admin'', ''coordinator'']) ''scheduleHandler.ListClassPeriods'',
     route ''PUT'' ''/v1/schedule/class-periods/:id'' (Some [''admin'', ''coordinator'']) ''scheduleHandler.UpdateClassPeriod'',
     route ''DELETE'' ''/v1/schedule/class-periods/:id'' (Some [''admin'', ''coordinator'']) ''scheduleHandler.DeleteClassPeriod'',
     route ''POST'' ''/v1/schedule/blackout-dates'' (Some [''admin'', ''coordinator'']) ''scheduleHandler.CreateBlackoutDate'',
     route ''GET'' ''/v1/schedule/blackout-dates'' (Some [''admin'', ''coordinator'']) ''scheduleHandler.ListBlackoutDates'',
     route ''DELETE'' ''/v1/schedule/blackout-dates/:id'' (Some [''admin'', ''coordinator'']) ''scheduleHandler.DeleteBlackoutDate'',
     route ''POST'' ''/v1/schedule/conflicts'' (Some [''admin'', ''coordinator'']) ''scheduleHandler.CheckConflicts'',
     route ''POST'' ''/v1/uploads/start'' (Some [''coordinator'', ''instructor'']) ''contentHandler.StartUpload'',
     route ''POST'' ''/v1/uploads/chunk'' (Some [''coordinator'', ''instructor'']) ''contentHandler.AppendChunk'',
     route ''POST'' ''/v1/uploads/finalize'' (Some [''coordinator'', ''instructor'']) ''contentHandler.FinalizeUpload'',
     route ''GET'' ''/v1/content/search'' (Some [''coordinator'', ''instructor'', ''learner'']) ''contentHandler.Search'',
     route ''GET'' ''/v1/content/:id/versions'' (Some [''coordinator'', ''instructor'', ''learner'']) ''contentHandler.Versions'',
     route ''POST'' ''/v1/content/:id/share'' (Some [''coordinator'', ''instructor'']) ''contentHandler.GenerateShare'',
     route ''GET'' ''/v1/content/share/:token'' None ''contentHandler.DownloadShared'',
     route ''GET'' ''/v1/learner/catalog'' (Some [''learner'']) ''learnerHandler.Catalog'',
     route ''POST'' ''/v1/learner/reserve'' (Some [''learner'']) ''learnerHandler.Reserve'',
     route ''GET'' ''/v1/learner/my-reservations'' (Some [''learner'']) ''learnerHandler.MyReservations'',
     route ''GET'' ''/v1/learner/download/:file_id'' (Some [''learner'']) ''learnerHandler.DownloadApproved'',
     route ''GET'' ''/v1/admin/tenants'' (Some [''admin'']) ''adminHandler.ListTenants'',
     route ''PUT'' ''/v1/admin/tenants/:id/policies'' (Some [''admin'']) ''adminHandler.UpdateTenantPolicies'',
     route ''GET'' ''/v1/admin/users'' (Some [''admin'']) ''adminHandler.ListUsers'',
     route ''PUT'' ''/v1/admin/users/:id/role'' (Some [''admin'']) ''adminHandler.UpdateUserRole'',
     route ''GET'' ''/v1/admin/permissions'' (Some [''admin'']) ''adminHandler.ListPermissions'',
     route ''GET'' ''/v1/admin/rooms'' (Some [''admin'']) ''adminHandler.ListRooms'',
     route ''POST'' ''/v1/admin/rooms'' (Some [''admin'']) ''adminHandler.CreateRoom'',
     route ''PUT'' ''/v1/admin/rooms/:id'' (Some [''admin'']) ''adminHandler.UpdateRoom'',
     route ''POST'' ''/v1/ingestion/run'' (Some [''admin'', ''coordinator'']) ''ingestionHandler.Run'',
     route ''GET'' ''/v1/analytics/cohorts'' (Some [''admin'', ''coordinator'']) ''analyticsHandler.Cohorts'',
     route ''GET'' ''/v1/analytics/anomalies'' (Some [''admin'', ''coordinator'']) ''analyticsHandler.Anomalies'',
     route ''GET'' ''/v1/reports/bookings.csv'' (Some [''admin'']) ''reportingHandler.BookingsCSV'',
     route ''GET'' ''/v1/reports/compliance.pdf'' (Some [''admin'']) ''reportingHandler.CompliancePDF'',
     route ''GET'' ''/v1/reports/download/:filename'' (Some [''admin'']) ''reportingHandler.Download'',
     route ''POST'' ''/v1/milestones/:id/tasks'' (Some [''coordinator'']) ''taskHandler.Create'',
     route ''GET'' ''/v1/milestones/:id/tasks'' (Some [''coordinator'', ''instructor'']) ''taskHandler.ListByMilestone'',
     route ''PUT'' ''/v1/tasks/:id'' (Some [''coordinator'']) ''taskHandler.Update'',
     route ''DELETE'' ''/v1/tasks/:id'' (Some [''coordinator'']) ''taskHandler.Delete'',
     route ''POST'' ''/v1/tasks/:id/dependencies'' (Some [''coordinator'']) ''taskHandler.AddDependencies'']"

text \<open>A request that the CORS handler answers itself; the headers it adds to other answers are left out.\<close>

definition handleCORS :: "string list \<Rightarrow> string \<Rightarrow> http_request \<Rightarrow> bool" where
  "handleCORS origins meth rq =
     (if origins = [] then False
      else let origin = rq_header rq ''Origin''
      in if origin = '''' then meth = ''OPTIONS''
         else if origin \<notin> set (filter (\<lambda>p. p \<noteq> '''') (map trim_space origins)) then False
         else meth = ''OPTIONS'')"

definition serve :: "string list \<Rightarrow> token_lib \<Rightarrow> string \<Rightarrow> 's SessionStore \<Rightarrow> (string \<Rightarrow> ('b, 's) endpoint) \<Rightarrow> string \<Rightarrow> ('b, 's) endpoint" where
  "serve origins lib signingKey sessions impl meth rq st =
     (if handleCORS origins meth rq then answer 204 '''' st
      else case dispatch server_routes meth (rq_path rq) of
        None \<Rightarrow> answer 404 ''404 page not found'' st
      | Some (rt, params) \<Rightarrow>
          chain lib signingKey (Some sessions) publicPaths
            (case rt_roles rt of None \<Rightarrow> impl (rt_handler rt) | Some roles \<Rightarrow> RequireRole roles (impl (rt_handler rt)))
            (rq\<lparr>rq_param := param_of params\<rparr>) st)"


subsection \<open>What is served without the guard\<close>

lemma dispatch_Some:
  "dispatch rts meth path = Some (rt, params) \<Longrightarrow> rt \<in> set rts \<and> rt_method rt = meth \<and> match_path (rt_pattern rt) path = Some params"
  by (induction rts) (auto split: if_splits option.splits)

definition open_handlers :: "(string \<times> string list option) set" where
  "open_handlers = {(''healthz'', None), (''readyz'', None), (''authHandler.Register'', None), (''authHandler.Login'', None),
     (''setupHandler.Status'', None), (''setupHandler.BootstrapTenant'', None), (''contentHandler.DownloadShared'', None),
     (''contentHandler.Versions'', Some [''coordinator'', ''instructor'', ''learner'']),
     (''contentHandler.GenerateShare'', Some [''coordinator'', ''instructor''])}"

lemma trim_slash_share:
  "\<exists>ps. split_on CHR ''/'' (trim_slash (share_prefix @ rest)) = [''v1'', ''content'', ''share''] @ ps"
proof -
  define t where "t = dropWhile (\<lambda>c. c = CHR ''/'') (rev rest)"
  have *: "trim_slash (share_prefix @ rest) = (if t = [] then ''v1/content/share'' else ''v1/content/share/'' @ rev t)"
    by (auto simp: trim_slash_def share_prefix_def t_def dropWhile_append dropWhile_eq_Nil_conv)
  show ?thesis unfolding * by simp
qed

definition prefix_fits :: "string list \<Rightarrow> string list \<Rightarrow> bool" where
  "prefix_fits pat qs \<longleftrightarrow> list_all2 (\<lambda>p q. take 1 p = '':'' \<or> p = q) (take (length qs) pat) qs"

lemma match_parts_prefix: "match_parts pat (qs @ ps) = Some x \<Longrightarrow> prefix_fits pat qs"
proof (induction qs arbitrary: pat x)
  case Nil show ?case by (simp add: prefix_fits_def)
next
  case (Cons q qs)
  then show ?case by (cases pat) (auto simp: prefix_fits_def split: if_splits)
qed

lemma share_patterns:
  "list_all (\<lambda>rt. \<not> prefix_fits (split_on CHR ''/'' (trim_slash (rt_pattern rt))) [''v1'', ''content'', ''share''] \<or>
     (rt_handler rt, rt_roles rt) \<in> open_handlers) server_routes"
  by code_simp

lemma public_patterns:
  "list_all (\<lambda>rt. list_all (\<lambda>p. match_path (rt_pattern rt) p = None \<or> (rt_handler rt, rt_roles rt) \<in> open_handlers)
     [''/healthz'', ''/readyz'', ''/v1/auth/register'', ''/v1/auth/login'', ''/v1/setup/status'', ''/v1/setup/tenant'']) server_routes"
  by code_simp


text \<open>
  Property C27. The sharing of content is open: a request without any token whose headers claim to be a
  coordinator reaches the handler that creates share links, under the tenant and the actor that its
  headers name.
\<close>

theorem share_route_open:
  assumes "rq_path rq = ''/v1/content/share/share''" "rq_header rq ''X-Tenant-ID'' = T" "T \<noteq> []"
    and "to_lower (trim_space (rq_header rq ''X-Actor-Role'')) \<in> {''coordinator'', ''instructor'', ''admin''}"
  shows "\<exists>rq'. serve origins lib key sessions impl ''POST'' rq st = impl ''contentHandler.GenerateShare'' rq' st \<and>
    tenant_ID rq' = Some T \<and> actorIdentity rq' = actorIdentity rq \<and> rq_param rq' ''id'' = ''share''"
proof -
  let ?rt = "route ''POST'' ''/v1/content/:id/share'' (Some [''coordinator'', ''instructor'']) ''contentHandler.GenerateShare''"
  let ?rq = "rq\<lparr>rq_param := param_of [(''id'', ''share'')]\<rparr>"
  have d: "dispatch server_routes ''POST'' ''/v1/content/share/share'' = Some (?rt, [(''id'', ''share'')])"
    by (simp add: server_routes_def match_path_def trim_slash_def)
  have cors: "\<not> handleCORS origins ''POST'' rq" by (simp add: handleCORS_def Let_def)
  have role: "role_allowed [''coordinator'', ''instructor''] (rq_header rq ''X-Actor-Role'')"
  proof -
    have "to_lower (trim_space ''coordinator'') = ''coordinator''" "to_lower (trim_space ''instructor'') = ''instructor''" by code_simp+
    with assms(4) show ?thesis by (auto simp: role_allowed_def to_lower_def)
  qed
  let ?rq' = "tick 1 (AuditContext (rq_clock rq 0) (tenant_WithID T ?rq))"
  have "serve origins lib key sessions impl ''POST'' rq st = RequireRole [''coordinator'', ''instructor''] (impl ''contentHandler.GenerateShare'') ?rq' st"
    using cors assms(1-3)
    by (simp add: serve_def d chain_def AuthGuard_def share_prefix_def TenantContext_def AuditContext_mw_def tenant_WithID_def)
  also have "\<dots> = impl ''contentHandler.GenerateShare'' ?rq' st"
    using role by (simp add: RequireRole_eq tick_def AuditContext_def tenant_WithID_def)
  finally show ?thesis using assms(3)
    by (intro exI [of _ ?rq']) (simp add: tick_def AuditContext_def tenant_WithID_def tenant_ID_def actorIdentity_def param_of_def)
qed

definition forged_request :: http_request where
  "forged_request = (demo_request ''/v1/content/share/share'' [])\<lparr>rq_header :=
     (\<lambda>k. if k = ''X-Tenant-ID'' then ''academy'' else if k = ''X-Actor-Role'' then ''Coordinator'' else '''')\<rparr>"

theorem share_route_open_witness:
  "\<exists>rq'. serve [] demo_lib ''k'' open_sessions (\<lambda>h rq. answer 200 h) ''POST'' forged_request ((), []) =
     answer 200 ''contentHandler.GenerateShare'' ((), []) \<and> tenant_ID rq' = Some ''academy''"
proof -
  have "to_lower (trim_space (rq_header forged_request ''X-Actor-Role'')) = ''coordinator''" by code_simp
  then show ?thesis
    using share_route_open [of forged_request "''academy''" "[]" demo_lib "''k''" open_sessions "\<lambda>h rq. answer 200 h" "((), [])"]
    by (auto simp: forged_request_def demo_request_def)
qed


end
