(* ===== verification/Content_Service.thy ===== *)
theory Content_Service
  imports Security_Laws Uuid_Text Pg_Base "HOL-Library.AList"
begin

text \<open>
  Content items, tags, documents, uploads and share links: the interface \<^verbatim>\<open>ContentStore\<close> and \<^verbatim>\<open>internal/service/content.go\<close> over it. SHA-256 and HMAC are parameters. The
  files that finished uploads leave are a map from paths to contents beside the store (\<open>disk\<close>); every
  system call takes the next of its scripted faults. Directories are not modelled.
\<close>

subsection \<open>The store and the service\<close>

record 's ContentStore =
  cs_UpsertContentItem :: "ContentItem \<Rightarrow> (unit, 's) op"
  cs_DeleteContentItem :: "string \<Rightarrow> string \<Rightarrow> (unit, 's) op"
  cs_ListContentItems :: "string \<Rightarrow> (ContentItem list, 's) op"
  cs_UpsertTag :: "ContentTag \<Rightarrow> (unit, 's) op"
  cs_DeleteTag :: "string \<Rightarrow> string \<Rightarrow> (unit, 's) op"
  cs_ListTags :: "string \<Rightarrow> (ContentTag list, 's) op"
  cs_SaveDocument :: "Document \<Rightarrow> (unit, 's) op"
  cs_ListDocuments :: "string \<Rightarrow> (Document list, 's) op"
  cs_AddDocumentVersion :: "DocumentVersion \<Rightarrow> (DocumentVersion, 's) op"
  cs_ListDocumentVersions :: "string \<Rightarrow> string \<Rightarrow> (DocumentVersion list, 's) op"
  cs_SaveUploadSession :: "UploadSession \<Rightarrow> (unit, 's) op"
  cs_GetUploadSession :: "string \<Rightarrow> string \<Rightarrow> (UploadSession, 's) op"
  cs_DeleteUploadSession :: "string \<Rightarrow> string \<Rightarrow> (unit, 's) op"

record 's ContentService =
  cv_Store :: "'s ContentStore"
  cv_ShareSecret :: string
  cv_StoragePath :: string

definition NewContentService :: "'s ContentStore \<Rightarrow> string \<Rightarrow> string \<Rightarrow> 's ContentService" where
  "NewContentService store shareSecret storagePath = \<lparr>cv_Store = store, cv_ShareSecret = shareSecret, cv_StoragePath = storagePath\<rparr>"

record digests =
  dg_sha256 :: "string \<Rightarrow> string"
  dg_hmac :: "string \<Rightarrow> string \<Rightarrow> string"

subsection \<open>Texts and paths\<close>

text \<open>The verb \<^verbatim>\<open>%x\<close> on bytes.\<close>

definition hex_text :: "string \<Rightarrow> string" where
  "hex_text bs = concat (map (\<lambda>c. [hex_digits ! ((of_char c :: nat) div 16), hex_digits ! ((of_char c :: nat) mod 16)]) bs)"

text \<open>\<^verbatim>\<open>strconv.ParseInt(s, 10, 64)\<close>\<close>

definition digit_value :: "char \<Rightarrow> int option" where
  "digit_value c = (let n = (of_char c :: int) in if 48 \<le> n \<and> n \<le> 57 then Some (n - 48) else None)"

fun parse_digits :: "int \<Rightarrow> string \<Rightarrow> int option" where
  "parse_digits acc [] = Some acc"
| "parse_digits acc (c # cs) = (case digit_value c of None \<Rightarrow> None | Some d \<Rightarrow> parse_digits (10 * acc + d) cs)"

definition ParseInt :: "string \<Rightarrow> int option" where
  "ParseInt s =
     (let neg = (take 1 s = ''-'');
          digits = (if take 1 s \<in> {''-'', ''+''} then drop 1 s else s)
      in if digits = '''' then None
         else case parse_digits 0 digits of None \<Rightarrow> None
         | Some n \<Rightarrow> let v = (if neg then - n else n) in if - (2 ^ 63) \<le> v \<and> v < 2 ^ 63 then Some v else None)"

text \<open>\<^verbatim>\<open>time.Unix(sec, 0)\<close>: the seconds since year 1 are a 64-bit integer.\<close>

definition time_from_Unix :: "int \<Rightarrow> go_time" where
  "time_from_Unix sec = (i64 (sec + 62135596800) - 62135596800) * time_Second"

definition path_Ext :: "string \<Rightarrow> string" where
  "path_Ext path =
     (let file = rev (takeWhile (\<lambda>c. c \<noteq> CHR ''/'') (rev path))
      in if CHR ''.'' \<in> set file then CHR ''.'' # rev (takeWhile (\<lambda>c. c \<noteq> CHR ''.'') (rev file)) else '''')"

definition path_Base :: "string \<Rightarrow> string" where
  "path_Base path =
     (if path = '''' then ''.''
      else let p = rev (dropWhile (\<lambda>c. c = CHR ''/'') (rev path));
               b = rev (takeWhile (\<lambda>c. c \<noteq> CHR ''/'') (rev p))
           in if b = '''' then ''/'' else b)"

text \<open>\<^verbatim>\<open>filepath.Clean\<close>: the stack of path elements, the last one first.\<close>

fun clean_elements :: "bool \<Rightarrow> string list \<Rightarrow> string list \<Rightarrow> string list" where
  "clean_elements rooted stack [] = stack"
| "clean_elements rooted stack (e # es) =
     (if e = '''' \<or> e = ''.'' then clean_elements rooted stack es
      else if e = ''..'' then
        (case stack of
           [] \<Rightarrow> clean_elements rooted (if rooted then [] else [e]) es
         | prev # rest \<Rightarrow> if prev = ''..'' then clean_elements rooted (e # stack) es else clean_elements rooted rest es)
      else clean_elements rooted (e # stack) es)"

definition path_Clean :: "string \<Rightarrow> string" where
  "path_Clean path =
     (let rooted = (take 1 path = ''/'');
          body = join_on CHR ''/'' (rev (clean_elements rooted [] (split_on CHR ''/'' path)))
      in if rooted then ''/'' @ body else if body = '''' then ''.'' else body)"

definition path_Join :: "string \<Rightarrow> string \<Rightarrow> string" where
  "path_Join a b =
     (let es = filter (\<lambda>e. e \<noteq> '''') [a, b] in if es = [] then '''' else path_Clean (join_on CHR ''/'' es))"

subsection \<open>The file system\<close>

record disk =
  dk_files :: "string \<Rightarrow> string option"
  dk_faults :: "go_error option list"

definition sys_call :: "(disk \<Rightarrow> disk) \<Rightarrow> (unit, disk) op" where
  "sys_call f d = (case dk_faults d of
      [] \<Rightarrow> (Inr (), f d)
    | None # fs \<Rightarrow> (Inr (), f (d\<lparr>dk_faults := fs\<rparr>))
    | Some e # fs \<Rightarrow> (Inl e, d\<lparr>dk_faults := fs\<rparr>))"

definition os_MkdirAll :: "string \<Rightarrow> (unit, disk) op" where
  "os_MkdirAll path = sys_call (\<lambda>d. d)"

definition os_Create :: "string \<Rightarrow> (unit, disk) op" where
  "os_Create path = sys_call (\<lambda>d. d\<lparr>dk_files := (dk_files d)(path \<mapsto> '''')\<rparr>)"

definition file_Write :: "string \<Rightarrow> string \<Rightarrow> (unit, disk) op" where
  "file_Write path bytes = sys_call (\<lambda>d. d\<lparr>dk_files := (dk_files d)(path \<mapsto> (case dk_files d path of None \<Rightarrow> '''' | Some c \<Rightarrow> c) @ bytes)\<rparr>)"

definition os_ReadFile :: "string \<Rightarrow> (string, disk) op" where
  "os_ReadFile path = op_bind (sys_call (\<lambda>d. d)) (\<lambda>_ d. (case dk_files d path of
      None \<Rightarrow> Inl (ErrNew ''no such file or directory'') | Some c \<Rightarrow> Inr c, d))"

text \<open>Operations on the store and on the disk beside it.\<close>

type_synonym 's with_disk = "'s \<times> disk"

definition on_content :: "('a, 's, 'e) xop \<Rightarrow> ('a, 's with_disk, 'e) xop" where
  "on_content m st = (case m (fst st) of (r, s) \<Rightarrow> (r, (s, snd st)))"

definition on_disk :: "('a, disk, 'e) xop \<Rightarrow> ('a, 's with_disk, 'e) xop" where
  "on_disk m st = (case m (snd st) of (r, d) \<Rightarrow> (r, (fst st, d)))"

fun write_chunks :: "string \<Rightarrow> string list \<Rightarrow> (unit, disk) op" where
  "write_chunks path [] = op_return ()"
| "write_chunks path (c # cs) = op_bind (file_Write path c) (\<lambda>_. write_chunks path cs)"

subsection \<open>Content items\<close>

definition ValidateContentMetadata :: "int \<Rightarrow> int \<Rightarrow> go_error option" where
  "ValidateContentMetadata difficulty durationMinutes =
     (if difficulty < 1 \<or> difficulty > 5 then Some ErrInvalidContentMetadata
      else if durationMinutes < 5 \<or> durationMinutes > 480 then Some ErrInvalidContentMetadata
      else None)"

definition SaveContentItem :: "'s ContentService \<Rightarrow> ContentItem \<Rightarrow> (unit, 's) op" where
  "SaveContentItem s item =
     (let duration = (if ci_DurationMinutes item = 0 then ci_DurationM item else ci_DurationMinutes item)
      in case ValidateContentMetadata (ci_Difficulty item) duration of Some err \<Rightarrow> op_fail err | None \<Rightarrow>
         cs_UpsertContentItem (cv_Store s) (item\<lparr>ci_DurationMinutes := duration,
           ci_Version := (if ci_Version item = 0 then 1 else ci_Version item)\<rparr>))"

subsection \<open>Uploads\<close>

definition allowedFile :: "string \<Rightarrow> bool" where
  "allowedFile name \<longleftrightarrow> to_lower (path_Ext name) \<in> {''.pdf'', ''.jpg'', ''.jpeg'', ''.png'', ''.txt''}"

text \<open>The map that replaces a nil \<^verbatim>\<open>ReceivedChunks\<close> is the same empty list.\<close>

definition StartUpload :: "'s ContentService \<Rightarrow> UploadSession \<Rightarrow> go_time \<Rightarrow> (unit, 's) op" where
  "StartUpload s session now =
     (if \<not> allowedFile (up_FileName session) then op_fail (ErrNew ''unsupported file type'')
      else cs_SaveUploadSession (cv_Store s) (session\<lparr>up_CreatedAt := now, up_UpdatedAt := now\<rparr>))"

definition AppendChunk :: "digests \<Rightarrow> 's ContentService \<Rightarrow> string \<Rightarrow> string \<Rightarrow> int \<Rightarrow> string \<Rightarrow> string \<Rightarrow> go_time \<Rightarrow>
    (bool, 's) op" where
  "AppendChunk dg s tenantID sessionID index chunk checksum now =
     op_bind (cs_GetUploadSession (cv_Store s) tenantID sessionID) (\<lambda>session.
       if checksum \<noteq> hex_text (dg_sha256 dg chunk) then op_fail ErrUploadChunkChecksum
       else
         let session' = session\<lparr>up_ReceivedChunks := AList.update index chunk (up_ReceivedChunks session), up_UpdatedAt := now\<rparr>
         in op_bind (cs_SaveUploadSession (cv_Store s) session') (\<lambda>_.
              op_return (int (length (up_ReceivedChunks session')) \<ge> up_ExpectedChunks session')))"

definition totalSize :: "(int \<times> string) list \<Rightarrow> int" where
  "totalSize chunks = sum_list (map (\<lambda>(_, chunk). int (length chunk)) chunks)"

text \<open>The chunks in the order of \<^verbatim>\<open>sort.Ints\<close> over the received indices.\<close>

definition ordered_chunks :: "(int \<times> string) list \<Rightarrow> string list" where
  "ordered_chunks chunks = map (\<lambda>idx. the (map_of chunks idx)) (sort (map fst chunks))"

definition upload_path :: "'s ContentService \<Rightarrow> UploadSession \<Rightarrow> string" where
  "upload_path s session = path_Join (if cv_StoragePath s = '''' then ''./uploads'' else cv_StoragePath s)
     (up_DocumentID session @ ''_'' @ path_Base (up_FileName session))"

definition writeUploadToDisk :: "'s ContentService \<Rightarrow> UploadSession \<Rightarrow> (unit, disk) op" where
  "writeUploadToDisk s session =
     op_bind (os_MkdirAll (if cv_StoragePath s = '''' then ''./uploads'' else cv_StoragePath s)) (\<lambda>_.
     op_bind (os_Create (upload_path s session)) (\<lambda>_.
       write_chunks (upload_path s session) (ordered_chunks (up_ReceivedChunks session))))"

definition FinalizeUpload :: "digests \<Rightarrow> 's ContentService \<Rightarrow> string \<Rightarrow> string \<Rightarrow> go_time \<Rightarrow>
    (DocumentVersion, 's with_disk) op" where
  "FinalizeUpload dg s tenantID sessionID now =
     op_bind (on_content (cs_GetUploadSession (cv_Store s) tenantID sessionID)) (\<lambda>session.
       if int (length (up_ReceivedChunks session)) < up_ExpectedChunks session then op_fail ErrUploadIncomplete
       else
         let actualChecksum = hex_text (dg_sha256 dg (concat (ordered_chunks (up_ReceivedChunks session))));
             version = \<lparr>dv_ID = ''dv_'' @ itoa (time_UnixNano now), dv_TenantID = tenantID,
               dv_DocumentID = up_DocumentID session, dv_Version = 0, dv_FileName = up_FileName session,
               dv_Checksum = actualChecksum, dv_SizeBytes = totalSize (up_ReceivedChunks session), dv_CreatedAt = now\<rparr>
         in if up_ExpectedChecksum session \<noteq> '''' \<and> \<not> equal_fold (up_ExpectedChecksum session) actualChecksum
            then op_fail ErrUploadChecksumMismatch
            else op_bind (on_disk (writeUploadToDisk s session)) (\<lambda>_.
                 op_bind (on_content (cs_AddDocumentVersion (cv_Store s) version)) (\<lambda>storedVersion.
                 op_bind (on_content (cs_DeleteUploadSession (cv_Store s) tenantID sessionID)) (\<lambda>_.
                   op_return storedVersion))))"

subsection \<open>Share links\<close>

definition trim_right_slash :: "string \<Rightarrow> string" where
  "trim_right_slash s = rev (dropWhile (\<lambda>c. c = CHR ''/'') (rev s))"

definition share_payload :: "string \<Rightarrow> string \<Rightarrow> string \<Rightarrow> string" where
  "share_payload tenantID documentID expiry = tenantID @ ''|'' @ documentID @ ''|'' @ expiry"

definition GenerateShareLink :: "digests \<Rightarrow> 's ContentService \<Rightarrow> string \<Rightarrow> string \<Rightarrow> string \<Rightarrow> go_time \<Rightarrow> ShareLink" where
  "GenerateShareLink dg s documentID tenantID baseURL now =
     (let expiresAt = now + 72 * time_Hour;
          payload = share_payload tenantID documentID (itoa (time_Unix expiresAt));
          token = base64_EncodeToString (payload @ ''|'' @ hex_text (dg_hmac dg (cv_ShareSecret s) payload))
      in \<lparr>sl_URL = trim_right_slash baseURL @ ''/share?token='' @ token, sl_Token = token,
          sl_DocumentID = documentID, sl_TenantID = tenantID, sl_ExpiresAt = expiresAt\<rparr>)"

definition ValidateShareToken :: "digests \<Rightarrow> 's ContentService \<Rightarrow> string \<Rightarrow> go_time \<Rightarrow> go_error + ShareLink" where
  "ValidateShareToken dg s token now =
     (case base64_DecodeString token of None \<Rightarrow> Inl (ErrNew ''illegal base64 data'') | Some decoded \<Rightarrow>
      (case split_on CHR ''|'' decoded of
         [tenantID, documentID, expiryUnix, sig] \<Rightarrow>
           (let payload = share_payload tenantID documentID expiryUnix;
                expected = hex_text (dg_hmac dg (cv_ShareSecret s) payload)
            in if sig \<noteq> expected then Inl (ErrNew ''invalid share token signature'')
               else case ParseInt expiryUnix of None \<Rightarrow> Inl (ErrNew ''strconv.ParseInt'') | Some expiry \<Rightarrow>
               (let expiresAt = time_from_Unix expiry
                in if now > expiresAt then Inl (ErrNew ''share token expired'')
                   else Inr \<lparr>sl_URL = '''', sl_Token = token, sl_DocumentID = documentID, sl_TenantID = tenantID,
                              sl_ExpiresAt = expiresAt\<rparr>))
       | _ \<Rightarrow> Inl (ErrNew ''invalid share token'')))"

subsection \<open>Duplicates\<close>

definition normalizeContentKey :: "string \<Rightarrow> string" where
  "normalizeContentKey value = to_lower (trim_space value)"

text \<open>The map from keys to the elements with that key, in their order.\<close>

fun grouped_by :: "('a \<Rightarrow> string) \<Rightarrow> 'a list gomap \<Rightarrow> 'a list \<Rightarrow> 'a list gomap" where
  "grouped_by key grouped [] = grouped"
| "grouped_by key grouped (x # xs) =
     grouped_by key (gm_put (key x) ((case gm_get grouped (key x) of None \<Rightarrow> [] | Some g \<Rightarrow> g) @ [x]) grouped) xs"

definition duplicates_of :: "('a \<Rightarrow> string) \<Rightarrow> 'a list \<Rightarrow> 'a list gomap" where
  "duplicates_of key xs = filter (\<lambda>(_, values). \<not> length values < 2) (grouped_by key [] xs)"

definition FindDuplicateTags :: "'s ContentService \<Rightarrow> string \<Rightarrow> (ContentTag list gomap, 's) op" where
  "FindDuplicateTags s tenantID = op_bind (cs_ListTags (cv_Store s) tenantID) (\<lambda>tags.
     op_return (duplicates_of (\<lambda>tag. normalizeContentKey (tg_Name tag)) tags))"

definition FindDuplicateItems :: "'s ContentService \<Rightarrow> string \<Rightarrow> (ContentItem list gomap, 's) op" where
  "FindDuplicateItems s tenantID = op_bind (cs_ListContentItems (cv_Store s) tenantID) (\<lambda>items.
     op_return (duplicates_of (\<lambda>item. normalizeContentKey (ci_Title item @ ''|'' @ ci_CategoryID item)) items))"

text \<open>The deletions of the two nested loops; an error comes with the number merged so far.\<close>

fun merge_loop :: "('a \<Rightarrow> (unit, 's) op) \<Rightarrow> int \<Rightarrow> 'a list \<Rightarrow> (int, 's, int \<times> go_error) xop" where
  "merge_loop del merged [] = op_return merged"
| "merge_loop del merged (x # xs) = op_bind (op_err (Pair merged) (del x)) (\<lambda>_. merge_loop del (merged + 1) xs)"

text \<open>\<open>order\<close> is the order in which the map of the groups is iterated.\<close>

definition MergeDuplicateTags :: "(ContentTag list gomap \<Rightarrow> ContentTag list gomap) \<Rightarrow> 's ContentService \<Rightarrow> string \<Rightarrow>
    (int, 's, int \<times> go_error) xop" where
  "MergeDuplicateTags order s tenantID =
     op_bind (op_err (Pair 0) (FindDuplicateTags s tenantID)) (\<lambda>duplicates.
       merge_loop (\<lambda>tag. cs_DeleteTag (cv_Store s) tenantID (tg_ID tag)) 0
         (concat (map (\<lambda>(_, group). drop 1 group) (order duplicates))))"

definition MergeDuplicateItems :: "(ContentItem list gomap \<Rightarrow> ContentItem list gomap) \<Rightarrow> 's ContentService \<Rightarrow> string \<Rightarrow>
    (int, 's, int \<times> go_error) xop" where
  "MergeDuplicateItems order s tenantID =
     op_bind (op_err (Pair 0) (FindDuplicateItems s tenantID)) (\<lambda>duplicates.
       merge_loop (\<lambda>item. cs_DeleteContentItem (cv_Store s) tenantID (ci_ID item)) 0
         (concat (map (\<lambda>(_, group). drop 1 group) (order duplicates))))"

end
