(* ===== verification/Content_Memory.thy ===== *)
theory Content_Memory
  imports Content_Service
begin

text \<open>
  The in-memory content store, \<^verbatim>\<open>internal/repository/memory/content_store.go\<close>. The map of received chunks
  that a stored session shares with the copies handed out is written by \<^verbatim>\<open>AppendChunk\<close> alone, which
  saves the session right after; the model stores the map with the session.
\<close>

record ContentRepository =
  cr_items :: "ContentItem gomap"
  cr_tags :: "ContentTag gomap"
  cr_documents :: "Document gomap"
  cr_versions :: "DocumentVersion list gomap"
  cr_uploads :: "UploadSession gomap"

definition NewContentRepository :: ContentRepository where
  "NewContentRepository = \<lparr>cr_items = [], cr_tags = [], cr_documents = [], cr_versions = [], cr_uploads = []\<rparr>"

definition contentKey :: "string \<Rightarrow> string \<Rightarrow> string" where
  "contentKey tenantID i = tenantID @ '':'' @ i"

definition mem_UpsertContentItem :: "ContentItem \<Rightarrow> (unit, ContentRepository) op" where
  "mem_UpsertContentItem item r =
     (Inr (), r\<lparr>cr_items := gm_put (contentKey (ci_TenantID item) (ci_ID item)) item (cr_items r)\<rparr>)"

definition mem_DeleteContentItem :: "string \<Rightarrow> string \<Rightarrow> (unit, ContentRepository) op" where
  "mem_DeleteContentItem tenantID itemID r = (Inr (), r\<lparr>cr_items := gm_del (contentKey tenantID itemID) (cr_items r)\<rparr>)"

definition mem_ListContentItems :: "string \<Rightarrow> (ContentItem list, ContentRepository) op" where
  "mem_ListContentItems tenantID r =
     (Inr (sort_key (\<lambda>x. to_lower (ci_Title x)) (filter (\<lambda>x. ci_TenantID x = tenantID) (map snd (cr_items r)))), r)"

definition mem_UpsertTag :: "ContentTag \<Rightarrow> (unit, ContentRepository) op" where
  "mem_UpsertTag tag r = (Inr (), r\<lparr>cr_tags := gm_put (contentKey (tg_TenantID tag) (tg_ID tag)) tag (cr_tags r)\<rparr>)"

definition mem_DeleteTag :: "string \<Rightarrow> string \<Rightarrow> (unit, ContentRepository) op" where
  "mem_DeleteTag tenantID tagID r = (Inr (), r\<lparr>cr_tags := gm_del (contentKey tenantID tagID) (cr_tags r)\<rparr>)"

definition mem_ListTags :: "string \<Rightarrow> (ContentTag list, ContentRepository) op" where
  "mem_ListTags tenantID r =
     (Inr (sort_key (\<lambda>x. to_lower (tg_Name x)) (filter (\<lambda>x. tg_TenantID x = tenantID) (map snd (cr_tags r)))), r)"

definition mem_SaveDocument :: "Document \<Rightarrow> (unit, ContentRepository) op" where
  "mem_SaveDocument document r =
     (Inr (), r\<lparr>cr_documents := gm_put (contentKey (dc_TenantID document) (dc_ID document)) document (cr_documents r)\<rparr>)"

definition mem_ListDocuments :: "string \<Rightarrow> (Document list, ContentRepository) op" where
  "mem_ListDocuments tenantID r =
     (Inr (sort_key dc_Title (filter (\<lambda>x. dc_TenantID x = tenantID) (map snd (cr_documents r)))), r)"

definition versions_at :: "ContentRepository \<Rightarrow> string \<Rightarrow> DocumentVersion list" where
  "versions_at r key = (case gm_get (cr_versions r) key of None \<Rightarrow> [] | Some vs \<Rightarrow> vs)"

definition mem_AddDocumentVersion :: "DocumentVersion \<Rightarrow> (DocumentVersion, ContentRepository) op" where
  "mem_AddDocumentVersion version r =
     (let key = contentKey (dv_TenantID version) (dv_DocumentID version);
          v = version\<lparr>dv_Version := int (length (versions_at r key)) + 1\<rparr>
      in (Inr v, r\<lparr>cr_versions := gm_put key (versions_at r key @ [v]) (cr_versions r)\<rparr>))"

definition mem_ListDocumentVersions :: "string \<Rightarrow> string \<Rightarrow> (DocumentVersion list, ContentRepository) op" where
  "mem_ListDocumentVersions tenantID documentID r =
     (Inr (sort_key dv_Version (versions_at r (contentKey tenantID documentID))), r)"

definition mem_SaveUploadSession :: "UploadSession \<Rightarrow> (unit, ContentRepository) op" where
  "mem_SaveUploadSession session r =
     (Inr (), r\<lparr>cr_uploads := gm_put (contentKey (up_TenantID session) (up_ID session)) session (cr_uploads r)\<rparr>)"

definition mem_GetUploadSession :: "string \<Rightarrow> string \<Rightarrow> (UploadSession, ContentRepository) op" where
  "mem_GetUploadSession tenantID sessionID r =
     (case gm_get (cr_uploads r) (contentKey tenantID sessionID) of
        None \<Rightarrow> (Inl ErrContentNotFound, r) | Some session \<Rightarrow> (Inr session, r))"

definition mem_DeleteUploadSession :: "string \<Rightarrow> string \<Rightarrow> (unit, ContentRepository) op" where
  "mem_DeleteUploadSession tenantID sessionID r =
     (Inr (), r\<lparr>cr_uploads := gm_del (contentKey tenantID sessionID) (cr_uploads r)\<rparr>)"

definition mem_ContentStore :: "ContentRepository ContentStore" where
  "mem_ContentStore = \<lparr>cs_UpsertContentItem = mem_UpsertContentItem, cs_DeleteContentItem = mem_DeleteContentItem,
     cs_ListContentItems = mem_ListContentItems, cs_UpsertTag = mem_UpsertTag, cs_DeleteTag = mem_DeleteTag,
     cs_ListTags = mem_ListTags, cs_SaveDocument = mem_SaveDocument, cs_ListDocuments = mem_ListDocuments,
     cs_AddDocumentVersion = mem_AddDocumentVersion, cs_ListDocumentVersions = mem_ListDocumentVersions,
     cs_SaveUploadSession = mem_SaveUploadSession, cs_GetUploadSession = mem_GetUploadSession,
     cs_DeleteUploadSession = mem_DeleteUploadSession\<rparr>"

end
