(* ===== verification/Content_Laws.thy ===== *)
theory Content_Laws
  imports Content_Memory "HOL-Library.Multiset"
begin

text \<open>
  Laws of the content service: share tokens, the reassembly of uploaded chunks over any store that
  keeps upload sessions, and merging duplicates.
\<close>

subsection \<open>Share tokens\<close>

lemma parse_digits_append:
  "parse_digits acc (xs @ ys) = (case parse_digits acc xs of None \<Rightarrow> None | Some a \<Rightarrow> parse_digits a ys)"
  by (induction xs arbitrary: acc) (auto split: option.splits)

lemma decimal_digits:
  "\<forall>d\<in>set [0..<10]. digit_value (char_of (48 + d)) = Some (int d) \<and> char_of (48 + d) \<in> set ''0123456789''"
  by code_simp

lemma digit_value_digit: "d < 10 \<Longrightarrow> digit_value (char_of (48 + d)) = Some (int d)"
  using decimal_digits by auto

lemma parse_nat_digits: "parse_digits 0 (nat_digits n) = Some (int n)"
proof (induction n rule: nat_digits.induct)
  case (1 n)
  show ?case
  proof (cases "n < 10")
    case True
    then show ?thesis by (simp add: nat_digits.simps [of n] digit_value_digit)
  next
    case False
    with 1 have "parse_digits 0 (nat_digits n) = Some (10 * int (n div 10) + int (n mod 10))"
      by (simp add: nat_digits.simps [of n] parse_digits_append digit_value_digit)
    moreover have "10 * int (n div 10) + int (n mod 10) = int n" by (simp add: zmod_int zdiv_int)
    ultimately show ?thesis by simp
  qed
qed

lemma nat_digits_chars: "set (nat_digits n) \<subseteq> set ''0123456789''"
proof (induction n rule: nat_digits.induct)
  case (1 n)
  have d: "char_of (48 + d) \<in> set ''0123456789''" if "d < 10" for d :: nat
    using decimal_digits that by auto
  show ?case
  proof (cases "n < 10")
    case True
    then show ?thesis using d [of n] by (simp add: nat_digits.simps [of n] del: insert_iff)
  next
    case False
    then have "set (nat_digits n) = insert (char_of (48 + n mod 10)) (set (nat_digits (n div 10)))"
      by (simp add: nat_digits.simps [of n])
    then show ?thesis using 1 False d [of "n mod 10"] by (simp add: insert_subset del: insert_iff set_simps)
  qed
qed

lemma nat_digits_nonempty: "nat_digits n \<noteq> []"
  by (simp add: nat_digits.simps [of n])

lemma itoa_chars: "set (itoa x) \<subseteq> insert (CHR ''-'') (set ''0123456789'')"
proof (cases "x < 0")
  case True
  then have "set (itoa x) = insert (CHR ''-'') (set (nat_digits (nat (- x))))" by (simp add: itoa_def)
  then show ?thesis using nat_digits_chars [of "nat (- x)"] by blast
next
  case False
  then have "itoa x = nat_digits (nat x)" by (simp add: itoa_def)
  then show ?thesis using nat_digits_chars [of "nat x"] by (simp only: subset_insertI2)
qed

lemma nat_digits_hd: "take 1 (nat_digits n) \<notin> {''-'', ''+''}"
  using nat_digits_chars [of n] nat_digits_nonempty [of n] by (cases "nat_digits n") auto

lemma ParseInt_itoa: "- (2 ^ 63) \<le> x \<Longrightarrow> x < 2 ^ 63 \<Longrightarrow> ParseInt (itoa x) = Some x"
proof -
  assume r: "- (2 ^ 63) \<le> x" "x < 2 ^ 63"
  show ?thesis
  proof (cases "x < 0")
    case True
    with r show ?thesis by (simp add: ParseInt_def itoa_def parse_nat_digits nat_digits_nonempty)
  next
    case False
    with r nat_digits_hd [of "nat x"] show ?thesis
      by (simp add: ParseInt_def itoa_def parse_nat_digits nat_digits_nonempty Let_def)
  qed
qed

lemma hex_text_chars: "set (hex_text bs) \<subseteq> set hex_digits"
proof -
  have b: "(of_char c :: nat) < 256" for c using of_char_bytes [of "[c]"] by simp
  then have "(of_char c :: nat) div 16 < 16" for c by (simp add: less_mult_imp_div_less)
  then show ?thesis by (auto simp: hex_text_def hex_digits_nth)
qed

lemma hex_no_bar: "CHR ''|'' \<notin> set (hex_text bs)"
  using hex_text_chars [of bs] by (auto simp: hex_digits_def)

lemma itoa_no_bar: "CHR ''|'' \<notin> set (itoa x)"
  using itoa_chars [of x] by auto

lemma split_payload:
  assumes "CHR ''|'' \<notin> set T" "CHR ''|'' \<notin> set d" "CHR ''|'' \<notin> set e" "CHR ''|'' \<notin> set h"
  shows "split_on CHR ''|'' (share_payload T d e @ ''|'' @ h) = [T, d, e, h]"
  using assms by (simp add: share_payload_def)

definition share_lifetime_ok :: "go_time \<Rightarrow> bool" where
  "share_lifetime_ok now \<longleftrightarrow> time_zero \<le> now \<and> now < 2 ^ 62 * time_Second"

lemma expiry_seconds:
  assumes "share_lifetime_ok now"
  defines "e \<equiv> time_Unix (now + 72 * time_Hour)"
  shows "ParseInt (itoa e) = Some e" "time_from_Unix e = e * time_Second"
proof -
  have n: "- 62135596800 * 1000000000 \<le> now + 72 * time_Hour" "now + 72 * time_Hour \<le> (2 ^ 62 + 259200) * 1000000000"
    using assms(1) by (simp_all add: share_lifetime_ok_def time_zero_def)
  have e: "- 62135596800 \<le> e" "e \<le> 2 ^ 62 + 259200"
    using zdiv_mono1 [OF n(1), of 1000000000] zdiv_mono1 [OF n(2), of 1000000000] by (simp_all add: e_def time_Unix_def)
  then show "ParseInt (itoa e) = Some e" by (intro ParseInt_itoa) simp_all
  have "i64 (e + 62135596800) = e + 62135596800" by (intro i64_id) (use e in simp_all)
  then show "time_from_Unix e = e * time_Second" by (simp add: time_from_Unix_def)
qed

lemma share_token_decodes:
  "base64_DecodeString (sl_Token (GenerateShareLink dg s d T url now)) =
     Some (share_payload T d (itoa (time_Unix (now + 72 * time_Hour))) @ ''|'' @
       hex_text (dg_hmac dg (cv_ShareSecret s) (share_payload T d (itoa (time_Unix (now + 72 * time_Hour))))))"
  by (simp add: GenerateShareLink_def Let_def base64_round_trip)

lemma ValidateShareToken_parts:
  assumes "base64_DecodeString token = Some (share_payload T d e @ ''|'' @ sig)"
    and "CHR ''|'' \<notin> set T" "CHR ''|'' \<notin> set d" "CHR ''|'' \<notin> set e" "CHR ''|'' \<notin> set sig"
  shows "ValidateShareToken dg s token now =
     (if sig \<noteq> hex_text (dg_hmac dg (cv_ShareSecret s) (share_payload T d e)) then Inl (ErrNew ''invalid share token signature'')
      else case ParseInt e of None \<Rightarrow> Inl (ErrNew ''strconv.ParseInt'') | Some n \<Rightarrow>
      if now > time_from_Unix n then Inl (ErrNew ''share token expired'')
      else Inr \<lparr>sl_URL = [], sl_Token = token, sl_DocumentID = d, sl_TenantID = T, sl_ExpiresAt = time_from_Unix n\<rparr>)"
  unfolding ValidateShareToken_def assms(1) option.case split_payload [OF assms(2-)] by (simp add: Let_def split: option.splits)

lemma ValidateShareToken_Inr:
  assumes "ValidateShareToken dg s token now = Inr link"
  obtains e n where "base64_DecodeString token = Some (share_payload (sl_TenantID link) (sl_DocumentID link) e @ ''|'' @
      hex_text (dg_hmac dg (cv_ShareSecret s) (share_payload (sl_TenantID link) (sl_DocumentID link) e)))"
    and "ParseInt e = Some n" "sl_ExpiresAt link = time_from_Unix n" "now \<le> time_from_Unix n"
proof -
  from assms obtain raw where t: "base64_DecodeString token = Some raw"
    by (auto simp: ValidateShareToken_def split: option.splits)
  from assms t obtain T d e sig where p: "split_on CHR ''|'' raw = [T, d, e, sig]"
    by (auto simp: ValidateShareToken_def split: list.splits)
  have "raw = share_payload T d e @ ''|'' @ sig"
    using split_on_join [of "CHR ''|''" raw] by (simp add: p share_payload_def)
  moreover have "CHR ''|'' \<notin> set x" if "x \<in> {T, d, e, sig}" for x
    using split_on_no_sep_parts [of x "CHR ''|''" raw] that by (auto simp: p)
  ultimately have "ValidateShareToken dg s token now =
     (if sig \<noteq> hex_text (dg_hmac dg (cv_ShareSecret s) (share_payload T d e)) then Inl (ErrNew ''invalid share token signature'')
      else case ParseInt e of None \<Rightarrow> Inl (ErrNew ''strconv.ParseInt'') | Some n \<Rightarrow>
      if now > time_from_Unix n then Inl (ErrNew ''share token expired'')
      else Inr \<lparr>sl_URL = [], sl_Token = token, sl_DocumentID = d, sl_TenantID = T, sl_ExpiresAt = time_from_Unix n\<rparr>)"
    using t by (intro ValidateShareToken_parts) auto
  with assms t \<open>raw = _\<close> show ?thesis by (auto intro!: that split: if_splits option.splits)
qed

text \<open>
  Property C30. A share token is accepted by the service that made it until the second in which its 72
  hours end, and names the tenant and the document it was made for; later, and by a service whose secret
  gives another code, it is refused. Whatever token is accepted carries the code of its own tenant,
  document and expiry under the secret, and has not expired.
\<close>

theorem share_tokens:
  fixes s :: "'s ContentService" and dg :: digests and url :: string and now t :: go_time
  assumes "CHR ''|'' \<notin> set T" "CHR ''|'' \<notin> set d" "share_lifetime_ok now"
  defines "token \<equiv> sl_Token (GenerateShareLink dg s d T url now)"
    and "e \<equiv> time_Unix (now + 72 * time_Hour)"
  shows "ValidateShareToken dg s token t =
      (if t \<le> e * time_Second
       then Inr \<lparr>sl_URL = [], sl_Token = token, sl_DocumentID = d, sl_TenantID = T, sl_ExpiresAt = e * time_Second\<rparr>
       else Inl (ErrNew ''share token expired'')) \<and>
    (\<forall>s' :: 's ContentService. hex_text (dg_hmac dg (cv_ShareSecret s') (share_payload T d (itoa e))) \<noteq>
         hex_text (dg_hmac dg (cv_ShareSecret s) (share_payload T d (itoa e))) \<longrightarrow>
       ValidateShareToken dg s' token t = Inl (ErrNew ''invalid share token signature'')) \<and>
    (\<forall>token' link. ValidateShareToken dg s token' t = Inr link \<longrightarrow> t \<le> sl_ExpiresAt link \<and>
       (\<exists>x. base64_DecodeString token' = Some (share_payload (sl_TenantID link) (sl_DocumentID link) x @ ''|'' @
          hex_text (dg_hmac dg (cv_ShareSecret s) (share_payload (sl_TenantID link) (sl_DocumentID link) x))) \<and>
        map_option time_from_Unix (ParseInt x) = Some (sl_ExpiresAt link)))"
proof (intro conjI allI impI)
  note E = expiry_seconds [OF assms(3), folded e_def]
  note V = ValidateShareToken_parts [OF share_token_decodes [where s = s and url = url and now = now and dg = dg] assms(1,2) itoa_no_bar hex_no_bar, folded token_def e_def]
  show "ValidateShareToken dg s token t =
      (if t \<le> e * time_Second
       then Inr \<lparr>sl_URL = [], sl_Token = token, sl_DocumentID = d, sl_TenantID = T, sl_ExpiresAt = e * time_Second\<rparr>
       else Inl (ErrNew ''share token expired''))"
    unfolding V by (simp add: E not_less)
  show "ValidateShareToken dg s' token t = Inl (ErrNew ''invalid share token signature'')"
    if "hex_text (dg_hmac dg (cv_ShareSecret s') (share_payload T d (itoa e))) \<noteq>
         hex_text (dg_hmac dg (cv_ShareSecret s) (share_payload T d (itoa e)))" for s' :: "'s ContentService"
    using that unfolding V by simp
  fix token' link assume "ValidateShareToken dg s token' t = Inr link"
  then obtain x n where x: "base64_DecodeString token' = Some (share_payload (sl_TenantID link) (sl_DocumentID link) x @ ''|'' @
      hex_text (dg_hmac dg (cv_ShareSecret s) (share_payload (sl_TenantID link) (sl_DocumentID link) x)))"
      "ParseInt x = Some n" "sl_ExpiresAt link = time_from_Unix n" "t \<le> time_from_Unix n"
    by (rule ValidateShareToken_Inr)
  then show "t \<le> sl_ExpiresAt link" by simp
  show "\<exists>x. base64_DecodeString token' = Some (share_payload (sl_TenantID link) (sl_DocumentID link) x @ ''|'' @
          hex_text (dg_hmac dg (cv_ShareSecret s) (share_payload (sl_TenantID link) (sl_DocumentID link) x))) \<and>
        map_option time_from_Unix (ParseInt x) = Some (sl_ExpiresAt link)"
    using x by (intro exI [of _ x]) simp
qed

definition demo_digests :: digests where
  "demo_digests = \<lparr>dg_sha256 = (\<lambda>s. take 4 (s @ ''...'')), dg_hmac = (\<lambda>k s. k)\<rparr>"

definition demo_content :: "'s ContentStore \<Rightarrow> 's ContentService" where
  "demo_content store = NewContentService store ''key'' ''uploads''"

theorem share_tokens_witness:
  "let s = demo_content mem_ContentStore; token = sl_Token (GenerateShareLink demo_digests s ''doc'' ''academy'' ''http://host/'' 0)
   in ValidateShareToken demo_digests s token (259200 * time_Second) = Inr \<lparr>sl_URL = [], sl_Token = token,
        sl_DocumentID = ''doc'', sl_TenantID = ''academy'', sl_ExpiresAt = 259200 * time_Second\<rparr> \<and>
      ValidateShareToken demo_digests s token (259200 * time_Second + 1) = Inl (ErrNew ''share token expired'')"
  using share_tokens [where T = "''academy''" and d = "''doc''" and now = 0 and s = "demo_content mem_ContentStore"
      and dg = demo_digests and url = "''http://host/''" and t = "259200 * time_Second"]
    share_tokens [where T = "''academy''" and d = "''doc''" and now = 0 and s = "demo_content mem_ContentStore"
      and dg = demo_digests and url = "''http://host/''" and t = "259200 * time_Second + 1"]
  by (simp add: Let_def share_lifetime_ok_def time_zero_def time_Unix_def)

subsection \<open>Upload sessions\<close>

text \<open>
  What the upload steps rely on: a session is found under its tenant and identifier (\<open>view\<close>), and
  saving it with other chunks changes the chunks and the time of the update, nothing else of it.
\<close>

locale upload_store =
  fixes store :: "'s ContentStore"
    and view :: "'s \<Rightarrow> string \<Rightarrow> string \<Rightarrow> UploadSession option"
    and ready :: "'s \<Rightarrow> bool"
  assumes get_some: "ready s \<Longrightarrow> view s T i = Some x \<Longrightarrow> cs_GetUploadSession store T i s = (Inr x, s)"
    and get_none: "ready s \<Longrightarrow> view s T i = None \<Longrightarrow> \<exists>e. cs_GetUploadSession store T i s = (Inl e, s)"
    and save: "ready s \<Longrightarrow> view s T i = Some x \<Longrightarrow>
      \<exists>s' u. cs_SaveUploadSession store (x\<lparr>up_ReceivedChunks := c, up_UpdatedAt := t\<rparr>) s = (Inr (), s') \<and> ready s' \<and>
        view s' T i = Some (x\<lparr>up_ReceivedChunks := c, up_UpdatedAt := u\<rparr>)"

text \<open>A client that sends chunks with their checksums, one after the other; the answers in their order.\<close>

fun send_chunks :: "digests \<Rightarrow> 's ContentService \<Rightarrow> string \<Rightarrow> string \<Rightarrow> go_time \<Rightarrow> (int \<times> string) list \<Rightarrow> (bool list, 's) op" where
  "send_chunks dg sv T i t [] = op_return []"
| "send_chunks dg sv T i t ((k, c) # cs) =
     op_bind (AppendChunk dg sv T i k c (hex_text (dg_sha256 dg c)) t) (\<lambda>complete.
     op_bind (send_chunks dg sv T i t cs) (\<lambda>rest. op_return (complete # rest)))"

definition received :: "(int \<times> string) list \<Rightarrow> (int \<times> string) list \<Rightarrow> (int \<times> string) list" where
  "received m cs = fold (\<lambda>(k, c). AList.update k c) cs m"

text \<open>What the chunks amount to: for every index the chunk sent last, by increasing index.\<close>

definition assembled :: "(int \<times> string) list \<Rightarrow> string" where
  "assembled cs = concat (map (\<lambda>k. the (map_of (rev cs) k)) (sorted_list_of_set (fst ` set cs)))"

lemma received_simps [simp]: "received m [] = m" "received m ((k, c) # cs) = received (AList.update k c m) cs"
  by (simp_all add: received_def)

lemma received_distinct: "distinct (map fst m) \<Longrightarrow> distinct (map fst (received m cs))"
  by (induction cs arbitrary: m) (auto simp: distinct_update)

lemma received_map_of: "map_of (received m cs) = map_of (rev cs @ m)"
  by (induction cs arbitrary: m) (auto simp: update_conv' fun_eq_iff map_add_def split: option.splits)

lemma received_keys: "set (map fst (received m cs)) = fst ` set m \<union> fst ` set cs"
proof -
  have "dom (map_of (received m cs)) = dom (map_of (rev cs @ m))" by (simp only: received_map_of)
  then show ?thesis by (auto simp: dom_map_of_conv_image_fst)
qed

lemma received_length: "int (length (received [] cs)) = int (card (fst ` set cs))"
  using distinct_card [OF received_distinct [of "[]" cs]] received_keys [of "[]" cs] by simp

lemma received_assembled: "concat (ordered_chunks (received [] cs)) = assembled cs"
proof -
  have "sort (map fst (received [] cs)) = sorted_list_of_set (fst ` set cs)"
    using sorted_list_of_set_sort_remdups [of "map fst (received [] cs)"] received_keys [of "[]" cs]
      received_distinct [of "[]" cs] by (simp add: distinct_remdups_id)
  then show ?thesis by (simp add: ordered_chunks_def assembled_def received_map_of)
qed

text \<open>The sum does not depend on the order in which the map is iterated.\<close>

lemma totalSize_ordered:
  assumes "distinct (map fst m)"
  shows "totalSize m = int (length (concat (ordered_chunks m)))"
proof -
  have "mset (ordered_chunks m) = mset (map (\<lambda>k. the (map_of m k)) (map fst m))"
    by (simp only: ordered_chunks_def mset_map mset_sort)
  also have "map (\<lambda>k. the (map_of m k)) (map fst m) = map snd m"
    using assms by (auto simp: map_of_eq_Some_iff)
  finally have "sum_list (map length (ordered_chunks m)) = sum_list (map length (map snd m))"
    by (metis mset_map sum_mset_sum_list)
  moreover have "totalSize m = int (sum_list (map length (map snd m)))"
    unfolding totalSize_def by (induction m) auto
  ultimately show ?thesis by (simp add: length_concat)
qed

context upload_store begin

lemma append_stored:
  assumes "ready s" "view s T i = Some x" "cv_Store sv = store"
  obtains s' u where "AppendChunk dg sv T i k c (hex_text (dg_sha256 dg c)) t s =
      (Inr (int (length (AList.update k c (up_ReceivedChunks x))) \<ge> up_ExpectedChunks x), s')"
    and "ready s'" "view s' T i = Some (x\<lparr>up_ReceivedChunks := AList.update k c (up_ReceivedChunks x), up_UpdatedAt := u\<rparr>)"
proof -
  from save [OF assms(1,2)] obtain s' u where
    w: "cs_SaveUploadSession store (x\<lparr>up_ReceivedChunks := AList.update k c (up_ReceivedChunks x), up_UpdatedAt := t\<rparr>) s = (Inr (), s')"
    and "ready s'" "view s' T i = Some (x\<lparr>up_ReceivedChunks := AList.update k c (up_ReceivedChunks x), up_UpdatedAt := u\<rparr>)"
    by blast
  moreover have "AppendChunk dg sv T i k c (hex_text (dg_sha256 dg c)) t s =
      (Inr (int (length (AList.update k c (up_ReceivedChunks x))) \<ge> up_ExpectedChunks x), s')"
    by (simp add: AppendChunk_def assms(3) op_bind_def get_some [OF assms(1,2)] Let_def w)
  ultimately show ?thesis by - (rule that)
qed

lemma append_refused:
  assumes "ready s" "cv_Store sv = store" "checksum \<noteq> hex_text (dg_sha256 dg c)"
  shows "\<exists>e. AppendChunk dg sv T i k c checksum t s = (Inl e, s)"
proof (cases "view s T i")
  case None
  with get_none [OF assms(1)] obtain e where "cs_GetUploadSession store T i s = (Inl e, s)" by blast
  then show ?thesis by (simp add: AppendChunk_def assms(2) op_bind_def)
next
  case (Some x)
  then show ?thesis using assms(3) by (simp add: AppendChunk_def assms(2) op_bind_def get_some [OF assms(1) Some])
qed

text \<open>Every chunk is accepted; the answers tell whether enough indices have arrived so far.\<close>

lemma chunks_stored:
  assumes "ready s" "view s T i = Some x" "cv_Store sv = store"
  shows "\<exists>s' u. send_chunks dg sv T i t cs s = (Inr (map (\<lambda>n. int (length (received (up_ReceivedChunks x) (take (Suc n) cs))) \<ge>
        up_ExpectedChunks x) [0..<length cs]), s') \<and> ready s' \<and>
     view s' T i = Some (x\<lparr>up_ReceivedChunks := received (up_ReceivedChunks x) cs, up_UpdatedAt := u\<rparr>)"
  using assms(1,2)
proof (induction cs arbitrary: s x)
  case Nil
  then show ?case by (intro exI [of _ s] exI [of _ "up_UpdatedAt x"]) simp
next
  case (Cons kc cs)
  obtain k c where kc: "kc = (k, c)" by force
  let ?x = "\<lambda>u. x\<lparr>up_ReceivedChunks := AList.update k c (up_ReceivedChunks x), up_UpdatedAt := u\<rparr>"
  from append_stored [OF Cons.prems assms(3)] obtain s1 u1 where
    a: "AppendChunk dg sv T i k c (hex_text (dg_sha256 dg c)) t s =
      (Inr (int (length (AList.update k c (up_ReceivedChunks x))) \<ge> up_ExpectedChunks x), s1)"
    and r: "ready s1" and v: "view s1 T i = Some (?x u1)" by blast
  from Cons.IH [OF r v] obtain s2 u2 where
    b: "send_chunks dg sv T i t cs s1 = (Inr (map (\<lambda>n. int (length (received (up_ReceivedChunks (?x u1)) (take (Suc n) cs))) \<ge>
        up_ExpectedChunks (?x u1)) [0..<length cs]), s2)" and "ready s2"
    and w: "view s2 T i = Some ((?x u1)\<lparr>up_ReceivedChunks := received (up_ReceivedChunks (?x u1)) cs, up_UpdatedAt := u2\<rparr>)"
    by blast
  show ?case by (intro exI [of _ s2] exI [of _ u2] conjI)
      (use a b w \<open>ready s2\<close> in \<open>simp_all add: kc op_bind_def map_upt_Suc del: upt_Suc\<close>)
qed

end

subsection \<open>Uploads to the in-memory store\<close>

definition mem_upload_view :: "ContentRepository \<Rightarrow> string \<Rightarrow> string \<Rightarrow> UploadSession option" where
  "mem_upload_view r T i = gm_get (cr_uploads r) (contentKey T i)"

definition mem_uploads_ok :: "ContentRepository \<Rightarrow> bool" where
  "mem_uploads_ok r \<longleftrightarrow> gm_keyed (\<lambda>x. contentKey (up_TenantID x) (up_ID x)) (cr_uploads r)"

lemmas mem_store_simps = mem_ContentStore_def mem_SaveUploadSession_def mem_GetUploadSession_def
  mem_DeleteUploadSession_def mem_AddDocumentVersion_def

interpretation mem_up: upload_store mem_ContentStore mem_upload_view mem_uploads_ok
proof
  fix s :: ContentRepository and T i x
  assume ok: "mem_uploads_ok s" and v: "mem_upload_view s T i = Some x"
  then show "cs_GetUploadSession mem_ContentStore T i s = (Inr x, s)"
    by (simp add: mem_upload_view_def mem_store_simps)
  from ok v have k: "contentKey T i = contentKey (up_TenantID x) (up_ID x)"
    unfolding mem_uploads_ok_def mem_upload_view_def by (rule gm_keyed_get)
  show "\<exists>s' u. cs_SaveUploadSession mem_ContentStore (x\<lparr>up_ReceivedChunks := c, up_UpdatedAt := t\<rparr>) s = (Inr (), s') \<and>
      mem_uploads_ok s' \<and> mem_upload_view s' T i = Some (x\<lparr>up_ReceivedChunks := c, up_UpdatedAt := u\<rparr>)" for c t
    using ok by (intro exI [of _ "s\<lparr>cr_uploads := gm_put (contentKey T i) (x\<lparr>up_ReceivedChunks := c, up_UpdatedAt := t\<rparr>) (cr_uploads s)\<rparr>"] exI [of _ t])
      (simp add: mem_store_simps mem_uploads_ok_def mem_upload_view_def k gm_get_put)
qed (auto simp: mem_upload_view_def mem_store_simps)

definition but_uploads :: "ContentRepository \<Rightarrow> ContentRepository" where
  "but_uploads r = r\<lparr>cr_uploads := []\<rparr>"

lemma chunks_touch_uploads:
  assumes "cv_Store sv = mem_ContentStore"
  shows "op_keeps (\<lambda>r. but_uploads r = R) (send_chunks dg sv T i t cs)"
proof (induction cs)
  case (Cons kc cs)
  obtain k c where kc: "kc = (k, c)" by force
  have "op_keeps (\<lambda>r. but_uploads r = R) (AppendChunk dg sv T i k c (hex_text (dg_sha256 dg c)) t)"
    by (rule op_keepsI) (simp add: AppendChunk_def assms op_bind_def mem_store_simps but_uploads_def Let_def split: option.splits)
  with Cons show ?case unfolding kc send_chunks.simps by (intro op_invs) auto
qed (simp only: send_chunks.simps op_keeps_return)

lemma write_chunks_disk:
  "dk_faults d = [] \<Longrightarrow> dk_files d p = Some c \<Longrightarrow>
   write_chunks p cs d = (Inr (), d\<lparr>dk_files := (dk_files d)(p \<mapsto> c @ concat cs)\<rparr>)"
proof (induction cs arbitrary: c d)
  case Nil
  then have "(dk_files d)(p \<mapsto> c) = dk_files d" by (simp add: fun_upd_idem)
  with Nil show ?case by simp
next
  case (Cons x xs)
  then show ?case by (simp add: op_bind_def file_Write_def sys_call_def fun_upd_def cong: if_cong)
qed

lemma writeUpload_disk:
  assumes "dk_faults d = []"
  shows "writeUploadToDisk sv x d =
    (Inr (), d\<lparr>dk_files := (dk_files d)(upload_path sv x \<mapsto> concat (ordered_chunks (up_ReceivedChunks x)))\<rparr>)"
  using assms write_chunks_disk [of "d\<lparr>dk_files := (dk_files d)(upload_path sv x \<mapsto> [])\<rparr>" "upload_path sv x" "[]"]
  by (simp add: writeUploadToDisk_def op_bind_def os_MkdirAll_def os_Create_def sys_call_def)

text \<open>The version a finished upload stores.\<close>

definition upload_version :: "digests \<Rightarrow> UploadSession \<Rightarrow> string \<Rightarrow> go_time \<Rightarrow> int \<Rightarrow> string \<Rightarrow> DocumentVersion" where
  "upload_version dg x tenantID now n content = \<lparr>dv_ID = ''dv_'' @ itoa (time_UnixNano now), dv_TenantID = tenantID,
     dv_DocumentID = up_DocumentID x, dv_Version = n, dv_FileName = up_FileName x,
     dv_Checksum = hex_text (dg_sha256 dg content), dv_SizeBytes = int (length content), dv_CreatedAt = now\<rparr>"

lemma mem_finalize:
  assumes "mem_upload_view r T i = Some x" "cv_Store sv = mem_ContentStore" "dk_faults d = []"
    and "distinct (map fst (up_ReceivedChunks x))"
  shows "FinalizeUpload dg sv T i now (r, d) =
    (let content = concat (ordered_chunks (up_ReceivedChunks x)); key = contentKey T (up_DocumentID x);
         v = upload_version dg x T now (int (length (versions_at r key)) + 1) content
     in if int (length (up_ReceivedChunks x)) < up_ExpectedChunks x then (Inl ErrUploadIncomplete, (r, d))
        else if up_ExpectedChecksum x \<noteq> [] \<and> \<not> equal_fold (up_ExpectedChecksum x) (hex_text (dg_sha256 dg content))
        then (Inl ErrUploadChecksumMismatch, (r, d))
        else (Inr v, (r\<lparr>cr_versions := gm_put key (versions_at r key @ [v]) (cr_versions r),
                        cr_uploads := gm_del (contentKey T i) (cr_uploads r)\<rparr>,
                      d\<lparr>dk_files := (dk_files d)(upload_path sv x \<mapsto> content)\<rparr>)))"
  using assms(1) unfolding FinalizeUpload_def assms(2) totalSize_ordered [OF assms(4)]
  by (simp add: mem_upload_view_def op_bind_def on_content_def on_disk_def mem_store_simps Let_def
      writeUpload_disk [OF assms(3)] upload_version_def totalSize_ordered [OF assms(4)])

text \<open>
  Property C28. An upload to the in-memory store over a working disk. Every chunk sent with its checksum
  is accepted, and the answer says whether as many different indices as expected have arrived. However the chunks
  were ordered and repeated, the final step refuses an incomplete upload, refuses a content with another checksum
  than announced, and otherwise writes the chunks sent last, by increasing index, to the file of the
  document, records them as the next version of the document and forgets the session; a refusal changes nothing.
\<close>

theorem upload_round_trip:
  fixes sv :: "ContentRepository ContentService" and dg :: digests and t0 t now :: go_time
    and cs :: "(int \<times> string) list"
  assumes "mem_uploads_ok r" "allowedFile (up_FileName x)" "up_ReceivedChunks x = []" "dk_faults d = []"
    and "cv_Store sv = mem_ContentStore"
  defines "T \<equiv> up_TenantID x" and "i \<equiv> up_ID x" and "content \<equiv> assembled cs"
    and "key \<equiv> contentKey (up_TenantID x) (up_DocumentID x)"
  shows "\<exists>r1 r2. StartUpload sv x t0 r = (Inr (), r1) \<and>
    send_chunks dg sv T i t cs r1 =
      (Inr (map (\<lambda>n. int (card (fst ` set (take (Suc n) cs))) \<ge> up_ExpectedChunks x) [0..<length cs]), r2) \<and>
    FinalizeUpload dg sv T i now (r2, d) =
      (if int (card (fst ` set cs)) < up_ExpectedChunks x then (Inl ErrUploadIncomplete, (r2, d))
       else if up_ExpectedChecksum x \<noteq> [] \<and> \<not> equal_fold (up_ExpectedChecksum x) (hex_text (dg_sha256 dg content))
       then (Inl ErrUploadChecksumMismatch, (r2, d))
       else let v = upload_version dg x T now (int (length (versions_at r key)) + 1) content
            in (Inr v, (r\<lparr>cr_versions := gm_put key (versions_at r key @ [v]) (cr_versions r),
                          cr_uploads := gm_del (contentKey T i) (cr_uploads r2)\<rparr>,
                        d\<lparr>dk_files := (dk_files d)(upload_path sv x \<mapsto> content)\<rparr>)))"
proof -
  let ?x = "x\<lparr>up_CreatedAt := t0, up_UpdatedAt := t0\<rparr>"
  define r1 where "r1 = r\<lparr>cr_uploads := gm_put (contentKey T i) ?x (cr_uploads r)\<rparr>"
  have start: "StartUpload sv x t0 r = (Inr (), r1)"
    using assms(2,5) by (simp add: StartUpload_def r1_def mem_store_simps T_def i_def)
  have ok: "mem_uploads_ok r1" and v: "mem_upload_view r1 T i = Some ?x"
    using assms(1) by (simp_all add: r1_def mem_uploads_ok_def mem_upload_view_def T_def i_def gm_get_put)
  from mem_up.chunks_stored [OF ok v assms(5), of dg t cs] obtain r2 u where
    s2: "send_chunks dg sv T i t cs r1 = (Inr (map (\<lambda>n. int (length (received (up_ReceivedChunks ?x) (take (Suc n) cs))) \<ge>
        up_ExpectedChunks ?x) [0..<length cs]), r2)"
    and v2: "mem_upload_view r2 T i = Some (?x\<lparr>up_ReceivedChunks := received (up_ReceivedChunks ?x) cs, up_UpdatedAt := u\<rparr>)"
    by blast
  from s2 assms(3) have sent: "send_chunks dg sv T i t cs r1 =
      (Inr (map (\<lambda>n. int (card (fst ` set (take (Suc n) cs))) \<ge> up_ExpectedChunks x) [0..<length cs]), r2)"
    by (simp add: received_length)
  from v2 assms(3) have v2: "mem_upload_view r2 T i = Some (x\<lparr>up_CreatedAt := t0, up_UpdatedAt := u, up_ReceivedChunks := received [] cs\<rparr>)"
    by simp
  have "but_uploads r2 = but_uploads r1"
    using op_keepsD [OF chunks_touch_uploads [OF assms(5)], of r1 "but_uploads r1" dg T i t cs] sent by simp
  then have b: "r2\<lparr>cr_uploads := X\<rparr> = r\<lparr>cr_uploads := X\<rparr>" for X
    by (drule_tac arg_cong [where f = "\<lambda>r. r\<lparr>cr_uploads := X\<rparr>"]) (simp add: but_uploads_def r1_def)
  have b2: "r2\<lparr>cr_versions := V, cr_uploads := X\<rparr> = r\<lparr>cr_versions := V, cr_uploads := X\<rparr>" for V X
    using arg_cong [where f = "\<lambda>q. q\<lparr>cr_versions := V, cr_uploads := X\<rparr>", OF b [of "[]"]] by simp
  from arg_cong [where f = cr_versions, OF b [of "[]"]] have w: "cr_versions r2 = cr_versions r" by simp
  have p: "upload_path sv (x\<lparr>up_CreatedAt := t0, up_UpdatedAt := u, up_ReceivedChunks := received [] cs\<rparr>) = upload_path sv x"
    by (simp add: upload_path_def)
  have "FinalizeUpload dg sv T i now (r2, d) =
      (if int (card (fst ` set cs)) < up_ExpectedChunks x then (Inl ErrUploadIncomplete, (r2, d))
       else if up_ExpectedChecksum x \<noteq> [] \<and> \<not> equal_fold (up_ExpectedChecksum x) (hex_text (dg_sha256 dg content))
       then (Inl ErrUploadChecksumMismatch, (r2, d))
       else let v = upload_version dg x T now (int (length (versions_at r key)) + 1) content
            in (Inr v, (r\<lparr>cr_versions := gm_put key (versions_at r key @ [v]) (cr_versions r),
                          cr_uploads := gm_del (contentKey T i) (cr_uploads r2)\<rparr>,
                        d\<lparr>dk_files := (dk_files d)(upload_path sv x \<mapsto> content)\<rparr>)))"
    unfolding mem_finalize [OF v2 assms(5,4), simplified, OF received_distinct [of "[]", simplified]]
    by (simp add: Let_def received_length received_assembled p content_def key_def T_def upload_version_def versions_at_def w b2)
  with start sent show ?thesis by (auto simp: received_length)
qed

definition demo_upload :: UploadSession where
  "demo_upload = \<lparr>up_ID = ''u'', up_TenantID = ''academy'', up_DocumentID = ''doc'', up_FileName = ''n.txt'',
     up_ExpectedChunks = 2, up_ReceivedChunks = [], up_ExpectedChecksum = [], up_CreatedAt = 0, up_ExpiresAt = 0,
     up_UpdatedAt = 0\<rparr>"

theorem upload_round_trip_witness:
  "\<exists>r2 v s'. FinalizeUpload demo_digests (demo_content mem_ContentStore) ''academy'' ''u'' 5
       (r2, \<lparr>dk_files = Map.empty, dk_faults = []\<rparr>) = (Inr v, s') \<and>
     dv_Version v = 1 \<and> dk_files (snd s') ''uploads/doc_n.txt'' = Some ''hello''"
proof -
  have a: "allowedFile (up_FileName demo_upload)" by code_simp
  have p: "upload_path (demo_content mem_ContentStore) demo_upload = ''uploads/doc_n.txt''" by code_simp
  have c: "assembled [(1, ''lo''), (0, ''hxl''), (0, ''hel'')] = ''hello''" by code_simp
  have n: "card (fst ` set [(1 :: int, ''lo''), (0, ''hxl''), (0, ''hel'')]) = 2" by simp
  have s: "cv_Store (demo_content mem_ContentStore) = mem_ContentStore" by (simp add: demo_content_def NewContentService_def)
  have o: "mem_uploads_ok NewContentRepository" by (simp add: mem_uploads_ok_def NewContentRepository_def)
  have u: "up_ReceivedChunks demo_upload = []" "up_TenantID demo_upload = ''academy''" "up_ID demo_upload = ''u''"
    "up_ExpectedChunks demo_upload = 2" "up_ExpectedChecksum demo_upload = []" "up_DocumentID demo_upload = ''doc''"
    by (simp_all add: demo_upload_def)
  from upload_round_trip [OF o a u(1) _ s, of "\<lparr>dk_files = Map.empty, dk_faults = []\<rparr>" 0 demo_digests 0
      "[(1, ''lo''), (0, ''hxl''), (0, ''hel'')]" 5]
  show ?thesis unfolding u p c n
    apply (clarsimp simp: Let_def upload_version_def versions_at_def NewContentRepository_def)
    apply (intro exI conjI, assumption)
    by simp_all
qed

subsection \<open>Merging duplicates\<close>

text \<open>The first element with its key.\<close>

definition is_first :: "('a \<Rightarrow> string) \<Rightarrow> 'a list \<Rightarrow> 'a \<Rightarrow> bool" where
  "is_first key xs x \<longleftrightarrow> List.find (\<lambda>y. key y = key x) xs = Some x"

lemma grouped_by_ok: "gm_ok g \<Longrightarrow> gm_ok (grouped_by key g xs)"
  by (induction key g xs rule: grouped_by.induct) simp_all

lemma grouped_by_get:
  "gm_get (grouped_by key g xs) k =
     (case gm_get g k of None \<Rightarrow> (if filter (\<lambda>x. key x = k) xs = [] then None else Some (filter (\<lambda>x. key x = k) xs))
      | Some v \<Rightarrow> Some (v @ filter (\<lambda>x. key x = k) xs))"
  by (induction key g xs rule: grouped_by.induct) (auto simp: gm_get_put split: option.splits)

lemma find_hd: "List.find P xs = (if filter P xs = [] then None else Some (hd (filter P xs)))"
  by (induction xs) auto

lemma distinct_groups:
  "distinct (map fst m) \<Longrightarrow> (\<And>k v. (k, v) \<in> set m \<Longrightarrow> distinct v \<and> (\<forall>x\<in>set v. key x = k)) \<Longrightarrow>
   distinct (concat (map (\<lambda>(_, v). drop 1 v) m))"
proof (induction m)
  case (Cons kv m)
  obtain k v where kv: "kv = (k, v)" by force
  have v: "distinct v" "\<forall>x\<in>set v. key x = k" using Cons.prems(2) [of k v] by (simp_all add: kv)
  have "key x \<noteq> k" if "(l, w) \<in> set m" "x \<in> set (drop 1 w)" for l w x
    using Cons.prems(1) Cons.prems(2) [of l w] that in_set_dropD [OF that(2)] by (force simp: kv)
  moreover have "distinct (concat (map (\<lambda>(_, v). drop 1 v) m))"
    by (rule Cons.IH) (use Cons.prems in auto)
  ultimately show ?case using v in_set_dropD [of _ 1 v] by (fastforce simp: kv)
qed simp

lemma duplicates_deleted:
  assumes d: "distinct xs" and ord: "mset (order (duplicates_of key xs)) = mset (duplicates_of key xs)"
  defines "gone \<equiv> concat (map (\<lambda>(_, group). drop 1 group) (order (duplicates_of key xs)))"
  shows "distinct gone" "set gone = {x \<in> set xs. \<not> is_first key xs x}"
proof -
  let ?g = "grouped_by key [] xs"
  have ok: "gm_ok ?g" by (rule grouped_by_ok) simp
  have mem: "(k, v) \<in> set ?g \<longleftrightarrow> v = filter (\<lambda>x. key x = k) xs \<and> v \<noteq> []" for k v
    unfolding gm_get_mem [OF ok] grouped_by_get by auto
  have sub: "set (order (duplicates_of key xs)) = set (duplicates_of key xs)" using ord by (metis set_mset_mset)
  have "mset (map fst (order (duplicates_of key xs))) = mset (map fst (duplicates_of key xs))" by (simp add: ord)
  moreover have "distinct (map fst (duplicates_of key xs))"
    using ok by (simp add: gm_ok_def duplicates_of_def distinct_map_filter)
  ultimately have dk: "distinct (map fst (order (duplicates_of key xs)))" by (metis mset_eq_imp_distinct_iff)
  have grp: "v = filter (\<lambda>x. key x = k) xs" if "(k, v) \<in> set (order (duplicates_of key xs))" for k v
    using that [unfolded sub] by (simp add: duplicates_of_def mem)
  show "distinct gone" unfolding gone_def
  proof (rule distinct_groups [OF dk])
    fix k v assume "(k, v) \<in> set (order (duplicates_of key xs))"
    from grp [OF this] show "distinct v \<and> (\<forall>x\<in>set v. key x = k)" by (simp add: d)
  qed
  have "set gone = (\<Union>(k, v) \<in> set (duplicates_of key xs). set (drop 1 v))"
    by (auto simp: gone_def sub)
  also have "\<dots> = (\<Union>(k, v) \<in> set ?g. set (drop 1 v))"
    by (fastforce simp: duplicates_of_def not_less dest: length_pos_if_in_set)
  also have "\<dots> = {x \<in> set xs. x \<in> set (drop 1 (filter (\<lambda>y. key y = key x) xs))}"
    (is "?l = ?r")
  proof
    show "?l \<subseteq> ?r"
    proof
      fix x assume "x \<in> ?l"
      then obtain k where x: "x \<in> set (drop 1 (filter (\<lambda>y. key y = k) xs))" by (auto simp: mem)
      then have "x \<in> set (filter (\<lambda>y. key y = k) xs)" by (rule in_set_dropD)
      with x show "x \<in> ?r" by auto
    qed
    show "?r \<subseteq> ?l"
    proof
      fix x assume x: "x \<in> ?r"
      then have "(key x, filter (\<lambda>y. key y = key x) xs) \<in> set ?g" by (auto simp: mem filter_empty_conv)
      with x show "x \<in> ?l" by blast
    qed
  qed
  also have "\<dots> = {x \<in> set xs. \<not> is_first key xs x}"
  proof (intro Collect_cong conj_cong refl)
    fix x assume x: "x \<in> set xs"
    let ?f = "filter (\<lambda>y. key y = key x) xs"
    have "x \<in> set ?f" using x by simp
    then obtain h t where ht: "?f = h # t" by (cases ?f) auto
    have "distinct (h # t)" using d by (simp flip: ht)
    moreover have "x = h \<or> x \<in> set t" using \<open>x \<in> set ?f\<close> by (simp add: ht)
    ultimately show "(x \<in> set (drop 1 ?f)) = (\<not> is_first key xs x)"
      by (auto simp: is_first_def find_hd ht)
  qed
  finally show "set gone = {x \<in> set xs. \<not> is_first key xs x}" .
qed

lemma firsts_keys:
  assumes "distinct xs"
  shows "distinct (map key (filter (is_first key xs) xs))" "key ` set (filter (is_first key xs) xs) = key ` set xs"
proof -
  show "distinct (map key (filter (is_first key xs) xs))"
    unfolding distinct_map
  proof (intro conjI inj_onI)
    fix x y assume "x \<in> set (filter (is_first key xs) xs)" "y \<in> set (filter (is_first key xs) xs)" and k: "key x = key y"
    then have "List.find (\<lambda>z. key z = key x) xs = Some x" "List.find (\<lambda>z. key z = key y) xs = Some y"
      by (simp_all add: is_first_def)
    then show "x = y" unfolding k by simp
  qed (simp add: assms)
  show "key ` set (filter (is_first key xs) xs) = key ` set xs"
  proof
    show "key ` set xs \<subseteq> key ` set (filter (is_first key xs) xs)"
    proof
      fix k assume "k \<in> key ` set xs"
      then have "filter (\<lambda>y. key y = k) xs \<noteq> []" by (auto simp: filter_empty_conv)
      then obtain h t where h: "filter (\<lambda>y. key y = k) xs = h # t" by (cases "filter (\<lambda>y. key y = k) xs") auto
      then have "h \<in> set (filter (\<lambda>y. key y = k) xs)" by simp
      then have "h \<in> set xs" "key h = k" by simp_all
      moreover have "is_first key xs h" by (simp add: is_first_def find_hd h \<open>key h = k\<close>)
      ultimately show "k \<in> key ` set (filter (is_first key xs) xs)" by force
    qed
  qed auto
qed

text \<open>The tags of the in-memory store: filed under their own keys, for tenants whose names have no colon.\<close>

definition tag_key :: "ContentTag \<Rightarrow> string" where
  "tag_key x = contentKey (tg_TenantID x) (tg_ID x)"

definition mem_tags_ok :: "ContentRepository \<Rightarrow> bool" where
  "mem_tags_ok r \<longleftrightarrow> gm_keyed tag_key (cr_tags r) \<and> (\<forall>x\<in>snd ` set (cr_tags r). CHR '':'' \<notin> set (tg_TenantID x))"

definition tag_name_key :: "ContentTag \<Rightarrow> string" where
  "tag_name_key tag = normalizeContentKey (tg_Name tag)"

lemma contentKey_inj: "CHR '':'' \<notin> set T \<Longrightarrow> CHR '':'' \<notin> set U \<Longrightarrow> contentKey T i = contentKey U j \<longleftrightarrow> T = U \<and> i = j"
  by (auto simp: contentKey_def append_eq_append_conv2 Cons_eq_append_conv append_eq_Cons_conv)

lemma gm_keyed_distinct: "gm_keyed key m \<Longrightarrow> distinct (map snd m)"
proof -
  assume k: "gm_keyed key m"
  then have "map fst m = map key (map snd m)" by (auto simp: gm_keyed_def)
  with k show ?thesis by (metis gm_keyed_ok gm_ok_def distinct_map)
qed

lemma delete_tags:
  "merge_loop (\<lambda>tag. mem_DeleteTag T (tg_ID tag)) n L r =
     (Inr (n + int (length L)), r\<lparr>cr_tags := filter (\<lambda>(k, _). k \<notin> (\<lambda>t. contentKey T (tg_ID t)) ` set L) (cr_tags r)\<rparr>)"
proof (induction L arbitrary: n r)
  case (Cons t L)
  have "filter (\<lambda>(k, _). k \<notin> (\<lambda>t. contentKey T (tg_ID t)) ` set L) (gm_del (contentKey T (tg_ID t)) (cr_tags r)) =
      filter (\<lambda>(k, _). k \<notin> (\<lambda>t. contentKey T (tg_ID t)) ` set (t # L)) (cr_tags r)"
    unfolding AList.delete_eq filter_filter by (intro filter_cong) auto
  moreover have "merge_loop (\<lambda>tag. mem_DeleteTag T (tg_ID tag)) n (t # L) r = merge_loop (\<lambda>tag. mem_DeleteTag T (tg_ID tag)) (n + 1) L
      (r\<lparr>cr_tags := gm_del (contentKey T (tg_ID t)) (cr_tags r)\<rparr>)"
    by (simp add: op_bind_def op_err_def mem_DeleteTag_def)
  ultimately show ?case unfolding Cons.IH by (simp only:) simp
qed (simp add: case_prod_beta)

lemma rows_without:
  assumes ok: "mem_tags_ok r" and L: "set L \<subseteq> {x \<in> snd ` set (cr_tags r). tg_TenantID x = T}"
  shows "map snd (filter (\<lambda>(k, _). k \<notin> (\<lambda>t. contentKey T (tg_ID t)) ` set L) (cr_tags r)) =
    filter (\<lambda>x. x \<notin> set L) (map snd (cr_tags r))"
proof -
  have "k \<in> (\<lambda>t. contentKey T (tg_ID t)) ` set L \<longleftrightarrow> x \<in> set L" if kx: "(k, x) \<in> set (cr_tags r)" for k x
  proof
    have k: "k = contentKey (tg_TenantID x) (tg_ID x)" using ok kx by (auto simp: mem_tags_ok_def gm_keyed_def tag_key_def)
    assume "k \<in> (\<lambda>t. contentKey T (tg_ID t)) ` set L"
    then obtain t where t: "t \<in> set L" "k = contentKey T (tg_ID t)" by blast
    with L obtain l where l: "(l, t) \<in> set (cr_tags r)" and T: "tg_TenantID t = T" by auto
    then have "l = k" using ok t by (auto simp: mem_tags_ok_def gm_keyed_def tag_key_def)
    with l kx ok have "t = x" by (auto simp: mem_tags_ok_def gm_keyed_def gm_ok_def dest: eq_key_imp_eq_value)
    with t show "x \<in> set L" by simp
  next
    assume "x \<in> set L"
    moreover have "k = contentKey (tg_TenantID x) (tg_ID x)" using ok kx by (auto simp: mem_tags_ok_def gm_keyed_def tag_key_def)
    ultimately show "k \<in> (\<lambda>t. contentKey T (tg_ID t)) ` set L" using L by auto
  qed
  then have "filter (\<lambda>(k, _). k \<notin> (\<lambda>t. contentKey T (tg_ID t)) ` set L) (cr_tags r) = filter (\<lambda>kx. snd kx \<notin> set L) (cr_tags r)"
    by (intro filter_cong refl) (metis (no_types, lifting) case_prod_beta prod.collapse)
  then show ?thesis by (simp add: filter_map comp_def)
qed

text \<open>
  Merging the duplicate tags of a tenant of the in-memory store keeps, in whatever order the map
  of the groups is iterated, exactly the first tag of every name (up to case and surrounding blanks)
  in the order of the listing, counts the removed ones, and touches no other tenant's tags.
\<close>

theorem merge_tags_keeps_first:
  assumes ok: "mem_tags_ok r" and sv: "cv_Store sv = mem_ContentStore"
    and ord: "\<And>g. mset (order g) = mset g"
    and listed: "mem_ListTags T r = (Inr ts, r)"
  defines "kept \<equiv> filter (is_first tag_name_key ts) ts"
  shows "\<exists>r'. MergeDuplicateTags order sv T r = (Inr (int (length ts) - int (length kept)), r') \<and>
    mem_ListTags T r' = (Inr kept, r') \<and> distinct (map tag_name_key kept) \<and> tag_name_key ` set kept = tag_name_key ` set ts \<and>
    (\<forall>U. U \<noteq> T \<longrightarrow> fst (mem_ListTags U r') = fst (mem_ListTags U r))"
proof -
  let ?gone = "concat (map (\<lambda>(_, group). drop 1 group) (order (duplicates_of tag_name_key ts)))"
  have ts: "ts = sort_key (\<lambda>x. to_lower (tg_Name x)) (filter (\<lambda>x. tg_TenantID x = T) (map snd (cr_tags r)))"
    using listed by (simp add: mem_ListTags_def)
  have "distinct (map snd (cr_tags r))" using ok by (auto simp: mem_tags_ok_def intro: gm_keyed_distinct)
  then have d: "distinct ts" unfolding ts by simp
  note G = duplicates_deleted [where order = order and key = tag_name_key, OF d ord]
  have L: "set ?gone \<subseteq> {x \<in> snd ` set (cr_tags r). tg_TenantID x = T}" unfolding G(2) by (auto simp: ts)
  define r' where "r' = r\<lparr>cr_tags := filter (\<lambda>(k, _). k \<notin> (\<lambda>t. contentKey T (tg_ID t)) ` set ?gone) (cr_tags r)\<rparr>"
  have rows: "map snd (cr_tags r') = filter (\<lambda>x. x \<notin> set ?gone) (map snd (cr_tags r))"
    unfolding r'_def using rows_without [OF ok L] by simp
  have "length ?gone = card (set ?gone)" using distinct_card [OF G(1)] by (rule sym)
  also have "\<dots> = length (filter (\<lambda>x. \<not> is_first tag_name_key ts x) ts)"
    unfolding G(2) using d by (metis distinct_card distinct_filter set_filter)
  finally have n: "int (length ?gone) = int (length ts) - int (length kept)"
    using sum_length_filter_compl [of "is_first tag_name_key ts" ts] by (simp add: kept_def)
  have run: "MergeDuplicateTags order sv T r = (Inr (int (length ts) - int (length kept)), r')"
    using listed delete_tags [of T 0 ?gone r] n
    by (simp add: MergeDuplicateTags_def FindDuplicateTags_def sv mem_ContentStore_def op_bind_def op_err_def r'_def tag_name_key_def [abs_def])
  have "filter (\<lambda>x. x \<notin> set ?gone) ts = kept"
    unfolding kept_def G(2) by (intro filter_cong) auto
  moreover have "filter (\<lambda>x. x \<notin> set ?gone) ts = sort_key (\<lambda>x. to_lower (tg_Name x)) (filter (\<lambda>x. tg_TenantID x = T) (map snd (cr_tags r')))"
    unfolding rows ts filter_sort filter_filter by (intro arg_cong [where f = "sort_key _"] filter_cong) auto
  ultimately have "mem_ListTags T r' = (Inr kept, r')" by (simp add: mem_ListTags_def)
  moreover have "fst (mem_ListTags U r') = fst (mem_ListTags U r)" if "U \<noteq> T" for U
  proof -
    have "filter (\<lambda>x. tg_TenantID x = U) (map snd (cr_tags r')) = filter (\<lambda>x. tg_TenantID x = U) (map snd (cr_tags r))"
      unfolding rows filter_filter by (intro filter_cong) (use L that in auto)
    then show ?thesis by (simp add: mem_ListTags_def)
  qed
  moreover have "distinct (map tag_name_key kept)" "tag_name_key ` set kept = tag_name_key ` set ts"
    using firsts_keys [OF d, of tag_name_key] by (simp_all add: kept_def)
  ultimately show ?thesis using run by blast
qed

definition demo_tag :: "string \<Rightarrow> string \<Rightarrow> ContentTag" where
  "demo_tag i name = \<lparr>tg_ID = i, tg_TenantID = ''a'', tg_Name = name, tg_CreatedAt = 0, tg_UpdatedAt = 0\<rparr>"

definition demo_tags :: ContentRepository where
  "demo_tags = NewContentRepository\<lparr>cr_tags := [(''a:1'', demo_tag ''1'' ''Go''), (''a:2'', demo_tag ''2'' ''go'')]\<rparr>"

theorem merge_tags_keeps_first_witness:
  "\<exists>r'. MergeDuplicateTags rev (demo_content mem_ContentStore) ''a'' demo_tags = (Inr 1, r') \<and>
     mem_ListTags ''a'' r' = (Inr [demo_tag ''1'' ''Go''], r')"
proof -
  have ok: "mem_tags_ok demo_tags" by (auto simp: mem_tags_ok_def gm_keyed_def gm_ok_def tag_key_def contentKey_def demo_tags_def demo_tag_def)
  have s: "cv_Store (demo_content mem_ContentStore) = mem_ContentStore" by (simp add: demo_content_def NewContentService_def)
  have l: "mem_ListTags ''a'' demo_tags = (Inr [demo_tag ''1'' ''Go'', demo_tag ''2'' ''go''], demo_tags)" by code_simp
  have k: "filter (is_first tag_name_key [demo_tag ''1'' ''Go'', demo_tag ''2'' ''go'']) [demo_tag ''1'' ''Go'', demo_tag ''2'' ''go''] =
      [demo_tag ''1'' ''Go'']" by code_simp
  show ?thesis using merge_tags_keeps_first [OF ok s _ l, of rev] unfolding k by auto
qed

end
