(* ===== verification/Content_Postgres.thy ===== *)
theory Content_Postgres
  imports Content_Laws Task_Postgres Demo_Database
begin

text \<open>
  Content items, tags, documents, uploads and share links in the PostgreSQL store:
  \<^verbatim>\<open>internal/repository/postgres/workflow_store.go\<close> and \<^verbatim>\<open>share_store.go\<close>. The columns
  \<^verbatim>\<open>body\<close> of a document version and \<^verbatim>\<open>received_chunks\<close> of an upload hold JSON that the queries read
  back as it was written. An error at the end of a transaction undoes its statements.
\<close>

subsection \<open>Content items\<close>

definition content_row :: "pg_env \<Rightarrow> string \<Rightarrow> string \<Rightarrow> string \<Rightarrow> string \<Rightarrow> ContentItem \<Rightarrow> ContentItem" where
  "content_row env i t category creator item = \<lparr>ci_ID = i, ci_TenantID = t, ci_CreatedByUserID = creator, ci_Title = ci_Title item,
     ci_CategoryID = category, ci_Difficulty = 0, ci_DurationM = 0, ci_DurationMinutes = 0, ci_Version = ci_Version item,
     ci_Checksum = ci_Checksum item, ci_CreatedAt = sql_now env, ci_UpdatedAt = sql_now env\<rparr>"

definition content_merge :: "ContentItem \<Rightarrow> ContentItem \<Rightarrow> ContentItem" where
  "content_merge excluded row = row\<lparr>ci_Title := ci_Title excluded, ci_Checksum := ci_Checksum excluded,
     ci_Version := ci_Version excluded, ci_CategoryID := ci_CategoryID excluded, ci_UpdatedAt := ci_UpdatedAt excluded\<rparr>"

definition pg_put_content :: "ContentItem \<Rightarrow> (unit, pg_state) op" where
  "pg_put_content row s =
     (let db = pg_db s; badCategory = (ci_CategoryID row \<noteq> '''' \<and> ci_CategoryID row \<notin> set (db_categories db))
      in if ci_ID row = '''' then (Inl (ErrSQL ''23502''), s)
         else if \<not> int8 (ci_Version row) then (Inl (ErrSQL ''22003''), s)
         else if badCategory then (Inl (ErrSQL ''23503''), s)
         else if ci_ID row \<in> set (map ci_ID (db_content_items db))
           then (Inr (), pg_change (\<lambda>db. db\<lparr>db_content_items :=
                  map (\<lambda>x. if ci_ID x = ci_ID row then content_merge row x else x) (db_content_items db)\<rparr>) s)
         else if ci_TenantID row \<notin> set (map tn_ID (db_tenants db)) \<or>
                 (ci_CreatedByUserID row \<noteq> '''' \<and> ci_CreatedByUserID row \<notin> set (map us_ID (db_users db)))
           then (Inl (ErrSQL ''23503''), s)
         else (Inr (), pg_change (\<lambda>db. db\<lparr>db_content_items := db_content_items db @ [row]\<rparr>) s))"

text \<open>The metadata go to the item of the tenant with that title that was updated last, if there is one.\<close>

definition pg_put_metadata :: "string \<Rightarrow> ContentItem \<Rightarrow> (unit, pg_state) op" where
  "pg_put_metadata t item s =
     (if \<not> (int2 (ci_Difficulty item) \<and> int4 (ci_DurationMinutes item)) then (Inl (ErrSQL ''22003''), s)
      else case sort_key (\<lambda>x. - ci_UpdatedAt x) (filter (\<lambda>x. ci_TenantID x = t \<and>
             to_lower (ci_Title x) = to_lower (ci_Title item)) (db_content_items (pg_db s))) of
        [] \<Rightarrow> (Inr (), s)
      | x # _ \<Rightarrow>
          if \<not> (1 \<le> ci_Difficulty item \<and> ci_Difficulty item \<le> 5 \<and> 5 \<le> ci_DurationMinutes item \<and> ci_DurationMinutes item \<le> 480)
          then (Inl (ErrSQL ''23514''), s)
          else (Inr (), pg_change (\<lambda>db. db\<lparr>db_content_metadata :=
                 AList.update (t, ci_ID x) (ci_Difficulty item, ci_DurationMinutes item) (db_content_metadata db)\<rparr>) s))"

definition pg_UpsertContentItem :: "pg_env \<Rightarrow> ContentItem \<Rightarrow> (unit, pg_state) op" where
  "pg_UpsertContentItem env item =
     op_bind (resolveTenantUUID (ci_TenantID item)) (\<lambda>tenantUUID.
     let category = (if trim_space (ci_CategoryID item) \<noteq> '''' then ci_CategoryID item else '''')
     in op_bind (pg_stmt (
          op_bind (pg_nullif_uuid env (ci_ID item)) (\<lambda>i.
          op_bind (pg_uuid env tenantUUID) (\<lambda>t.
          op_bind (pg_nullif_uuid env category) (\<lambda>c.
          op_bind (pg_nullif_uuid env (ci_CreatedByUserID item)) (\<lambda>u.
            pg_put_content (content_row env i t c u item))))))) (\<lambda>_.
        pg_stmt (op_bind (pg_uuid env tenantUUID) (\<lambda>t. pg_put_metadata t item))))"

text \<open>Deleting an item deletes its metadata, versions, uploads and share links; its files lose their document.\<close>

definition drop_content :: "string \<Rightarrow> string \<Rightarrow> pg_tables \<Rightarrow> pg_tables" where
  "drop_content t i db =
     (if \<exists>x\<in>set (db_content_items db). ci_TenantID x = t \<and> ci_ID x = i
      then db\<lparr>db_content_items := filter (\<lambda>x. \<not> (ci_TenantID x = t \<and> ci_ID x = i)) (db_content_items db),
         db_content_metadata := filter (\<lambda>((_, j), _). j \<noteq> i) (db_content_metadata db),
         db_document_versions := filter (\<lambda>v. dv_DocumentID v \<noteq> i) (db_document_versions db),
         db_upload_sessions := filter (\<lambda>u. up_DocumentID u \<noteq> i) (db_upload_sessions db),
         db_share_links := filter (\<lambda>(l, _). sr_DocumentID l \<noteq> i) (db_share_links db),
         db_uploaded_files := map (\<lambda>(f, d, r). (f, if d = i then '''' else d, r)) (db_uploaded_files db)\<rparr>
      else db)"

definition pg_DeleteContentItem :: "pg_env \<Rightarrow> string \<Rightarrow> string \<Rightarrow> (unit, pg_state) op" where
  "pg_DeleteContentItem env tenantID itemID =
     op_bind (resolveTenantUUID tenantID) (\<lambda>tenantUUID.
     pg_stmt (pg_key env tenantUUID itemID (\<lambda>t i s. (Inr (), pg_change (drop_content t i) s))))"

definition content_view :: "pg_tables \<Rightarrow> ContentItem \<Rightarrow> ContentItem" where
  "content_view db x = (case map_of (db_content_metadata db) (ci_TenantID x, ci_ID x) of
      None \<Rightarrow> x\<lparr>ci_Difficulty := 1, ci_DurationMinutes := 5\<rparr>
    | Some (difficulty, minutes) \<Rightarrow> x\<lparr>ci_Difficulty := difficulty, ci_DurationMinutes := minutes\<rparr>)"

definition pg_ListContentItems :: "pg_env \<Rightarrow> string \<Rightarrow> (ContentItem list, pg_state) op" where
  "pg_ListContentItems env tenantID =
     op_bind (resolveTenantUUID tenantID) (\<lambda>tenantUUID.
     pg_stmt (op_bind (pg_uuid env tenantUUID) (\<lambda>t. pg_query (\<lambda>db.
       sort_key (\<lambda>x. - ci_UpdatedAt x) (map (content_view db) (filter (\<lambda>x. ci_TenantID x = t) (db_content_items db)))))))"

definition pg_SearchContent :: "pg_env \<Rightarrow> string \<Rightarrow> string \<Rightarrow> (ContentItem list, pg_state) op" where
  "pg_SearchContent env tenantID query =
     op_bind (resolveTenantUUID tenantID) (\<lambda>tenantUUID.
     pg_stmt (op_bind (pg_uuid env tenantUUID) (\<lambda>t. pg_query (\<lambda>db.
       let rank = (\<lambda>x. search_rank env query (ci_Title x @ '' ''));
           rows = filter (\<lambda>x. ci_TenantID x = t \<and> rank x \<noteq> None) (db_content_items db)
       in map (content_view db) (take 50 (sort_key (\<lambda>x. - the (rank x)) (sort_key (\<lambda>x. - ci_UpdatedAt x) rows)))))))"

subsection \<open>Tags\<close>

definition pg_put_tag :: "pg_env \<Rightarrow> ContentTag \<Rightarrow> string \<Rightarrow> (unit, pg_state) op" where
  "pg_put_tag env row normalized s =
     (let db = pg_db s; same = (\<lambda>(x, n). tg_TenantID x = tg_TenantID row \<and> n = normalized)
      in if tg_ID row = '''' then (Inl (ErrSQL ''23502''), s)
         else if list_ex same (db_content_tags db)
           then (Inr (), pg_change (\<lambda>db. db\<lparr>db_content_tags := map (\<lambda>(x, n). if same (x, n)
                  then (x\<lparr>tg_Name := tg_Name row, tg_UpdatedAt := sql_now env\<rparr>, n) else (x, n)) (db_content_tags db)\<rparr>) s)
         else if tg_ID row \<in> set (map (tg_ID \<circ> fst) (db_content_tags db)) then (Inl (ErrSQL ''23505''), s)
         else if tg_TenantID row \<notin> set (map tn_ID (db_tenants db)) then (Inl (ErrSQL ''23503''), s)
         else (Inr (), pg_change (\<lambda>db. db\<lparr>db_content_tags := db_content_tags db @ [(row, normalized)]\<rparr>) s))"

definition pg_UpsertTag :: "pg_env \<Rightarrow> ContentTag \<Rightarrow> (unit, pg_state) op" where
  "pg_UpsertTag env tag =
     op_bind (resolveTenantUUID (tg_TenantID tag)) (\<lambda>tenantUUID.
     pg_stmt (
       op_bind (pg_nullif_uuid env (tg_ID tag)) (\<lambda>i.
       op_bind (pg_uuid env tenantUUID) (\<lambda>t.
         pg_put_tag env \<lparr>tg_ID = i, tg_TenantID = t, tg_Name = tg_Name tag, tg_CreatedAt = sql_now env, tg_UpdatedAt = sql_now env\<rparr>
           (to_lower (trim_space (tg_Name tag)))))))"

definition pg_DeleteTag :: "pg_env \<Rightarrow> string \<Rightarrow> string \<Rightarrow> (unit, pg_state) op" where
  "pg_DeleteTag env tenantID tagID =
     op_bind (resolveTenantUUID tenantID) (\<lambda>tenantUUID.
     pg_stmt (pg_key env tenantUUID tagID (\<lambda>t i s. (Inr (), pg_change (\<lambda>db. db\<lparr>db_content_tags :=
       filter (\<lambda>(x, _). \<not> (tg_TenantID x = t \<and> tg_ID x = i)) (db_content_tags db)\<rparr>) s))))"

definition pg_ListTags :: "pg_env \<Rightarrow> string \<Rightarrow> (ContentTag list, pg_state) op" where
  "pg_ListTags env tenantID =
     op_bind (resolveTenantUUID tenantID) (\<lambda>tenantUUID.
     pg_stmt (op_bind (pg_uuid env tenantUUID) (\<lambda>t. pg_query (\<lambda>db.
       sort_key (\<lambda>x. collation env (tg_Name x)) (filter (\<lambda>x. tg_TenantID x = t) (map fst (db_content_tags db)))))))"

subsection \<open>Documents and their versions\<close>

definition pg_SaveDocument :: "pg_env \<Rightarrow> Document \<Rightarrow> (unit, pg_state) op" where
  "pg_SaveDocument env document = pg_UpsertContentItem env
     \<lparr>ci_ID = dc_ID document, ci_TenantID = dc_TenantID document, ci_CreatedByUserID = '''', ci_Title = dc_Title document,
      ci_CategoryID = '''', ci_Difficulty = 1, ci_DurationM = 0, ci_DurationMinutes = 5, ci_Version = dc_CurrentVersion document,
      ci_Checksum = dc_Checksum document, ci_CreatedAt = time_zero, ci_UpdatedAt = time_zero\<rparr>"

definition pg_ListDocuments :: "pg_env \<Rightarrow> string \<Rightarrow> (Document list, pg_state) op" where
  "pg_ListDocuments env tenantID = op_bind (pg_ListContentItems env tenantID) (\<lambda>items.
     op_return (map (\<lambda>item. \<lparr>dc_ID = ci_ID item, dc_TenantID = ci_TenantID item, dc_Title = ci_Title item, dc_Description = '''',
       dc_CurrentVersion = ci_Version item, dc_Checksum = ci_Checksum item, dc_CreatedAt = ci_CreatedAt item,
       dc_UpdatedAt = ci_UpdatedAt item\<rparr>) items))"

definition pg_next_version :: "pg_env \<Rightarrow> string \<Rightarrow> string \<Rightarrow> (int, pg_state) op" where
  "pg_next_version env tenantUUID documentID = pg_stmt (pg_key env tenantUUID documentID (\<lambda>t i. op_bind (pg_query (\<lambda>db.
     foldr max (map dv_Version (filter (\<lambda>v. dv_TenantID v = t \<and> dv_DocumentID v = i) (db_document_versions db))) 0 + 1))
       (\<lambda>n. if int4 n then op_return n else op_fail (ErrSQL ''22003''))))"

definition pg_put_version :: "DocumentVersion \<Rightarrow> (DocumentVersion, pg_state) op" where
  "pg_put_version row s =
     (let db = pg_db s
      in if dv_ID row = '''' then (Inl (ErrSQL ''23502''), s)
         else if dv_ID row \<in> set (map dv_ID (db_document_versions db)) \<or>
                 (\<exists>v\<in>set (db_document_versions db). dv_TenantID v = dv_TenantID row \<and>
                    dv_DocumentID v = dv_DocumentID row \<and> dv_Version v = dv_Version row)
           then (Inl (ErrSQL ''23505''), s)
         else if dv_TenantID row \<notin> set (map tn_ID (db_tenants db)) \<or>
                 dv_DocumentID row \<notin> set (map ci_ID (db_content_items db)) then (Inl (ErrSQL ''23503''), s)
         else (Inr row, pg_change (\<lambda>db. db\<lparr>db_document_versions := db_document_versions db @ [row]\<rparr>) s))"

definition pg_insert_version :: "pg_env \<Rightarrow> string \<Rightarrow> DocumentVersion \<Rightarrow> (DocumentVersion, pg_state) op" where
  "pg_insert_version env tenantUUID version = pg_stmt (
     op_bind (pg_nullif_uuid env (dv_ID version)) (\<lambda>v.
     pg_key env tenantUUID (dv_DocumentID version) (\<lambda>t i.
       pg_put_version (version\<lparr>dv_ID := v, dv_TenantID := t, dv_DocumentID := i,
         dv_CreatedAt := pg_ts (dv_CreatedAt version)\<rparr>))))"

definition pg_bump_content :: "pg_env \<Rightarrow> string \<Rightarrow> string \<Rightarrow> int \<Rightarrow> (unit, pg_state) op" where
  "pg_bump_content env tenantUUID documentID n = pg_stmt (pg_key env tenantUUID documentID (\<lambda>t i s.
     (Inr (), pg_change (\<lambda>db. db\<lparr>db_content_items := map (\<lambda>x. if ci_TenantID x = t \<and> ci_ID x = i
        then x\<lparr>ci_Version := n, ci_UpdatedAt := sql_now env\<rparr> else x) (db_content_items db)\<rparr>) s)))"

definition pg_AddDocumentVersion :: "pg_env \<Rightarrow> DocumentVersion \<Rightarrow> (DocumentVersion, pg_state) op" where
  "pg_AddDocumentVersion env version =
     op_bind (resolveTenantUUID (dv_TenantID version)) (\<lambda>tenantUUID.
     pg_tx (\<lambda>e. e) (
       op_bind (pg_stmt (pg_key env tenantUUID (dv_DocumentID version) (\<lambda>_ _. op_return ()))) (\<lambda>_.
       op_bind (pg_next_version env tenantUUID (dv_DocumentID version)) (\<lambda>n.
       op_bind (pg_insert_version env tenantUUID (version\<lparr>dv_Version := n\<rparr>)) (\<lambda>stored.
       op_bind (pg_bump_content env tenantUUID (dv_DocumentID stored) (dv_Version stored)) (\<lambda>_.
         op_return stored))))))"

definition pg_ListDocumentVersions :: "pg_env \<Rightarrow> string \<Rightarrow> string \<Rightarrow> (DocumentVersion list, pg_state) op" where
  "pg_ListDocumentVersions env tenantID documentID =
     op_bind (resolveTenantUUID tenantID) (\<lambda>tenantUUID.
     pg_stmt (pg_key env tenantUUID documentID (\<lambda>t i. pg_query (\<lambda>db.
       sort_key dv_Version (filter (\<lambda>v. dv_TenantID v = t \<and> dv_DocumentID v = i) (db_document_versions db))))))"

subsection \<open>Upload sessions\<close>

definition upload_merge :: "UploadSession \<Rightarrow> UploadSession \<Rightarrow> UploadSession" where
  "upload_merge excluded row = row\<lparr>up_ReceivedChunks := up_ReceivedChunks excluded, up_ExpectedChecksum := up_ExpectedChecksum excluded,
     up_ExpectedChunks := up_ExpectedChunks excluded, up_UpdatedAt := up_UpdatedAt excluded\<rparr>"

definition pg_put_upload :: "UploadSession \<Rightarrow> (unit, pg_state) op" where
  "pg_put_upload row s =
     (let db = pg_db s
      in if up_ID row = '''' \<or> up_DocumentID row = '''' then (Inl (ErrSQL ''23502''), s)
         else if \<not> int4 (up_ExpectedChunks row) then (Inl (ErrSQL ''22003''), s)
         else if up_ID row \<in> set (map up_ID (db_upload_sessions db))
           then (Inr (), pg_change (\<lambda>db. db\<lparr>db_upload_sessions :=
                  map (\<lambda>x. if up_ID x = up_ID row then upload_merge row x else x) (db_upload_sessions db)\<rparr>) s)
         else if up_TenantID row \<notin> set (map tn_ID (db_tenants db)) \<or>
                 up_DocumentID row \<notin> set (map ci_ID (db_content_items db)) then (Inl (ErrSQL ''23503''), s)
         else (Inr (), pg_change (\<lambda>db. db\<lparr>db_upload_sessions := db_upload_sessions db @ [row]\<rparr>) s))"

definition upload_row :: "string \<Rightarrow> string \<Rightarrow> string \<Rightarrow> UploadSession \<Rightarrow> UploadSession" where
  "upload_row i t d session = session\<lparr>up_ID := i, up_TenantID := t, up_DocumentID := d, up_CreatedAt := pg_ts (up_CreatedAt session),
     up_ExpiresAt := pg_ts (up_ExpiresAt session), up_UpdatedAt := pg_ts (up_UpdatedAt session)\<rparr>"

definition pg_SaveUploadSession :: "pg_env \<Rightarrow> UploadSession \<Rightarrow> (unit, pg_state) op" where
  "pg_SaveUploadSession env session =
     op_bind (resolveTenantUUID (up_TenantID session)) (\<lambda>tenantUUID.
     pg_stmt (
       op_bind (pg_nullif_uuid env (up_ID session)) (\<lambda>i.
       op_bind (pg_uuid env tenantUUID) (\<lambda>t.
       op_bind (pg_nullif_uuid env (up_DocumentID session)) (\<lambda>d.
         pg_put_upload (upload_row i t d session))))))"

definition pg_GetUploadSession :: "pg_env \<Rightarrow> string \<Rightarrow> string \<Rightarrow> (UploadSession, pg_state) op" where
  "pg_GetUploadSession env tenantID sessionID =
     op_bind (resolveTenantUUID tenantID) (\<lambda>tenantUUID.
     pg_stmt (pg_key env tenantUUID sessionID (\<lambda>t i. pg_query_row (\<lambda>db.
       filter (\<lambda>x. up_TenantID x = t \<and> up_ID x = i) (db_upload_sessions db)))))"

definition pg_DeleteUploadSession :: "pg_env \<Rightarrow> string \<Rightarrow> string \<Rightarrow> (unit, pg_state) op" where
  "pg_DeleteUploadSession env tenantID sessionID =
     op_bind (resolveTenantUUID tenantID) (\<lambda>tenantUUID.
     pg_stmt (pg_key env tenantUUID sessionID (\<lambda>t i s. (Inr (), pg_change (\<lambda>db. db\<lparr>db_upload_sessions :=
       filter (\<lambda>x. \<not> (up_TenantID x = t \<and> up_ID x = i)) (db_upload_sessions db)\<rparr>) s))))"

definition pg_ContentStore :: "pg_env \<Rightarrow> pg_state ContentStore" where
  "pg_ContentStore env = \<lparr>cs_UpsertContentItem = pg_UpsertContentItem env, cs_DeleteContentItem = pg_DeleteContentItem env,
     cs_ListContentItems = pg_ListContentItems env, cs_UpsertTag = pg_UpsertTag env, cs_DeleteTag = pg_DeleteTag env,
     cs_ListTags = pg_ListTags env, cs_SaveDocument = pg_SaveDocument env, cs_ListDocuments = pg_ListDocuments env,
     cs_AddDocumentVersion = pg_AddDocumentVersion env, cs_ListDocumentVersions = pg_ListDocumentVersions env,
     cs_SaveUploadSession = pg_SaveUploadSession env, cs_GetUploadSession = pg_GetUploadSession env,
     cs_DeleteUploadSession = pg_DeleteUploadSession env\<rparr>"

subsection \<open>Share links and uploaded files\<close>

definition pg_put_link :: "ShareLinkRecord \<Rightarrow> (unit, pg_state) op" where
  "pg_put_link row s =
     (let db = pg_db s; s' = s\<lparr>pg_next := Suc (pg_next s)\<rparr>
      in if sr_Token row \<in> set (map (sr_Token \<circ> fst) (db_share_links db))
         then (Inr (), pg_change (\<lambda>db. db\<lparr>db_share_links := map (\<lambda>(x, l). (if sr_Token x = sr_Token row
                then x\<lparr>sr_ExpiresAt := sr_ExpiresAt row\<rparr> else x, l)) (db_share_links db)\<rparr>) s')
         else if sr_TenantID row \<notin> set (map tn_ID (db_tenants db)) \<or>
                 sr_DocumentID row \<notin> set (map ci_ID (db_content_items db)) then (Inl (ErrSQL ''23503''), s')
         else (Inr (), pg_change (\<lambda>db. db\<lparr>db_share_links := db_share_links db @ [(row, None)]\<rparr>) s'))"

definition pg_SaveShareLink :: "pg_env \<Rightarrow> string \<Rightarrow> string \<Rightarrow> string \<Rightarrow> go_time \<Rightarrow> go_time \<Rightarrow> (unit, pg_state) op" where
  "pg_SaveShareLink env tenantID documentID token expiresAt now =
     op_bind (resolveTenantUUID tenantID) (\<lambda>tenantUUID.
     pg_stmt (pg_key env tenantUUID documentID (\<lambda>t d s.
       pg_put_link \<lparr>sr_ID = gen_random_uuid env (pg_next s), sr_TenantID = t, sr_DocumentID = d, sr_Token = token,
         sr_ExpiresAt = pg_ts expiresAt, sr_DownloadCnt = 0\<rparr> s)))"

definition pg_GetShareLinkByToken :: "string \<Rightarrow> (ShareLinkRecord, pg_state) op" where
  "pg_GetShareLinkByToken token = pg_stmt (pg_query_row (\<lambda>db.
     filter (\<lambda>l. sr_Token l = token) (map fst (db_share_links db))))"

definition pg_IncrementShareDownload :: "string \<Rightarrow> go_time \<Rightarrow> (unit, pg_state) op" where
  "pg_IncrementShareDownload token now = pg_stmt (\<lambda>s.
     if \<exists>(l, _)\<in>set (db_share_links (pg_db s)). sr_Token l = token \<and> \<not> int8 (sr_DownloadCnt l + 1) then (Inl (ErrSQL ''22003''), s)
     else (Inr (), pg_change (\<lambda>db. db\<lparr>db_share_links := map (\<lambda>(l, used). if sr_Token l = token
       then (l\<lparr>sr_DownloadCnt := sr_DownloadCnt l + 1\<rparr>, Some (pg_ts now)) else (l, used)) (db_share_links db)\<rparr>) s))"

definition pg_GetLatestUploadedFileForDocument :: "pg_env \<Rightarrow> string \<Rightarrow> string \<Rightarrow> (ApprovedFile, pg_state) op" where
  "pg_GetLatestUploadedFileForDocument env tenantID documentID =
     op_bind (resolveTenantUUID tenantID) (\<lambda>tenantUUID.
     pg_stmt (pg_key env tenantUUID documentID (\<lambda>t d. pg_query_row (\<lambda>db.
       map fst (sort_key (\<lambda>(_, _, _, created). - created) (filter (\<lambda>(f, doc, _). af_TenantID f = t \<and> doc = d)
         (db_uploaded_files db)))))))"

subsection \<open>Uploads\<close>

text \<open>A running database whose rows hold canonical identifiers.\<close>

definition pg_uploads_ok :: "pg_env \<Rightarrow> pg_state \<Rightarrow> bool" where
  "pg_uploads_ok env s \<longleftrightarrow> pg_faults s = [] \<and> distinct (map up_ID (db_upload_sessions (pg_db s))) \<and>
     (\<forall>x\<in>set (db_tenants (pg_db s)). uuid_in env (tn_ID x) = Some (tn_ID x) \<and> tenant_uuid (pg_db s) (tn_ID x) = Some (tn_ID x)) \<and>
     (\<forall>x\<in>set (db_upload_sessions (pg_db s)). up_ID x \<noteq> [] \<and> uuid_in env (up_ID x) = Some (up_ID x) \<and>
        up_TenantID x \<in> tn_ID ` set (db_tenants (pg_db s)) \<and>
        up_DocumentID x \<noteq> [] \<and> uuid_in env (up_DocumentID x) = Some (up_DocumentID x) \<and> int4 (up_ExpectedChunks x))"

definition pg_upload_view :: "pg_env \<Rightarrow> pg_state \<Rightarrow> string \<Rightarrow> string \<Rightarrow> UploadSession option" where
  "pg_upload_view env s T i = (case tenant_uuid (pg_db s) T of None \<Rightarrow> None | Some U \<Rightarrow>
     (case uuid_in env i of None \<Rightarrow> None | Some j \<Rightarrow>
       List.find (\<lambda>x. up_TenantID x = U \<and> up_ID x = j) (db_upload_sessions (pg_db s))))"

lemma pg_uploads_tenant:
  "pg_uploads_ok env s \<Longrightarrow> tenant_uuid (pg_db s) T = Some U \<Longrightarrow> uuid_in env U = Some U \<and> tenant_uuid (pg_db s) U = Some U"
  by (auto simp: pg_uploads_ok_def dest!: tenant_uuid_mem)

lemma pg_GetUpload_running:
  assumes "pg_uploads_ok env s"
  shows "pg_GetUploadSession env T i s = ((case tenant_uuid (pg_db s) T of None \<Rightarrow> Inl ErrNoRows | Some U \<Rightarrow>
     (case uuid_in env i of None \<Rightarrow> Inl (ErrSQL ''22P02'') | Some j \<Rightarrow>
       (case pg_upload_view env s T i of None \<Rightarrow> Inl ErrNoRows | Some x \<Rightarrow> Inr x))), s)"
proof (cases "tenant_uuid (pg_db s) T")
  case None
  with assms show ?thesis by (simp add: pg_GetUploadSession_def op_bind_def resolve_running pg_uploads_ok_def)
next
  case (Some U)
  note U = pg_uploads_tenant [OF assms Some]
  have f: "pg_faults s = []" using assms by (simp add: pg_uploads_ok_def)
  show ?thesis using U Some
    by (simp add: pg_GetUploadSession_def op_bind_def resolve_running f pg_key_def pg_uuid_def pg_query_row_eq pg_upload_view_def
        find_filter split: option.splits list.splits)
qed

lemma tenant_uuid_uploads [simp]: "tenant_uuid (db\<lparr>db_upload_sessions := us\<rparr>) T = tenant_uuid db T"
  by (simp add: tenant_uuid_def)

lemma find_map_key:
  "(\<And>x. P (f x) \<longleftrightarrow> P x) \<Longrightarrow> List.find P (map f xs) = map_option f (List.find P xs)"
  by (induction xs) auto

lemma upload_row_simps [simp]:
  "up_ID (upload_row i t d x) = i" "up_TenantID (upload_row i t d x) = t" "up_DocumentID (upload_row i t d x) = d"
  "up_ExpectedChunks (upload_row i t d x) = up_ExpectedChunks x"
  by (simp_all add: upload_row_def)

interpretation pg_up: upload_store "pg_ContentStore env" "pg_upload_view env" "pg_uploads_ok env" for env
proof
  fix s T i x
  assume ok: "pg_uploads_ok env s" and v: "pg_upload_view env s T i = Some x"
  then show "cs_GetUploadSession (pg_ContentStore env) T i s = (Inr x, s)"
    using pg_GetUpload_running [OF ok, of T i]
    by (auto simp: pg_ContentStore_def pg_upload_view_def split: option.splits)
  fix c t
  let ?row = "upload_row (up_ID x) (up_TenantID x) (up_DocumentID x) (x\<lparr>up_ReceivedChunks := c, up_UpdatedAt := t\<rparr>)"
  let ?f = "\<lambda>y. if up_ID y = up_ID x then upload_merge ?row y else y"
  let ?s = "pg_change (\<lambda>db. db\<lparr>db_upload_sessions := map ?f (db_upload_sessions db)\<rparr>) s"
  from v obtain U j where T: "tenant_uuid (pg_db s) T = Some U" and j: "uuid_in env i = Some j" and
    fx: "List.find (\<lambda>x. up_TenantID x = U \<and> up_ID x = j) (db_upload_sessions (pg_db s)) = Some x"
    by (auto simp: pg_upload_view_def split: option.splits)
  then have x: "x \<in> set (db_upload_sessions (pg_db s))" "up_TenantID x = U" "up_ID x = j"
    by (auto simp: find_Some_iff)
  have f: "pg_faults s = []" using ok by (simp add: pg_uploads_ok_def)
  have ids: "up_ID x \<noteq> []" "uuid_in env (up_ID x) = Some (up_ID x)" "up_DocumentID x \<noteq> []" "uuid_in env (up_DocumentID x) = Some (up_DocumentID x)"
    "int4 (up_ExpectedChunks x)" using ok x(1) by (auto simp: pg_uploads_ok_def)
  note U = pg_uploads_tenant [OF ok T]
  have put: "pg_put_upload ?row s = (Inr (), ?s)"
    using ids x(1) by (auto simp: pg_put_upload_def Let_def)
  have save: "cs_SaveUploadSession (pg_ContentStore env) (x\<lparr>up_ReceivedChunks := c, up_UpdatedAt := t\<rparr>) s = (Inr (), ?s)"
    using put U x(2) ids
    by (simp add: pg_ContentStore_def pg_SaveUploadSession_def op_bind_def resolve_running f pg_nullif_uuid_def pg_uuid_def)
  have keys: "map up_ID (map ?f us) = map up_ID us" for us by (induction us) (auto simp: upload_merge_def)
  have "pg_uploads_ok env ?s"
    using ok ids keys unfolding pg_uploads_ok_def
    by (auto simp: pg_change_def upload_merge_def upload_row_def comp_def cong: map_cong)
  moreover have "pg_upload_view env ?s T i = Some (x\<lparr>up_ReceivedChunks := c, up_UpdatedAt := pg_ts t\<rparr>)"
    using T j fx x by (subst pg_upload_view_def) (simp add: pg_change_def find_map_key upload_merge_def upload_row_def)
  ultimately show "\<exists>s' u. cs_SaveUploadSession (pg_ContentStore env) (x\<lparr>up_ReceivedChunks := c, up_UpdatedAt := t\<rparr>) s = (Inr (), s') \<and>
      pg_uploads_ok env s' \<and> pg_upload_view env s' T i = Some (x\<lparr>up_ReceivedChunks := c, up_UpdatedAt := u\<rparr>)"
    using save by blast
next
  fix s T i assume "pg_uploads_ok env s" "pg_upload_view env s T i = None"
  then show "\<exists>e. cs_GetUploadSession (pg_ContentStore env) T i s = (Inl e, s)"
    using pg_GetUpload_running [of env s T i] by (auto simp: pg_ContentStore_def split: option.splits)
qed

text \<open>A text that \<^verbatim>\<open>uuid\<close> input accepts has hexadecimal digits, hyphens and braces only.\<close>

definition uuid_syntax :: "pg_env \<Rightarrow> bool" where
  "uuid_syntax env \<longleftrightarrow> (\<forall>x u. uuid_in env x = Some u \<longrightarrow> set x \<subseteq> set ''0123456789abcdefABCDEF-{}'')"

lemma no_uuid_v: "uuid_syntax env \<Longrightarrow> uuid_in env (CHR ''d'' # CHR ''v'' # y) = None"
proof (rule ccontr)
  assume "uuid_syntax env" "uuid_in env (CHR ''d'' # CHR ''v'' # y) \<noteq> None"
  then have "CHR ''v'' \<in> set ''0123456789abcdefABCDEF-{}''" unfolding uuid_syntax_def by force
  then show False by simp
qed

lemma insert_version_fails:
  assumes "uuid_syntax env" "dv_ID v = CHR ''d'' # CHR ''v'' # y"
  shows "pg_insert_version env U v s \<noteq> (Inr w, s')"
  using no_uuid_v [OF assms(1)] by (auto simp: pg_insert_version_def pg_nullif_uuid_def assms(2) pg_uuid_def op_bind_Inr_iff elim: pg_stmt_Inr)

lemma add_version_fails:
  assumes "uuid_syntax env" "dv_ID v = CHR ''d'' # CHR ''v'' # y"
  shows "pg_AddDocumentVersion env v s \<noteq> (Inr w, s')"
proof
  assume "pg_AddDocumentVersion env v s = (Inr w, s')"
  then obtain U s1 where "pg_tx (\<lambda>e. e) (
       op_bind (pg_stmt (pg_key env U (dv_DocumentID v) (\<lambda>_ _. op_return ()))) (\<lambda>_.
       op_bind (pg_next_version env U (dv_DocumentID v)) (\<lambda>n.
       op_bind (pg_insert_version env U (v\<lparr>dv_Version := n\<rparr>)) (\<lambda>stored.
       op_bind (pg_bump_content env U (dv_DocumentID stored) (dv_Version stored)) (\<lambda>_.
         op_return stored))))) s1 = (Inr w, s')"
    unfolding pg_AddDocumentVersion_def op_bind_Inr_iff by blast
  then show False
    using insert_version_fails [OF assms(1), of "v\<lparr>dv_Version := _\<rparr>" y] assms(2)
    by (cases rule: pg_tx_cases) (auto simp: op_bind_Inr_iff)
qed

lemma add_version_running:
  assumes ok: "pg_uploads_ok env s" and T: "tenant_uuid (pg_db s) T = Some U" and "uuid_syntax env"
    and v: "dv_ID v = CHR ''d'' # CHR ''v'' # y" "dv_TenantID v = T"
  shows "\<exists>e. pg_AddDocumentVersion env v s = (Inl e, s)"
proof -
  have f: "pg_faults s = []" using ok by (simp add: pg_uploads_ok_def)
  show ?thesis
    using pg_uploads_tenant [OF ok T] no_uuid_v [OF assms(3)] T v
    by (auto simp: pg_AddDocumentVersion_def op_bind_def resolve_running f pg_tx_def pg_key_def pg_uuid_def pg_next_version_def
        pg_insert_version_def pg_nullif_uuid_def split: option.splits)
qed

text \<open>
  Property C29. No upload to the PostgreSQL store can be finished: the version is given an identifier
  \<^verbatim>\<open>dv_...\<close>, which the uuid column refuses. On a running database the refusal of a complete
  and correct upload leaves the tables as they were, the session included, but the file has been written.
\<close>

theorem pg_finalize_never_succeeds:
  fixes sv :: "pg_state ContentService" and dg :: digests and now :: go_time
  assumes syn: "uuid_syntax env" and sv: "cv_Store sv = pg_ContentStore env"
  shows "(\<forall>st v st'. FinalizeUpload dg sv T i now st \<noteq> (Inr v, st')) \<and>
    (\<forall>s d x. pg_uploads_ok env s \<and> pg_upload_view env s T i = Some x \<and> distinct (map fst (up_ReceivedChunks x)) \<and>
       up_ExpectedChunks x \<le> int (length (up_ReceivedChunks x)) \<and> dk_faults d = [] \<and>
       (up_ExpectedChecksum x = [] \<or>
        equal_fold (up_ExpectedChecksum x) (hex_text (dg_sha256 dg (concat (ordered_chunks (up_ReceivedChunks x)))))) \<longrightarrow>
       (\<exists>e. FinalizeUpload dg sv T i now (s, d) =
          (Inl e, (s, d\<lparr>dk_files := (dk_files d)(upload_path sv x \<mapsto> concat (ordered_chunks (up_ReceivedChunks x)))\<rparr>))))"
proof (intro conjI allI impI)
  fix st v st'
  show "FinalizeUpload dg sv T i now st \<noteq> (Inr v, st')"
  proof
    assume "FinalizeUpload dg sv T i now st = (Inr v, st')"
    moreover have "on_content (pg_AddDocumentVersion env \<lparr>dv_ID = CHR ''d'' # CHR ''v'' # y, dv_TenantID = T, dv_DocumentID = a,
        dv_Version = 0, dv_FileName = b, dv_Checksum = c, dv_SizeBytes = n, dv_CreatedAt = now\<rparr>) s1 \<noteq> (Inr w, s2)" for y a b c n w s1 s2
      using add_version_fails [OF syn] by (auto simp: on_content_def split: prod.splits)
    ultimately show False
      by (auto simp: FinalizeUpload_def sv pg_ContentStore_def op_bind_Inr_iff Let_def split: if_splits)
  qed
next
  fix s and d :: disk and x :: UploadSession
  let ?content = "concat (ordered_chunks (up_ReceivedChunks x))"
  assume H: "pg_uploads_ok env s \<and> pg_upload_view env s T i = Some x \<and> distinct (map fst (up_ReceivedChunks x)) \<and>
       up_ExpectedChunks x \<le> int (length (up_ReceivedChunks x)) \<and> dk_faults d = [] \<and>
       (up_ExpectedChecksum x = [] \<or> equal_fold (up_ExpectedChecksum x) (hex_text (dg_sha256 dg ?content)))"
  then obtain U where T: "tenant_uuid (pg_db s) T = Some U" by (auto simp: pg_upload_view_def split: option.splits)
  have "cs_GetUploadSession (pg_ContentStore env) T i s = (Inr x, s)" using H by (intro pg_up.get_some) auto
  moreover obtain e where "pg_AddDocumentVersion env \<lparr>dv_ID = ''dv_'' @ itoa (time_UnixNano now), dv_TenantID = T,
      dv_DocumentID = up_DocumentID x, dv_Version = 0, dv_FileName = up_FileName x,
      dv_Checksum = hex_text (dg_sha256 dg ?content), dv_SizeBytes = totalSize (up_ReceivedChunks x), dv_CreatedAt = now\<rparr> s = (Inl e, s)"
    using add_version_running [OF _ T syn, of "\<lparr>dv_ID = ''dv_'' @ itoa (time_UnixNano now), dv_TenantID = T,
      dv_DocumentID = up_DocumentID x, dv_Version = 0, dv_FileName = up_FileName x,
      dv_Checksum = hex_text (dg_sha256 dg ?content), dv_SizeBytes = totalSize (up_ReceivedChunks x), dv_CreatedAt = now\<rparr>"] H
    by auto
  ultimately show "\<exists>e. FinalizeUpload dg sv T i now (s, d) =
      (Inl e, (s, d\<lparr>dk_files := (dk_files d)(upload_path sv x \<mapsto> ?content)\<rparr>))"
    using H writeUpload_disk [of d sv x]
    by (intro exI [of _ e]) (auto simp: FinalizeUpload_def sv op_bind_def on_content_def on_disk_def Let_def pg_ContentStore_def)
qed

lemma demo_lower_chars:
  assumes "demo_lower c \<in> set hex_digits \<or> demo_lower c = CHR ''-''"
  shows "c \<in> set ''0123456789abcdefABCDEF-{}''"
proof (cases "c \<in> set ''ABCDEF''")
  case True
  then show ?thesis by auto
next
  case False
  then have "demo_lower c = c" by (auto simp: demo_lower_def)
  with assms show ?thesis by (auto simp: hex_digits_def)
qed

lemma demo_syntax: "uuid_syntax demo_env"
  unfolding uuid_syntax_def
proof (intro allI impI subsetI)
  fix x u c assume "uuid_in demo_env x = Some u" "c \<in> set x"
  then have "uuid_text (map demo_lower x)" by (simp add: demo_env_def demo_uuid_in_def Let_def split: if_splits)
  then have "demo_lower c \<in> set hex_digits \<or> demo_lower c = CHR ''-''"
    using \<open>c \<in> set x\<close> by (auto simp: uuid_text_def list_all2_conv_all_nth in_set_conv_nth split: if_splits)
  then show "c \<in> set ''0123456789abcdefABCDEF-{}''" by (rule demo_lower_chars)
qed

definition demo_pg_upload :: UploadSession where
  "demo_pg_upload = demo_upload\<lparr>up_ID := demo_id CHR ''e'', up_TenantID := demo_id CHR ''a'', up_DocumentID := demo_id CHR ''d'',
     up_ExpectedChunks := 1, up_ReceivedChunks := [(0, ''hi'')]\<rparr>"

definition demo_uploading :: pg_state where
  "demo_uploading = demo_state\<lparr>pg_db := demo_db\<lparr>db_upload_sessions := [demo_pg_upload]\<rparr>\<rparr>"

lemma demo_academy [simp]: "tenant_uuid demo_db ''academy'' = Some (demo_id CHR ''a'')"
  "tenant_uuid demo_db (demo_id CHR ''a'') = Some (demo_id CHR ''a'')"
  by (simp_all add: tenant_uuid_def demo_db_def)

lemma demo_tenant_ids [simp]: "x \<in> set (db_tenants demo_db) \<longleftrightarrow> x = \<lparr>tn_ID = demo_id CHR ''a'', tn_Name = ''Academy'', tn_Slug = ''academy'',
     tn_CreatedAt = 0, tn_UpdatedAt = 0\<rparr>"
  by (simp add: demo_db_def)

lemma demo_id_nonempty [simp]: "demo_id c \<noteq> []"
  by (simp add: demo_id_def)

theorem pg_finalize_never_succeeds_witness:
  "\<exists>e. FinalizeUpload demo_digests (demo_content (pg_ContentStore demo_env)) ''academy'' (demo_id CHR ''e'') 7
     (demo_uploading, \<lparr>dk_files = Map.empty, dk_faults = []\<rparr>) =
   (Inl e, (demo_uploading, \<lparr>dk_files = [upload_path (demo_content (pg_ContentStore demo_env)) demo_pg_upload \<mapsto> ''hi''], dk_faults = []\<rparr>))"
proof -
  have s: "cv_Store (demo_content (pg_ContentStore demo_env)) = pg_ContentStore demo_env"
    by (simp add: demo_content_def NewContentService_def)
  have ok: "pg_uploads_ok demo_env demo_uploading"
    by (auto simp: pg_uploads_ok_def demo_uploading_def demo_state_def demo_pg_upload_def int4_def)
  have v: "pg_upload_view demo_env demo_uploading ''academy'' (demo_id CHR ''e'') = Some demo_pg_upload"
    by (simp add: pg_upload_view_def demo_uploading_def demo_pg_upload_def)
  have o: "concat (ordered_chunks (up_ReceivedChunks demo_pg_upload)) = ''hi''"
    by (simp add: ordered_chunks_def demo_pg_upload_def)
  from conjunct2 [OF pg_finalize_never_succeeds [OF demo_syntax s, of demo_digests "''academy''" "demo_id CHR ''e''" 7],
      rule_format, of demo_uploading demo_pg_upload "\<lparr>dk_files = Map.empty, dk_faults = []\<rparr>"]
  show ?thesis unfolding o using ok v by (simp add: demo_pg_upload_def demo_upload_def)
qed

end
