(* ===== verification/Content_Handlers.thy ===== *)
theory Content_Handlers
  imports Content_Postgres Task_Handlers
begin

text \<open>
  The content endpoints, \<^verbatim>\<open>internal/api/handlers/content.go\<close>, over any content store beside the disk.
  The optional abilities of the store (search, share links), which the handlers find by a type assertion,
  are fields of the handler.
\<close>

subsection \<open>Requests, replies and the handler\<close>

record generateShareRequest =
  gs_ExpiryHours :: int

record startUploadRequest =
  su_DocumentID :: string
  su_FileName :: string
  su_ExpectedChunks :: int
  su_ExpectedChecksum :: string

record appendChunkRequest =
  ap_SessionID :: string
  ap_Index :: int
  ap_ChunkB64 :: string
  ap_Checksum :: string

record finalizeUploadRequest =
  fu_SessionID :: string

record 's shareStore =
  sh_SaveShareLink :: "string \<Rightarrow> string \<Rightarrow> string \<Rightarrow> go_time \<Rightarrow> go_time \<Rightarrow> (unit, 's) op"
  sh_GetShareLinkByToken :: "string \<Rightarrow> (ShareLinkRecord, 's) op"
  sh_IncrementShareDownload :: "string \<Rightarrow> go_time \<Rightarrow> (unit, 's) op"
  sh_GetLatestUploadedFileForDocument :: "string \<Rightarrow> string \<Rightarrow> (ApprovedFile, 's) op"

record 's ContentHandler =
  ch_Content :: "'s ContentService"
  ch_Searcher :: "(string \<Rightarrow> string \<Rightarrow> (ContentItem list, 's) op) option"
  ch_Share :: "'s shareStore option"

datatype content_reply =
    ReplyUpload UploadSession
  | ReplyComplete bool
  | ReplyVersion DocumentVersion
  | ReplyItems "ContentItem list" string
  | ReplyVersions string "DocumentVersion list"
  | ReplyShare string string string
  | ReplyFile "(string \<times> string) list" string

definition pg_shareStore :: "pg_env \<Rightarrow> pg_state shareStore" where
  "pg_shareStore env = \<lparr>sh_SaveShareLink = pg_SaveShareLink env, sh_GetShareLinkByToken = pg_GetShareLinkByToken,
     sh_IncrementShareDownload = pg_IncrementShareDownload,
     sh_GetLatestUploadedFileForDocument = pg_GetLatestUploadedFileForDocument env\<rparr>"

text \<open>The handler over PostgreSQL, whose store has every ability.\<close>

definition pg_ContentHandler :: "pg_env \<Rightarrow> string \<Rightarrow> string \<Rightarrow> pg_state ContentHandler" where
  "pg_ContentHandler env secret path = \<lparr>ch_Content = NewContentService (pg_ContentStore env) secret path,
     ch_Searcher = Some (pg_SearchContent env), ch_Share = Some (pg_shareStore env)\<rparr>"

subsection \<open>Base64 with padding\<close>

text \<open>\<^verbatim>\<open>base64.StdEncoding\<close>: padded; line breaks are skipped and trailing bits ignored.\<close>

definition std_val :: "char \<Rightarrow> nat option" where
  "std_val c = (if c = CHR ''+'' then Some 62 else if c = CHR ''/'' then Some 63
     else if c \<in> {CHR ''-'', CHR ''_''} then None else b64_val c)"

definition StdEncoding_DecodeString :: "string \<Rightarrow> string option" where
  "StdEncoding_DecodeString s =
     (let cs = filter (\<lambda>c. (of_char c :: nat) \<notin> {10, 13}) s;
          body = rev (dropWhile (\<lambda>c. c = CHR ''='') (rev cs));
          pad = length cs - length body
      in if length cs mod 4 = 0 \<and> pad \<le> 2 \<and> list_all (\<lambda>c. std_val c \<noteq> None) body
         then map_option (map char_of) (b64_ungroup (map (\<lambda>c. the (std_val c)) body)) else None)"

subsection \<open>Ownership\<close>

definition ensureContentOwnership :: "'s ContentHandler \<Rightarrow> http_request \<Rightarrow> string \<Rightarrow> (unit, 's) op" where
  "ensureContentOwnership h rq documentID =
     (case tenant_ID rq of None \<Rightarrow> op_fail (ErrNew ''tenant context required'') | Some tenantID \<Rightarrow>
      (case actorIdentity rq of (actorUserID, actorRole) \<Rightarrow>
       if actorRole = ''admin'' then op_return ()
       else op_bind (cs_ListContentItems (cv_Store (ch_Content h)) tenantID) (\<lambda>items.
         case List.find (\<lambda>item. ci_ID item = documentID) items of
           None \<Rightarrow> op_fail (ErrNew ''content not found'')
         | Some item \<Rightarrow>
             if trim_space (ci_CreatedByUserID item) \<noteq> '''' \<and> ci_CreatedByUserID item = actorUserID then op_return ()
             else op_fail (ErrNew ''content ownership mismatch''))))"

definition ensureOrCreateContentOwnership :: "'s ContentHandler \<Rightarrow> http_request \<Rightarrow> string \<Rightarrow> string \<Rightarrow> (unit, 's) op" where
  "ensureOrCreateContentOwnership h rq documentID fileName =
     op_bind (op_try (ensureContentOwnership h rq documentID)) (\<lambda>r.
     case r of Inr _ \<Rightarrow> op_return () | Inl _ \<Rightarrow>
     (case tenant_ID rq of None \<Rightarrow> op_fail (ErrNew ''tenant context required'') | Some tenantID \<Rightarrow>
      (case actorIdentity rq of (actorUserID, actorRole) \<Rightarrow>
       if actorRole \<in> {''admin'', ''coordinator'', ''instructor''}
       then SaveContentItem (ch_Content h) \<lparr>ci_ID = documentID, ci_TenantID = tenantID, ci_CreatedByUserID = actorUserID,
              ci_Title = fileName, ci_CategoryID = '''', ci_Difficulty = 1, ci_DurationM = 0, ci_DurationMinutes = 5,
              ci_Version = 1, ci_Checksum = '''', ci_CreatedAt = time_zero, ci_UpdatedAt = time_zero\<rparr>
       else op_fail (ErrNew ''content ownership mismatch''))))"

subsection \<open>Uploads\<close>

definition ContentHandler_StartUpload :: "'s ContentHandler \<Rightarrow> startUploadRequest option \<Rightarrow> (content_reply, 's with_disk) endpoint" where
  "ContentHandler_StartUpload h body rq st =
     (case body of None \<Rightarrow> (jsonError 400 ''invalid request body'', st) | Some req \<Rightarrow>
     (case tenant_ID rq of None \<Rightarrow> (jsonError 401 ''tenant context required'', st) | Some tenantID \<Rightarrow>
      let documentID = trim_space (su_DocumentID req); fileName = trim_space (su_FileName req)
      in if documentID = '''' \<or> fileName = '''' \<or> su_ExpectedChunks req \<le> 0
         then (jsonError 400 ''document_id, file_name, and expected_chunks are required'', st)
         else (case on_content (ensureOrCreateContentOwnership h rq documentID fileName) st of
             (Inl _, st1) \<Rightarrow> (jsonError 403 ''Access denied'', st1)
           | (Inr _, st1) \<Rightarrow>
               let session = \<lparr>up_ID = newUUIDString (rq_random rq 0), up_TenantID = tenantID, up_DocumentID = documentID,
                     up_FileName = fileName, up_ExpectedChunks = su_ExpectedChunks req, up_ReceivedChunks = [],
                     up_ExpectedChecksum = su_ExpectedChecksum req, up_CreatedAt = time_zero, up_ExpiresAt = time_zero,
                     up_UpdatedAt = time_zero\<rparr>
               in case on_content (StartUpload (ch_Content h) session (rq_clock rq 0)) st1 of
                    (Inl _, st2) \<Rightarrow> (jsonError 400 ''Unable to start upload'', st2)
                  | (Inr _, st2) \<Rightarrow> ((201, OkBody (ReplyUpload session)), st2))))"

definition ContentHandler_AppendChunk :: "digests \<Rightarrow> 's ContentHandler \<Rightarrow> appendChunkRequest option \<Rightarrow>
    (content_reply, 's with_disk) endpoint" where
  "ContentHandler_AppendChunk dg h body rq st =
     (case body of None \<Rightarrow> (jsonError 400 ''invalid request body'', st) | Some req \<Rightarrow>
     (case tenant_ID rq of None \<Rightarrow> (jsonError 401 ''tenant context required'', st) | Some tenantID \<Rightarrow>
      let sessionID = trim_space (ap_SessionID req)
      in if sessionID = '''' \<or> ap_ChunkB64 req = '''' \<or> ap_Checksum req = ''''
         then (jsonError 400 ''session_id, chunk_b64, and checksum are required'', st)
         else (case on_content (cs_GetUploadSession (cv_Store (ch_Content h)) tenantID sessionID) st of
             (Inl _, st1) \<Rightarrow> (jsonError 404 ''Upload session not found'', st1)
           | (Inr session, st1) \<Rightarrow>
           (case on_content (ensureContentOwnership h rq (up_DocumentID session)) st1 of
             (Inl _, st2) \<Rightarrow> (jsonError 403 ''Access denied'', st2)
           | (Inr _, st2) \<Rightarrow>
           (case StdEncoding_DecodeString (ap_ChunkB64 req) of
             None \<Rightarrow> (jsonError 400 ''chunk_b64 must be valid base64'', st2)
           | Some chunk \<Rightarrow>
           (case on_content (AppendChunk dg (ch_Content h) tenantID sessionID (ap_Index req) chunk (ap_Checksum req) (rq_clock rq 0)) st2 of
             (Inl _, st3) \<Rightarrow> (jsonError 400 ''Invalid upload chunk'', st3)
           | (Inr complete, st3) \<Rightarrow> ((200, OkBody (ReplyComplete complete)), st3)))))))"

definition ContentHandler_FinalizeUpload :: "digests \<Rightarrow> 's ContentHandler \<Rightarrow> finalizeUploadRequest option \<Rightarrow>
    (content_reply, 's with_disk) endpoint" where
  "ContentHandler_FinalizeUpload dg h body rq st =
     (case body of None \<Rightarrow> (jsonError 400 ''invalid request body'', st) | Some req \<Rightarrow>
     (case tenant_ID rq of None \<Rightarrow> (jsonError 401 ''tenant context required'', st) | Some tenantID \<Rightarrow>
      let sessionID = trim_space (fu_SessionID req)
      in if sessionID = '''' then (jsonError 400 ''session_id is required'', st)
         else (case on_content (cs_GetUploadSession (cv_Store (ch_Content h)) tenantID sessionID) st of
             (Inl _, st1) \<Rightarrow> (jsonError 404 ''Upload session not found'', st1)
           | (Inr session, st1) \<Rightarrow>
           (case on_content (ensureContentOwnership h rq (up_DocumentID session)) st1 of
             (Inl _, st2) \<Rightarrow> (jsonError 403 ''Access denied'', st2)
           | (Inr _, st2) \<Rightarrow>
           (case FinalizeUpload dg (ch_Content h) tenantID sessionID (rq_clock rq 0) st2 of
             (Inl _, st3) \<Rightarrow> (jsonError 409 ''Upload is incomplete or invalid'', st3)
           | (Inr version, st3) \<Rightarrow> ((200, OkBody (ReplyVersion version)), st3))))))"

subsection \<open>Search and history\<close>

definition ContentHandler_Search :: "'s ContentHandler \<Rightarrow> (content_reply, 's with_disk) endpoint" where
  "ContentHandler_Search h rq st =
     (case tenant_ID rq of None \<Rightarrow> (jsonError 401 ''tenant context required'', st) | Some tenantID \<Rightarrow>
      let query = trim_space (rq_query rq ''q'')
      in if query = '''' then (jsonError 400 ''query is required'', st)
         else (case ch_Searcher h of None \<Rightarrow> (jsonError 501 ''search is not configured'', st) | Some search \<Rightarrow>
         (case on_content (search tenantID query) st of
             (Inl _, st1) \<Rightarrow> (jsonError 500 ''Unable to search content'', st1)
           | (Inr items, st1) \<Rightarrow> ((200, OkBody (ReplyItems items query)), st1))))"

text \<open>Every content store lists versions, so the type assertion of \<^verbatim>\<open>Versions\<close> succeeds.\<close>

definition ContentHandler_Versions :: "'s ContentHandler \<Rightarrow> (content_reply, 's with_disk) endpoint" where
  "ContentHandler_Versions h rq st =
     (case tenant_ID rq of None \<Rightarrow> (jsonError 401 ''tenant context required'', st) | Some tenantID \<Rightarrow>
      let documentID = trim_space (rq_param rq ''id'')
      in if documentID = '''' then (jsonError 400 ''document id is required'', st)
         else (case on_content (ensureContentOwnership h rq documentID) st of
             (Inl _, st1) \<Rightarrow> (jsonError 403 ''Access denied'', st1)
           | (Inr _, st1) \<Rightarrow>
           (case on_content (cs_ListDocumentVersions (cv_Store (ch_Content h)) tenantID documentID) st1 of
             (Inl _, st2) \<Rightarrow> (jsonError 500 ''Unable to list version history'', st2)
           | (Inr versions, st2) \<Rightarrow> ((200, OkBody (ReplyVersions documentID versions)), st2))))"

subsection \<open>Sharing\<close>

definition ContentHandler_GenerateShare :: "digests \<Rightarrow> 's ContentHandler \<Rightarrow> generateShareRequest option \<Rightarrow>
    (content_reply, 's with_disk) endpoint" where
  "ContentHandler_GenerateShare dg h body rq st =
     (case tenant_ID rq of None \<Rightarrow> (jsonError 401 ''tenant context required'', st) | Some tenantID \<Rightarrow>
      let documentID = trim_space (rq_param rq ''id'')
      in if documentID = '''' then (jsonError 400 ''document id is required'', st)
         else (case on_content (ensureContentOwnership h rq documentID) st of
             (Inl _, st1) \<Rightarrow> (jsonError 403 ''Access denied'', st1)
           | (Inr _, st1) \<Rightarrow>
               let asked = (case body of None \<Rightarrow> 72 | Some req \<Rightarrow> gs_ExpiryHours req);
                   hours = (if asked \<le> 0 \<or> asked > 72 then 72 else asked);
                   now = rq_clock rq 0;
                   share = GenerateShareLink dg (ch_Content h) documentID tenantID ''http://localhost:8080/v1/content/share'' now;
                   expires = now + hours * time_Hour;
                   st2 = (case ch_Share h of None \<Rightarrow> st1 | Some store \<Rightarrow>
                     op_ignore (on_content (sh_SaveShareLink store tenantID documentID (sl_Token share) expires now)) st1)
               in ((200, OkBody (ReplyShare (''http://localhost:8080/v1/content/share/'' @ sl_Token share) (sl_Token share)
                     (format_rfc3339 expires))), st2)))"

text \<open>The second reading of the clock is made only when a record was found.\<close>

definition shared_reply :: "ApprovedFile \<Rightarrow> string \<Rightarrow> string \<Rightarrow> content_reply response" where
  "shared_reply file content watermark = (200, OkBody (ReplyFile
     [(''X-Watermark'', watermark), (''X-Content-Type-Options'', ''nosniff''), (''Content-Type'', af_MimeType file),
      (''Content-Disposition'', ''attachment; filename='' @ [CHR 0x22] @ af_FileName file @ [CHR 0x22])]
     (content @ [CHR 0x0a] @ watermark)))"

definition ContentHandler_DownloadShared :: "digests \<Rightarrow> 's ContentHandler \<Rightarrow> (content_reply, 's with_disk) endpoint" where
  "ContentHandler_DownloadShared dg h rq st =
     (let token = trim_space (rq_param rq ''token'')
      in if token = '''' then (jsonError 400 ''share token is required'', st)
         else (case ValidateShareToken dg (ch_Content h) token (rq_clock rq 0) of
           Inl _ \<Rightarrow> (jsonError 403 ''Share link expired or invalid'', st)
         | Inr share \<Rightarrow>
         (case ch_Share h of None \<Rightarrow> (jsonError 501 ''Share downloads are not configured'', st) | Some store \<Rightarrow>
         (case on_content (sh_GetShareLinkByToken store token) st of (found, st1) \<Rightarrow>
          if (case found of Inl _ \<Rightarrow> False | Inr link \<Rightarrow> rq_clock rq 1 > sr_ExpiresAt link)
          then (jsonError 403 ''Share link expired or invalid'', st1)
          else
            (let k = (case found of Inl _ \<Rightarrow> 1 | Inr _ \<Rightarrow> 2)
             in case on_content (sh_GetLatestUploadedFileForDocument store (sl_TenantID share) (sl_DocumentID share)) st1 of
                  (Inl _, st2) \<Rightarrow> (jsonError 404 ''Shared file not found'', st2)
                | (Inr file, st2) \<Rightarrow>
                (case on_disk (os_ReadFile (af_FilePath file)) st2 of
                  (Inl _, st3) \<Rightarrow> (jsonError 404 ''Shared file not found'', st3)
                | (Inr content, st3) \<Rightarrow>
                    (shared_reply file content (''Confidential | downloader=share-link | timestamp='' @ format_rfc3339 (rq_clock rq k)),
                     op_ignore (on_content (sh_IncrementShareDownload store token (rq_clock rq (Suc k)))) st3)))))))"

subsection \<open>A foreign document\<close>

text \<open>A running database with canonical tenants and one row for every content identifier.\<close>

definition pg_content_ok :: "pg_env \<Rightarrow> pg_state \<Rightarrow> bool" where
  "pg_content_ok env s \<longleftrightarrow> pg_faults s = [] \<and> distinct (map ci_ID (db_content_items (pg_db s))) \<and>
     (\<forall>x\<in>set (db_tenants (pg_db s)). uuid_in env (tn_ID x) = Some (tn_ID x))"

lemma pg_content_tenant:
  "pg_content_ok env s \<Longrightarrow> tenant_uuid (pg_db s) T = Some U \<Longrightarrow> uuid_in env U = Some U"
  by (auto simp: pg_content_ok_def dest!: tenant_uuid_mem)

lemma content_view_keys [simp]: "ci_ID (content_view db x) = ci_ID x" "ci_TenantID (content_view db x) = ci_TenantID x"
  "ci_CreatedByUserID (content_view db x) = ci_CreatedByUserID x"
  by (simp_all add: content_view_def split: option.splits prod.splits)

lemma pg_ListContent_running:
  assumes "pg_content_ok env s" "tenant_uuid (pg_db s) T = Some U"
  shows "pg_ListContentItems env T s = (Inr (sort_key (\<lambda>x. - ci_UpdatedAt x) (map (content_view (pg_db s))
    (filter (\<lambda>x. ci_TenantID x = U) (db_content_items (pg_db s))))), s)"
  using assms pg_content_tenant [OF assms]
  by (simp add: pg_ListContentItems_def op_bind_def resolve_running pg_content_ok_def pg_uuid_def)

lemma find_SomeD: "List.find P xs = Some y \<Longrightarrow> y \<in> set xs \<and> P y"
  by (induction xs) (auto split: if_splits)

text \<open>The item that an upsert leaves under a taken identifier, whoever's it was.\<close>

definition overwritten :: "pg_env \<Rightarrow> ContentItem \<Rightarrow> ContentItem \<Rightarrow> ContentItem" where
  "overwritten env item x = x\<lparr>ci_Title := ci_Title item, ci_Checksum := ci_Checksum item, ci_Version := ci_Version item,
     ci_CategoryID := [], ci_UpdatedAt := sql_now env\<rparr>"

lemma pg_Upsert_taken:
  assumes ok: "pg_content_ok env s" and T: "tenant_uuid (pg_db s) (ci_TenantID item) = Some U"
    and i: "uuid_in env (ci_ID item) = Some (ci_ID item)" "ci_ID item \<noteq> []" "ci_ID item \<in> ci_ID ` set (db_content_items (pg_db s))"
    and c: "trim_space (ci_CategoryID item) = []" "ci_CreatedByUserID item = [] \<or> uuid_in env (ci_CreatedByUserID item) \<noteq> None"
    and v: "int8 (ci_Version item)" "1 \<le> ci_Difficulty item" "ci_Difficulty item \<le> 5" "5 \<le> ci_DurationMinutes item" "ci_DurationMinutes item \<le> 480"
  shows "\<exists>md. pg_UpsertContentItem env item s = (Inr (), s\<lparr>pg_db := (pg_db s)\<lparr>db_content_metadata := md, db_content_items :=
      map (\<lambda>x. if ci_ID x = ci_ID item then overwritten env item x else x) (db_content_items (pg_db s))\<rparr>\<rparr>)"
proof -
  have f: "pg_faults s = []" using ok by (simp add: pg_content_ok_def)
  note U = pg_content_tenant [OF ok T]
  let ?items = "map (\<lambda>x. if ci_ID x = ci_ID item then overwritten env item x else x) (db_content_items (pg_db s))"
  let ?s = "pg_change (\<lambda>db. db\<lparr>db_content_items := ?items\<rparr>) s"
  obtain u where u: "\<And>x. pg_nullif_uuid env (ci_CreatedByUserID item) x = (Inr u, x)"
    using c(2) by (cases "ci_CreatedByUserID item = []") (auto simp: pg_nullif_uuid_def pg_uuid_def)
  have put: "pg_put_content (content_row env (ci_ID item) U [] u item) s = (Inr (), ?s)"
    using i v by (auto simp: pg_put_content_def Let_def content_row_def content_merge_def overwritten_def pg_change_def)
  have "int2 (ci_Difficulty item)" "int4 (ci_DurationMinutes item)" using v by (simp_all add: int2_def int4_def)
  then have "\<exists>md. pg_put_metadata U item ?s = (Inr (), ?s\<lparr>pg_db := (pg_db ?s)\<lparr>db_content_metadata := md\<rparr>\<rparr>)"
  proof (cases "sort_key (\<lambda>x. - ci_UpdatedAt x) (filter (\<lambda>x. ci_TenantID x = U \<and> to_lower (ci_Title x) = to_lower (ci_Title item)) ?items)")
    case Nil
    moreover have "?s\<lparr>pg_db := (pg_db ?s)\<lparr>db_content_metadata := db_content_metadata (pg_db ?s)\<rparr>\<rparr> = ?s" by simp
    ultimately show ?thesis using \<open>int2 _\<close> \<open>int4 _\<close>
      by (intro exI [of _ "db_content_metadata (pg_db ?s)"]) (simp add: pg_put_metadata_def pg_change_def)
  next
    case (Cons x xs)
    then show ?thesis using v \<open>int2 _\<close> \<open>int4 _\<close>
      by (intro exI [of _ "AList.update (U, ci_ID x) (ci_Difficulty item, ci_DurationMinutes item) (db_content_metadata (pg_db ?s))"])
        (simp add: pg_put_metadata_def pg_change_def)
  qed
  then obtain md where md: "pg_put_metadata U item ?s = (Inr (), ?s\<lparr>pg_db := (pg_db ?s)\<lparr>db_content_metadata := md\<rparr>\<rparr>)" by blast
  show ?thesis
    using f T U i c u put md
    by (intro exI [of _ md])
      (simp add: pg_UpsertContentItem_def op_bind_def resolve_running pg_nullif_uuid_def pg_uuid_def Let_def pg_change_def)
qed

text \<open>The check of the owner refuses whoever is not the creator of the item in the tenant of the request.\<close>

lemma not_the_owner:
  assumes ok: "pg_content_ok env s" and tenant: "tenant_ID rq = Some T" "tenant_uuid (pg_db s) T = Some U"
    and actor: "actorIdentity rq = (actor, role)" "role \<noteq> ''admin''"
    and x: "x \<in> set (db_content_items (pg_db s))"
    and foreign: "ci_TenantID x = U \<longrightarrow> trim_space (ci_CreatedByUserID x) = [] \<or> ci_CreatedByUserID x \<noteq> actor"
  shows "\<exists>e. ensureContentOwnership (pg_ContentHandler env secret path) rq (ci_ID x) s = (Inl e, s)"
proof -
  let ?list = "sort_key (\<lambda>x. - ci_UpdatedAt x) (map (content_view (pg_db s)) (filter (\<lambda>x. ci_TenantID x = U) (db_content_items (pg_db s))))"
  have ids: "y = x" if "y \<in> set (db_content_items (pg_db s))" "ci_ID y = ci_ID x" for y
    using ok that x by (auto simp: pg_content_ok_def distinct_map dest: inj_onD)
  have step: "ensureContentOwnership (pg_ContentHandler env secret path) rq (ci_ID x) s = (case List.find (\<lambda>item. ci_ID item = ci_ID x) ?list of
      None \<Rightarrow> op_fail (ErrNew ''content not found'')
    | Some item \<Rightarrow> if trim_space (ci_CreatedByUserID item) \<noteq> [] \<and> ci_CreatedByUserID item = actor then op_return ()
        else op_fail (ErrNew ''content ownership mismatch'')) s"
    using actor by (auto simp: ensureContentOwnership_def tenant pg_ContentHandler_def NewContentService_def pg_ContentStore_def
        op_bind_def pg_ListContent_running [OF ok tenant(2)])
  show ?thesis
  proof (cases "List.find (\<lambda>item. ci_ID item = ci_ID x) ?list")
    case None
    then show ?thesis unfolding step by simp
  next
    case (Some y)
    have "y \<in> set ?list" "ci_ID y = ci_ID x" using find_SomeD [OF Some] by simp_all
    then obtain z where "z \<in> set (db_content_items (pg_db s))" "ci_TenantID z = U" "y = content_view (pg_db s) z" by auto
    with ids [of z] \<open>ci_ID y = ci_ID x\<close> have "ci_TenantID x = U" "ci_CreatedByUserID y = ci_CreatedByUserID x" by auto
    then show ?thesis unfolding step using Some foreign by auto
  qed
qed

lemma pg_start_new_upload:
  assumes "pg_faults s = []" "tenant_uuid (pg_db s) T = Some U" "uuid_in env U = Some U"
    and "up_TenantID x = T" "allowedFile (up_FileName x)" "int4 (up_ExpectedChunks x)"
    and "up_ID x \<noteq> []" "uuid_in env (up_ID x) = Some j" "j \<noteq> []" "j \<notin> up_ID ` set (db_upload_sessions (pg_db s))"
    and "up_DocumentID x \<noteq> []" "uuid_in env (up_DocumentID x) = Some D" "D \<noteq> []" "D \<in> ci_ID ` set (db_content_items (pg_db s))"
  shows "\<exists>s'. StartUpload (ch_Content (pg_ContentHandler env secret path)) x now s = (Inr (), s') \<and>
    db_content_items (pg_db s') = db_content_items (pg_db s)"
proof -
  have "U \<in> tn_ID ` set (db_tenants (pg_db s))" using tenant_uuid_mem [OF assms(2)] by auto
  then show ?thesis using assms
    by (auto simp: StartUpload_def pg_ContentHandler_def NewContentService_def pg_ContentStore_def pg_SaveUploadSession_def op_bind_def
        resolve_running pg_nullif_uuid_def pg_uuid_def pg_put_upload_def Let_def pg_change_def)
qed

text \<open>
  Property C31. On a running database a coordinator or an instructor who starts an upload for a document that
  is not their own, be it of another tenant, is answered 201: the title of that document becomes the name of
  the file, its checksum is cleared and its version is 1 again.
\<close>

theorem start_upload_overwrites_foreign:
  fixes d :: disk
  assumes ok: "pg_content_ok env s" and tenant: "tenant_ID rq = Some T" "tenant_uuid (pg_db s) T = Some U"
    and actor: "actorIdentity rq = (actor, role)" "role \<in> {''coordinator'', ''instructor''}" "actor = [] \<or> uuid_in env actor \<noteq> None"
    and document: "x \<in> set (db_content_items (pg_db s))" "trim_space (su_DocumentID req) = ci_ID x"
      "ci_ID x \<noteq> []" "uuid_in env (ci_ID x) = Some (ci_ID x)"
    and foreign: "ci_TenantID x = U \<longrightarrow> trim_space (ci_CreatedByUserID x) = [] \<or> ci_CreatedByUserID x \<noteq> actor"
    and upload: "trim_space (su_FileName req) \<noteq> []" "allowedFile (trim_space (su_FileName req))"
      "0 < su_ExpectedChunks req" "int4 (su_ExpectedChunks req)"
    and fresh: "rq_random rq 0 = Some b" "uuid_in env (newUUIDString (rq_random rq 0)) = Some j" "j \<noteq> []" "j \<notin> up_ID ` set (db_upload_sessions (pg_db s))"
  shows "\<exists>reply s'. ContentHandler_StartUpload (pg_ContentHandler env secret path) (Some req) rq (s, d) = ((201, OkBody reply), (s', d)) \<and>
    db_content_items (pg_db s') = map (\<lambda>y. if ci_ID y = ci_ID x
      then y\<lparr>ci_Title := trim_space (su_FileName req), ci_Checksum := [], ci_Version := 1, ci_CategoryID := [], ci_UpdatedAt := sql_now env\<rparr>
      else y) (db_content_items (pg_db s))"
proof -
  let ?items = "db_content_items (pg_db s)" and ?h = "pg_ContentHandler env secret path"
  let ?item = "\<lparr>ci_ID = ci_ID x, ci_TenantID = T, ci_CreatedByUserID = actor, ci_Title = trim_space (su_FileName req), ci_CategoryID = [],
    ci_Difficulty = 1, ci_DurationM = 0, ci_DurationMinutes = 5, ci_Version = 1, ci_Checksum = [], ci_CreatedAt = time_zero,
    ci_UpdatedAt = time_zero\<rparr>"
  from not_the_owner [OF ok tenant actor(1) _ document(1) foreign] actor(2)
  obtain e where own: "ensureContentOwnership ?h rq (ci_ID x) s = (Inl e, s)" by blast
  have "ci_ID ?item \<in> ci_ID ` set ?items" using document(1) by simp
  then obtain md where up: "pg_UpsertContentItem env ?item s = (Inr (), s\<lparr>pg_db := (pg_db s)\<lparr>db_content_metadata := md, db_content_items :=
      map (\<lambda>y. if ci_ID y = ci_ID x then overwritten env ?item y else y) ?items\<rparr>\<rparr>)" (is "_ = (_, ?s1)")
    using pg_Upsert_taken [OF ok, of ?item U] tenant document actor(3) by (auto simp: int8_def trim_space_def)
  have owned: "ensureOrCreateContentOwnership ?h rq (ci_ID x) (trim_space (su_FileName req)) s = (Inr (), ?s1)"
    using own actor up by (auto simp: ensureOrCreateContentOwnership_def op_bind_def op_try_def tenant SaveContentItem_def
        ValidateContentMetadata_def pg_ContentHandler_def NewContentService_def pg_ContentStore_def)
  have T1: "tenant_uuid (pg_db ?s1) T = Some U" using tenant(2) by (simp add: tenant_uuid_def)
  have "ci_ID x \<in> ci_ID ` set (db_content_items (pg_db ?s1))" using document(1)
    by (intro image_eqI [where x = "overwritten env ?item x"]) (auto simp: overwritten_def)
  moreover have "newUUIDString (rq_random rq 0) \<noteq> []" by (simp add: newUUIDString_def Let_def fresh(1))
  moreover have "pg_faults ?s1 = []" "db_upload_sessions (pg_db ?s1) = db_upload_sessions (pg_db s)" using ok by (simp_all add: pg_content_ok_def)
  ultimately obtain s' where "StartUpload (ch_Content ?h) \<lparr>up_ID = newUUIDString (rq_random rq 0), up_TenantID = T,
      up_DocumentID = ci_ID x, up_FileName = trim_space (su_FileName req), up_ExpectedChunks = su_ExpectedChunks req,
      up_ReceivedChunks = [], up_ExpectedChecksum = su_ExpectedChecksum req, up_CreatedAt = time_zero, up_ExpiresAt = time_zero,
      up_UpdatedAt = time_zero\<rparr> (rq_clock rq 0) ?s1 = (Inr (), s')" "db_content_items (pg_db s') = db_content_items (pg_db ?s1)"
    using pg_start_new_upload [OF _ T1 pg_content_tenant [OF ok tenant(2)], of "\<lparr>up_ID = newUUIDString (rq_random rq 0), up_TenantID = T,
      up_DocumentID = ci_ID x, up_FileName = trim_space (su_FileName req), up_ExpectedChunks = su_ExpectedChunks req,
      up_ReceivedChunks = [], up_ExpectedChecksum = su_ExpectedChecksum req, up_CreatedAt = time_zero, up_ExpiresAt = time_zero,
      up_UpdatedAt = time_zero\<rparr>" j "ci_ID x" secret path "rq_clock rq 0"] upload fresh document(3,4)
    by auto
  then show ?thesis using upload document(2,3) owned
    by (auto simp: ContentHandler_StartUpload_def tenant Let_def on_content_def overwritten_def)
qed

definition demo_foreign :: ContentItem where
  "demo_foreign = \<lparr>ci_ID = demo_id CHR ''d'', ci_TenantID = demo_id CHR ''f'', ci_CreatedByUserID = [], ci_Title = ''Handbook'',
     ci_CategoryID = [], ci_Difficulty = 0, ci_DurationM = 0, ci_DurationMinutes = 0, ci_Version = 4, ci_Checksum = ''cafe'',
     ci_CreatedAt = 0, ci_UpdatedAt = 0\<rparr>"

definition demo_library :: pg_state where
  "demo_library = demo_state\<lparr>pg_db := demo_db\<lparr>db_content_items := [demo_foreign]\<rparr>\<rparr>"

definition coordinator_request :: http_request where
  "coordinator_request = \<lparr>rq_path = ''/v1/content/uploads/start'', rq_tenant = Some ''academy'', rq_audit = None,
     rq_header = (\<lambda>h. if h = ''X-Actor-Role'' then ''coordinator'' else []),
     rq_param = (\<lambda>_. []), rq_query = (\<lambda>_. []), rq_cookie = (\<lambda>_. None), rq_tls = False, rq_clock = (\<lambda>_. 0),
     rq_random = (\<lambda>_. Some (replicate 16 0))\<rparr>"

lemma demo_uuid_fresh: "uuid_in demo_env (newUUIDString (Some (replicate 16 0))) = Some (newUUIDString (Some (replicate 16 0)))"
  using newUUIDString_shape [of "replicate 16 0"] by (intro demo.uuid_reads) simp

theorem start_upload_overwrites_foreign_witness:
  "\<exists>reply s'. ContentHandler_StartUpload (pg_ContentHandler demo_env ''key'' ''uploads'')
      (Some \<lparr>su_DocumentID = demo_id CHR ''d'', su_FileName = ''x.pdf'', su_ExpectedChunks = 1, su_ExpectedChecksum = []\<rparr>)
      coordinator_request
      (demo_library, \<lparr>dk_files = Map.empty, dk_faults = []\<rparr>) = ((201, OkBody reply), (s', \<lparr>dk_files = Map.empty, dk_faults = []\<rparr>)) \<and>
    map ci_Title (db_content_items (pg_db s')) = [''x.pdf''] \<and>
    map ci_TenantID (db_content_items (pg_db s')) = [demo_id CHR ''f'']"
proof -
  let ?rq = coordinator_request
  let ?req = "\<lparr>su_DocumentID = demo_id CHR ''d'', su_FileName = ''x.pdf'', su_ExpectedChunks = 1, su_ExpectedChecksum = []\<rparr>"
  have ok: "pg_content_ok demo_env demo_library"
    by (auto simp: pg_content_ok_def demo_library_def demo_state_def)
  have t: "tenant_ID ?rq = Some ''academy''" by (simp add: tenant_ID_def coordinator_request_def)
  have T: "tenant_uuid (pg_db demo_library) ''academy'' = Some (demo_id CHR ''a'')"
    using demo_academy(1) by (simp add: demo_library_def tenant_uuid_def)
  have a: "actorIdentity ?rq = ([], ''coordinator'')" by code_simp
  have x: "demo_foreign \<in> set (db_content_items (pg_db demo_library))" by (simp add: demo_library_def)
  have trim: "trim_space (su_DocumentID ?req) = ci_ID demo_foreign" "trim_space (su_FileName ?req) = ''x.pdf''" by code_simp+
  have pdf: "allowedFile ''x.pdf''" by code_simp
  have r: "rq_random ?rq 0 = Some (replicate 16 0)" by (simp add: coordinator_request_def)
  have n: "newUUIDString (rq_random ?rq 0) \<noteq> []" unfolding r by (simp add: newUUIDString_def Let_def)
  have role: "''coordinator'' \<in> {''coordinator'', ''instructor''}" and actor: "[] = [] \<or> uuid_in demo_env [] \<noteq> None" by simp_all
  have doc: "ci_ID demo_foreign \<noteq> []" "uuid_in demo_env (ci_ID demo_foreign) = Some (ci_ID demo_foreign)"
    by (simp_all add: demo_foreign_def)
  have foreign: "ci_TenantID demo_foreign = demo_id CHR ''a'' \<longrightarrow> trim_space (ci_CreatedByUserID demo_foreign) = [] \<or> ci_CreatedByUserID demo_foreign \<noteq> []"
    by (simp add: demo_foreign_def demo_id_def)
  have req: "trim_space (su_FileName ?req) \<noteq> []" "allowedFile (trim_space (su_FileName ?req))" "0 < su_ExpectedChunks ?req" "int4 (su_ExpectedChunks ?req)"
    using pdf by (simp_all only: trim) (simp_all add: int4_def)
  have fresh: "uuid_in demo_env (newUUIDString (rq_random ?rq 0)) = Some (newUUIDString (rq_random ?rq 0))"
    "newUUIDString (rq_random ?rq 0) \<notin> up_ID ` set (db_upload_sessions (pg_db demo_library))"
    using demo_uuid_fresh by (simp_all add: r) (simp add: demo_library_def demo_db_def pg_tables_new_def)
  from start_upload_overwrites_foreign [OF ok t T a role actor x trim(1) doc foreign req r fresh(1) n fresh(2),
      of "''key''" "''uploads''" "\<lparr>dk_files = Map.empty, dk_faults = []\<rparr>"]
  show ?thesis unfolding trim by (fastforce simp: demo_library_def demo_foreign_def)
qed

end
