(* ===== verification/Schedules.thy ===== *)
theory Schedules
  imports Booking_Handlers Task_Handlers Booking_Safety
begin

text \<open>
  Class periods and blackout dates: \<^verbatim>\<open>internal/repository/postgres/schedule_store.go\<close> and the endpoints
  \<^verbatim>\<open>internal/api/handlers/schedule.go\<close>. The rows keep times of day as microseconds and dates as day
  numbers; what goes in and out has the texts of \<^verbatim>\<open>model.ClassPeriod\<close>.
\<close>

subsection \<open>Rows and their texts\<close>

record class_period =
  pd_ID :: string
  pd_TenantID :: string
  pd_Title :: string
  pd_StartTime :: string
  pd_EndTime :: string
  pd_Weekday :: int
  pd_CreatedAt :: go_time
  pd_UpdatedAt :: go_time

record ScheduleConflict =
  sc_HasConflict :: bool
  sc_Reasons :: "string list"

text \<open>\<^verbatim>\<open>to_char(t, 'HH24:MI:SS')\<close>\<close>

definition time_text :: "int \<Rightarrow> string" where
  "time_text t = (let s = t div 1000000
     in two_digits (s div 3600) @ '':'' @ two_digits (s div 60 mod 60) @ '':'' @ two_digits (s mod 60))"

definition period_of_row :: "ClassPeriod \<Rightarrow> class_period" where
  "period_of_row r = \<lparr>pd_ID = cp_ID r, pd_TenantID = cp_TenantID r, pd_Title = cp_Title r,
     pd_StartTime = time_text (cp_StartTime r), pd_EndTime = time_text (cp_EndTime r), pd_Weekday = cp_Weekday r,
     pd_CreatedAt = cp_CreatedAt r, pd_UpdatedAt = cp_UpdatedAt r\<rparr>"

text \<open>SQLSTATE 22007: the text is no time of day.\<close>

definition pg_time :: "pg_env \<Rightarrow> string \<Rightarrow> (int, pg_state) op" where
  "pg_time env x = (case time_in env x of None \<Rightarrow> op_fail (ErrSQL ''22007'') | Some t \<Rightarrow> op_return t)"

definition pg_weekday :: "int \<Rightarrow> (unit, pg_state) op" where
  "pg_weekday w = (if int2 w then op_return () else op_fail (ErrSQL ''22003''))"

subsection \<open>Class periods\<close>

definition pg_insert_period :: "pg_env \<Rightarrow> ClassPeriod \<Rightarrow> (class_period, pg_state) op" where
  "pg_insert_period env row s =
     (let r = row\<lparr>cp_ID := gen_random_uuid env (pg_next s)\<rparr>; s' = s\<lparr>pg_next := Suc (pg_next s)\<rparr>
      in if \<not> (0 \<le> cp_Weekday r \<and> cp_Weekday r \<le> 6) then (Inl (ErrSQL ''23514''), s')
         else if cp_TenantID r \<notin> set (map tn_ID (db_tenants (pg_db s))) then (Inl (ErrSQL ''23503''), s')
         else (Inr (period_of_row r), pg_change (\<lambda>db. db\<lparr>db_class_periods := db_class_periods db @ [r]\<rparr>) s'))"

definition pg_CreateClassPeriod :: "pg_env \<Rightarrow> class_period \<Rightarrow> (class_period, pg_state) op" where
  "pg_CreateClassPeriod env period =
     op_bind (resolveTenantUUID (pd_TenantID period)) (\<lambda>tenantUUID.
     pg_stmt (
       op_bind (pg_uuid env tenantUUID) (\<lambda>t.
       op_bind (pg_time env (pd_StartTime period)) (\<lambda>start.
       op_bind (pg_time env (pd_EndTime period)) (\<lambda>end_time.
       op_bind (pg_weekday (pd_Weekday period)) (\<lambda>_.
         pg_insert_period env \<lparr>cp_ID = '''', cp_TenantID = t, cp_Title = pd_Title period, cp_StartTime = start,
           cp_EndTime = end_time, cp_Weekday = pd_Weekday period, cp_CreatedAt = sql_now env, cp_UpdatedAt = sql_now env\<rparr>))))))"

definition pg_ListClassPeriods :: "pg_env \<Rightarrow> string \<Rightarrow> (class_period list, pg_state) op" where
  "pg_ListClassPeriods env tenantID =
     op_bind (resolveTenantUUID tenantID) (\<lambda>tenantUUID.
     pg_stmt (op_bind (pg_uuid env tenantUUID) (\<lambda>t. pg_query (\<lambda>db.
       map period_of_row (sort_key cp_Weekday (sort_key cp_StartTime (filter (\<lambda>p. cp_TenantID p = t) (db_class_periods db))))))))"

definition pg_UpdateClassPeriod :: "pg_env \<Rightarrow> string \<Rightarrow> class_period \<Rightarrow> (class_period, pg_state) op" where
  "pg_UpdateClassPeriod env tenantID period =
     op_bind (resolveTenantUUID tenantID) (\<lambda>tenantUUID.
     pg_stmt (pg_key env tenantUUID (pd_ID period) (\<lambda>t i.
       op_bind (pg_time env (pd_StartTime period)) (\<lambda>start.
       op_bind (pg_time env (pd_EndTime period)) (\<lambda>end_time.
       op_bind (pg_weekday (pd_Weekday period)) (\<lambda>_ s.
         let P = (\<lambda>p. cp_TenantID p = t \<and> cp_ID p = i);
             f = (\<lambda>p. p\<lparr>cp_Title := pd_Title period, cp_StartTime := start, cp_EndTime := end_time,
                        cp_Weekday := pd_Weekday period, cp_UpdatedAt := sql_now env\<rparr>)
         in case filter P (db_class_periods (pg_db s)) of
              [] \<Rightarrow> (Inl ErrNoRows, s)
            | p # _ \<Rightarrow>
                if \<not> (0 \<le> pd_Weekday period \<and> pd_Weekday period \<le> 6) then (Inl (ErrSQL ''23514''), s)
                else (Inr (period_of_row (f p)), pg_change (\<lambda>db. db\<lparr>db_class_periods :=
                       map (\<lambda>p. if P p then f p else p) (db_class_periods db)\<rparr>) s)))))))"

definition pg_DeleteClassPeriod :: "pg_env \<Rightarrow> string \<Rightarrow> string \<Rightarrow> (unit, pg_state) op" where
  "pg_DeleteClassPeriod env tenantID periodID =
     op_bind (resolveTenantUUID tenantID) (\<lambda>tenantUUID.
     pg_stmt (pg_key env tenantUUID periodID (\<lambda>t i s. (Inr (), pg_change (\<lambda>db. db\<lparr>db_class_periods :=
       filter (\<lambda>p. \<not> (cp_TenantID p = t \<and> cp_ID p = i)) (db_class_periods db)\<rparr>) s))))"

subsection \<open>Blackout dates\<close>

definition pg_insert_blackout :: "pg_env \<Rightarrow> BlackoutDate \<Rightarrow> (BlackoutDate, pg_state) op" where
  "pg_insert_blackout env row s =
     (let r = row\<lparr>bd_ID := gen_random_uuid env (pg_next s)\<rparr>; s' = s\<lparr>pg_next := Suc (pg_next s)\<rparr>; db = pg_db s
      in if \<exists>d\<in>set (db_blackout_dates db). bd_TenantID d = bd_TenantID r \<and> bd_BlackoutDate d = bd_BlackoutDate r
         then (Inl (ErrSQL ''23505''), s')
         else if bd_TenantID r \<notin> set (map tn_ID (db_tenants db)) then (Inl (ErrSQL ''23503''), s')
         else (Inr r, pg_change (\<lambda>db. db\<lparr>db_blackout_dates := db_blackout_dates db @ [r]\<rparr>) s'))"

text \<open>The day of the instant as the driver sends it.\<close>

definition pg_CreateBlackoutDate :: "pg_env \<Rightarrow> string \<Rightarrow> go_time \<Rightarrow> string \<Rightarrow> (BlackoutDate, pg_state) op" where
  "pg_CreateBlackoutDate env tenantID date reason =
     op_bind (resolveTenantUUID tenantID) (\<lambda>tenantUUID.
     pg_stmt (op_bind (pg_uuid env tenantUUID) (\<lambda>t.
       pg_insert_blackout env \<lparr>bd_ID = '''', bd_TenantID = t, bd_BlackoutDate = date_of env date, bd_Reason = reason,
         bd_CreatedAt = sql_now env\<rparr>)))"

definition pg_ListBlackoutDates :: "pg_env \<Rightarrow> string \<Rightarrow> (BlackoutDate list, pg_state) op" where
  "pg_ListBlackoutDates env tenantID =
     op_bind (resolveTenantUUID tenantID) (\<lambda>tenantUUID.
     pg_stmt (op_bind (pg_uuid env tenantUUID) (\<lambda>t. pg_query (\<lambda>db.
       sort_key bd_BlackoutDate (filter (\<lambda>d. bd_TenantID d = t) (db_blackout_dates db))))))"

definition pg_DeleteBlackoutDate :: "pg_env \<Rightarrow> string \<Rightarrow> string \<Rightarrow> (unit, pg_state) op" where
  "pg_DeleteBlackoutDate env tenantID blackoutID =
     op_bind (resolveTenantUUID tenantID) (\<lambda>tenantUUID.
     pg_stmt (pg_key env tenantUUID blackoutID (\<lambda>t i s. (Inr (), pg_change (\<lambda>db. db\<lparr>db_blackout_dates :=
       filter (\<lambda>d. \<not> (bd_TenantID d = t \<and> bd_ID d = i)) (db_blackout_dates db)\<rparr>) s))))"

subsection \<open>Conflicts\<close>

definition pg_touching_periods :: "pg_env \<Rightarrow> string \<Rightarrow> go_time \<Rightarrow> go_time \<Rightarrow> (nat, pg_state) op" where
  "pg_touching_periods env tenantUUID startAt endAt = pg_stmt (
     op_bind (pg_uuid env tenantUUID) (\<lambda>t.
     pg_query (\<lambda>db. length (filter (\<lambda>p. cp_TenantID p = t \<and> cp_Weekday p = dow_of env startAt \<and>
         cp_StartTime p < hms_of env endAt \<and> cp_EndTime p > hms_of env startAt) (db_class_periods db)))))"

definition pg_CheckScheduleConflicts :: "pg_env \<Rightarrow> string \<Rightarrow> go_time \<Rightarrow> go_time \<Rightarrow> (ScheduleConflict, pg_state) op" where
  "pg_CheckScheduleConflicts env tenantID startAt endAt =
     op_bind (resolveTenantUUID tenantID) (\<lambda>tenantUUID.
     op_bind (pg_blackout_count env tenantUUID startAt) (\<lambda>blackoutCount.
     op_bind (pg_touching_periods env tenantUUID startAt endAt) (\<lambda>periodOverlapCount.
     let reasons = (if blackoutCount > 0 then [''date is marked as blackout''] else []) @
                   (if periodOverlapCount = 0 then [''outside configured class periods''] else [])
     in op_return \<lparr>sc_HasConflict = (length reasons > 0), sc_Reasons = reasons\<rparr>)))"

subsection \<open>Endpoints\<close>

record classPeriodRequest =
  cr_Title :: string
  cr_StartTime :: string
  cr_EndTime :: string
  cr_Weekday :: int

record blackoutRequest =
  bo_Date :: string
  bo_Reason :: string

record scheduleConflictRequest =
  sq_StartAt :: go_time
  sq_EndAt :: go_time

record 's scheduleStore =
  ss_CreateClassPeriod :: "class_period \<Rightarrow> (class_period, 's) op"
  ss_ListClassPeriods :: "string \<Rightarrow> (class_period list, 's) op"
  ss_UpdateClassPeriod :: "string \<Rightarrow> class_period \<Rightarrow> (class_period, 's) op"
  ss_DeleteClassPeriod :: "string \<Rightarrow> string \<Rightarrow> (unit, 's) op"
  ss_CreateBlackoutDate :: "string \<Rightarrow> go_time \<Rightarrow> string \<Rightarrow> (BlackoutDate, 's) op"
  ss_ListBlackoutDates :: "string \<Rightarrow> (BlackoutDate list, 's) op"
  ss_DeleteBlackoutDate :: "string \<Rightarrow> string \<Rightarrow> (unit, 's) op"
  ss_CheckScheduleConflicts :: "string \<Rightarrow> go_time \<Rightarrow> go_time \<Rightarrow> (ScheduleConflict, 's) op"

record 's ScheduleHandler =
  sd_Store :: "'s scheduleStore"

definition pg_scheduleStore :: "pg_env \<Rightarrow> pg_state scheduleStore" where
  "pg_scheduleStore env = \<lparr>ss_CreateClassPeriod = pg_CreateClassPeriod env, ss_ListClassPeriods = pg_ListClassPeriods env,
     ss_UpdateClassPeriod = pg_UpdateClassPeriod env, ss_DeleteClassPeriod = pg_DeleteClassPeriod env,
     ss_CreateBlackoutDate = pg_CreateBlackoutDate env, ss_ListBlackoutDates = pg_ListBlackoutDates env,
     ss_DeleteBlackoutDate = pg_DeleteBlackoutDate env, ss_CheckScheduleConflicts = pg_CheckScheduleConflicts env\<rparr>"

datatype schedule_reply =
    ReplyPeriod class_period | ReplyPeriods "class_period list"
  | ReplyBlackout BlackoutDate | ReplyBlackouts "BlackoutDate list"
  | ReplyConflict ScheduleConflict | ReplyGone

text \<open>A call of the store that decides between an error and a reply.\<close>

definition respond :: "nat \<Rightarrow> ('a \<Rightarrow> 'b) \<Rightarrow> nat \<Rightarrow> string \<Rightarrow> ('a, 's) op \<Rightarrow> 's \<Rightarrow> 'b response \<times> 's" where
  "respond status reply failed message m s = (case m s of
      (Inl _, s') \<Rightarrow> (jsonError failed message, s')
    | (Inr x, s') \<Rightarrow> ((status, OkBody (reply x)), s'))"

definition ScheduleHandler_CreateClassPeriod :: "'s ScheduleHandler \<Rightarrow> classPeriodRequest option \<Rightarrow> (schedule_reply, 's) endpoint" where
  "ScheduleHandler_CreateClassPeriod h body rq s =
     (case tenant_ID rq of None \<Rightarrow> (jsonError 401 ''tenant context required'', s) | Some tenantID \<Rightarrow>
     (case body of None \<Rightarrow> (jsonError 400 ''invalid request body'', s) | Some req \<Rightarrow>
      if trim_space (cr_Title req) = '''' \<or> cr_StartTime req = '''' \<or> cr_EndTime req = '''' \<or> cr_Weekday req < 0 \<or> cr_Weekday req > 6
      then (jsonError 400 ''title, start_time, end_time and weekday are required'', s)
      else respond 201 ReplyPeriod 400 ''Unable to create class period'' (ss_CreateClassPeriod (sd_Store h)
             \<lparr>pd_ID = '''', pd_TenantID = tenantID, pd_Title = cr_Title req, pd_StartTime = cr_StartTime req,
              pd_EndTime = cr_EndTime req, pd_Weekday = cr_Weekday req, pd_CreatedAt = time_zero, pd_UpdatedAt = time_zero\<rparr>) s))"

definition ScheduleHandler_ListClassPeriods :: "'s ScheduleHandler \<Rightarrow> (schedule_reply, 's) endpoint" where
  "ScheduleHandler_ListClassPeriods h rq s =
     (case tenant_ID rq of None \<Rightarrow> (jsonError 401 ''tenant context required'', s) | Some tenantID \<Rightarrow>
      respond 200 ReplyPeriods 500 ''Unable to list class periods'' (ss_ListClassPeriods (sd_Store h) tenantID) s)"

definition ScheduleHandler_UpdateClassPeriod :: "'s ScheduleHandler \<Rightarrow> classPeriodRequest option \<Rightarrow> (schedule_reply, 's) endpoint" where
  "ScheduleHandler_UpdateClassPeriod h body rq s =
     (case tenant_ID rq of None \<Rightarrow> (jsonError 401 ''tenant context required'', s) | Some tenantID \<Rightarrow>
     (case body of None \<Rightarrow> (jsonError 400 ''invalid request body'', s) | Some req \<Rightarrow>
      let periodID = trim_space (rq_param rq ''id'')
      in if periodID = '''' then (jsonError 400 ''period id is required'', s)
         else respond 200 ReplyPeriod 400 ''Unable to update class period'' (ss_UpdateClassPeriod (sd_Store h) tenantID
             \<lparr>pd_ID = periodID, pd_TenantID = tenantID, pd_Title = cr_Title req, pd_StartTime = cr_StartTime req,
              pd_EndTime = cr_EndTime req, pd_Weekday = cr_Weekday req, pd_CreatedAt = time_zero, pd_UpdatedAt = time_zero\<rparr>) s))"

definition ScheduleHandler_DeleteClassPeriod :: "'s ScheduleHandler \<Rightarrow> (schedule_reply, 's) endpoint" where
  "ScheduleHandler_DeleteClassPeriod h rq s =
     (case tenant_ID rq of None \<Rightarrow> (jsonError 401 ''tenant context required'', s) | Some tenantID \<Rightarrow>
      let periodID = trim_space (rq_param rq ''id'')
      in if periodID = '''' then (jsonError 400 ''period id is required'', s)
         else respond 200 (\<lambda>_. ReplyGone) 500 ''Unable to delete class period'' (ss_DeleteClassPeriod (sd_Store h) tenantID periodID) s)"

definition ScheduleHandler_CreateBlackoutDate :: "'s ScheduleHandler \<Rightarrow> blackoutRequest option \<Rightarrow> (schedule_reply, 's) endpoint" where
  "ScheduleHandler_CreateBlackoutDate h body rq s =
     (case tenant_ID rq of None \<Rightarrow> (jsonError 401 ''tenant context required'', s) | Some tenantID \<Rightarrow>
     (case body of None \<Rightarrow> (jsonError 400 ''invalid request body'', s) | Some req \<Rightarrow>
     (case time_Parse DateOnly (trim_space (bo_Date req)) of None \<Rightarrow> (jsonError 400 ''date must be YYYY-MM-DD'', s) | Some parsed \<Rightarrow>
      respond 201 ReplyBlackout 400 ''Unable to create blackout date''
        (ss_CreateBlackoutDate (sd_Store h) tenantID parsed (trim_space (bo_Reason req))) s)))"

definition ScheduleHandler_ListBlackoutDates :: "'s ScheduleHandler \<Rightarrow> (schedule_reply, 's) endpoint" where
  "ScheduleHandler_ListBlackoutDates h rq s =
     (case tenant_ID rq of None \<Rightarrow> (jsonError 401 ''tenant context required'', s) | Some tenantID \<Rightarrow>
      respond 200 ReplyBlackouts 500 ''Unable to list blackout dates'' (ss_ListBlackoutDates (sd_Store h) tenantID) s)"

definition ScheduleHandler_DeleteBlackoutDate :: "'s ScheduleHandler \<Rightarrow> (schedule_reply, 's) endpoint" where
  "ScheduleHandler_DeleteBlackoutDate h rq s =
     (case tenant_ID rq of None \<Rightarrow> (jsonError 401 ''tenant context required'', s) | Some tenantID \<Rightarrow>
      let i = trim_space (rq_param rq ''id'')
      in if i = '''' then (jsonError 400 ''blackout id is required'', s)
         else respond 200 (\<lambda>_. ReplyGone) 500 ''Unable to delete blackout date'' (ss_DeleteBlackoutDate (sd_Store h) tenantID i) s)"

definition ScheduleHandler_CheckConflicts :: "'s ScheduleHandler \<Rightarrow> scheduleConflictRequest option \<Rightarrow> (schedule_reply, 's) endpoint" where
  "ScheduleHandler_CheckConflicts h body rq s =
     (case tenant_ID rq of None \<Rightarrow> (jsonError 401 ''tenant context required'', s) | Some tenantID \<Rightarrow>
     (case body of None \<Rightarrow> (jsonError 400 ''invalid request body'', s) | Some req \<Rightarrow>
      if sq_StartAt req = time_zero \<or> sq_EndAt req = time_zero \<or> \<not> sq_EndAt req > sq_StartAt req
      then (jsonError 400 ''start_at and end_at must be valid'', s)
      else respond 200 ReplyConflict 500 ''Unable to check schedule conflicts''
             (ss_CheckScheduleConflicts (sd_Store h) tenantID (sq_StartAt req) (sq_EndAt req)) s))"

subsection \<open>The check and the booking\<close>

definition blacked_out :: "pg_env \<Rightarrow> pg_tables \<Rightarrow> string \<Rightarrow> go_time \<Rightarrow> bool" where
  "blacked_out env db U t \<longleftrightarrow> (\<exists>d\<in>set (db_blackout_dates db). bd_TenantID d = U \<and> bd_BlackoutDate d = date_of env t)"

definition touches_period :: "pg_env \<Rightarrow> pg_tables \<Rightarrow> string \<Rightarrow> go_time \<Rightarrow> go_time \<Rightarrow> bool" where
  "touches_period env db U a b \<longleftrightarrow> (\<exists>p\<in>set (db_class_periods db). cp_TenantID p = U \<and> cp_Weekday p = dow_of env a \<and>
     cp_StartTime p < hms_of env b \<and> cp_EndTime p > hms_of env a)"

lemma check_runs:
  assumes "pg_faults s = []" "tenant_uuid (pg_db s) T = Some U" "uuid_in env U = Some U"
  shows "pg_CheckScheduleConflicts env T a b s = (Inr \<lparr>sc_HasConflict = blacked_out env (pg_db s) U a \<or> \<not> touches_period env (pg_db s) U a b,
      sc_Reasons = (if blacked_out env (pg_db s) U a then [''date is marked as blackout''] else []) @
        (if touches_period env (pg_db s) U a b then [] else [''outside configured class periods''])\<rparr>, s)"
proof -
  have b: "pg_blackout_count env U a s = (Inr (length (filter (\<lambda>d. bd_TenantID d = U \<and> bd_BlackoutDate d = date_of env a)
      (db_blackout_dates (pg_db s)))), s)"
    using assms by (simp add: pg_blackout_count_def op_bind_def pg_uuid_def)
  have p: "pg_touching_periods env U a b s = (Inr (length (filter (\<lambda>p. cp_TenantID p = U \<and> cp_Weekday p = dow_of env a \<and>
      cp_StartTime p < hms_of env b \<and> cp_EndTime p > hms_of env a) (db_class_periods (pg_db s)))), s)"
    using assms by (simp add: pg_touching_periods_def op_bind_def pg_uuid_def)
  show ?thesis
    unfolding pg_CheckScheduleConflicts_def op_bind_def resolve_running [OF assms(1)] assms(2) option.case prod.case sum.case b p
      length_filter_pos length_filter_0 blacked_out_def [symmetric] touches_period_def [symmetric]
    by (simp add: Let_def)
qed

text \<open>
  Property C32. With the database running, the schedule check reports a blackout of the start's date, and being
  outside the class periods when the interval touches none of that weekday. A slot that a booking may take
  inside a class period has no conflict; but a tenant without class periods is told that every
  interval is outside of them, although its slots can be booked.
\<close>

theorem schedule_check_exact:
  assumes "pg_faults s = []" "tenant_uuid (pg_db s) T = Some U" "uuid_in env U = Some U"
  shows "\<exists>c. pg_CheckScheduleConflicts env T a b s = (Inr c, s) \<and>
    (sc_HasConflict c \<longleftrightarrow> sc_Reasons c \<noteq> []) \<and>
    (''date is marked as blackout'' \<in> set (sc_Reasons c) \<longleftrightarrow> blacked_out env (pg_db s) U a) \<and>
    (''outside configured class periods'' \<in> set (sc_Reasons c) \<longleftrightarrow> \<not> touches_period env (pg_db s) U a b) \<and>
    (\<forall>booking now. pg_slot_open env (pg_db s) U booking now \<and> bk_StartAt booking = a \<and> bk_EndAt booking = b \<and>
       hms_of env a < hms_of env b \<and> U \<in> cp_TenantID ` set (db_class_periods (pg_db s)) \<longrightarrow> \<not> sc_HasConflict c) \<and>
    (U \<notin> cp_TenantID ` set (db_class_periods (pg_db s)) \<longrightarrow> sc_HasConflict c)"
proof (intro exI conjI)
  show "pg_CheckScheduleConflicts env T a b s = (Inr \<lparr>sc_HasConflict = blacked_out env (pg_db s) U a \<or> \<not> touches_period env (pg_db s) U a b,
      sc_Reasons = (if blacked_out env (pg_db s) U a then [''date is marked as blackout''] else []) @
        (if touches_period env (pg_db s) U a b then [] else [''outside configured class periods''])\<rparr>, s)"
    by (rule check_runs [OF assms])
  have inside: "touches_period env (pg_db s) U (bk_StartAt x) (bk_EndAt x)" "\<not> blacked_out env (pg_db s) U (bk_StartAt x)"
    if "pg_slot_open env (pg_db s) U x now" "hms_of env (bk_StartAt x) < hms_of env (bk_EndAt x)"
      "U \<in> cp_TenantID ` set (db_class_periods (pg_db s))" for x now
  proof -
    from that(1,3) obtain p where p: "p \<in> set (db_class_periods (pg_db s))" "cp_TenantID p = U" "cp_Weekday p = dow_of env (bk_StartAt x)"
      "cp_StartTime p \<le> hms_of env (bk_StartAt x)" "hms_of env (bk_EndAt x) \<le> cp_EndTime p"
      unfolding pg_slot_open_def by blast
    with that(2) have "cp_StartTime p < hms_of env (bk_EndAt x)" "cp_EndTime p > hms_of env (bk_StartAt x)" by linarith+
    with p show "touches_period env (pg_db s) U (bk_StartAt x) (bk_EndAt x)" unfolding touches_period_def by blast
    show "\<not> blacked_out env (pg_db s) U (bk_StartAt x)" using that(1) by (simp add: pg_slot_open_def blacked_out_def)
  qed
  then show "\<forall>booking now. pg_slot_open env (pg_db s) U booking now \<and> bk_StartAt booking = a \<and> bk_EndAt booking = b \<and>
       hms_of env a < hms_of env b \<and> U \<in> cp_TenantID ` set (db_class_periods (pg_db s)) \<longrightarrow>
     \<not> sc_HasConflict \<lparr>sc_HasConflict = blacked_out env (pg_db s) U a \<or> \<not> touches_period env (pg_db s) U a b,
      sc_Reasons = (if blacked_out env (pg_db s) U a then [''date is marked as blackout''] else []) @
        (if touches_period env (pg_db s) U a b then [] else [''outside configured class periods''])\<rparr>"
    by auto
qed (auto simp: touches_period_def)

text \<open>The demonstration database has no class periods: its lab is open, and the check reports a conflict.\<close>

theorem schedule_check_exact_witness:
  "pg_slot_open demo_env demo_db (demo_id CHR ''a'') (demo_hold (demo_id CHR ''c'') (demo_id CHR ''b'')) 0 \<and>
   (\<exists>c. pg_CheckScheduleConflicts demo_env ''academy'' (48 * time_Hour) (49 * time_Hour) demo_state = (Inr c, demo_state) \<and>
     sc_HasConflict c \<and> sc_Reasons c \<noteq> [])"
proof
  show "pg_slot_open demo_env demo_db (demo_id CHR ''a'') (demo_hold (demo_id CHR ''c'') (demo_id CHR ''b'')) 0"
    by (simp add: pg_slot_open_def demo_db_def pg_tables_new_def demo_hold_def Booking_zero_def)
  have "tenant_uuid (pg_db demo_state) ''academy'' = Some (demo_id CHR ''a'')"
    by (simp add: demo_state_def demo_db_def tenant_uuid_def)
  from schedule_check_exact [OF _ this, of demo_env "48 * time_Hour" "49 * time_Hour"]
  show "\<exists>c. pg_CheckScheduleConflicts demo_env ''academy'' (48 * time_Hour) (49 * time_Hour) demo_state = (Inr c, demo_state) \<and>
     sc_HasConflict c \<and> sc_Reasons c \<noteq> []"
    by (auto simp: demo_state_def demo_db_def pg_tables_new_def)
qed

end
