(* ===== verification/Admin_Learners.thy ===== *)
theory Admin_Learners
  imports Booking_Handlers Auth_Postgres Content_Handlers Schedules
begin

text \<open>
  Administration and the learners' seats: \<^verbatim>\<open>internal/repository/postgres/admin_learner_store.go\<close> and the endpoints
  \<^verbatim>\<open>internal/api/handlers/admin.go\<close> and \<^verbatim>\<open>learner.go\<close>. The policies of a tenant are the JSON
  text of their object.
\<close>

subsection \<open>Tenants, users and permissions\<close>

record AdminTenantView =
  av_ID :: string
  av_Name :: string
  av_Slug :: string
  av_Policies :: string
  av_CreatedAt :: go_time
  av_UpdatedAt :: go_time

record AdminUserView =
  uv_ID :: string
  uv_Tenant :: string
  uv_Email :: string
  uv_DisplayName :: string
  uv_Role :: string
  uv_Created :: go_time

record PermissionView =
  pv_ID :: string
  pv_Key :: string

definition pg_ListTenantsAdmin :: "(AdminTenantView list, pg_state) op" where
  "pg_ListTenantsAdmin = pg_stmt (pg_query (\<lambda>db. map (\<lambda>t. \<lparr>av_ID = tn_ID t, av_Name = tn_Name t, av_Slug = tn_Slug t,
      av_Policies = (case map_of (db_policies db) (tn_ID t) of None \<Rightarrow> ''{}'' | Some p \<Rightarrow> p),
      av_CreatedAt = tn_CreatedAt t, av_UpdatedAt = tn_UpdatedAt t\<rparr>) (sort_key tn_CreatedAt (db_tenants db))))"

definition pg_UpdateTenantPolicies :: "pg_env \<Rightarrow> string \<Rightarrow> string \<Rightarrow> (unit, pg_state) op" where
  "pg_UpdateTenantPolicies env tenantID policies = pg_stmt (\<lambda>s.
     let hit = (\<lambda>t. tn_ID t = tenantID \<or> tn_Slug t = tenantID)
     in (Inr (), pg_change (\<lambda>db. db\<lparr>
          db_tenants := map (\<lambda>t. if hit t then t\<lparr>tn_UpdatedAt := sql_now env\<rparr> else t) (db_tenants db),
          db_policies := fold (\<lambda>t. AList.update (tn_ID t) policies) (filter hit (db_tenants db)) (db_policies db)\<rparr>) s))"

definition pg_ListUsersAdmin :: "(AdminUserView list, pg_state) op" where
  "pg_ListUsersAdmin = pg_stmt (pg_query (\<lambda>db. concat (map (\<lambda>u. map (\<lambda>r. \<lparr>uv_ID = us_ID u, uv_Tenant = us_TenantID u,
      uv_Email = us_Email u, uv_DisplayName = us_DisplayName u, uv_Role = coalesce_role r, uv_Created = us_CreatedAt u\<rparr>)
      (role_names db u)) (sort_key us_CreatedAt (db_users db)))))"

definition normalizeRoleName :: "string \<Rightarrow> string" where
  "normalizeRoleName role =
     (let r = to_lower (trim_space role)
      in if r = ''administrator'' \<or> r = ''admin'' then ''admin''
         else if r \<in> {''coordinator'', ''instructor'', ''learner''} then r else '''')"

definition pg_user_tenant :: "string \<Rightarrow> (string, pg_state) op" where
  "pg_user_tenant userID = pg_stmt (pg_query_row (\<lambda>db. map us_TenantID (filter (\<lambda>u. us_ID u = userID) (db_users db))))"

definition pg_tenant_role :: "string \<Rightarrow> string \<Rightarrow> (string, pg_state) op" where
  "pg_tenant_role tenantID roleName = pg_stmt (pg_query_row (\<lambda>db. map ro_ID
     (filter (\<lambda>r. ro_TenantID r = tenantID \<and> ro_Name r = roleName) (db_roles db))))"

definition pg_revoke_roles :: "string \<Rightarrow> string \<Rightarrow> (unit, pg_state) op" where
  "pg_revoke_roles tenantID userID = pg_stmt (\<lambda>s. (Inr (), pg_change (\<lambda>db. db\<lparr>db_user_roles :=
     filter (\<lambda>(t, u, _). \<not> (t = tenantID \<and> u = userID)) (db_user_roles db)\<rparr>) s))"

definition pg_assign_role :: "pg_env \<Rightarrow> string \<Rightarrow> string \<Rightarrow> string \<Rightarrow> (unit, pg_state) op" where
  "pg_assign_role env tenantID userID roleID = pg_stmt (
     op_bind (pg_uuid env tenantID) (\<lambda>t. op_bind (pg_uuid env userID) (\<lambda>u. op_bind (pg_uuid env roleID) (\<lambda>r s.
       let db = pg_db s
       in if (t, u, r) \<in> set (db_user_roles db) then (Inl (ErrSQL ''23505''), s)
          else if t \<notin> set (map tn_ID (db_tenants db)) \<or> u \<notin> set (map us_ID (db_users db)) \<or> r \<notin> set (map ro_ID (db_roles db))
          then (Inl (ErrSQL ''23503''), s)
          else (Inr (), pg_change (\<lambda>db. db\<lparr>db_user_roles := db_user_roles db @ [(t, u, r)]\<rparr>) s)))))"

definition pg_UpdateUserRole :: "pg_env \<Rightarrow> string \<Rightarrow> string \<Rightarrow> (unit, pg_state) op" where
  "pg_UpdateUserRole env userID role =
     (let roleName = normalizeRoleName role
      in if roleName = '''' then op_fail (ErrNew ''invalid role'')
         else pg_tx (\<lambda>e. e) (
           op_bind (pg_user_tenant userID) (\<lambda>tenantID.
           op_bind (pg_tenant_role tenantID roleName) (\<lambda>roleID.
           op_bind (pg_revoke_roles tenantID userID) (\<lambda>_.
             pg_assign_role env tenantID userID roleID)))))"

definition pg_ListPermissions :: "pg_env \<Rightarrow> (PermissionView list, pg_state) op" where
  "pg_ListPermissions env = pg_stmt (pg_query (\<lambda>db. map (\<lambda>p. \<lparr>pv_ID = pe_ID p, pv_Key = pe_Key p\<rparr>)
     (sort_key (\<lambda>p. collation env (pe_Key p)) (db_permissions db))))"

subsection \<open>Rooms\<close>

definition pg_ListRoomsByTenant :: "pg_env \<Rightarrow> string \<Rightarrow> (Room list, pg_state) op" where
  "pg_ListRoomsByTenant env tenantID =
     op_bind (resolveTenantUUID tenantID) (\<lambda>tenantUUID.
     pg_stmt (op_bind (pg_uuid env tenantUUID) (\<lambda>t. pg_query (\<lambda>db.
       sort_key (\<lambda>r. collation env (rm_Name r)) (filter (\<lambda>r. rm_TenantID r = t) (db_rooms db))))))"

definition pg_CreateRoom :: "pg_env \<Rightarrow> string \<Rightarrow> string \<Rightarrow> int \<Rightarrow> (Room, pg_state) op" where
  "pg_CreateRoom env tenantID name capacity =
     op_bind (resolveTenantUUID tenantID) (\<lambda>tenantUUID.
     pg_stmt (op_bind (pg_uuid env tenantUUID) (\<lambda>t s.
       let room = \<lparr>rm_ID = gen_random_uuid env (pg_next s), rm_TenantID = t, rm_Name = name, rm_Capacity = capacity,
             rm_CreatedAt = sql_now env, rm_UpdatedAt = sql_now env\<rparr>;
           s' = s\<lparr>pg_next := Suc (pg_next s)\<rparr>
       in if \<not> int4 capacity then (Inl (ErrSQL ''22003''), s)
          else if t \<notin> set (map tn_ID (db_tenants (pg_db s))) then (Inl (ErrSQL ''23503''), s')
          else (Inr room, pg_change (\<lambda>db. db\<lparr>db_rooms := db_rooms db @ [room]\<rparr>) s'))))"

definition pg_UpdateRoom :: "pg_env \<Rightarrow> string \<Rightarrow> string \<Rightarrow> string \<Rightarrow> int \<Rightarrow> (Room, pg_state) op" where
  "pg_UpdateRoom env tenantID roomID name capacity =
     op_bind (resolveTenantUUID tenantID) (\<lambda>tenantUUID.
     pg_stmt (pg_key env tenantUUID roomID (\<lambda>t i s.
       let P = (\<lambda>r. rm_TenantID r = t \<and> rm_ID r = i);
           f = (\<lambda>r. r\<lparr>rm_Name := name, rm_Capacity := capacity, rm_UpdatedAt := sql_now env\<rparr>)
       in if \<not> int4 capacity then (Inl (ErrSQL ''22003''), s)
          else case filter P (db_rooms (pg_db s)) of
            [] \<Rightarrow> (Inl ErrNoRows, s)
          | r # _ \<Rightarrow> (Inr (f r), pg_change (\<lambda>db. db\<lparr>db_rooms := map (\<lambda>r. if P r then f r else r) (db_rooms db)\<rparr>) s))))"

subsection \<open>The learners' catalogue and reservations\<close>

record LearnerCatalogFilter =
  lc_RoomID :: string
  lc_InstructorID :: string
  lc_From :: "go_time option"
  lc_To :: "go_time option"

text \<open>A condition that is part of the query only when the filter asks for it.\<close>

definition pg_optional_uuid :: "pg_env \<Rightarrow> string \<Rightarrow> (string option, pg_state) op" where
  "pg_optional_uuid env x = (if trim_space x = '''' then op_return None else op_bind (pg_uuid env x) (\<lambda>u. op_return (Some u)))"

definition matches :: "'a option \<Rightarrow> 'a \<Rightarrow> bool" where
  "matches wanted x = (case wanted of None \<Rightarrow> True | Some w \<Rightarrow> x = w)"

definition pg_ListLearnerCatalog :: "pg_env \<Rightarrow> string \<Rightarrow> LearnerCatalogFilter \<Rightarrow> (Booking list, pg_state) op" where
  "pg_ListLearnerCatalog env tenantID wanted =
     op_bind (resolveTenantUUID tenantID) (\<lambda>tenantUUID.
     pg_stmt (
       op_bind (pg_uuid env tenantUUID) (\<lambda>t.
       op_bind (pg_optional_uuid env (lc_RoomID wanted)) (\<lambda>room.
       op_bind (pg_optional_uuid env (lc_InstructorID wanted)) (\<lambda>instructor.
       pg_query (\<lambda>db. sort_key bk_StartAt (filter (\<lambda>b. bk_TenantID b = t \<and> bk_Status b = BookingStatusConfirmed \<and>
         matches room (bk_RoomID b) \<and> matches instructor (bk_InstructorID b) \<and>
         (case lc_From wanted of None \<Rightarrow> True | Some since \<Rightarrow> bk_StartAt b \<ge> pg_ts since) \<and>
         (case lc_To wanted of None \<Rightarrow> True | Some latest \<Rightarrow> bk_EndAt b \<le> pg_ts latest)) (db_bookings db))))))))"

definition pg_seats :: "pg_env \<Rightarrow> string \<Rightarrow> string \<Rightarrow> (int \<times> int \<times> BookingStatus, pg_state) op" where
  "pg_seats env tenantUUID bookingID = pg_stmt (pg_by_id env tenantUUID bookingID (\<lambda>P. pg_query_row (\<lambda>db.
     map (\<lambda>b. (bk_Capacity b, bk_Attendees b, bk_Status b)) (filter P (db_bookings db)))))"

definition same_seat :: "LearnerReservation \<Rightarrow> LearnerReservation \<Rightarrow> bool" where
  "same_seat r x \<longleftrightarrow> lr_TenantID x = lr_TenantID r \<and> lr_BookingID x = lr_BookingID r \<and> lr_LearnerUserID x = lr_LearnerUserID r"

definition pg_insert_reservation :: "pg_env \<Rightarrow> string \<Rightarrow> string \<Rightarrow> string \<Rightarrow> go_time \<Rightarrow> (unit, pg_state) op" where
  "pg_insert_reservation env tenantUUID bookingID learnerUserID now = pg_stmt (pg_key env tenantUUID bookingID (\<lambda>t b.
     op_bind (pg_uuid env learnerUserID) (\<lambda>u s.
       let row = \<lparr>lr_ID = gen_random_uuid env (pg_next s), lr_TenantID = t, lr_BookingID = b, lr_LearnerUserID = u,
             lr_Status = ''reserved'', lr_CreatedAt = pg_ts now, lr_UpdatedAt = pg_ts now\<rparr>;
           s' = s\<lparr>pg_next := Suc (pg_next s)\<rparr>; db = pg_db s
       in if list_ex (same_seat row) (db_learner_reservations db) then (Inr (), s')
          else if t \<notin> set (map tn_ID (db_tenants db)) \<or> b \<notin> set (map bk_ID (db_bookings db)) \<or> u \<notin> set (map us_ID (db_users db))
          then (Inl (ErrSQL ''23503''), s')
          else (Inr (), pg_change (\<lambda>db. db\<lparr>db_learner_reservations := db_learner_reservations db @ [row]\<rparr>) s'))))"

definition pg_take_seat :: "pg_env \<Rightarrow> string \<Rightarrow> string \<Rightarrow> go_time \<Rightarrow> (unit, pg_state) op" where
  "pg_take_seat env tenantUUID bookingID now = pg_stmt (pg_by_id env tenantUUID bookingID (\<lambda>P.
     op_bind (pg_update_bookings P (\<lambda>b. b\<lparr>bk_Attendees := bk_Attendees b + 1, bk_UpdatedAt := pg_ts now,
       bk_Version := bk_Version b + 1\<rparr>)) (\<lambda>_. op_return ())))"

definition pg_read_reservation :: "pg_env \<Rightarrow> string \<Rightarrow> string \<Rightarrow> string \<Rightarrow> (LearnerReservation, pg_state) op" where
  "pg_read_reservation env tenantUUID bookingID learnerUserID = pg_stmt (pg_key env tenantUUID bookingID (\<lambda>t b.
     op_bind (pg_uuid env learnerUserID) (\<lambda>u. pg_query_row (\<lambda>db.
       filter (\<lambda>x. lr_TenantID x = t \<and> lr_BookingID x = b \<and> lr_LearnerUserID x = u) (db_learner_reservations db)))))"

definition pg_ReserveLearnerSeat :: "pg_env \<Rightarrow> string \<Rightarrow> string \<Rightarrow> string \<Rightarrow> go_time \<Rightarrow> (LearnerReservation, pg_state) op" where
  "pg_ReserveLearnerSeat env tenantID bookingID learnerUserID now =
     op_bind (resolveTenantUUID tenantID) (\<lambda>tenantUUID.
     pg_tx (\<lambda>e. e) (
       op_bind (pg_seats env tenantUUID bookingID) (\<lambda>(capacity, attendees, status).
       if status \<noteq> BookingStatusConfirmed then op_fail (ErrNew ''session is not available for reservations'')
       else if attendees \<ge> capacity then op_fail (ErrNew ''capacity reached'')
       else
         op_bind (pg_insert_reservation env tenantUUID bookingID learnerUserID now) (\<lambda>_.
         op_bind (pg_take_seat env tenantUUID bookingID now) (\<lambda>_.
           pg_read_reservation env tenantUUID bookingID learnerUserID)))))"

definition pg_ListLearnerReservations :: "pg_env \<Rightarrow> string \<Rightarrow> string \<Rightarrow> (LearnerReservation list, pg_state) op" where
  "pg_ListLearnerReservations env tenantID learnerUserID =
     op_bind (resolveTenantUUID tenantID) (\<lambda>tenantUUID.
     pg_stmt (pg_key env tenantUUID learnerUserID (\<lambda>t u. pg_query (\<lambda>db.
       sort_key (\<lambda>x. - lr_CreatedAt x) (filter (\<lambda>x. lr_TenantID x = t \<and> lr_LearnerUserID x = u) (db_learner_reservations db))))))"

definition pg_GetApprovedFile :: "pg_env \<Rightarrow> string \<Rightarrow> string \<Rightarrow> (ApprovedFile, pg_state) op" where
  "pg_GetApprovedFile env tenantID fileID =
     op_bind (resolveTenantUUID tenantID) (\<lambda>tenantUUID.
     pg_stmt (pg_key env tenantUUID fileID (\<lambda>t i. pg_query_row (\<lambda>db.
       map fst (filter (\<lambda>(f, _, approved, _). af_TenantID f = t \<and> af_ID f = i \<and> approved) (db_uploaded_files db))))))"

subsection \<open>Seats\<close>

text \<open>
  A running database in which tenant, booking and learner of a request are known: \<open>b\<close> is the row of the
  booking, and its counters have room in their columns.
\<close>

definition seat_ready :: "pg_env \<Rightarrow> string \<Rightarrow> string \<Rightarrow> string \<Rightarrow> string \<Rightarrow> string \<Rightarrow> string \<Rightarrow> pg_state \<Rightarrow> Booking \<Rightarrow> bool" where
  "seat_ready env T i u U j v s b \<longleftrightarrow> pg_faults s = [] \<and> tenant_uuid (pg_db s) T = Some U \<and> uuid_in env U = Some U \<and>
     uuid_in env i = Some j \<and> uuid_in env u = Some v \<and> v \<in> us_ID ` set (db_users (pg_db s)) \<and>
     filter (\<lambda>x. bk_TenantID x = U \<and> bk_ID x = j) (db_bookings (pg_db s)) = [b] \<and>
     bk_Status b = BookingStatusConfirmed \<and> booking_row_ok b \<and> int8 (bk_Version b + (bk_Capacity b - bk_Attendees b))"

definition seat_rows :: "string \<Rightarrow> string \<Rightarrow> string \<Rightarrow> pg_state \<Rightarrow> LearnerReservation list" where
  "seat_rows U j v s = filter (\<lambda>x. lr_TenantID x = U \<and> lr_BookingID x = j \<and> lr_LearnerUserID x = v) (db_learner_reservations (pg_db s))"

definition seated :: "go_time \<Rightarrow> Booking \<Rightarrow> Booking" where
  "seated now b = b\<lparr>bk_Attendees := bk_Attendees b + 1, bk_UpdatedAt := pg_ts now, bk_Version := bk_Version b + 1\<rparr>"

lemma seats_running:
  assumes "seat_ready env T i u U j v s b"
  shows "pg_seats env U i s = (Inr (bk_Capacity b, bk_Attendees b, bk_Status b), s)"
  using assms by (simp add: seat_ready_def pg_seats_def pg_by_id_def op_bind_def pg_uuid_def pg_query_row_eq)

lemma capacity_reached:
  assumes r: "seat_ready env T i u U j v s b" and full: "bk_Attendees b \<ge> bk_Capacity b"
  shows "pg_ReserveLearnerSeat env T i w now s = (Inl (ErrNew ''capacity reached''), s)"
proof -
  have f: "pg_faults s = []" "tenant_uuid (pg_db s) T = Some U" and c: "bk_Status b = BookingStatusConfirmed"
    using r by (simp_all add: seat_ready_def)
  then show ?thesis using full seats_running [OF r]
    by (simp add: pg_ReserveLearnerSeat_def op_bind_def resolve_running pg_tx_def)
qed

lemma take_seat_running:
  assumes r: "seat_ready env T i u U j v s b" and free: "bk_Attendees b < bk_Capacity b"
  shows "pg_take_seat env U i now s = (Inr (), set_bookings (map (\<lambda>x. if bk_TenantID x = U \<and> bk_ID x = j then seated now x else x)) s)"
proof -
  have "booking_row_ok (seated now b)"
    using r free by (auto simp: seat_ready_def booking_row_ok_def seated_def int4_def int8_def)
  then show ?thesis
    using r by (simp add: pg_take_seat_def seat_ready_def pg_by_id_def op_bind_def pg_uuid_def pg_update_bookings_def seated_def cong: if_cong)
qed

lemma insert_reservation_running:
  assumes r: "seat_ready env T i u U j v s b"
  shows "\<exists>s'. pg_insert_reservation env U i u now s = (Inr (), s') \<and> seat_ready env T i u U j v s' b \<and>
    db_bookings (pg_db s') = db_bookings (pg_db s) \<and>
    (if seat_rows U j v s = [] then \<exists>x. seat_rows U j v s' = [x] else seat_rows U j v s' = seat_rows U j v s)"
proof -
  have U: "U \<in> tn_ID ` set (db_tenants (pg_db s))" using r tenant_uuid_mem by (force simp: seat_ready_def)
  have "b \<in> set (filter (\<lambda>x. bk_TenantID x = U \<and> bk_ID x = j) (db_bookings (pg_db s)))" using r by (simp add: seat_ready_def)
  then have j: "j \<in> bk_ID ` set (db_bookings (pg_db s))" by auto
  let ?row = "\<lparr>lr_ID = gen_random_uuid env (pg_next s), lr_TenantID = U, lr_BookingID = j, lr_LearnerUserID = v,
             lr_Status = ''reserved'', lr_CreatedAt = pg_ts now, lr_UpdatedAt = pg_ts now\<rparr>"
  have same: "list_ex (same_seat ?row) (db_learner_reservations (pg_db s)) \<longleftrightarrow> seat_rows U j v s \<noteq> []"
    by (auto simp: list_ex_iff same_seat_def seat_rows_def filter_empty_conv)
  have t: "tenant_uuid (db\<lparr>db_learner_reservations := x\<rparr>) T = tenant_uuid db T" for db x by (simp add: tenant_uuid_def)
  show ?thesis
  proof (cases "seat_rows U j v s = []")
    case True
    with r U j same show ?thesis
      by (simp add: pg_insert_reservation_def seat_ready_def pg_key_def op_bind_def pg_uuid_def Let_def pg_change_def t)
        (simp add: seat_rows_def)
  next
    case False
    with r U j same show ?thesis
      by (simp add: pg_insert_reservation_def seat_ready_def pg_key_def op_bind_def pg_uuid_def Let_def pg_change_def)
        (simp add: seat_rows_def)
  qed
qed

lemma reserve_step:
  assumes r: "seat_ready env T i u U j v s b" and free: "bk_Attendees b < bk_Capacity b" and one: "length (seat_rows U j v s) \<le> 1"
  shows "\<exists>x s'. pg_ReserveLearnerSeat env T i u now s = (Inr x, s') \<and> seat_ready env T i u U j v s' (seated now b) \<and>
    seat_rows U j v s' = [x]"
proof -
  have f: "pg_faults s = []" "tenant_uuid (pg_db s) T = Some U" and c: "bk_Status b = BookingStatusConfirmed"
    using r by (simp_all add: seat_ready_def)
  from insert_reservation_running [OF r, of now] obtain s1 where
    ins: "pg_insert_reservation env U i u now s = (Inr (), s1)" and r1: "seat_ready env T i u U j v s1 b"
    and rows: "if seat_rows U j v s = [] then \<exists>x. seat_rows U j v s1 = [x] else seat_rows U j v s1 = seat_rows U j v s" by blast
  from rows one obtain x where x: "seat_rows U j v s1 = [x]" by (cases "seat_rows U j v s") (auto split: if_splits)
  let ?s = "set_bookings (map (\<lambda>x. if bk_TenantID x = U \<and> bk_ID x = j then seated now x else x)) s1"
  have "filter P (map (\<lambda>x. if P x then seated now x else x) xs) = map (seated now) (filter P xs)"
    if "\<And>x. P (seated now x) = P x" for P xs using that by (induction xs) auto
  then have r2: "seat_ready env T i u U j v ?s (seated now b)"
    using r1 free by (auto simp: seat_ready_def set_bookings_def seated_def booking_row_ok_def int4_def int8_def tenant_uuid_def)
  have x2: "seat_rows U j v ?s = [x]" using x by (simp add: seat_rows_def set_bookings_def)
  then have "pg_read_reservation env U i u ?s = (Inr x, ?s)"
    using r2 by (simp add: pg_read_reservation_def seat_ready_def pg_key_def op_bind_def pg_uuid_def pg_query_row_eq seat_rows_def)
  then have "pg_ReserveLearnerSeat env T i u now s = (Inr x, ?s)"
    using f c free seats_running [OF r] ins take_seat_running [OF r1 free, of now] r2
    by (simp add: pg_ReserveLearnerSeat_def op_bind_def resolve_running pg_tx_def seat_ready_def)
  with r2 x2 show ?thesis by blast
qed

definition reserve_again :: "pg_env \<Rightarrow> string \<Rightarrow> string \<Rightarrow> string \<Rightarrow> go_time \<Rightarrow> nat \<Rightarrow> pg_state \<Rightarrow> pg_state" where
  "reserve_again env T i u now n = ((\<lambda>s. snd (pg_ReserveLearnerSeat env T i u now s)) ^^ n)"

lemma reserve_many:
  assumes "seat_ready env T i u U j v s b" "length (seat_rows U j v s) \<le> 1" "int n \<le> bk_Capacity b - bk_Attendees b"
  shows "\<exists>b'. seat_ready env T i u U j v (reserve_again env T i u now n s) b' \<and> bk_Capacity b' = bk_Capacity b \<and>
    bk_Attendees b' = bk_Attendees b + int n \<and> (0 < n \<longrightarrow> length (seat_rows U j v (reserve_again env T i u now n s)) = 1) \<and>
    length (seat_rows U j v (reserve_again env T i u now n s)) \<le> 1"
  using assms(3)
proof (induction n)
  case 0
  then show ?case using assms by (intro exI [of _ b]) (simp add: reserve_again_def)
next
  case (Suc n)
  then obtain b' where b': "seat_ready env T i u U j v (reserve_again env T i u now n s) b'" "bk_Capacity b' = bk_Capacity b"
    "bk_Attendees b' = bk_Attendees b + int n" "length (seat_rows U j v (reserve_again env T i u now n s)) \<le> 1" by auto
  with Suc.prems have "bk_Attendees b' < bk_Capacity b'" by simp
  from reserve_step [OF b'(1) this b'(4), of now] obtain x s' where
    "pg_ReserveLearnerSeat env T i u now (reserve_again env T i u now n s) = (Inr x, s')"
    "seat_ready env T i u U j v s' (seated now b')" "seat_rows U j v s' = [x]" by blast
  then show ?case using b' by (intro exI [of _ "seated now b'"]) (simp add: reserve_again_def seated_def)
qed


subsection \<open>One learner and all the seats\<close>

text \<open>
  Property C33. Seats. While a session has a seat left a reservation is accepted, and it is refused as soon as the
  attendees have reached the capacity. But the seats are counted by request, not by learner: a learner who keeps
  asking is accepted again although the reservation is already there, and after as many requests as there were
  seats the session is full for everybody with a single reservation of this learner.
\<close>

theorem one_learner_fills_session:
  assumes "seat_ready env T i u U j v s b" "length (seat_rows U j v s) \<le> 1" "bk_Attendees b < bk_Capacity b"
  shows "(\<exists>x s'. pg_ReserveLearnerSeat env T i u now s = (Inr x, s')) \<and>
    (let full = reserve_again env T i u now (nat (bk_Capacity b - bk_Attendees b)) s
     in length (seat_rows U j v full) = 1 \<and>
        (\<exists>b'. filter (\<lambda>x. bk_TenantID x = U \<and> bk_ID x = j) (db_bookings (pg_db full)) = [b'] \<and> bk_Attendees b' = bk_Capacity b) \<and>
        (\<forall>w later. pg_ReserveLearnerSeat env T i w later full = (Inl (ErrNew ''capacity reached''), full)))"
proof -
  let ?n = "nat (bk_Capacity b - bk_Attendees b)"
  from reserve_many [OF assms(1,2), of ?n now] assms(3) obtain b' where
    b': "seat_ready env T i u U j v (reserve_again env T i u now ?n s) b'" "bk_Capacity b' = bk_Capacity b"
      "bk_Attendees b' = bk_Capacity b" "length (seat_rows U j v (reserve_again env T i u now ?n s)) = 1" by auto
  have "pg_ReserveLearnerSeat env T i w later (reserve_again env T i u now ?n s) =
      (Inl (ErrNew ''capacity reached''), reserve_again env T i u now ?n s)" for w later
    using capacity_reached [OF b'(1)] b'(2,3) by simp
  then show ?thesis using b' reserve_step [OF assms(1,3,2), of now] unfolding Let_def seat_ready_def by blast
qed

definition demo_session :: Booking where
  "demo_session = demo_held\<lparr>bk_Status := BookingStatusConfirmed, bk_Capacity := 7, bk_Attendees := 5\<rparr>"

definition demo_session_state :: pg_state where
  "demo_session_state = demo_state\<lparr>pg_db := demo_db\<lparr>db_bookings := [demo_session]\<rparr>\<rparr>"

text \<open>Two seats are left; after two requests of the same learner nobody gets one.\<close>

theorem one_learner_fills_session_witness:
  "let full = reserve_again demo_env ''academy'' (demo_id CHR ''1'') (demo_id CHR ''b'') 0 2 demo_session_state
   in length (seat_rows (demo_id CHR ''a'') (demo_id CHR ''1'') (demo_id CHR ''b'') full) = 1 \<and>
      pg_ReserveLearnerSeat demo_env ''academy'' (demo_id CHR ''1'') (demo_id CHR ''c'') 0 full = (Inl (ErrNew ''capacity reached''), full)"
proof -
  have "seat_ready demo_env ''academy'' (demo_id CHR ''1'') (demo_id CHR ''b'') (demo_id CHR ''a'') (demo_id CHR ''1'')
      (demo_id CHR ''b'') demo_session_state demo_session"
    by (simp add: seat_ready_def demo_session_state_def demo_session_def demo_held_def held_row_def demo_hold_def Booking_zero_def
        demo_state_def demo_db_def tenant_uuid_def booking_row_ok_def int4_def int8_def)
  from one_learner_fills_session [OF this, of 0]
  show ?thesis by (simp add: demo_session_def seat_rows_def demo_session_state_def demo_state_def demo_db_def pg_tables_new_def Let_def)
qed

subsection \<open>Endpoints for administrators\<close>

text \<open>The body of a policy request is the text of its object, \<open>None\<close> for a missing one.\<close>

record roomRequest =
  rr_Name :: string
  rr_Capacity :: int

datatype admin_reply =
    ReplyTenants "AdminTenantView list" | ReplyUpdatedTenant string | ReplyUsers "AdminUserView list" | ReplyUpdated
  | ReplyPermissions "PermissionView list" | ReplyRooms "Room list" | ReplyRoom Room

definition AdminHandler_ListTenants :: "(admin_reply, pg_state) endpoint" where
  "AdminHandler_ListTenants rq = respond 200 ReplyTenants 500 ''Unable to list tenants'' pg_ListTenantsAdmin"

definition AdminHandler_UpdateTenantPolicies :: "pg_env \<Rightarrow> string option option \<Rightarrow> (admin_reply, pg_state) endpoint" where
  "AdminHandler_UpdateTenantPolicies env body rq s =
     (let tenantID = trim_space (rq_param rq ''id'')
      in if tenantID = '''' then (jsonError 400 ''tenant id is required'', s)
         else case body of None \<Rightarrow> (jsonError 400 ''invalid request body'', s) | Some policies \<Rightarrow>
           respond 200 (\<lambda>_. ReplyUpdatedTenant tenantID) 400 ''Unable to update tenant policies''
             (pg_UpdateTenantPolicies env tenantID (case policies of None \<Rightarrow> ''{}'' | Some p \<Rightarrow> p)) s)"

definition AdminHandler_ListUsers :: "(admin_reply, pg_state) endpoint" where
  "AdminHandler_ListUsers rq = respond 200 ReplyUsers 500 ''Unable to list users'' pg_ListUsersAdmin"

definition AdminHandler_UpdateUserRole :: "pg_env \<Rightarrow> string option \<Rightarrow> (admin_reply, pg_state) endpoint" where
  "AdminHandler_UpdateUserRole env body rq s =
     (let userID = trim_space (rq_param rq ''id'')
      in if userID = '''' then (jsonError 400 ''user id is required'', s)
         else case body of None \<Rightarrow> (jsonError 400 ''invalid request body'', s) | Some role \<Rightarrow>
           if trim_space role = '''' then (jsonError 400 ''role is required'', s)
           else respond 200 (\<lambda>_. ReplyUpdated) 400 ''Unable to update user role'' (pg_UpdateUserRole env userID role) s)"

definition AdminHandler_ListPermissions :: "pg_env \<Rightarrow> (admin_reply, pg_state) endpoint" where
  "AdminHandler_ListPermissions env rq = respond 200 ReplyPermissions 500 ''Unable to list permissions'' (pg_ListPermissions env)"

definition AdminHandler_ListRooms :: "pg_env \<Rightarrow> (admin_reply, pg_state) endpoint" where
  "AdminHandler_ListRooms env rq s =
     (case tenant_ID rq of None \<Rightarrow> (jsonError 401 ''tenant context required'', s) | Some tenantID \<Rightarrow>
      respond 200 ReplyRooms 500 ''Unable to list rooms'' (pg_ListRoomsByTenant env tenantID) s)"

definition AdminHandler_CreateRoom :: "pg_env \<Rightarrow> roomRequest option \<Rightarrow> (admin_reply, pg_state) endpoint" where
  "AdminHandler_CreateRoom env body rq s =
     (case tenant_ID rq of None \<Rightarrow> (jsonError 401 ''tenant context required'', s) | Some tenantID \<Rightarrow>
     (case body of None \<Rightarrow> (jsonError 400 ''invalid request body'', s) | Some req \<Rightarrow>
      if trim_space (rr_Name req) = '''' \<or> rr_Capacity req < 1 then (jsonError 400 ''name and capacity are required'', s)
      else respond 201 ReplyRoom 400 ''Unable to create room'' (pg_CreateRoom env tenantID (trim_space (rr_Name req)) (rr_Capacity req)) s))"

definition AdminHandler_UpdateRoom :: "pg_env \<Rightarrow> roomRequest option \<Rightarrow> (admin_reply, pg_state) endpoint" where
  "AdminHandler_UpdateRoom env body rq s =
     (case tenant_ID rq of None \<Rightarrow> (jsonError 401 ''tenant context required'', s) | Some tenantID \<Rightarrow>
      let roomID = trim_space (rq_param rq ''id'')
      in if roomID = '''' then (jsonError 400 ''room id is required'', s)
         else case body of None \<Rightarrow> (jsonError 400 ''invalid request body'', s) | Some req \<Rightarrow>
           if trim_space (rr_Name req) = '''' \<or> rr_Capacity req < 1 then (jsonError 400 ''name and capacity are required'', s)
           else respond 200 ReplyRoom 400 ''Unable to update room''
             (pg_UpdateRoom env tenantID roomID (trim_space (rr_Name req)) (rr_Capacity req)) s)"

subsection \<open>Endpoints for learners\<close>

record reserveRequest =
  rv_BookingID :: string
  rv_Why :: string

datatype learner_reply =
    ReplyCatalog "Booking list" | ReplyReservation LearnerReservation | ReplyReservations "LearnerReservation list"
  | ReplyDownload "(string \<times> string) list" string

record LearnerHandler =
  lh_Env :: pg_env
  lh_Audit :: "pg_state AuditStore option"

definition query_time :: "string \<Rightarrow> go_time option" where
  "query_time v = (if trim_space v = '''' then None else time_Parse RFC3339 (trim_space v))"

definition LearnerHandler_Catalog :: "LearnerHandler \<Rightarrow> (learner_reply, pg_state) endpoint" where
  "LearnerHandler_Catalog h rq s =
     (case tenant_ID rq of None \<Rightarrow> (jsonError 401 ''tenant context required'', s) | Some tenantID \<Rightarrow>
      respond 200 ReplyCatalog 500 ''Unable to load learner catalog'' (pg_ListLearnerCatalog (lh_Env h) tenantID
        \<lparr>lc_RoomID = trim_space (rq_query rq ''room_id''), lc_InstructorID = trim_space (rq_query rq ''instructor_id''),
         lc_From = query_time (rq_query rq ''from''), lc_To = query_time (rq_query rq ''to'')\<rparr>) s)"

definition LearnerHandler_Reserve :: "LearnerHandler \<Rightarrow> reserveRequest option \<Rightarrow> (learner_reply, pg_state) handler" where
  "LearnerHandler_Reserve h body rq st =
     (case tenant_ID rq of None \<Rightarrow> (jsonError 401 ''tenant context required'', st) | Some tenantID \<Rightarrow>
     (case body of None \<Rightarrow> (jsonError 400 ''invalid request body'', st) | Some req \<Rightarrow>
      let bookingID = trim_space (rv_BookingID req)
      in if bookingID = '''' then (jsonError 400 ''booking_id is required'', st)
         else case on_store (pg_ReserveLearnerSeat (lh_Env h) tenantID bookingID (fst (actorIdentity rq)) (rq_clock rq 0)) st of
             (Inl _, st1) \<Rightarrow> (jsonError 409 ''Unable to reserve seat'', st1)
           | (Inr reservation, st1) \<Rightarrow>
               let md = fst (FromContext (rq_audit rq));
                   md = (if trim_space (md_Reason md) = '''' then md\<lparr>md_Reason := trim_space (rv_Why req)\<rparr> else md)
               in ((201, OkBody (ReplyReservation reservation)),
                   RecordTransition (lh_Audit h) ''learner_reserved'' ''reservation'' (lr_ID reservation) tenantID ''''
                     (lr_Status reservation) md (rq_clock rq 1) st1)))"

definition LearnerHandler_MyReservations :: "LearnerHandler \<Rightarrow> (learner_reply, pg_state) endpoint" where
  "LearnerHandler_MyReservations h rq s =
     (case tenant_ID rq of None \<Rightarrow> (jsonError 401 ''tenant context required'', s) | Some tenantID \<Rightarrow>
      respond 200 ReplyReservations 500 ''Unable to load reservations''
        (pg_ListLearnerReservations (lh_Env h) tenantID (fst (actorIdentity rq))) s)"

text \<open>The watermark goes before the content of a text and after every other content.\<close>

definition approved_reply :: "ApprovedFile \<Rightarrow> string \<Rightarrow> string \<Rightarrow> learner_reply response" where
  "approved_reply file content stamp = (200, OkBody (ReplyDownload
     [(''X-Watermark'', stamp), (''X-Content-Type-Options'', ''nosniff''), (''Content-Type'', af_MimeType file),
      (''Content-Disposition'', ''attachment; filename='' @ [CHR 0x22] @ af_FileName file @ [CHR 0x22])]
     (if take 5 (af_MimeType file) = ''text/'' then stamp @ [CHR 0x0a] @ content else content @ [CHR 0x0a] @ stamp)))"

definition LearnerHandler_DownloadApproved :: "LearnerHandler \<Rightarrow> http_request \<Rightarrow> pg_state audited with_disk \<Rightarrow>
    learner_reply response \<times> pg_state audited with_disk" where
  "LearnerHandler_DownloadApproved h rq st =
     (case tenant_ID rq of None \<Rightarrow> (jsonError 401 ''tenant context required'', st) | Some tenantID \<Rightarrow>
      let fileID = trim_space (rq_param rq ''file_id'')
      in if fileID = '''' then (jsonError 400 ''file_id is required'', st)
         else case on_content (on_store (pg_GetApprovedFile (lh_Env h) tenantID fileID)) st of
             (Inl _, st1) \<Rightarrow> (jsonError 404 ''Approved file not found'', st1)
           | (Inr file, st1) \<Rightarrow>
         (case on_disk (os_ReadFile (af_FilePath file)) st1 of
             (Inl _, st2) \<Rightarrow> (jsonError 404 ''File not found on disk'', st2)
           | (Inr content, st2) \<Rightarrow>
               let email = trim_space (rq_header rq ''X-Actor-Email'');
                   downloader = (if email = '''' then fst (actorIdentity rq) else email);
                   stamp = ''Confidential | downloader='' @ downloader @ '' | timestamp='' @ format_rfc3339 (rq_clock rq 0);
                   md = (fst (FromContext (rq_audit rq)))\<lparr>md_Reason := ''approved_file_download''\<rparr>
               in (approved_reply file content stamp,
                   (RecordTransition (lh_Audit h) ''learner_downloaded_file'' ''file'' (af_ID file) tenantID '''' ''downloaded'' md
                      (rq_clock rq 1) (fst st2), snd st2))))"

end
