(* ===== verification/Ingestion.thy ===== *)
theory Ingestion
  imports Content_Postgres Schedules
begin

text \<open>
  Ingestion: \<^verbatim>\<open>internal/service/ingestion.go\<close>, its tables in \<^verbatim>\<open>internal/repository/postgres/ingestion_store.go\<close>
  and the endpoint \<^verbatim>\<open>internal/api/handlers/ingestion.go\<close>. The bot is a value beside the store; a call takes
  its lock for the rate limit and the rotations only, and calls are modelled one after the other. \<open>ib_Rand\<close>
  are the results of \<^verbatim>\<open>Intn(13)\<close> to come; identifiers of \<^verbatim>\<open>security.GenerateUUID\<close> are an argument, one for each use.
  A tenant without hits has the empty list, as a missing key of the map reads.
\<close>

subsection \<open>Proxies and user agents\<close>

record ProxyPoolManager =
  px_proxies :: "string list"
  px_index :: nat

definition NewProxyPoolManager :: "string list \<Rightarrow> ProxyPoolManager" where
  "NewProxyPoolManager proxies = \<lparr>px_proxies = proxies, px_index = 0\<rparr>"

definition ProxyPoolManager_Next :: "ProxyPoolManager \<Rightarrow> string \<times> ProxyPoolManager" where
  "ProxyPoolManager_Next m =
     (if length (px_proxies m) = 0 then (''direct'', m)
      else (px_proxies m ! (px_index m mod length (px_proxies m)), m\<lparr>px_index := Suc (px_index m)\<rparr>))"

record UserAgentRotator =
  ua_userAgents :: "string list"
  ua_index :: nat

definition NewUserAgentRotator :: "string list \<Rightarrow> UserAgentRotator" where
  "NewUserAgentRotator userAgents = \<lparr>ua_userAgents = userAgents, ua_index = 0\<rparr>"

definition UserAgentRotator_Next :: "UserAgentRotator \<Rightarrow> string \<times> UserAgentRotator" where
  "UserAgentRotator_Next r =
     (if length (ua_userAgents r) = 0 then (''TrainingOpsBot/1.0'', r)
      else (ua_userAgents r ! (ua_index r mod length (ua_userAgents r)), r\<lparr>ua_index := Suc (ua_index r)\<rparr>))"

subsection \<open>The bot\<close>

record 's IngestionStore =
  ig_UpsertIngestionSession :: "IngestionSession \<Rightarrow> (IngestionSession, 's) op"
  ig_SaveIngestionJob :: "string \<Rightarrow> string \<Rightarrow> ScraperJob \<Rightarrow> (ScraperJob, 's) op"
  ig_EnqueueManualReview :: "string \<Rightarrow> string \<Rightarrow> string \<Rightarrow> (unit, 's) op"

record 's IngestionBot =
  ib_ProxyPool :: ProxyPoolManager
  ib_UARotator :: UserAgentRotator
  ib_Rand :: "nat \<Rightarrow> int"
  ib_Store :: "'s IngestionStore option"
  ib_tenantHits :: "string \<Rightarrow> go_time list"

definition NewIngestionBot :: "ProxyPoolManager \<Rightarrow> UserAgentRotator \<Rightarrow> (nat \<Rightarrow> int) \<Rightarrow> 's IngestionStore option \<Rightarrow> 's IngestionBot" where
  "NewIngestionBot proxyPool rotator seeded store =
     \<lparr>ib_ProxyPool = proxyPool, ib_UARotator = rotator, ib_Rand = seeded, ib_Store = store, ib_tenantHits = (\<lambda>_. [])\<rparr>"

definition PrepareJob :: "string \<Rightarrow> string \<Rightarrow> go_time \<Rightarrow> 's IngestionBot \<Rightarrow> ScraperJob \<times> 's IngestionBot" where
  "PrepareJob uuid url now b =
     (let delay = (2 + ib_Rand b 0) * time_Second;
          (proxy, pool) = ProxyPoolManager_Next (ib_ProxyPool b);
          (agent, rotator) = UserAgentRotator_Next (ib_UARotator b)
      in (\<lparr>sj_ID = uuid, sj_URL = url, sj_Proxy = proxy, sj_UserAgent = agent, sj_Delay = delay,
           sj_State = ScraperStateQueued, sj_Reason = '''', sj_CreatedAt = now, sj_UpdatedAt = now\<rparr>,
          b\<lparr>ib_ProxyPool := pool, ib_UARotator := rotator, ib_Rand := (\<lambda>n. ib_Rand b (Suc n))\<rparr>))"

text \<open>\<^verbatim>\<open>strings.Contains\<close>\<close>

fun strings_Contains :: "string \<Rightarrow> string \<Rightarrow> bool" where
  "strings_Contains [] sub \<longleftrightarrow> sub = []"
| "strings_Contains (c # cs) sub \<longleftrightarrow> take (length sub) (c # cs) = sub \<or> strings_Contains cs sub"

definition DetectCaptcha :: "string \<Rightarrow> bool" where
  "DetectCaptcha body =
     list_ex (strings_Contains (to_lower body)) [''captcha'', ''manual review'', ''verify you are human'', ''bot detection'']"

definition Run_job :: "ScraperJob \<Rightarrow> string \<Rightarrow> go_time \<Rightarrow> ScraperJob" where
  "Run_job job body now =
     (let job = job\<lparr>sj_State := ScraperStateRunning, sj_UpdatedAt := now\<rparr>
      in if DetectCaptcha body
         then job\<lparr>sj_State := ScraperStateManualReview, sj_Reason := ''captcha detected'', sj_UpdatedAt := now\<rparr>
         else job\<lparr>sj_State := ScraperStateCompleted, sj_Reason := ''ingestion complete'', sj_UpdatedAt := now\<rparr>)"

definition allowRequest :: "string \<Rightarrow> go_time \<Rightarrow> (unit, 's IngestionBot) op" where
  "allowRequest tenantID now b =
     (let windowStart = now - time_Minute;
          recent = filter (\<lambda>hit. hit > windowStart) (ib_tenantHits b tenantID);
          put = (\<lambda>hits. b\<lparr>ib_tenantHits := (ib_tenantHits b)(tenantID := hits)\<rparr>)
      in if length recent \<ge> 5 then (Inl ErrIngestionRateLimited, put recent)
         else (Inr (), put (recent @ [now])))"

text \<open>The bot beside the store.\<close>

type_synonym 's with_bot = "'s IngestionBot \<times> 's"

definition on_bot :: "('a, 's IngestionBot) op \<Rightarrow> ('a, 's with_bot) op" where
  "on_bot m st = (case m (fst st) of (r, b) \<Rightarrow> (r, (b, snd st)))"

definition on_jobs :: "('a, 's) op \<Rightarrow> ('a, 's with_bot) op" where
  "on_jobs m st = (case m (snd st) of (r, s) \<Rightarrow> (r, (fst st, s)))"

definition new_ingestion_session :: "string \<Rightarrow> string \<Rightarrow> string \<Rightarrow> ScraperJob \<Rightarrow> nat \<Rightarrow> go_time \<Rightarrow> IngestionSession" where
  "new_ingestion_session uuid tenantID actorUserID job hits now =
     \<lparr>is_ID = uuid, is_TenantID = tenantID, is_ActorUserID = actorUserID, is_Proxy = sj_Proxy job,
      is_UserAgent = sj_UserAgent job, is_RequestCount = int hits, is_LastSeenAt = now,
      is_CreatedAt = time_zero, is_UpdatedAt = time_zero\<rparr>"

definition record_job :: "'s IngestionStore \<Rightarrow> string \<Rightarrow> string \<Rightarrow> string \<Rightarrow> string \<Rightarrow> ScraperJob \<Rightarrow> nat \<Rightarrow> string \<Rightarrow> go_time \<Rightarrow>
    (ScraperJob, 's) op" where
  "record_job store uuid tenantID actorUserID url job hits body now =
     op_bind (ig_UpsertIngestionSession store (new_ingestion_session uuid tenantID actorUserID job hits now)) (\<lambda>session.
     op_bind (ig_SaveIngestionJob store tenantID (is_ID session) (Run_job job body (now + sj_Delay job))) (\<lambda>saved.
     op_bind (if sj_State saved = ScraperStateManualReview
              then ig_EnqueueManualReview store tenantID (sj_ID saved) (sj_Reason saved) else op_return ()) (\<lambda>_.
       op_return saved)))"

definition RunPersistent :: "(nat \<Rightarrow> string) \<Rightarrow> string \<Rightarrow> string \<Rightarrow> string \<Rightarrow> string \<Rightarrow> go_time \<Rightarrow> (ScraperJob, 's with_bot) op" where
  "RunPersistent uuid tenantID actorUserID url body now st =
     (case ib_Store (fst st) of None \<Rightarrow> (Inl (ErrNew ''ingestion store is not configured''), st) | Some store \<Rightarrow>
        op_bind (on_bot (allowRequest tenantID now)) (\<lambda>_ st1.
          let (job, b) = PrepareJob (uuid 0) url now (fst st1)
          in on_jobs (record_job store (uuid 1) tenantID actorUserID url job (length (ib_tenantHits b tenantID)) body now)
               (b, snd st1)) st)"

subsection \<open>The tables\<close>

text \<open>
  A conflict on the identifier updates the row that is there and checks neither its tenant nor its references.
\<close>

definition pg_put_ingestion_session :: "IngestionSession \<Rightarrow> (IngestionSession, pg_state) op" where
  "pg_put_ingestion_session row s =
     (let db = pg_db s; P = (\<lambda>x. is_ID x = is_ID row);
          f = (\<lambda>x. x\<lparr>is_Proxy := is_Proxy row, is_UserAgent := is_UserAgent row, is_RequestCount := is_RequestCount row,
                is_LastSeenAt := is_LastSeenAt row, is_UpdatedAt := is_UpdatedAt row\<rparr>)
      in if \<not> int4 (is_RequestCount row) then (Inl (ErrSQL ''22003''), s)
         else if is_ID row = '''' then (Inl (ErrSQL ''23502''), s)
         else case filter P (db_ingestion_sessions db) of
           old # _ \<Rightarrow> (Inr (f old), pg_change (\<lambda>db. db\<lparr>db_ingestion_sessions :=
               map (\<lambda>x. if P x then f x else x) (db_ingestion_sessions db)\<rparr>) s)
         | [] \<Rightarrow>
           if is_TenantID row \<notin> set (map tn_ID (db_tenants db)) \<or>
              is_ActorUserID row \<noteq> '''' \<and> is_ActorUserID row \<notin> set (map us_ID (db_users db))
           then (Inl (ErrSQL ''23503''), s)
           else (Inr row, pg_change (\<lambda>db. db\<lparr>db_ingestion_sessions := db_ingestion_sessions db @ [row]\<rparr>) s))"

definition pg_UpsertIngestionSession :: "pg_env \<Rightarrow> IngestionSession \<Rightarrow> (IngestionSession, pg_state) op" where
  "pg_UpsertIngestionSession env session =
     op_bind (resolveTenantUUID (is_TenantID session)) (\<lambda>tenantUUID.
     pg_stmt (
       op_bind (pg_nullif_uuid env (is_ID session)) (\<lambda>i.
       op_bind (pg_uuid env tenantUUID) (\<lambda>t.
       op_bind (pg_nullif_uuid env (is_ActorUserID session)) (\<lambda>u.
         pg_put_ingestion_session (session\<lparr>is_ID := i, is_TenantID := t, is_ActorUserID := u,
           is_LastSeenAt := pg_ts (is_LastSeenAt session), is_CreatedAt := sql_now env, is_UpdatedAt := sql_now env\<rparr>))))))"

definition duration_Milliseconds :: "duration \<Rightarrow> int" where
  "duration_Milliseconds d = (if d < 0 then - ((- d) div 1000000) else d div 1000000)"

definition pg_put_job :: "string \<Rightarrow> string \<Rightarrow> ScraperJob \<Rightarrow> (ScraperJob, pg_state) op" where
  "pg_put_job t session row s =
     (let db = pg_db s; P = (\<lambda>(_, _, x). sj_ID x = sj_ID row);
          f = (\<lambda>x. x\<lparr>sj_State := sj_State row, sj_Reason := sj_Reason row, sj_UpdatedAt := sj_UpdatedAt row\<rparr>)
      in if \<not> int4 (duration_Milliseconds (sj_Delay row)) then (Inl (ErrSQL ''22003''), s)
         else if sj_ID row = '''' then (Inl (ErrSQL ''23502''), s)
         else case filter P (db_ingestion_jobs db) of
           (_, _, old) # _ \<Rightarrow> (Inr (f old), pg_change (\<lambda>db. db\<lparr>db_ingestion_jobs :=
               map (\<lambda>(t', n, x). (t', n, if sj_ID x = sj_ID row then f x else x)) (db_ingestion_jobs db)\<rparr>) s)
         | [] \<Rightarrow>
           if t \<notin> set (map tn_ID (db_tenants db)) \<or> session \<noteq> '''' \<and> session \<notin> set (map is_ID (db_ingestion_sessions db))
           then (Inl (ErrSQL ''23503''), s)
           else (Inr row, pg_change (\<lambda>db. db\<lparr>db_ingestion_jobs := db_ingestion_jobs db @ [(t, session, row)]\<rparr>) s))"

definition pg_SaveIngestionJob :: "pg_env \<Rightarrow> string \<Rightarrow> string \<Rightarrow> ScraperJob \<Rightarrow> (ScraperJob, pg_state) op" where
  "pg_SaveIngestionJob env tenantID sessionID job =
     op_bind (resolveTenantUUID tenantID) (\<lambda>tenantUUID.
     pg_stmt (
       op_bind (pg_nullif_uuid env (sj_ID job)) (\<lambda>i.
       op_bind (pg_uuid env tenantUUID) (\<lambda>t.
       op_bind (pg_nullif_uuid env sessionID) (\<lambda>n.
         pg_put_job t n (job\<lparr>sj_ID := i, sj_Delay := duration_Milliseconds (sj_Delay job) * 1000000,
           sj_CreatedAt := pg_ts (sj_CreatedAt job), sj_UpdatedAt := pg_ts (sj_UpdatedAt job)\<rparr>))))))"

definition pg_put_review :: "pg_env \<Rightarrow> ManualReviewItem \<Rightarrow> (unit, pg_state) op" where
  "pg_put_review env row s =
     (let db = pg_db s; r = row\<lparr>mr_ID := gen_random_uuid env (pg_next s)\<rparr>; s' = s\<lparr>pg_next := Suc (pg_next s)\<rparr>;
          P = (\<lambda>x. mr_JobID x = mr_JobID row)
      in if list_ex P (db_manual_review db)
         then (Inr (), pg_change (\<lambda>db. db\<lparr>db_manual_review := map (\<lambda>x. if P x
                then x\<lparr>mr_Reason := mr_Reason row, mr_Status := ''pending'', mr_UpdatedAt := sql_now env\<rparr> else x)
                (db_manual_review db)\<rparr>) s')
         else if mr_TenantID row \<notin> set (map tn_ID (db_tenants db)) \<or>
                 mr_JobID row \<notin> set (map (\<lambda>(_, _, x). sj_ID x) (db_ingestion_jobs db))
         then (Inl (ErrSQL ''23503''), s')
         else (Inr (), pg_change (\<lambda>db. db\<lparr>db_manual_review := db_manual_review db @ [r]\<rparr>) s'))"

definition pg_EnqueueManualReview :: "pg_env \<Rightarrow> string \<Rightarrow> string \<Rightarrow> string \<Rightarrow> (unit, pg_state) op" where
  "pg_EnqueueManualReview env tenantID jobID reason =
     op_bind (resolveTenantUUID tenantID) (\<lambda>tenantUUID.
     pg_stmt (pg_key env tenantUUID jobID (\<lambda>t j.
       pg_put_review env \<lparr>mr_ID = '''', mr_TenantID = t, mr_JobID = j, mr_Reason = reason, mr_Status = ''pending'',
         mr_CreatedAt = sql_now env, mr_UpdatedAt = sql_now env\<rparr>)))"

definition pg_IngestionStore :: "pg_env \<Rightarrow> pg_state IngestionStore" where
  "pg_IngestionStore env = \<lparr>ig_UpsertIngestionSession = pg_UpsertIngestionSession env,
     ig_SaveIngestionJob = pg_SaveIngestionJob env, ig_EnqueueManualReview = pg_EnqueueManualReview env\<rparr>"

subsection \<open>The endpoint\<close>

text \<open>The body of the request, \<open>None\<close> when it could not be read.\<close>

record ingestionRequest =
  iq_URL :: string
  iq_Body :: string

definition IngestionHandler_Run :: "(nat \<Rightarrow> string) \<Rightarrow> ingestionRequest option \<Rightarrow> (ScraperJob, 's with_bot) endpoint" where
  "IngestionHandler_Run uuid body rq st =
     (case tenant_ID rq of None \<Rightarrow> (jsonError 401 ''tenant context required'', st) | Some tenantID \<Rightarrow>
      let actorUserID = trim_space (rq_header rq ''X-Actor-User-ID'');
          req = (case body of None \<Rightarrow> \<lparr>iq_URL = ''http://offline.local/content'', iq_Body = ''captcha detected by local proxy pool''\<rparr>
                 | Some r \<Rightarrow> r);
          url = (if trim_space (iq_URL req) = '''' then ''http://offline.local/content'' else iq_URL req)
      in case RunPersistent uuid tenantID actorUserID url (iq_Body req) (rq_clock rq 0) st of
           (Inl err, st1) \<Rightarrow> (if err = ErrIngestionRateLimited then jsonError 429 ''ingestion rate limited''
                              else jsonError 500 ''ingestion failed'', st1)
         | (Inr result, st1) \<Rightarrow> ((200, OkBody result), st1))"


subsection \<open>The rate limit\<close>

record ingestion_call =
  il_uuid :: "nat \<Rightarrow> string"
  il_tenant :: string
  il_actor :: string
  il_url :: string
  il_body :: string
  il_now :: go_time

definition ingest_call :: "ingestion_call \<Rightarrow> (ScraperJob, 's with_bot) op" where
  "ingest_call c = RunPersistent (il_uuid c) (il_tenant c) (il_actor c) (il_url c) (il_body c) (il_now c)"

definition admits :: "ingestion_call \<Rightarrow> 's with_bot \<Rightarrow> bool" where
  "admits c st \<longleftrightarrow> \<not> isl (fst (allowRequest (il_tenant c) (il_now c) (fst st)))"

text \<open>A series of calls: each with the decision of the rate limit and its result.\<close>

fun ingest :: "ingestion_call list \<Rightarrow> 's with_bot \<Rightarrow> (ingestion_call \<times> bool \<times> (go_error + ScraperJob)) list \<times> 's with_bot" where
  "ingest [] st = ([], st)"
| "ingest (c # cs) st =
     (case ingest_call c st of (r, st1) \<Rightarrow> case ingest cs st1 of (log, st2) \<Rightarrow> ((c, admits c st, r) # log, st2))"

definition admitted_since :: "(ingestion_call \<times> bool \<times> (go_error + ScraperJob)) list \<Rightarrow> string \<Rightarrow> go_time \<Rightarrow> go_time list" where
  "admitted_since log T w = map (\<lambda>(d, _). il_now d) (filter (\<lambda>(d, ok, _). ok \<and> il_tenant d = T \<and> il_now d > w) log)"

lemma ingest_snoc:
  "ingest (cs @ [c]) st = (case ingest cs st of (log, st1) \<Rightarrow>
     case ingest_call c st1 of (r, st2) \<Rightarrow> (log @ [(c, admits c st1, r)], st2))"
  by (induction cs arbitrary: st) (simp_all split: prod.split)

lemma ingest_calls: "map fst (fst (ingest cs st)) = cs"
  by (induction cs arbitrary: st) (simp_all split: prod.split, metis fst_conv)

definition bot_recent :: "'s IngestionBot \<Rightarrow> string \<Rightarrow> go_time \<Rightarrow> go_time list" where
  "bot_recent b T now = filter (\<lambda>x. x > now - time_Minute) (ib_tenantHits b T)"

lemma PrepareJob_hits [simp]:
  "ib_tenantHits (snd (PrepareJob i url now b)) = ib_tenantHits b" "ib_Store (snd (PrepareJob i url now b)) = ib_Store b"
  by (simp_all add: PrepareJob_def Let_def split: prod.split)

lemma PrepareJob_of_hits [simp]: "fst (PrepareJob i url now (b\<lparr>ib_tenantHits := h\<rparr>)) = fst (PrepareJob i url now b)"
  by (simp add: PrepareJob_def Let_def split: prod.split)

lemma RunPersistent_refused:
  assumes "ib_Store b = Some store" "length (bot_recent b T now) \<ge> 5"
  shows "RunPersistent uuid T actor url body now (b, s) =
    (Inl ErrIngestionRateLimited, (b\<lparr>ib_tenantHits := (ib_tenantHits b)(T := bot_recent b T now)\<rparr>, s))"
  using assms by (simp add: RunPersistent_def op_bind_def on_bot_def allowRequest_def bot_recent_def Let_def)

lemma RunPersistent_admitted:
  fixes b :: "'s IngestionBot"
  assumes "ib_Store b = Some store" "length (bot_recent b T now) < 5"
  shows "\<exists>b'. ib_tenantHits b' = (ib_tenantHits b)(T := bot_recent b T now @ [now]) \<and> ib_Store b' = Some store \<and>
    RunPersistent uuid T actor url body now (b, s) = (let out = record_job store (uuid 1) T actor url
        (fst (PrepareJob (uuid 0) url now b)) (Suc (length (bot_recent b T now))) body now s in (fst out, (b', snd out)))"
proof -
  let ?b = "b\<lparr>ib_tenantHits := (ib_tenantHits b)(T := bot_recent b T now @ [now])\<rparr>"
  have "allowRequest T now b = (Inr (), ?b)" using assms(2) by (simp add: allowRequest_def bot_recent_def Let_def)
  then show ?thesis using assms(1)
    by (intro exI [of _ "snd (PrepareJob (uuid 0) url now ?b)"])
      (simp add: RunPersistent_def op_bind_def on_bot_def on_jobs_def Let_def case_prod_beta)
qed

lemma admits_iff: "admits c st \<longleftrightarrow> length (bot_recent (fst st) (il_tenant c) (il_now c)) < 5"
  by (simp add: admits_def allowRequest_def bot_recent_def Let_def)

definition bot_inv :: "'s IngestionStore \<Rightarrow> ingestion_call list \<Rightarrow> (ingestion_call \<times> bool \<times> (go_error + ScraperJob)) list \<Rightarrow> 's IngestionBot \<Rightarrow> bool" where
  "bot_inv store cs log b \<longleftrightarrow> ib_Store b = Some store \<and> (\<forall>T. length (ib_tenantHits b T) \<le> 5) \<and>
     (\<forall>T w. (\<forall>d\<in>set cs. il_now d - time_Minute \<le> w) \<longrightarrow> filter (\<lambda>x. x > w) (ib_tenantHits b T) = admitted_since log T w)"

lemma bot_step:
  assumes I: "bot_inv store cs log (fst st)" and later: "\<forall>d\<in>set cs. il_now d \<le> il_now c"
  shows "bot_inv store (cs @ [c]) (log @ [(c, admits c st, fst (ingest_call c st))]) (fst (snd (ingest_call c st)))"
proof -
  let ?T = "il_tenant c" and ?now = "il_now c"
  obtain b s where st: "st = (b, s)" by (cases st)
  have b: "ib_Store b = Some store" and len: "length (ib_tenantHits b T) \<le> 5"
    and hits: "(\<And>d. d \<in> set cs \<Longrightarrow> il_now d - time_Minute \<le> w) \<Longrightarrow> filter (\<lambda>x. x > w) (ib_tenantHits b T) = admitted_since log T w" for T w
    using I st by (auto simp: bot_inv_def)
  have short: "length (bot_recent b ?T ?now) \<le> 5" using len [of ?T] by (simp add: bot_recent_def le_trans [OF length_filter_le])
  have keep: "filter (\<lambda>x. x > w) (bot_recent b ?T ?now) = filter (\<lambda>x. x > w) (ib_tenantHits b ?T)" if "?now - time_Minute \<le> w" for w
    using that by (auto simp: bot_recent_def intro!: filter_cong)
  show ?thesis
  proof (cases "length (bot_recent b ?T ?now) < 5")
    case True
    from RunPersistent_admitted [OF b this, of "il_uuid c" "il_actor c" "il_url c" "il_body c" s] obtain b' r s' where
      b': "ib_tenantHits b' = (ib_tenantHits b)(?T := bot_recent b ?T ?now @ [?now])" "ib_Store b' = Some store"
      and r: "ingest_call c st = (r, (b', s'))" by (auto simp: ingest_call_def st Let_def)
    have ad: "admits c st" using True by (simp add: admits_iff st)
    show ?thesis
      unfolding bot_inv_def using b' r len hits keep True later ad
      by (auto simp: admitted_since_def)
  next
    case False
    have r: "ingest_call c st = (Inl ErrIngestionRateLimited, (b\<lparr>ib_tenantHits := (ib_tenantHits b)(?T := bot_recent b ?T ?now)\<rparr>, s))"
      using RunPersistent_refused [OF b] False by (simp add: ingest_call_def st)
    have ad: "\<not> admits c st" using False by (simp add: admits_iff st)
    show ?thesis
      unfolding bot_inv_def using b r len hits keep short later ad
      by (auto simp: admitted_since_def)
  qed
qed

lemma bot_run:
  assumes "ib_Store (fst st) = Some store" "ib_tenantHits (fst st) = (\<lambda>_. [])" "sorted (map il_now cs)"
  shows "bot_inv store cs (fst (ingest cs st)) (fst (snd (ingest cs st)))"
  using assms(3)
proof (induction cs rule: rev_induct)
  case Nil
  then show ?case using assms by (simp add: bot_inv_def admitted_since_def)
next
  case (snoc c cs)
  then have "bot_inv store cs (fst (ingest cs st)) (fst (snd (ingest cs st)))" "\<forall>d\<in>set cs. il_now d \<le> il_now c"
    by (auto simp: sorted_append)
  from bot_step [OF this] show ?case by (simp add: ingest_snoc case_prod_beta)
qed

text \<open>
  Property C34. The rate limit, over any store and with any failures of it. Along a series of calls of any tenants
  whose instants do not decrease, at most five calls of a tenant are admitted in every minute. A call that finds
  five admitted ones of its tenant in the minute before it is refused without touching the store; otherwise it runs,
  and the session it records counts the calls of that minute with itself.
\<close>

theorem ingestion_rate_limit:
  assumes "ib_Store b = Some store" "ib_tenantHits b = (\<lambda>_. [])" "sorted (map il_now (cs @ [c]))"
  shows "case ingest cs (b, s) of (log, st) \<Rightarrow>
    (let n = length (admitted_since log (il_tenant c) (il_now c - time_Minute)) in
      n \<le> 5 \<and>
      (n = 5 \<longrightarrow> \<not> admits c st \<and> fst (ingest_call c st) = Inl ErrIngestionRateLimited \<and> snd (snd (ingest_call c st)) = snd st) \<and>
      (n < 5 \<longrightarrow> admits c st \<and> (fst (ingest_call c st), snd (snd (ingest_call c st))) =
         record_job store (il_uuid c 1) (il_tenant c) (il_actor c) (il_url c)
           (fst (PrepareJob (il_uuid c 0) (il_url c) (il_now c) (fst st))) (Suc n) (il_body c) (il_now c) (snd st)))"
proof -
  obtain log b' s' where run: "ingest cs (b, s) = (log, (b', s'))" by (metis prod.collapse)
  have "bot_inv store cs log b'" using bot_run [of "(b, s)" store cs] assms run by (simp add: sorted_append)
  then have b': "ib_Store b' = Some store" "length (ib_tenantHits b' (il_tenant c)) \<le> 5"
    and recent: "bot_recent b' (il_tenant c) (il_now c) = admitted_since log (il_tenant c) (il_now c - time_Minute)"
    using assms(3) by (auto simp: bot_inv_def sorted_append bot_recent_def)
  have "length (bot_recent b' (il_tenant c) (il_now c)) \<le> 5"
    unfolding bot_recent_def using b'(2) length_filter_le le_trans by blast
  moreover have "fst (ingest_call c (b', s')) = Inl ErrIngestionRateLimited \<and> snd (snd (ingest_call c (b', s'))) = s'"
    if "length (bot_recent b' (il_tenant c) (il_now c)) = 5"
    using RunPersistent_refused [OF b'(1)] that by (simp add: ingest_call_def)
  moreover have "(fst (ingest_call c (b', s')), snd (snd (ingest_call c (b', s')))) =
      record_job store (il_uuid c 1) (il_tenant c) (il_actor c) (il_url c) (fst (PrepareJob (il_uuid c 0) (il_url c) (il_now c) b'))
        (Suc (length (bot_recent b' (il_tenant c) (il_now c)))) (il_body c) (il_now c) s'"
    if "length (bot_recent b' (il_tenant c) (il_now c)) < 5"
    using RunPersistent_admitted [OF b'(1) that, of "il_uuid c" "il_actor c" "il_url c" "il_body c" s']
    by (auto simp: ingest_call_def Let_def)
  ultimately show ?thesis unfolding run prod.case recent [symmetric] by (simp add: admits_iff Let_def)
qed


text \<open>Six calls of one tenant within six seconds, and one after the minute: the sixth is refused, the last one runs.\<close>

definition demo_bot :: "pg_state IngestionBot" where
  "demo_bot = NewIngestionBot (NewProxyPoolManager []) (NewUserAgentRotator []) (\<lambda>_. 0) (Some (pg_IngestionStore demo_env))"

definition demo_call :: "go_time \<Rightarrow> ingestion_call" where
  "demo_call now = \<lparr>il_uuid = (\<lambda>n. demo_id (if n = 0 then CHR ''5'' else CHR ''6'')), il_tenant = ''academy'', il_actor = [],
     il_url = ''http://offline.local/content'', il_body = ''Please solve this CAPTCHA'', il_now = now\<rparr>"

theorem ingestion_rate_limit_witness:
  "fst (ingest_call (demo_call (5 * time_Second)) (snd (ingest (map demo_call [0, time_Second, 2 * time_Second, 3 * time_Second, 4 * time_Second])
     (demo_bot, demo_state)))) = Inl ErrIngestionRateLimited"
proof -
  let ?cs = "map demo_call [0, time_Second, 2 * time_Second, 3 * time_Second, 4 * time_Second]"
  have n: "length (admitted_since (fst (ingest ?cs (demo_bot, demo_state))) ''academy'' (5 * time_Second - time_Minute)) = 5"
    by (simp add: ingest_call_def demo_call_def admits_iff bot_recent_def RunPersistent_def op_bind_def on_bot_def on_jobs_def allowRequest_def demo_bot_def
      NewIngestionBot_def Let_def case_prod_beta admitted_since_def)
  show ?thesis
    using ingestion_rate_limit [of demo_bot "pg_IngestionStore demo_env" ?cs "demo_call (5 * time_Second)" demo_state] n
    by (simp add: demo_bot_def NewIngestionBot_def demo_call_def case_prod_beta Let_def)
qed

subsection \<open>The queue of manual reviews\<close>

text \<open>\<^verbatim>\<open>strings.Contains\<close> looks for the text anywhere.\<close>

lemma strings_Contains_iff: "strings_Contains s sub \<longleftrightarrow> (\<exists>u v. s = u @ sub @ v)"
proof (induction s)
  case Nil
  then show ?case by auto
next
  case (Cons c cs)
  show ?case
  proof
    assume "strings_Contains (c # cs) sub"
    then consider "take (length sub) (c # cs) = sub" | "strings_Contains cs sub" by auto
    then show "\<exists>u v. c # cs = u @ sub @ v"
    proof cases
      case 1
      then show ?thesis by (metis append_Nil append_take_drop_id)
    next
      case 2
      then show ?thesis using Cons.IH by (metis append_Cons)
    qed
  next
    assume "\<exists>u v. c # cs = u @ sub @ v"
    then obtain u v where uv: "c # cs = u @ sub @ v" by blast
    show "strings_Contains (c # cs) sub"
    proof (cases u)
      case Nil
      with uv have "take (length sub) (c # cs) = sub" by simp
      then show ?thesis by simp
    next
      case (Cons x xs)
      with uv Cons.IH show ?thesis by auto
    qed
  qed
qed


lemma DetectCaptcha_iff: "DetectCaptcha body \<longleftrightarrow>
    (\<exists>sig\<in>{''captcha'', ''manual review'', ''verify you are human'', ''bot detection''}. \<exists>u v. to_lower body = u @ sig @ v)"
  by (simp add: DetectCaptcha_def strings_Contains_iff)

text \<open>A running database in which tenant and actor are known and the two identifiers of a run are new.\<close>

definition ingest_ready :: "pg_env \<Rightarrow> string \<Rightarrow> string \<Rightarrow> string \<Rightarrow> (nat \<Rightarrow> string) \<Rightarrow> pg_state \<Rightarrow> bool" where
  "ingest_ready env T U actor uuid s \<longleftrightarrow> pg_faults s = [] \<and> tenant_uuid (pg_db s) T = Some U \<and> uuid_in env U = Some U \<and>
     (actor = '''' \<or> (\<exists>a\<in>us_ID ` set (db_users (pg_db s)). uuid_in env actor = Some a)) \<and>
     (\<forall>k<2. uuid k \<noteq> '''' \<and> uuid_in env (uuid k) = Some (uuid k)) \<and>
     uuid 0 \<notin> (\<lambda>(_, _, x). sj_ID x) ` set (db_ingestion_jobs (pg_db s)) \<and> uuid 0 \<notin> mr_JobID ` set (db_manual_review (pg_db s)) \<and>
     uuid 1 \<notin> is_ID ` set (db_ingestion_sessions (pg_db s))"

lemma tenant_uuid_only: "db_tenants db' = db_tenants db \<Longrightarrow> tenant_uuid db' T = tenant_uuid db T"
  by (simp add: tenant_uuid_def)

lemma put_session_new:
  assumes "int4 (is_RequestCount row)" "is_ID row \<noteq> []" "is_ID row \<notin> is_ID ` set (db_ingestion_sessions (pg_db s))"
    "is_TenantID row \<in> tn_ID ` set (db_tenants (pg_db s))" "is_ActorUserID row = [] \<or> is_ActorUserID row \<in> us_ID ` set (db_users (pg_db s))"
  shows "pg_put_ingestion_session row s =
    (Inr row, s\<lparr>pg_db := (pg_db s)\<lparr>db_ingestion_sessions := db_ingestion_sessions (pg_db s) @ [row]\<rparr>\<rparr>)"
proof -
  have "filter (\<lambda>x. is_ID x = is_ID row) (db_ingestion_sessions (pg_db s)) = []"
    using assms(3) by (simp add: filter_empty_conv) (metis image_eqI)
  moreover have "\<not> (is_TenantID row \<notin> set (map tn_ID (db_tenants (pg_db s))) \<or>
      is_ActorUserID row \<noteq> [] \<and> is_ActorUserID row \<notin> set (map us_ID (db_users (pg_db s))))"
    using assms(4,5) by simp
  ultimately show ?thesis
    using assms(1,2) by (simp only: pg_put_ingestion_session_def Let_def not_True_eq_False if_False list.case pg_change_def simp_thms)
qed

lemma upsert_session_running:
  assumes "ingest_ready env T U actor uuid s" "is_ID x = uuid 1" "is_TenantID x = T" "is_ActorUserID x = actor" "int4 (is_RequestCount x)"
  shows "\<exists>row s'. pg_UpsertIngestionSession env x s = (Inr row, s') \<and> is_ID row = uuid 1 \<and>
    s' = s\<lparr>pg_db := (pg_db s)\<lparr>db_ingestion_sessions := db_ingestion_sessions (pg_db s) @ [row]\<rparr>\<rparr>"
proof -
  have f: "pg_faults s = []" "tenant_uuid (pg_db s) T = Some U" "uuid_in env U = Some U" "uuid 1 \<noteq> []" "uuid_in env (uuid 1) = Some (uuid 1)"
    "uuid 1 \<notin> is_ID ` set (db_ingestion_sessions (pg_db s))"
    using assms(1) by (simp_all add: ingest_ready_def)
  have U: "U \<in> tn_ID ` set (db_tenants (pg_db s))" using f(2) tenant_uuid_mem by force
  have n: "pg_nullif_uuid env (uuid 1) = op_return (uuid 1)" using f(4,5) by (simp add: pg_nullif_uuid_def pg_uuid_def)
  have "\<exists>a. pg_nullif_uuid env actor = op_return a \<and> (a = [] \<or> a \<in> us_ID ` set (db_users (pg_db s)))"
  proof (cases "actor = []")
    case False
    with assms(1) obtain a where "a \<in> us_ID ` set (db_users (pg_db s))" "uuid_in env actor = Some a" by (auto simp: ingest_ready_def)
    with False show ?thesis by (intro exI [of _ a]) (simp add: pg_nullif_uuid_def pg_uuid_def)
  qed (auto simp: pg_nullif_uuid_def)
  then obtain a where a: "pg_nullif_uuid env actor = op_return a" "a = [] \<or> a \<in> us_ID ` set (db_users (pg_db s))" by blast
  let ?row = "x\<lparr>is_ID := uuid 1, is_TenantID := U, is_ActorUserID := a, is_LastSeenAt := pg_ts (is_LastSeenAt x),
      is_CreatedAt := sql_now env, is_UpdatedAt := sql_now env\<rparr>"
  have "pg_put_ingestion_session ?row s = (Inr ?row, s\<lparr>pg_db := (pg_db s)\<lparr>db_ingestion_sessions := db_ingestion_sessions (pg_db s) @ [?row]\<rparr>\<rparr>)"
    by (rule put_session_new) (use f U a(2) assms(5) in simp_all)
  then have "pg_UpsertIngestionSession env x s = (Inr ?row, s\<lparr>pg_db := (pg_db s)\<lparr>db_ingestion_sessions := db_ingestion_sessions (pg_db s) @ [?row]\<rparr>\<rparr>)"
    unfolding pg_UpsertIngestionSession_def op_bind_def assms(2-4) resolve_running [OF f(1)] f(2) option.case prod.case sum.case pg_stmt_def f(1) list.case
      a(1) n pg_uuid_def f(3) op_return_def .
  moreover have "is_ID ?row = uuid 1" by simp
  ultimately show ?thesis by blast
qed

lemma put_job_new:
  assumes "int4 (duration_Milliseconds (sj_Delay row))" "sj_ID row \<noteq> []" "sj_ID row \<notin> (\<lambda>(_, _, x). sj_ID x) ` set (db_ingestion_jobs (pg_db s))"
    "t \<in> tn_ID ` set (db_tenants (pg_db s))" "n \<in> is_ID ` set (db_ingestion_sessions (pg_db s))"
  shows "pg_put_job t n row s = (Inr row, s\<lparr>pg_db := (pg_db s)\<lparr>db_ingestion_jobs := db_ingestion_jobs (pg_db s) @ [(t, n, row)]\<rparr>\<rparr>)"
proof -
  have "filter (\<lambda>(_, _, x). sj_ID x = sj_ID row) (db_ingestion_jobs (pg_db s)) = []"
    using assms(3) by (force simp: filter_empty_conv)
  moreover have "\<not> (t \<notin> set (map tn_ID (db_tenants (pg_db s))) \<or> n \<noteq> [] \<and> n \<notin> set (map is_ID (db_ingestion_sessions (pg_db s))))"
    using assms(4,5) by simp
  ultimately show ?thesis
    using assms(1,2) by (simp only: pg_put_job_def Let_def not_True_eq_False if_False list.case pg_change_def simp_thms)
qed

lemma save_job_running:
  assumes "pg_faults s = []" "tenant_uuid (pg_db s) T = Some U" "uuid_in env U = Some U" "uuid_in env (sj_ID x) = Some (sj_ID x)" "sj_ID x \<noteq> []"
    "uuid_in env n = Some n" "n \<noteq> []" "n \<in> is_ID ` set (db_ingestion_sessions (pg_db s))"
    "sj_ID x \<notin> (\<lambda>(_, _, x). sj_ID x) ` set (db_ingestion_jobs (pg_db s))" "sj_Delay x = k * time_Second" "0 \<le> k" "k \<le> 14"
  shows "\<exists>row s'. pg_SaveIngestionJob env T n x s = (Inr row, s') \<and> sj_ID row = sj_ID x \<and> sj_State row = sj_State x \<and>
    sj_Delay row = sj_Delay x \<and> sj_Reason row = sj_Reason x \<and>
    s' = s\<lparr>pg_db := (pg_db s)\<lparr>db_ingestion_jobs := db_ingestion_jobs (pg_db s) @ [(U, n, row)]\<rparr>\<rparr>"
proof -
  have U: "U \<in> tn_ID ` set (db_tenants (pg_db s))" using assms(2) tenant_uuid_mem by force
  have "k * time_Second = k * 1000 * 1000000" by simp
  then have ms: "duration_Milliseconds (sj_Delay x) = k * 1000" using assms(10,11) by (simp add: duration_Milliseconds_def)
  let ?row = "x\<lparr>sj_ID := sj_ID x, sj_Delay := duration_Milliseconds (sj_Delay x) * 1000000, sj_CreatedAt := pg_ts (sj_CreatedAt x),
      sj_UpdatedAt := pg_ts (sj_UpdatedAt x)\<rparr>"
  have "sj_Delay ?row = k * 1000 * 1000000" by (simp add: ms)
  then have d: "duration_Milliseconds (sj_Delay ?row) = k * 1000" using assms(11) by (simp add: duration_Milliseconds_def)
  have "pg_put_job U n ?row s = (Inr ?row, s\<lparr>pg_db := (pg_db s)\<lparr>db_ingestion_jobs := db_ingestion_jobs (pg_db s) @ [(U, n, ?row)]\<rparr>\<rparr>)"
    by (rule put_job_new) (unfold d, use assms U in \<open>simp_all add: int4_def\<close>)
  moreover have n: "pg_nullif_uuid env (sj_ID x) = op_return (sj_ID x)" "pg_nullif_uuid env n = op_return n"
    using assms(4-7) by (simp_all add: pg_nullif_uuid_def pg_uuid_def)
  ultimately have "pg_SaveIngestionJob env T n x s = (Inr ?row, s\<lparr>pg_db := (pg_db s)\<lparr>db_ingestion_jobs := db_ingestion_jobs (pg_db s) @ [(U, n, ?row)]\<rparr>\<rparr>)"
    unfolding pg_SaveIngestionJob_def op_bind_def resolve_running [OF assms(1)] assms(2) option.case prod.case sum.case pg_stmt_def assms(1) list.case
      n pg_uuid_def assms(3) op_return_def by blast
  moreover have "sj_ID ?row = sj_ID x \<and> sj_State ?row = sj_State x \<and> sj_Delay ?row = sj_Delay x \<and> sj_Reason ?row = sj_Reason x"
    using ms assms(10) by simp
  ultimately show ?thesis by blast
qed

lemma enqueue_running:
  assumes "pg_faults s = []" "tenant_uuid (pg_db s) T = Some U" "uuid_in env U = Some U" "uuid_in env j = Some j"
    "j \<notin> mr_JobID ` set (db_manual_review (pg_db s))" "j \<in> (\<lambda>(_, _, x). sj_ID x) ` set (db_ingestion_jobs (pg_db s))"
  shows "\<exists>item s'. pg_EnqueueManualReview env T j reason s = (Inr (), s') \<and>
    mr_JobID item = j \<and> mr_TenantID item = U \<and> mr_Status item = ''pending'' \<and> mr_Reason item = reason \<and>
    pg_db s' = (pg_db s)\<lparr>db_manual_review := db_manual_review (pg_db s) @ [item]\<rparr>"
proof -
  have U: "U \<in> tn_ID ` set (db_tenants (pg_db s))" using assms(2) tenant_uuid_mem by force
  have fresh: "\<not> list_ex (\<lambda>x. mr_JobID x = j) (db_manual_review (pg_db s))" using assms(5) by (auto simp: list_ex_iff)
  have refs: "\<not> (U \<notin> set (map tn_ID (db_tenants (pg_db s))) \<or> j \<notin> set (map (\<lambda>(_, _, x). sj_ID x) (db_ingestion_jobs (pg_db s))))"
    using assms(6) U by simp
  let ?item = "\<lparr>mr_ID = gen_random_uuid env (pg_next s), mr_TenantID = U, mr_JobID = j, mr_Reason = reason,
      mr_Status = ''pending'', mr_CreatedAt = sql_now env, mr_UpdatedAt = sql_now env\<rparr>"
  have "pg_EnqueueManualReview env T j reason s = (Inr (), s\<lparr>pg_next := Suc (pg_next s),
      pg_db := (pg_db s)\<lparr>db_manual_review := db_manual_review (pg_db s) @ [?item]\<rparr>\<rparr>)"
    using assms(1-4) fresh refs
    by (simp add: pg_EnqueueManualReview_def op_bind_def resolve_running pg_stmt_def pg_key_def pg_uuid_def pg_put_review_def Let_def pg_change_def)
  then show ?thesis by (intro exI [of _ ?item]) simp
qed


lemma PrepareJob_fields:
  "sj_ID (fst (PrepareJob i url now b)) = i" "sj_Delay (fst (PrepareJob i url now b)) = (2 + ib_Rand b 0) * time_Second"
  by (simp_all add: PrepareJob_def Let_def split: prod.split)

lemma Run_job_fields:
  "sj_ID (Run_job job body at) = sj_ID job" "sj_Delay (Run_job job body at) = sj_Delay job"
  "sj_State (Run_job job body at) = (if DetectCaptcha body then ScraperStateManualReview else ScraperStateCompleted)"
  by (simp_all add: Run_job_def Let_def)

text \<open>
  Property C35. Manual review. On a running PostgreSQL database an admitted run with new identifiers succeeds. Its job is
  stored under its tenant and session with a delay of 2 to 14 seconds; the job waits for manual review exactly when the
  lower-cased body contains one of the four signatures, and then one pending entry for this job joins the queue, which is
  otherwise left alone.
\<close>

theorem ingestion_review_queued:
  assumes "ib_Store b = Some (pg_IngestionStore env)" "length (bot_recent b T now) < 5" "ingest_ready env T U actor uuid s"
    "0 \<le> ib_Rand b 0" "ib_Rand b 0 < 13"
  shows "\<exists>job b' s'. RunPersistent uuid T actor url body now (b, s) = (Inr job, (b', s')) \<and>
    2 * time_Second \<le> sj_Delay job \<and> sj_Delay job \<le> 14 * time_Second \<and>
    db_ingestion_jobs (pg_db s') = db_ingestion_jobs (pg_db s) @ [(U, uuid 1, job)] \<and>
    (if \<exists>sig\<in>{''captcha'', ''manual review'', ''verify you are human'', ''bot detection''}. \<exists>u v. to_lower body = u @ sig @ v
     then sj_State job = ScraperStateManualReview \<and> (\<exists>item. db_manual_review (pg_db s') = db_manual_review (pg_db s) @ [item] \<and>
       mr_TenantID item = U \<and> mr_JobID item = sj_ID job \<and> mr_Status item = ''pending'')
     else sj_State job = ScraperStateCompleted \<and> db_manual_review (pg_db s') = db_manual_review (pg_db s))"
proof -
  let ?job = "fst (PrepareJob (uuid 0) url now b)" and ?n = "length (bot_recent b T now)"
  let ?run = "Run_job ?job body (now + sj_Delay ?job)" and ?x = "new_ingestion_session (uuid 1) T actor ?job (Suc ?n) now"
  have x: "is_ID ?x = uuid 1" "is_TenantID ?x = T" "is_ActorUserID ?x = actor" "int4 (is_RequestCount ?x)"
    using assms(2) by (simp_all add: new_ingestion_session_def int4_def)
  from upsert_session_running [OF assms(3) x] obtain row s1 where
    s1: "pg_UpsertIngestionSession env ?x s = (Inr row, s1)" "is_ID row = uuid 1"
      "s1 = s\<lparr>pg_db := (pg_db s)\<lparr>db_ingestion_sessions := db_ingestion_sessions (pg_db s) @ [row]\<rparr>\<rparr>" by blast
  have r: "pg_faults s = []" "tenant_uuid (pg_db s) T = Some U" "uuid_in env U = Some U"
    "\<And>k. k < 2 \<Longrightarrow> uuid k \<noteq> [] \<and> uuid_in env (uuid k) = Some (uuid k)"
    "uuid 0 \<notin> (\<lambda>(_, _, x). sj_ID x) ` set (db_ingestion_jobs (pg_db s))" "uuid 0 \<notin> mr_JobID ` set (db_manual_review (pg_db s))"
    using assms(3) by (simp_all add: ingest_ready_def)
  have t1: "tenant_uuid (pg_db s1) T = Some U" using tenant_uuid_only [of "pg_db s1" "pg_db s" T] r(2) by (simp add: s1(3))
  have "\<exists>job s2. pg_SaveIngestionJob env T (uuid 1) ?run s1 = (Inr job, s2) \<and> sj_ID job = sj_ID ?run \<and>
      sj_State job = sj_State ?run \<and> sj_Delay job = sj_Delay ?run \<and> sj_Reason job = sj_Reason ?run \<and>
      s2 = s1\<lparr>pg_db := (pg_db s1)\<lparr>db_ingestion_jobs := db_ingestion_jobs (pg_db s1) @ [(U, uuid 1, job)]\<rparr>\<rparr>"
    by (rule save_job_running [where k = "2 + ib_Rand b 0"])
      (use r t1 assms(4,5) s1(2) r(4) [of 0] r(4) [of 1] in \<open>simp_all add: s1(3) Run_job_fields PrepareJob_fields\<close>)
  then obtain job s2 where s2: "pg_SaveIngestionJob env T (uuid 1) ?run s1 = (Inr job, s2)" "sj_ID job = uuid 0"
      "sj_State job = sj_State ?run" "sj_Delay job = (2 + ib_Rand b 0) * time_Second"
      "s2 = s1\<lparr>pg_db := (pg_db s1)\<lparr>db_ingestion_jobs := db_ingestion_jobs (pg_db s1) @ [(U, uuid 1, job)]\<rparr>\<rparr>"
    by (auto simp: Run_job_fields PrepareJob_fields)
  have t2: "tenant_uuid (pg_db s2) T = Some U" using tenant_uuid_only [of "pg_db s2" "pg_db s1" T] t1 by (simp add: s2(5))
  have "\<exists>item s3. pg_EnqueueManualReview env T (uuid 0) (sj_Reason job) s2 = (Inr (), s3) \<and>
    mr_JobID item = uuid 0 \<and> mr_TenantID item = U \<and> mr_Status item = ''pending'' \<and> mr_Reason item = sj_Reason job \<and>
    pg_db s3 = (pg_db s2)\<lparr>db_manual_review := db_manual_review (pg_db s2) @ [item]\<rparr>"
    by (rule enqueue_running) (use r t2 r(4) [of 0] s2(2) in \<open>simp_all add: s2(5) s1(3)\<close>)
  then obtain item s3 where s3: "pg_EnqueueManualReview env T (uuid 0) (sj_Reason job) s2 = (Inr (), s3)" "mr_JobID item = uuid 0"
    "mr_TenantID item = U" "mr_Status item = ''pending''" "pg_db s3 = (pg_db s2)\<lparr>db_manual_review := db_manual_review (pg_db s2) @ [item]\<rparr>" by blast
  let ?s = "if DetectCaptcha body then s3 else s2"
  have "record_job (pg_IngestionStore env) (uuid 1) T actor url ?job (Suc ?n) body now s = (Inr job, ?s)"
    using s1(1,2) s2(1-3) s3(1) by (simp add: record_job_def op_bind_def pg_IngestionStore_def Run_job_fields)
  with RunPersistent_admitted [OF assms(1,2), of uuid actor url body s] obtain b' where
    "RunPersistent uuid T actor url body now (b, s) = (Inr job, (b', ?s))" by (auto simp: Let_def)
  then show ?thesis
    unfolding DetectCaptcha_iff [symmetric] using s2 s3 s1(3) assms(4,5)
    by (intro exI [of _ job] exI [of _ b'] exI [of _ ?s]) (simp add: Run_job_fields)
qed

text \<open>A body in capitals is found, and its job queued.\<close>

theorem ingestion_review_queued_witness:
  "\<exists>job b' s'. RunPersistent (il_uuid (demo_call 0)) ''academy'' [] ''http://offline.local/content'' ''Please solve this CAPTCHA'' 0
       (demo_bot, demo_state) = (Inr job, (b', s')) \<and> sj_State job = ScraperStateManualReview \<and>
     (\<exists>item. db_manual_review (pg_db s') = [item] \<and> mr_JobID item = sj_ID job)"
proof -
  have ready: "ingest_ready demo_env ''academy'' (demo_id CHR ''a'') [] (il_uuid (demo_call 0)) demo_state"
    by (simp add: ingest_ready_def demo_call_def demo_state_def demo_db_def pg_tables_new_def tenant_uuid_def)
  have "to_lower ''Please solve this CAPTCHA'' = ''please solve this '' @ ''captcha'' @ []" by (simp add: to_lower_def) code_simp
  then have sig: "\<exists>sig\<in>{''captcha'', ''manual review'', ''verify you are human'', ''bot detection''}.
      \<exists>u v. to_lower ''Please solve this CAPTCHA'' = u @ sig @ v" by blast
  have "ib_Store demo_bot = Some (pg_IngestionStore demo_env)" "length (bot_recent demo_bot ''academy'' 0) < 5"
    "0 \<le> ib_Rand demo_bot 0" "ib_Rand demo_bot 0 < 13" by (simp_all add: demo_bot_def NewIngestionBot_def bot_recent_def)
  from ingestion_review_queued [OF this(1,2) ready this(3,4), of "''http://offline.local/content''" "''Please solve this CAPTCHA''"] sig
  show ?thesis by (auto simp: demo_state_def demo_db_def pg_tables_new_def)
qed

end
