(* ===== verification/Reporting.thy ===== *)
theory Reporting
  imports Content_Laws Schedules
begin

text \<open>
  Reports: \<^verbatim>\<open>internal/service/reporting.go\<close> with the parts of \<^verbatim>\<open>encoding/csv\<close> it uses, and the endpoints
  \<^verbatim>\<open>internal/api/handlers/reporting.go\<close>. The service is a value beside the disk, because the first report sets a
  missing output path. Instants are printed in UTC, the zone the process runs in. What \<^verbatim>\<open>os.Stat\<close> knows of
  directories and the modification time of a new file are arguments.
\<close>

subsection \<open>Comma separated values\<close>

text \<open>\<^verbatim>\<open>unicode.IsSpace\<close> of the first character, in its encoding.\<close>

definition utf8_spaces :: "string list" where
  "utf8_spaces = [[CHR 0x09], [CHR 0x0a], [CHR 0x0b], [CHR 0x0c], [CHR 0x0d], [CHR 0x20], [CHR 0xc2, CHR 0x85], [CHR 0xc2, CHR 0xa0],
     [CHR 0xe1, CHR 0x9a, CHR 0x80], [CHR 0xe2, CHR 0x80, CHR 0x80], [CHR 0xe2, CHR 0x80, CHR 0x81], [CHR 0xe2, CHR 0x80, CHR 0x82],
     [CHR 0xe2, CHR 0x80, CHR 0x83], [CHR 0xe2, CHR 0x80, CHR 0x84], [CHR 0xe2, CHR 0x80, CHR 0x85], [CHR 0xe2, CHR 0x80, CHR 0x86],
     [CHR 0xe2, CHR 0x80, CHR 0x87], [CHR 0xe2, CHR 0x80, CHR 0x88], [CHR 0xe2, CHR 0x80, CHR 0x89], [CHR 0xe2, CHR 0x80, CHR 0x8a],
     [CHR 0xe2, CHR 0x80, CHR 0xa8], [CHR 0xe2, CHR 0x80, CHR 0xa9], [CHR 0xe2, CHR 0x80, CHR 0xaf], [CHR 0xe2, CHR 0x81, CHR 0x9f],
     [CHR 0xe3, CHR 0x80, CHR 0x80]]"

definition fieldNeedsQuotes :: "string \<Rightarrow> bool" where
  "fieldNeedsQuotes cell \<longleftrightarrow> cell \<noteq> '''' \<and>
     (cell = [CHR 0x5c, CHR ''.''] \<or> list_ex (\<lambda>c. c \<in> {CHR 0x0a, CHR 0x0d, CHR 0x22, CHR '',''}) cell \<or>
      list_ex (\<lambda>sp. take (length sp) cell = sp) utf8_spaces)"

definition csv_escape :: "string \<Rightarrow> string" where
  "csv_escape cell = concat (map (\<lambda>c. if c = CHR 0x22 then [c, c] else [c]) cell)"

definition csv_field :: "string \<Rightarrow> string" where
  "csv_field cell = (if fieldNeedsQuotes cell then [CHR 0x22] @ csv_escape cell @ [CHR 0x22] else cell)"

definition csv_Write :: "string list \<Rightarrow> string" where
  "csv_Write record = join_on CHR '','' (map csv_field record) @ [CHR 0x0a]"

subsection \<open>The service\<close>

record Report =
  rp_Filename :: string
  rp_MimeType :: string
  rp_Body :: string

record ReportFile =
  rf_Filename :: string
  rf_Size :: int
  rf_CreatedAt :: go_time
  rf_Path :: string

record ReportingService =
  rs_OutputPath :: string

definition NewReportingService :: "string \<Rightarrow> ReportingService" where
  "NewReportingService outputPath = \<lparr>rs_OutputPath = outputPath\<rparr>"

definition bookings_header :: "string list" where
  "bookings_header = [''id'', ''tenant_id'', ''room_id'', ''instructor_id'', ''title'', ''start_at'', ''end_at'', ''status'']"

definition booking_fields :: "Booking \<Rightarrow> string list" where
  "booking_fields b = [bk_ID b, bk_TenantID b, bk_RoomID b, bk_InstructorID b, bk_Title b, format_rfc3339 (bk_StartAt b),
     format_rfc3339 (bk_EndAt b), status_string (bk_Status b)]"

definition BookingsCSV :: "Booking list \<Rightarrow> Report" where
  "BookingsCSV bookings = \<lparr>rp_Filename = ''bookings.csv'', rp_MimeType = ''text/csv'',
     rp_Body = csv_Write bookings_header @ concat (map (\<lambda>b. csv_Write (booking_fields b)) bookings)\<rparr>"

definition strings_ReplaceChar :: "char \<Rightarrow> string \<Rightarrow> string \<Rightarrow> string" where
  "strings_ReplaceChar c new s = concat (map (\<lambda>d. if d = c then new else [d]) s)"

definition buildMinimalPDF :: "string \<Rightarrow> string \<Rightarrow> string list \<Rightarrow> string" where
  "buildMinimalPDF title watermark lines =
     (let textLines = [title, ''WATERMARK: '' @ watermark] @ lines;
          escaped = strings_ReplaceChar CHR ''('' [CHR 0x5c, CHR ''(''] (join_on CHR 0x0a textLines);
          escaped = strings_ReplaceChar CHR '')'' [CHR 0x5c, CHR '')''] escaped;
          stream = ''BT /F1 18 Tf 72 760 Td ('' @ escaped @ '') Tj ET''
      in join_on CHR 0x0a [''%PDF-1.4'', ''1 0 obj<<>>endobj'', ''2 0 obj<< /Type /Catalog /Pages 3 0 R >>endobj'',
           ''3 0 obj<< /Type /Pages /Count 1 /Kids [4 0 R] >>endobj'',
           ''4 0 obj<< /Type /Page /Parent 3 0 R /MediaBox [0 0 612 792] /Contents 5 0 R /Resources << /Font << /F1 6 0 R >> >> >>endobj'',
           ''5 0 obj<< /Length '' @ itoa (int (length stream)) @ '' >>stream'', stream, ''endstream endobj'',
           ''6 0 obj<< /Type /Font /Subtype /Type1 /BaseFont /Helvetica >>endobj'', ''xref'', ''0 7'', ''0000000000 65535 f '',
           ''trailer<< /Root 2 0 R /Size 7 >>'', ''startxref'', ''0'', ''%%EOF''])"

definition CompliancePDF :: "string \<Rightarrow> string \<Rightarrow> string list \<Rightarrow> Report" where
  "CompliancePDF title watermark lines = \<lparr>rp_Filename = ''compliance-report.pdf'', rp_MimeType = ''application/pdf'',
     rp_Body = buildMinimalPDF title watermark lines\<rparr>"

text \<open>\<^verbatim>\<open>os.WriteFile\<close> opens and truncates, writes and closes; \<^verbatim>\<open>os.Stat\<close> finds files and directories.\<close>

definition os_WriteFile :: "string \<Rightarrow> string \<Rightarrow> (unit, disk) op" where
  "os_WriteFile path body =
     op_bind (os_Create path) (\<lambda>_. op_bind (file_Write path body) (\<lambda>_. sys_call (\<lambda>d. d)))"

definition os_Stat :: "(string \<Rightarrow> bool) \<Rightarrow> string \<Rightarrow> (int, disk) op" where
  "os_Stat is_dir path = op_bind (sys_call (\<lambda>d. d)) (\<lambda>_ d. (case dk_files d path of
      Some c \<Rightarrow> Inr (int (length c)) | None \<Rightarrow> if is_dir path then Inr 0 else Inl ErrNotExist, d))"

type_synonym with_reports = "ReportingService \<times> disk"

definition WriteReport :: "(string \<Rightarrow> bool) \<Rightarrow> (string \<Rightarrow> go_time) \<Rightarrow> go_time \<Rightarrow> Report \<Rightarrow> (ReportFile, with_reports) op" where
  "WriteReport is_dir modified now report st =
     (let out = (if rs_OutputPath (fst st) = '''' then ''./reports'' else rs_OutputPath (fst st));
          filename = itoa (time_UnixNano now) @ ''_'' @ rp_Filename report;
          path = path_Join out filename
      in on_disk (
           op_bind (os_MkdirAll out) (\<lambda>_.
           op_bind (os_WriteFile path (rp_Body report)) (\<lambda>_.
           op_bind (os_Stat is_dir path) (\<lambda>size.
             op_return \<lparr>rf_Filename = filename, rf_Size = size, rf_CreatedAt = modified path, rf_Path = path\<rparr>))))
         ((fst st)\<lparr>rs_OutputPath := out\<rparr>, snd st))"

definition Resolve :: "(string \<Rightarrow> bool) \<Rightarrow> string \<Rightarrow> (string, with_reports) op" where
  "Resolve is_dir filename st =
     (if filename = '''' then (Inl ErrNotExist, st)
      else let path = path_Join (rs_OutputPath (fst st)) (path_Base filename)
           in on_disk (op_bind (os_Stat is_dir path) (\<lambda>_. op_return path)) st)"

subsection \<open>Endpoints\<close>

text \<open>\<open>ReplyServeFile\<close> is what \<^verbatim>\<open>http.ServeFile\<close> answers for the path.\<close>

datatype report_reply = ReplyReport ReportFile | ReplyServeFile string

type_synonym 's with_books = "'s \<times> with_reports"

definition on_reports :: "('a, with_reports) op \<Rightarrow> ('a, 's with_books) op" where
  "on_reports m st = (case m (snd st) of (r, d) \<Rightarrow> (r, (fst st, d)))"

definition on_books :: "('a, 's) op \<Rightarrow> ('a, 's with_books) op" where
  "on_books m st = (case m (fst st) of (r, s) \<Rightarrow> (r, (s, snd st)))"

record 's ReportingHandler =
  rh_is_dir :: "string \<Rightarrow> bool"
  rh_modified :: "string \<Rightarrow> go_time"
  rh_Bookings :: "'s BookingStore"

definition ReportingHandler_BookingsCSV :: "'s ReportingHandler \<Rightarrow> (report_reply, 's with_books) endpoint" where
  "ReportingHandler_BookingsCSV h rq st =
     (case tenant_ID rq of None \<Rightarrow> (jsonError 401 ''tenant context required'', st) | Some tenantID \<Rightarrow>
     (case on_books (st_ListBookings (rh_Bookings h) tenantID) st of
        (Inl _, st1) \<Rightarrow> (jsonError 500 ''Unable to load bookings'', st1)
      | (Inr bookings, st1) \<Rightarrow> respond 200 ReplyReport 500 ''Unable to generate report''
          (on_reports (WriteReport (rh_is_dir h) (rh_modified h) (rq_clock rq 0) (BookingsCSV bookings))) st1))"

definition ReportingHandler_CompliancePDF :: "'s ReportingHandler \<Rightarrow> (report_reply, 's with_books) endpoint" where
  "ReportingHandler_CompliancePDF h rq =
     respond 200 ReplyReport 500 ''Unable to generate report''
       (on_reports (WriteReport (rh_is_dir h) (rh_modified h) (rq_clock rq 0)
         (CompliancePDF ''Compliance export'' ''TrainingOps Internal''
           [''All PII is masked through the API layer.'', ''Booking and task transitions are audited.'',
            ''Tenant isolation is enforced at the repository boundary.''])))"

definition ReportingHandler_Download :: "'s ReportingHandler \<Rightarrow> (report_reply, 's with_books) endpoint" where
  "ReportingHandler_Download h rq =
     respond 200 ReplyServeFile 404 ''Report not found'' (on_reports (Resolve (rh_is_dir h) (rq_param rq ''filename'')))"

subsection \<open>Reading a report\<close>

text \<open>
  A reader of comma separated values as RFC 4180 describes them, kept apart from the writer: \<open>csv_read mode cell row\<close>
  reads on with the current cell and the cells of the current row. \<open>None\<close> means that the text is malformed.
\<close>

datatype csv_mode = FieldStart | Plain | Quoted | QuoteSeen

fun csv_read :: "csv_mode \<Rightarrow> string \<Rightarrow> string list \<Rightarrow> string \<Rightarrow> string list list option" where
  "csv_read m cell row [] =
     (if m = FieldStart \<and> row = [] then Some [] else if m = Quoted then None else Some [row @ [cell]])"
| "csv_read m cell row (c # cs) =
     (if m = Quoted then (if c = CHR 0x22 then csv_read QuoteSeen cell row cs else csv_read Quoted (cell @ [c]) row cs)
      else if c = CHR '','' then csv_read FieldStart [] (row @ [cell]) cs
      else if c = CHR 0x0a then map_option (\<lambda>rows. (row @ [cell]) # rows) (csv_read FieldStart [] [] cs)
      else if c = CHR 0x22 then
        (case m of FieldStart \<Rightarrow> csv_read Quoted [] row cs | QuoteSeen \<Rightarrow> csv_read Quoted (cell @ [c]) row cs | _ \<Rightarrow> None)
      else if m = QuoteSeen then None else csv_read Plain (cell @ [c]) row cs)"

lemma csv_read_escaped:
  "csv_read Quoted cell row (csv_escape s @ CHR 0x22 # rest) = csv_read QuoteSeen (cell @ s) row rest"
  by (induction s arbitrary: cell) (simp_all add: csv_escape_def)

lemma csv_read_plain:
  "(\<And>c. c \<in> set s \<Longrightarrow> c \<notin> {CHR '','', CHR 0x0a, CHR 0x22}) \<Longrightarrow> m \<in> {FieldStart, Plain} \<Longrightarrow> s \<noteq> [] \<Longrightarrow>
    csv_read m cell row (s @ rest) = csv_read Plain (cell @ s) row rest"
proof (induction s arbitrary: cell m)
  case (Cons c s)
  then show ?case by (cases "s = []") auto
qed simp

text \<open>A written cell ends at the separator.\<close>

lemma csv_read_field:
  "csv_read FieldStart [] row (csv_field f @ CHR '','' # rest) = csv_read FieldStart [] (row @ [f]) rest"
  "csv_read FieldStart [] row (csv_field f @ CHR 0x0a # rest) =
     map_option (\<lambda>rows. (row @ [f]) # rows) (csv_read FieldStart [] [] rest)"
proof -
  have q: "csv_read FieldStart [] row (csv_field f @ rest') = csv_read QuoteSeen f row rest'" if "fieldNeedsQuotes f" for rest'
    using that by (simp add: csv_field_def csv_read_escaped)
  have "\<exists>m\<in>{FieldStart, Plain}. csv_read FieldStart [] row (f @ rest') = csv_read m f row rest'" if "\<not> fieldNeedsQuotes f" for rest'
  proof (cases "f = []")
    case False
    with that have "c \<notin> {CHR '','', CHR 0x0a, CHR 0x22}" if "c \<in> set f" for c
      using that by (auto simp: fieldNeedsQuotes_def list_ex_iff)
    then show ?thesis
      using csv_read_plain [where s = f and m = FieldStart and cell = "[]" and row = row and rest = rest'] False by simp
  qed simp
  then have p: "\<exists>m\<in>{FieldStart, Plain}. csv_read FieldStart [] row (csv_field f @ rest') = csv_read m f row rest'" if "\<not> fieldNeedsQuotes f" for rest'
    using that by (simp add: csv_field_def)
  show "csv_read FieldStart [] row (csv_field f @ CHR '','' # rest) = csv_read FieldStart [] (row @ [f]) rest"
    using q [of "CHR '','' # rest"] p [of "CHR '','' # rest"] by (cases "fieldNeedsQuotes f") auto
  show "csv_read FieldStart [] row (csv_field f @ CHR 0x0a # rest) =
     map_option (\<lambda>rows. (row @ [f]) # rows) (csv_read FieldStart [] [] rest)"
    using q [of "CHR 0x0a # rest"] p [of "CHR 0x0a # rest"] by (cases "fieldNeedsQuotes f") auto
qed

lemma csv_read_Write:
  "fs \<noteq> [] \<Longrightarrow> csv_read FieldStart [] row (csv_Write fs @ rest) =
     map_option (\<lambda>rows. (row @ fs) # rows) (csv_read FieldStart [] [] rest)"
proof (induction fs arbitrary: row)
  case (Cons f fs)
  show ?case
  proof (cases fs)
    case Nil
    then show ?thesis by (simp add: csv_Write_def csv_read_field)
  next
    case (Cons g gs)
    then have "csv_Write (f # fs) = csv_field f @ CHR '','' # csv_Write fs" by (simp add: csv_Write_def)
    then show ?thesis using Cons Cons.IH [of "row @ [f]"] by (simp add: csv_read_field)
  qed
qed simp


subsection \<open>Paths\<close>

lemma split_on_middle: "split_on sep (s @ sep # t) = split_on sep s @ split_on sep t"
  by (induction s) (auto split: list.splits)

lemma clean_elements_append: "clean_elements r st (es @ fs) = clean_elements r (clean_elements r st es) fs"
proof (induction es arbitrary: st)
  case (Cons e es)
  show ?case by (cases st; cases r) (use Cons.IH in simp_all)
qed simp

lemma clean_elements_set: "set (clean_elements r st es) \<subseteq> set st \<union> (set es - {[], ''.''})"
proof (induction r st es rule: clean_elements.induct)
  case (2 r st e es)
  show ?case
  proof (cases "e = [] \<or> e = ''.'' \<or> e \<noteq> ''..''")
    case True
    then show ?thesis using 2(1,5) by (cases "e = [] \<or> e = ''.''") auto
  next
    case False
    then show ?thesis using 2(2-4) by (cases st) (auto split: if_splits)
  qed
qed simp

lemma join_on_snoc: "ps \<noteq> [] \<Longrightarrow> join_on sep (ps @ [p]) = join_on sep ps @ sep # p"
  by (induction sep ps rule: join_on.induct) auto

lemma join_on_empty: "join_on sep ps = [] \<longleftrightarrow> ps = [] \<or> ps = [[]]"
  by (induction sep ps rule: join_on.induct) auto

text \<open>A path with one more element at the end of the cleaned directory.\<close>

definition directly_under :: "string \<Rightarrow> string \<Rightarrow> string \<Rightarrow> bool" where
  "directly_under dir name path \<longleftrightarrow> CHR ''/'' \<notin> set name \<and>
     path = (if path_Clean dir = ''.'' then name else if path_Clean dir = ''/'' then ''/'' @ name
             else path_Clean dir @ ''/'' @ name)"

lemma path_Base_name: "path_Base f = ''/'' \<or> CHR ''/'' \<notin> set (path_Base f)"
  using set_takeWhileD [of "CHR ''/''" "\<lambda>c. c \<noteq> CHR ''/''"] by (auto simp: path_Base_def Let_def)

lemma path_Base_id:
  assumes "f \<noteq> []" "CHR ''/'' \<notin> set f"
  shows "path_Base f = f"
proof -
  have d: "dropWhile (\<lambda>c. c = CHR ''/'') (rev f) = rev f" using assms by (cases "rev f") (auto simp: rev_eq_Cons_iff)
  have t: "takeWhile (\<lambda>c. c \<noteq> CHR ''/'') (rev f) = rev f" using assms(2) by (subst takeWhile_eq_all_conv) auto
  show ?thesis unfolding path_Base_def Let_def d rev_rev_ident t using assms(1) by simp
qed

lemma join_on_proper:
  assumes "ps \<noteq> []" "\<forall>e\<in>set ps. e \<noteq> [] \<and> e \<noteq> ''.'' \<and> CHR ''/'' \<notin> set e"
  shows "join_on CHR ''/'' ps \<notin> {[], ''.'', ''/''}"
proof (cases ps)
  case (Cons p qs)
  with assms have p: "p \<noteq> []" "p \<noteq> ''.''" "CHR ''/'' \<notin> set p" by auto
  then obtain c cs where "p = c # cs" "c \<noteq> CHR ''/''" by (cases p) auto
  with p Cons show ?thesis by (cases qs) auto
qed (use assms in auto)

lemma clean_add_element:
  assumes "dir \<noteq> []" "name \<notin> {[], ''.'', ''..''}" "CHR ''/'' \<notin> set name"
  shows "directly_under dir name (path_Clean (dir @ CHR ''/'' # name))"
proof -
  define r where "r \<longleftrightarrow> take 1 dir = ''/''"
  define st where "st = clean_elements r [] (split_on CHR ''/'' dir)"
  have proper: "\<forall>e\<in>set st. e \<noteq> [] \<and> e \<noteq> ''.'' \<and> CHR ''/'' \<notin> set e"
    using clean_elements_set [of r "[]" "split_on CHR ''/'' dir"] split_on_no_sep_parts unfolding st_def by fastforce
  have first: "take 1 (dir @ CHR ''/'' # name) = take 1 dir" using assms(1) by (cases dir) simp_all
  have more: "clean_elements r [] (split_on CHR ''/'' (dir @ CHR ''/'' # name)) = name # st"
    using assms(2,3) by (simp add: split_on_middle clean_elements_append st_def)
  have clean: "path_Clean dir = (if r then ''/'' @ join_on CHR ''/'' (rev st) else if join_on CHR ''/'' (rev st) = [] then ''.'' else join_on CHR ''/'' (rev st))"
    unfolding path_Clean_def Let_def r_def [symmetric] st_def ..
  have added: "path_Clean (dir @ CHR ''/'' # name) =
      (if r then ''/'' @ join_on CHR ''/'' (rev st @ [name]) else join_on CHR ''/'' (rev st @ [name]))"
    using assms(2) unfolding path_Clean_def Let_def first r_def [symmetric] more by (simp add: join_on_empty Cons_eq_append_conv)
  show ?thesis
  proof (cases "st = []")
    case True
    then show ?thesis using assms(3) by (simp add: directly_under_def clean added)
  next
    case False
    with proper have "join_on CHR ''/'' (rev st) \<notin> {[], ''.'', ''/''}" by (intro join_on_proper) auto
    with False show ?thesis using assms(3) by (simp add: directly_under_def clean added join_on_snoc)
  qed
qed


subsection \<open>Reports and downloads\<close>

lemma Resolve_path:
  assumes "Resolve is_dir name (sv, d) = (Inr path, st)"
  shows "name \<noteq> [] \<and> path = path_Join (rs_OutputPath sv) (path_Base name) \<and> fst st = sv \<and> dk_files (snd st) = dk_files d \<and>
    (dk_files d path \<noteq> None \<or> is_dir path)"
proof -
  have n: "name \<noteq> []" using assms by (auto simp: Resolve_def)
  from assms show ?thesis unfolding Resolve_def if_not_P [OF n]
    by (auto simp: Let_def on_disk_def op_bind_def os_Stat_def sys_call_def n split: list.splits option.splits if_splits sum.splits prod.splits)
qed

lemma path_Clean_ignores:
  assumes "dir \<noteq> []" "e = [] \<or> e = ''.''"
  shows "path_Clean (dir @ CHR ''/'' # e) = path_Clean dir"
proof -
  have "split_on CHR ''/'' (dir @ CHR ''/'' # e) = split_on CHR ''/'' dir @ [e]" using assms(2) by (auto simp: split_on_middle)
  then have "clean_elements r [] (split_on CHR ''/'' (dir @ CHR ''/'' # e)) = clean_elements r [] (split_on CHR ''/'' dir)" for r
    using assms(2) by (simp add: clean_elements_append)
  moreover have "take 1 (dir @ CHR ''/'' # e) = take 1 dir" using assms(1) by (cases dir) simp_all
  ultimately show ?thesis unfolding path_Clean_def Let_def by (simp only:)
qed

text \<open>
  Property C37. Downloads stay in the directory of the reports. Whatever name the client sends, with any separators and
  parent elements in it, resolving it writes nothing; the path it yields exists and is an entry directly under the cleaned
  output path, or that directory itself for a name that ends in a lone period or consists of separators. There is
  one way out: a name whose last element is two periods yields the parent directory.
\<close>

theorem resolve_confined:
  assumes "Resolve is_dir name (sv, d) = (Inr path, st)" "rs_OutputPath sv \<noteq> []"
  shows "fst st = sv \<and> dk_files (snd st) = dk_files d \<and> (dk_files d path \<noteq> None \<or> is_dir path) \<and>
    (if path_Base name \<in> {''.'', ''/''} then path = path_Clean (rs_OutputPath sv)
     else if path_Base name = ''..'' then path = path_Clean (rs_OutputPath sv @ ''/..'')
     else directly_under (rs_OutputPath sv) (path_Base name) path)"
proof -
  note R = Resolve_path [OF assms(1)]
  have b: "path_Base name \<noteq> []" using R by (auto simp: path_Base_def Let_def)
  have path: "path = path_Clean (rs_OutputPath sv @ CHR ''/'' # path_Base name)"
    using R assms(2) b by (simp add: path_Join_def)
  have slash: "path_Clean (rs_OutputPath sv @ CHR ''/'' # ''/'') = path_Clean (rs_OutputPath sv)"
    using path_Clean_ignores [of "rs_OutputPath sv @ ''/''" "[]"] path_Clean_ignores [of "rs_OutputPath sv" "[]"] assms(2) by simp
  have "if path_Base name \<in> {''.'', ''/''} then path = path_Clean (rs_OutputPath sv)
     else if path_Base name = ''..'' then path = path_Clean (rs_OutputPath sv @ ''/..'')
     else directly_under (rs_OutputPath sv) (path_Base name) path"
  proof (cases "path_Base name \<in> {''.'', ''/'', ''..''}")
    case True
    then show ?thesis using path slash path_Clean_ignores [of "rs_OutputPath sv" "''.''"] assms(2) by auto
  next
    case False
    then have "CHR ''/'' \<notin> set (path_Base name)" using path_Base_name [of name] by simp
    with False b clean_add_element [OF assms(2), of "path_Base name"] show ?thesis by (simp add: path)
  qed
  with R show ?thesis by blast
qed

text \<open>A name with separators finds the report of its last element; two periods find the parent directory.\<close>

theorem resolve_confined_witness:
  "(let d = \<lparr>dk_files = [''reports/a.csv'' \<mapsto> ''x''], dk_faults = []\<rparr>; sv = NewReportingService ''./reports''
    in directly_under ''./reports'' ''a.csv'' (projr (fst (Resolve (\<lambda>_. False) ''../../etc/a.csv'' (sv, d)))) \<and>
       projr (fst (Resolve (\<lambda>p. p = ''.'') ''..'' (sv, d))) = path_Clean ''./reports/..'')"
proof -
  let ?d = "\<lparr>dk_files = [''reports/a.csv'' \<mapsto> ''x''], dk_faults = []\<rparr>" and ?sv = "NewReportingService ''./reports''"
  have b: "path_Base ''../../etc/a.csv'' = ''a.csv''" "path_Base ''..'' = ''..''" by code_simp+
  have j: "path_Join ''./reports'' ''a.csv'' = ''reports/a.csv''" "path_Join ''./reports'' ''..'' = ''.''" by code_simp+
  have a: "Resolve (\<lambda>_. False) ''../../etc/a.csv'' (?sv, ?d) = (Inr ''reports/a.csv'', (?sv, ?d))"
    "Resolve (\<lambda>p. p = ''.'') ''..'' (?sv, ?d) = (Inr ''.'', (?sv, ?d))"
    by (simp_all add: Resolve_def b j NewReportingService_def on_disk_def op_bind_def os_Stat_def sys_call_def Let_def)
  have ne: "rs_OutputPath ?sv \<noteq> []" by (simp add: NewReportingService_def)
  show ?thesis using resolve_confined [OF a(1) ne] resolve_confined [OF a(2) ne]
    unfolding Let_def a fst_conv sum.sel by (simp add: b NewReportingService_def)
qed

lemma csv_read_bookings:
  "csv_read FieldStart [] [] (rp_Body (BookingsCSV bookings)) = Some (bookings_header # map booking_fields bookings)"
proof -
  have "csv_read FieldStart [] [] (concat (map (\<lambda>b. csv_Write (booking_fields b)) bookings)) = Some (map booking_fields bookings)"
    by (induction bookings) (simp_all add: csv_read_Write booking_fields_def)
  then show ?thesis by (simp add: BookingsCSV_def csv_read_Write bookings_header_def)
qed

text \<open>
  Property C36. A report can be downloaded and read. With a working disk the report of any bookings, whatever commas,
  quotes, line ends or spaces their texts contain, is written as one new file directly under the output path, with its
  size; the name that is returned resolves to this file; and a reader of comma separated values finds in it the header
  and, for every booking in order, exactly its eight texts.
\<close>

theorem report_round_trip:
  assumes "dk_faults d = []"
  shows "\<exists>file sv' d' content. WriteReport is_dir modified now (BookingsCSV bookings) (sv, d) = (Inr file, (sv', d')) \<and>
    dk_files d' = (dk_files d)(rf_Path file \<mapsto> content) \<and> rf_Size file = int (length content) \<and>
    directly_under (rs_OutputPath sv') (rf_Filename file) (rf_Path file) \<and>
    Resolve is_dir (rf_Filename file) (sv', d') = (Inr (rf_Path file), (sv', d')) \<and>
    csv_read FieldStart [] [] content = Some (bookings_header # map booking_fields bookings)"
proof -
  define out where "out = (if rs_OutputPath sv = [] then ''./reports'' else rs_OutputPath sv)"
  define name where "name = itoa (time_UnixNano now) @ ''_'' @ rp_Filename (BookingsCSV bookings)"
  define body where "body = rp_Body (BookingsCSV bookings)"
  define path where "path = path_Join out name"
  let ?file = "\<lparr>rf_Filename = name, rf_Size = int (length body), rf_CreatedAt = modified path, rf_Path = path\<rparr>"
  let ?d = "d\<lparr>dk_files := (dk_files d)(path \<mapsto> body)\<rparr>"
  have out: "out \<noteq> []" by (simp add: out_def)
  have n1: "CHR ''/'' \<notin> set name" using itoa_chars [of "time_UnixNano now"] by (auto simp: BookingsCSV_def name_def)
  have "length name \<ge> 5" by (simp add: BookingsCSV_def name_def)
  then have n2: "name \<notin> {[], ''.'', ''..''}" by auto
  have "path = path_Clean (out @ CHR ''/'' # name)" using n2 out by (simp add: path_Join_def path_def)
  with clean_add_element [OF out n2 n1] have under: "directly_under out name path" by simp
  have base: "path_Base name = name" by (rule path_Base_id) (use n1 n2 in auto)
  have W: "WriteReport is_dir modified now (BookingsCSV bookings) (sv, d) = (Inr ?file, (sv\<lparr>rs_OutputPath := out\<rparr>, ?d))"
    unfolding WriteReport_def Let_def fst_conv snd_conv out_def [symmetric] name_def [symmetric] body_def [symmetric] path_def [symmetric]
    using assms by (simp add: on_disk_def op_bind_def os_MkdirAll_def os_WriteFile_def os_Create_def file_Write_def sys_call_def os_Stat_def)
  have "Resolve is_dir name (sv\<lparr>rs_OutputPath := out\<rparr>, ?d) = (Inr path, (sv\<lparr>rs_OutputPath := out\<rparr>, ?d))"
    using assms n2 by (simp add: Resolve_def base Let_def on_disk_def op_bind_def sys_call_def os_Stat_def path_def)
  with W under show ?thesis
    by (intro exI [of _ ?file] exI [of _ "sv\<lparr>rs_OutputPath := out\<rparr>"] exI [of _ ?d] exI [of _ body])
      (simp add: csv_read_bookings body_def)
qed

text \<open>A booking whose title has a comma, quotes and a line end.\<close>

theorem report_round_trip_witness:
  "\<exists>file st content. WriteReport (\<lambda>_. False) (\<lambda>_. 0) 0 (BookingsCSV [Booking_zero\<lparr>bk_Title := [CHR ''a'', CHR '','', CHR 0x22, CHR 0x0a]\<rparr>])
       (NewReportingService [], \<lparr>dk_files = Map.empty, dk_faults = []\<rparr>) = (Inr file, st) \<and>
     dk_files (snd st) (rf_Path file) = Some content \<and>
     csv_read FieldStart [] [] content = Some [bookings_header, booking_fields (Booking_zero\<lparr>bk_Title := [CHR ''a'', CHR '','', CHR 0x22, CHR 0x0a]\<rparr>)]"
  using report_round_trip [of "\<lparr>dk_files = Map.empty, dk_faults = []\<rparr>" "\<lambda>_. False" "\<lambda>_. 0" 0
      "[Booking_zero\<lparr>bk_Title := [CHR ''a'', CHR '','', CHR 0x22, CHR 0x0a]\<rparr>]" "NewReportingService []"] by force

end
