(* ===== verification/Go_Float.thy ===== *)
theory Go_Float
  imports Complex_Main "HOL-Library.Log_Nat"
begin

text \<open>
  The type \<^verbatim>\<open>float64\<close> where the backend computes percentages and minutes. A value is the rational
  number it stands for, and every operation rounds its exact result to the nearest number of 53 significant
  bits, halves to the even one. The counts and durations of the program are far from the limits of the exponent, so
  neither overflow nor subnormal numbers are modelled.
\<close>

definition round_even :: "rat \<Rightarrow> int" where
  "round_even x =
     (let f = floor x; d = x - of_int f
      in if d < 1/2 then f else if d > 1/2 then f + 1 else if even f then f else f + 1)"

definition pow2 :: "int \<Rightarrow> rat" where
  "pow2 k = (if k \<ge> 0 then 2 ^ nat k else 1 / 2 ^ nat (- k))"

text \<open>The exponent of the last bit, for a positive number.\<close>

definition float_exp :: "rat \<Rightarrow> int" where
  "float_exp x = (case quotient_of x of (p, q) \<Rightarrow>
     let k = bitlen p - bitlen q - 53 in if x / pow2 k \<ge> 2 ^ 53 then k + 1 else k)"

definition float_pos :: "rat \<Rightarrow> rat" where
  "float_pos x = of_int (round_even (x / pow2 (float_exp x))) * pow2 (float_exp x)"

definition float64 :: "rat \<Rightarrow> rat" where
  "float64 x = (if x = 0 then 0 else if x < 0 then - float_pos (- x) else float_pos x)"

text \<open>The conversion \<^verbatim>\<open>int(x)\<close> drops the fraction.\<close>

definition float_to_int :: "rat \<Rightarrow> int" where
  "float_to_int x = (if x < 0 then - floor (- x) else floor x)"

lemma pow2_pos [simp]: "0 < pow2 k"
  by (simp add: pow2_def)

lemma pow2_nz [simp]: "pow2 k \<noteq> 0"
  using pow2_pos [of k] by (metis less_irrefl)

lemma pow2_nonneg [simp]: "0 \<le> pow2 k"
  by (rule less_imp_le) simp

lemma abs_pow2 [simp]: "\<bar>pow2 k\<bar> = pow2 k"
  using pow2_pos [of k] by (simp add: less_imp_le)

lemma pow2_Suc: "pow2 (k + 1) = 2 * pow2 k"
proof (cases "k \<ge> 0")
  case True
  then show ?thesis by (simp add: pow2_def nat_add_distrib)
next
  case False
  then have "nat (- k) = Suc (nat (- (k + 1)))" by simp
  with False show ?thesis by (cases "k = -1") (simp_all add: pow2_def)
qed

lemma pow2_add_nat: "pow2 (k + int n) = 2 ^ n * pow2 k"
proof (induction n)
  case (Suc n)
  have "pow2 (k + int (Suc n)) = pow2 ((k + int n) + 1)" by (simp add: algebra_simps)
  then show ?case using Suc by (simp only: pow2_Suc) simp
qed simp

lemma pow2_diff: "pow2 (a - b) = pow2 a / pow2 b"
proof (cases "a \<ge> b")
  case True
  then show ?thesis using pow2_add_nat [of b "nat (a - b)"] pow2_pos [of b] by (simp add: pow2_def field_simps)
next
  case False
  then have "pow2 (b - a) * pow2 a = pow2 b" using pow2_add_nat [of a "nat (b - a)"] by (simp add: pow2_def)
  moreover have "pow2 (a - b) = 1 / pow2 (b - a)" using False by (simp add: pow2_def)
  ultimately show ?thesis using pow2_pos [of "b - a"] pow2_pos [of a]
    by (metis divide_divide_eq_left less_irrefl mult.commute nonzero_mult_div_cancel_left divide_self_if mult_cancel_right2 times_divide_eq_right)
qed

lemma bitlen_pow2: "0 < p \<Longrightarrow> pow2 (bitlen p - 1) \<le> of_int p \<and> of_int p < pow2 (bitlen p)"
proof -
  assume "0 < p"
  then have b: "2 ^ nat (bitlen p - 1) \<le> p" "p < 2 ^ nat (bitlen p)" "bitlen p \<ge> 1"
    using bitlen_bounds [of p] bitlen_nonneg [of p] bitlen_ge_iff_power [of 1 p] by auto
  from b(1) have "(of_int (2 ^ nat (bitlen p - 1)) :: rat) \<le> of_int p" by (simp only: of_int_le_iff)
  moreover from b(2) have "(of_int p :: rat) < of_int (2 ^ nat (bitlen p))" by (simp only: of_int_less_iff)
  ultimately show ?thesis using b(3) by (simp add: pow2_def)
qed

lemma float_exp_lower:
  assumes "0 < x"
  shows "2 ^ 52 \<le> x / pow2 (float_exp x)"
proof -
  obtain p q where pq: "quotient_of x = (p, q)" by fastforce
  have q: "q > 0" using quotient_of_denom_pos [OF pq] .
  have x: "x = of_int p / of_int q" using quotient_of_div [OF pq] .
  with assms q have p: "p > 0" by (simp add: zero_less_divide_iff)
  define k where "k = bitlen p - bitlen q - 53"
  have "pow2 (bitlen p - 1) / pow2 (bitlen q) \<le> x"
    unfolding x using bitlen_pow2 [OF p] bitlen_pow2 [OF q] p q by (intro frac_le) auto
  moreover have "pow2 (bitlen p - 1) / pow2 (bitlen q) = 2 ^ 52 * pow2 k"
    using pow2_add_nat [of k 52] by (simp add: pow2_diff [symmetric] k_def algebra_simps)
  ultimately have "2 ^ 52 \<le> x / pow2 k" by (simp add: pos_le_divide_eq)
  moreover have "2 ^ 52 \<le> x / pow2 (k + 1)" if "2 ^ 53 \<le> x / pow2 k"
    using that unfolding pow2_Suc [of k] by (simp add: field_simps)
  ultimately show ?thesis by (simp add: float_exp_def pq Let_def k_def [symmetric])
qed

lemma round_even_near: "\<bar>of_int (round_even x) - x\<bar> \<le> 1/2"
proof -
  have "of_int \<lfloor>x\<rfloor> \<le> x" "x < of_int \<lfloor>x\<rfloor> + 1" by linarith+
  then show ?thesis by (simp add: round_even_def Let_def)
qed

text \<open>The relative error of rounding is at most half a unit of the last of 53 bits.\<close>

lemma float_error:
  assumes "0 \<le> x"
  shows "\<bar>float64 x - x\<bar> \<le> x / 2 ^ 53"
proof (cases "x = 0")
  case False
  let ?u = "pow2 (float_exp x)"
  have x: "0 < x" using assms False by simp
  have "float64 x - x = (of_int (round_even (x / ?u)) - x / ?u) * ?u"
    using x pow2_pos [of "float_exp x"] by (simp add: float64_def float_pos_def left_diff_distrib)
  then have "\<bar>float64 x - x\<bar> = \<bar>of_int (round_even (x / ?u)) - x / ?u\<bar> * ?u"
    using pow2_pos [of "float_exp x"] by (simp add: abs_mult)
  also have "\<dots> \<le> 1/2 * ?u" using round_even_near [of "x / ?u"] pow2_pos [of "float_exp x"] by (intro mult_right_mono) auto
  also have "\<dots> \<le> x / 2 ^ 53" using float_exp_lower [OF x] pow2_pos [of "float_exp x"] by (simp add: field_simps)
  finally show ?thesis .
qed (simp add: float64_def)

lemma round_even_int [simp]: "round_even (of_int n) = n"
  by (simp add: round_even_def)

text \<open>Integers below \<open>2 ^ 53\<close> are exact.\<close>

lemma float_int:
  assumes "0 \<le> n" "n < 2 ^ 53"
  shows "float64 (of_int n) = of_int n"
proof (cases "n = 0")
  case False
  with assms have n: "0 < n" by simp
  have "bitlen n \<le> 53" using bitlen_le_iff_power [of n 53] assms(2) by simp
  moreover have "quotient_of (of_int n) = (n, 1)" by simp
  moreover have "bitlen 1 = 1" by code_simp
  ultimately have k: "float_exp (of_int n) \<le> 0" by (simp add: float_exp_def Let_def)
  then have "of_int n / pow2 (float_exp (of_int n)) = (of_int (n * 2 ^ nat (- float_exp (of_int n))) :: rat)"
    by (auto simp: pow2_def)
  then have "float_pos (of_int n) = of_int n"
    using pow2_pos [of "float_exp (of_int n)"] unfolding float_pos_def
    by (metis less_irrefl nonzero_divide_eq_eq round_even_int)
  with n show ?thesis by (simp add: float64_def)
qed (simp add: float64_def)


subsection \<open>Percentages\<close>

text \<open>\<^verbatim>\<open>float64(part) / float64(whole) * 100\<close>\<close>

definition float_percent :: "int \<Rightarrow> int \<Rightarrow> rat" where
  "float_percent part whole = float64 (float64 (float64 (of_int part) / float64 (of_int whole)) * 100)"

lemma float64_bounds: "0 \<le> x \<Longrightarrow> x - x / 2 ^ 53 \<le> float64 x \<and> float64 x \<le> x + x / 2 ^ 53"
  using float_error [of x] unfolding abs_le_iff by linarith

lemma float64_nonneg: "0 \<le> x \<Longrightarrow> 0 \<le> float64 x"
proof -
  assume x: "0 \<le> x"
  then have "0 \<le> x - x / 2 ^ 53" by (simp add: field_simps)
  with float64_bounds [OF x] show ?thesis by linarith
qed

lemma float_percent_near:
  assumes "0 \<le> p" "p \<le> w" "0 < w" "w < 2 ^ 44"
  shows "\<bar>float_percent p w - 100 * of_int p / of_int w\<bar> < 1 / 2 ^ 44" and "0 \<le> float_percent p w"
proof -
  define r :: rat where "r = of_int p / of_int w"
  have fl: "float64 (of_int p) = of_int p" "float64 (of_int w) = of_int w" using assms by (auto intro!: float_int)
  have r: "0 \<le> r" "r \<le> 1" using assms by (simp_all add: r_def)
  define a where "a = float64 r"
  have a: "r - r / 2 ^ 53 \<le> a" "a \<le> r + r / 2 ^ 53" "0 \<le> a" using float64_bounds [OF r(1)] float64_nonneg [OF r(1)] by (auto simp: a_def)
  then have a100: "0 \<le> a * 100" by simp
  have v: "float_percent p w = float64 (a * 100)" by (simp add: float_percent_def fl r_def [symmetric] a_def)
  show "0 \<le> float_percent p w" unfolding v by (rule float64_nonneg [OF a100])
  have "a * 100 - a * 100 / 2 ^ 53 \<le> float_percent p w" "float_percent p w \<le> a * 100 + a * 100 / 2 ^ 53"
    using float64_bounds [OF a100] by (simp_all add: v)
  moreover have "100 * of_int p / of_int w = 100 * r" by (simp add: r_def)
  ultimately show "\<bar>float_percent p w - 100 * of_int p / of_int w\<bar> < 1 / 2 ^ 44"
    using a r unfolding abs_less_iff by (simp add: field_simps)
qed

text \<open>No percentage is above 100.\<close>

lemma float_percent_le:
  assumes "0 \<le> p" "p \<le> w" "0 < w" "w < 2 ^ 44"
  shows "float_percent p w \<le> 100"
proof (cases "p = w")
  case True
  have "float64 1 = 1" using float_int [of 1] by simp
  then have "float_percent w w = float64 100" using assms float_int [of w] by (simp add: float_percent_def)
  then show ?thesis using True float_int [of 100] by simp
next
  case False
  with assms have "p + 1 \<le> w" by simp
  then have "100 * (of_int p :: rat) / of_int w \<le> 100 - 100 / of_int w"
    using assms(3) by (simp add: field_simps)
  moreover have "1 / 2 ^ 44 \<le> 1 / (of_int w :: rat)"
  proof (rule divide_left_mono)
    have "(of_int w :: rat) \<le> of_int (2 ^ 44)" using assms(4) by (simp only: of_int_le_iff less_imp_le)
    then show "(of_int w :: rat) \<le> 2 ^ 44" by simp
  qed (use assms(3) in simp_all)
  moreover have "float_percent p w < 100 * of_int p / of_int w + 1 / 2 ^ 44"
    using float_percent_near(1) [OF assms] unfolding abs_less_iff by linarith
  moreover have "0 < 1 / (of_int w :: rat)" using assms(3) by simp
  ultimately show ?thesis by linarith
qed

end
