(* ===== verification/Dashboard.thy ===== *)
theory Dashboard
  imports Booking_Memory Schedules Go_Float
begin

text \<open>
  The live dashboard: \<^verbatim>\<open>internal/service/dashboard_live.go\<close> with the types of \<^verbatim>\<open>internal/model/dashboard.go\<close> and the
  endpoint \<^verbatim>\<open>internal/api/handlers/dashboard.go\<close>, over any booking store. Percentages and minutes are computed
  in \<^verbatim>\<open>float64\<close>; instants are read in UTC. The text of an error is an argument of the endpoint.
\<close>

subsection \<open>Types\<close>

record KPI =
  kp_Label :: string
  kp_Value :: string
  kp_Delta :: string

record HeatmapCell =
  hc_Day :: string
  hc_Hour :: int
  hc_Load :: int
  hc_State :: string

record CalendarSession =
  ca_ID :: string
  ca_Title :: string
  ca_StartsAt :: go_time
  ca_EndsAt :: go_time
  ca_Room :: string
  ca_Owner :: string
  ca_Status :: string

record DashboardData =
  dd_Role :: string
  dd_Title :: string
  dd_Subtitle :: string
  dd_KPIs :: "KPI list"
  dd_Heatmap :: "HeatmapCell list"
  dd_Calendar :: "CalendarSession list"
  dd_CountdownEnd :: "go_time option"
  dd_TaskOrdering :: "string list"
  dd_PreviewDocument :: string
  dd_PreviewImage :: string

subsection \<open>Counting\<close>

definition percent :: "int \<Rightarrow> int \<Rightarrow> int" where
  "percent part whole = (if whole \<le> 0 then 0 else float_to_int (float_percent part whole))"

text \<open>\<^verbatim>\<open>Duration.Minutes()\<close>; division and remainder of Go truncate.\<close>

definition duration_Minutes :: "duration \<Rightarrow> rat" where
  "duration_Minutes d =
     (let m = (if d < 0 then - ((- d) div time_Minute) else d div time_Minute); nsec = d - m * time_Minute
      in float64 (float64 (of_int m) + float64 (float64 (of_int nsec) / 60000000000)))"

record dashboard_counts =
  dc_held :: int
  dc_confirmed :: int
  dc_checkedIn :: int
  dc_cancelled :: int
  dc_totalStudyMinutes :: int
  dc_instructorSet :: "string set"

definition count_booking :: "dashboard_counts \<Rightarrow> Booking \<Rightarrow> dashboard_counts" where
  "count_booking n b =
     (let durationMinutes = max 0 (float_to_int (duration_Minutes (time_Sub (bk_EndAt b) (bk_StartAt b))));
          n = (case bk_Status b of
              BookingStatusUnset \<Rightarrow> n
            | BookingStatusHeld \<Rightarrow> n\<lparr>dc_held := dc_held n + 1\<rparr>
            | BookingStatusConfirmed \<Rightarrow> n\<lparr>dc_confirmed := dc_confirmed n + 1, dc_totalStudyMinutes := dc_totalStudyMinutes n + durationMinutes\<rparr>
            | BookingStatusCheckedIn \<Rightarrow> n\<lparr>dc_checkedIn := dc_checkedIn n + 1, dc_totalStudyMinutes := dc_totalStudyMinutes n + durationMinutes\<rparr>
            | BookingStatusCancelled \<Rightarrow> n\<lparr>dc_cancelled := dc_cancelled n + 1\<rparr>
            | BookingStatusExpired \<Rightarrow> n\<lparr>dc_cancelled := dc_cancelled n + 1\<rparr>)
      in if bk_InstructorID b \<noteq> '''' then n\<lparr>dc_instructorSet := insert (bk_InstructorID b) (dc_instructorSet n)\<rparr> else n)"

definition count_bookings :: "Booking list \<Rightarrow> dashboard_counts" where
  "count_bookings = foldl count_booking \<lparr>dc_held = 0, dc_confirmed = 0, dc_checkedIn = 0, dc_cancelled = 0,
     dc_totalStudyMinutes = 0, dc_instructorSet = {}\<rparr>"

text \<open>\<^verbatim>\<open>Weekday().String()[:3]\<close> and \<^verbatim>\<open>Hour()\<close> in UTC; 1 January 1970 was a Thursday.\<close>

definition day_of_week :: "go_time \<Rightarrow> string" where
  "day_of_week t = [''Sun'', ''Mon'', ''Tue'', ''Wed'', ''Thu'', ''Fri'', ''Sat''] ! nat ((t div (24 * time_Hour) + 4) mod 7)"

definition hour_of :: "go_time \<Rightarrow> int" where
  "hour_of t = t div time_Hour mod 24"

definition heat_days :: "string list" where
  "heat_days = [''Mon'', ''Tue'', ''Wed'', ''Thu'', ''Fri'', ''Sat'', ''Sun'']"

definition heat_cell :: "(string \<times> int \<Rightarrow> int) \<Rightarrow> string \<Rightarrow> int \<Rightarrow> HeatmapCell" where
  "heat_cell loadMap day hour =
     (let load = (if loadMap (day, hour) > 100 then 100 else loadMap (day, hour))
      in \<lparr>hc_Day = day, hc_Hour = hour, hc_Load = load,
          hc_State = (if load \<ge> 70 then ''high'' else if load \<ge> 40 then ''medium'' else ''low'')\<rparr>)"

definition buildHeatmap :: "Booking list \<Rightarrow> HeatmapCell list" where
  "buildHeatmap bookings =
     (let loadMap = foldl (\<lambda>m b. let slot = (day_of_week (bk_StartAt b), hour_of (bk_StartAt b)) in m(slot := m slot + 20))
            (\<lambda>_. 0) bookings
      in concat (map (\<lambda>day. map (heat_cell loadMap day) [8..19]) heat_days))"

subsection \<open>The service\<close>

definition titleForRole :: "string \<Rightarrow> string" where
  "titleForRole role =
     (if role = ''admin'' then ''Admin command center''
      else if role = ''coordinator'' then ''Scheduling control room''
      else if role = ''instructor'' then ''Instructor workspace''
      else ''Learner workspace'')"

definition subtitleForRole :: "string \<Rightarrow> string" where
  "subtitleForRole role =
     (if role = ''admin'' then ''Live organizational signals from bookings and operations.''
      else if role = ''coordinator'' then ''Live scheduling, hold windows, and booking health.''
      else if role = ''instructor'' then ''Session delivery and workload visibility.''
      else ''Upcoming sessions and learning progress.'')"

definition defaultTaskOrder :: "string \<Rightarrow> string list" where
  "defaultTaskOrder role =
     (if role = ''admin'' then [''Review audit stream'', ''Inspect failures'', ''Export report'', ''Review tenants'']
      else if role = ''coordinator'' then [''Review new holds'', ''Resolve conflicts'', ''Confirm sessions'', ''Publish schedule'']
      else if role = ''instructor'' then [''Check class plan'', ''Verify materials'', ''Run session'', ''Capture attendance'']
      else [''Open materials'', ''Join class'', ''Track progress'', ''Review feedback''])"

definition calendar_session :: "Booking \<Rightarrow> CalendarSession" where
  "calendar_session b = \<lparr>ca_ID = bk_ID b, ca_Title = bk_Title b, ca_StartsAt = bk_StartAt b, ca_EndsAt = bk_EndAt b,
     ca_Room = bk_RoomID b, ca_Owner = bk_InstructorID b, ca_Status = status_string (bk_Status b)\<rparr>"

definition dashboard_KPIs :: "nat \<Rightarrow> dashboard_counts \<Rightarrow> KPI list" where
  "dashboard_KPIs sessions n =
     (let enrollmentGrowth = dc_confirmed n + dc_checkedIn n - dc_cancelled n;
          repeatAttendance = percent (dc_checkedIn n) (dc_confirmed n + dc_checkedIn n);
          contentConversion = percent (dc_checkedIn n) (dc_held n + dc_confirmed n + dc_checkedIn n)
      in [\<lparr>kp_Label = ''Enrollment growth'', kp_Value = itoa enrollmentGrowth, kp_Delta = ''net active enrollments''\<rparr>,
          \<lparr>kp_Label = ''Repeat attendance'', kp_Value = itoa repeatAttendance @ ''%'', kp_Delta = ''checked-in vs active''\<rparr>,
          \<lparr>kp_Label = ''Study time logged'', kp_Value = itoa (dc_totalStudyMinutes n) @ ''m'', kp_Delta = ''scheduled learning minutes''\<rparr>,
          \<lparr>kp_Label = ''Content conversion'', kp_Value = itoa contentConversion @ ''%'', kp_Delta = ''holds to completion''\<rparr>,
          \<lparr>kp_Label = ''Community activity'', kp_Value = itoa (int (card (dc_instructorSet n))) @ '' facilitators'',
           kp_Delta = itoa (int sessions) @ '' sessions''\<rparr>])"

record 's DashboardService =
  ds_Bookings :: "'s BookingStore"

definition NewDashboardService :: "'s BookingStore \<Rightarrow> 's DashboardService" where
  "NewDashboardService bookings = \<lparr>ds_Bookings = bookings\<rparr>"

definition DashboardService_Build :: "'s DashboardService \<Rightarrow> string \<Rightarrow> string \<Rightarrow> go_time \<Rightarrow> (DashboardData, 's) op" where
  "DashboardService_Build s tenantID role now =
     op_bind (st_ListBookings (ds_Bookings s) tenantID) (\<lambda>bookings.
       let roleLabel = (if role = '''' then ''learner'' else role)
       in op_return \<lparr>dd_Role = roleLabel, dd_Title = titleForRole roleLabel, dd_Subtitle = subtitleForRole roleLabel,
            dd_KPIs = dashboard_KPIs (length bookings) (count_bookings bookings), dd_Heatmap = buildHeatmap bookings,
            dd_Calendar = map calendar_session bookings,
            dd_CountdownEnd = (if roleLabel = ''coordinator'' then Some (now + 5 * time_Minute) else None),
            dd_TaskOrdering = defaultTaskOrder roleLabel, dd_PreviewDocument = ''trainingops-overview.pdf'',
            dd_PreviewImage = ''trainingops-dashboard.png''\<rparr>)"

definition DashboardHandler_Get :: "(go_error \<Rightarrow> string) \<Rightarrow> 's DashboardService \<Rightarrow> (DashboardData, 's) endpoint" where
  "DashboardHandler_Get err_Error h rq s =
     (let role = rq_param rq ''role''
      in case tenant_ID rq of None \<Rightarrow> (jsonError 401 ''tenant context is required'', s) | Some tenantID \<Rightarrow>
         let actorRole = rq_header rq ''X-Actor-Role''
         in if actorRole = '''' then (jsonError 401 ''actor role claim missing'', s)
            else if actorRole \<noteq> ''admin'' \<and> actorRole \<noteq> role then (jsonError 403 ''role does not have access to this workspace'', s)
            else case DashboardService_Build h tenantID role (rq_clock rq 0) s of
                (Inl err, s') \<Rightarrow> (jsonError 500 (err_Error err), s')
              | (Inr data, s') \<Rightarrow> ((200, OkBody data), s'))"

subsection \<open>What the dashboard shows\<close>

definition with_status :: "BookingStatus list \<Rightarrow> Booking list \<Rightarrow> int" where
  "with_status sts bs = int (length (filter (\<lambda>b. bk_Status b \<in> set sts) bs))"

lemma count_bookings_snoc: "count_bookings (bs @ [b]) = count_booking (count_bookings bs) b"
  by (simp add: count_bookings_def)

lemma count_bookings_status:
  "dc_held (count_bookings bs) = with_status [BookingStatusHeld] bs"
  "dc_confirmed (count_bookings bs) = with_status [BookingStatusConfirmed] bs"
  "dc_checkedIn (count_bookings bs) = with_status [BookingStatusCheckedIn] bs"
  "dc_cancelled (count_bookings bs) = with_status [BookingStatusCancelled, BookingStatusExpired] bs"
proof (induction bs rule: rev_induct)
  case Nil
  { case 1 show ?case by (simp add: count_bookings_def with_status_def)
  next case 2 show ?case by (simp add: count_bookings_def with_status_def)
  next case 3 show ?case by (simp add: count_bookings_def with_status_def)
  next case 4 show ?case by (simp add: count_bookings_def with_status_def) }
next
  case (snoc b bs)
  { case 1 show ?case using snoc by (simp add: count_bookings_snoc count_booking_def with_status_def Let_def split: BookingStatus.split)
  next case 2 show ?case using snoc by (simp add: count_bookings_snoc count_booking_def with_status_def Let_def split: BookingStatus.split)
  next case 3 show ?case using snoc by (simp add: count_bookings_snoc count_booking_def with_status_def Let_def split: BookingStatus.split)
  next case 4 show ?case using snoc by (simp add: count_bookings_snoc count_booking_def with_status_def Let_def split: BookingStatus.split) }
qed

lemma heat_load:
  "foldl (\<lambda>m b. let slot = (day_of_week (bk_StartAt b), hour_of (bk_StartAt b)) in m(slot := m slot + 20)) m bs (day, hour) =
     m (day, hour) + 20 * int (length (filter (\<lambda>b. day_of_week (bk_StartAt b) = day \<and> hour_of (bk_StartAt b) = hour) bs))"
  by (induction bs arbitrary: m) (auto simp: Let_def)


lemma buildHeatmap_cells:
  "buildHeatmap bs = concat (map (\<lambda>day. map (heat_cell (\<lambda>(d, h).
     20 * int (length (filter (\<lambda>b. day_of_week (bk_StartAt b) = d \<and> hour_of (bk_StartAt b) = h) bs))) day) [8..19]) heat_days)"
proof -
  have "foldl (\<lambda>m b. let slot = (day_of_week (bk_StartAt b), hour_of (bk_StartAt b)) in m(slot := m slot + 20)) (\<lambda>_. 0) bs =
      (\<lambda>(d, h). 20 * int (length (filter (\<lambda>b. day_of_week (bk_StartAt b) = d \<and> hour_of (bk_StartAt b) = h) bs)))"
    by (rule ext) (simp only: heat_load split_paired_all prod.case add_0)
  then show ?thesis by (simp only: buildHeatmap_def Let_def)
qed

lemma heat_cells:
  assumes "c \<in> set (buildHeatmap bs)"
  shows "let n = length (filter (\<lambda>b. day_of_week (bk_StartAt b) = hc_Day c \<and> hour_of (bk_StartAt b) = hc_Hour c) bs)
    in hc_Load c = min 100 (20 * int n) \<and> hc_State c = (if n \<ge> 4 then ''high'' else if n \<ge> 2 then ''medium'' else ''low'')"
proof -
  have "\<exists>d h. c = heat_cell (\<lambda>(d, h). 20 * int (length (filter (\<lambda>b. day_of_week (bk_StartAt b) = d \<and> hour_of (bk_StartAt b) = h) bs))) d h"
    using assms unfolding buildHeatmap_cells by (auto simp only: set_concat set_map) blast
  then show ?thesis by (auto simp: heat_cell_def Let_def)
qed

lemma heat_keys: "map (\<lambda>c. (hc_Day c, hc_Hour c)) (buildHeatmap bs) = List.product heat_days [8..19]"
proof -
  have "hc_Day (heat_cell m d h) = d" "hc_Hour (heat_cell m d h) = h" for m d h by (simp_all add: heat_cell_def Let_def)
  then show ?thesis by (simp only: buildHeatmap_cells map_concat map_map comp_def product_concat_map)
qed

text \<open>A percentage is the exact one cut to an integer, or one less where the exact one is an integer.\<close>

definition nearly_percent :: "int \<Rightarrow> int \<Rightarrow> int \<Rightarrow> bool" where
  "nearly_percent k part whole \<longleftrightarrow>
     (if whole = 0 then k = 0
      else 0 \<le> k \<and> (k = 100 * part div whole \<or> whole dvd 100 * part \<and> k = 100 * part div whole - 1))"

lemma percent_near:
  assumes "0 \<le> p" "p \<le> w" "w < 2 ^ 44"
  shows "nearly_percent (percent p w) p w"
proof (cases "w = 0")
  case False
  with assms have w: "0 < w" by simp
  define n where "n = 100 * p div w"
  define m where "m = 100 * p mod w"
  have pm: "100 * p = n * w + m" "0 \<le> m" "m < w" using w by (simp_all add: n_def m_def)
  have "(100 * of_int p :: rat) = of_int n * of_int w + of_int m" using pm(1) by (metis of_int_add of_int_mult of_int_numeral)
  then have v: "100 * of_int p / of_int w = (of_int n + of_int m / of_int w :: rat)" using w by (simp add: field_simps)
  have near: "of_int n + of_int m / of_int w - 1 / 2 ^ 44 < float_percent p w" "float_percent p w < of_int n + of_int m / of_int w + 1 / 2 ^ 44"
    using float_percent_near(1) [OF assms(1,2) w assms(3)] unfolding v abs_less_iff by linarith+
  note nn = float_percent_near(2) [OF assms(1,2) w assms(3)]
  have k: "percent p w = floor (float_percent p w)" using w nn by (simp add: percent_def float_to_int_def)
  have wr: "(of_int w :: rat) \<le> 2 ^ 44" using assms(3) by (metis less_imp_le of_int_le_iff of_int_numeral of_int_power)
  have w1: "1 / 2 ^ 44 \<le> 1 / (of_int w :: rat)" using w wr by (intro divide_left_mono) simp_all
  have "percent p w = n \<or> m = 0 \<and> percent p w = n - 1"
  proof (cases "m = 0")
    case True
    then have "of_int n - 1 < float_percent p w" "float_percent p w < of_int n + 1" using near by simp_all
    then have "n - 1 \<le> percent p w" "percent p w \<le> n" unfolding k by linarith+
    with True show ?thesis by linarith
  next
    case False
    have "1 / of_int w \<le> (of_int m / of_int w :: rat)" "of_int m / of_int w \<le> (1 - 1 / of_int w :: rat)"
      using False pm(2,3) w by (simp_all add: field_simps)
    then have "of_int n < float_percent p w" "float_percent p w < of_int n + 1" using near w1 by linarith+
    then show ?thesis unfolding k by linarith
  qed
  moreover have "0 \<le> percent p w" unfolding k using nn by simp
  moreover have "w dvd 100 * p" if "m = 0" using that by (simp add: m_def dvd_eq_mod_eq_0)
  ultimately show ?thesis using w by (auto simp: nearly_percent_def n_def)
qed (simp add: nearly_percent_def percent_def)

text \<open>
  Property C38. The dashboard shows the bookings that the store lists, all of them. The calendar has one session for each in
  order. The heat map has one cell for every day and hour from 8 to 19, whose load is 20 for every booking that starts there and
  at most 100: low up to one booking, medium for two and three, high from four on. The growth counts confirmed and
  checked-in bookings less cancelled and expired ones. The two percentages are never outside of 0 to 100 and are
  cut to an integer; in \<^verbatim>\<open>float64\<close> they may be one less than an exact integral percentage.
\<close>

theorem dashboard_exact:
  assumes "st_ListBookings (ds_Bookings ds) T s = (Inr bs, s')" "length bs < 2 ^ 44"
  shows "\<exists>data. DashboardService_Build ds T role now s = (Inr data, s') \<and>
    map ca_ID (dd_Calendar data) = map bk_ID bs \<and>
    map (\<lambda>c. (hc_Day c, hc_Hour c)) (dd_Heatmap data) = List.product heat_days [8..19] \<and>
    (\<forall>c\<in>set (dd_Heatmap data). let n = length (filter (\<lambda>b. day_of_week (bk_StartAt b) = hc_Day c \<and> hour_of (bk_StartAt b) = hc_Hour c) bs)
      in hc_Load c = min 100 (20 * int n) \<and> hc_State c = (if n \<ge> 4 then ''high'' else if n \<ge> 2 then ''medium'' else ''low'')) \<and>
    (let active = with_status [BookingStatusConfirmed, BookingStatusCheckedIn] bs; attended = with_status [BookingStatusCheckedIn] bs;
         held = with_status [BookingStatusHeld] bs; gone = with_status [BookingStatusCancelled, BookingStatusExpired] bs
     in \<exists>k l. map kp_Value (take 2 (dd_KPIs data)) = [itoa (active - gone), itoa k @ ''%''] \<and>
          kp_Value (dd_KPIs data ! 3) = itoa l @ ''%'' \<and> k \<le> 100 \<and> l \<le> 100 \<and>
          nearly_percent k attended active \<and> nearly_percent l attended (held + active))"
proof -
  let ?n = "count_bookings bs" and ?hits = "\<lambda>day hour. length (filter (\<lambda>b. day_of_week (bk_StartAt b) = day \<and> hour_of (bk_StartAt b) = hour) bs)"
  let ?a = "dc_checkedIn ?n" and ?w = "dc_confirmed ?n + dc_checkedIn ?n" and ?h = "dc_held ?n + dc_confirmed ?n + dc_checkedIn ?n"
  obtain data where data: "DashboardService_Build ds T role now s = (Inr data, s')" "dd_Calendar data = map calendar_session bs"
      "dd_Heatmap data = buildHeatmap bs" "dd_KPIs data = dashboard_KPIs (length bs) ?n"
    using assms(1) by (simp add: DashboardService_Build_def op_bind_def Let_def)
  have le: "with_status sts bs \<le> int (length bs)" for sts by (simp add: with_status_def)
  have active: "with_status [BookingStatusConfirmed, BookingStatusCheckedIn] bs = ?w"
    unfolding count_bookings_status by (induction bs) (auto simp: with_status_def)
  have "with_status [BookingStatusHeld, BookingStatusConfirmed, BookingStatusCheckedIn] bs = ?h"
    unfolding count_bookings_status by (induction bs) (auto simp: with_status_def)
  with le [of "[BookingStatusHeld, BookingStatusConfirmed, BookingStatusCheckedIn]"] assms(2) have h: "?h < 2 ^ 44" by simp
  have pos: "0 \<le> ?a" "0 \<le> dc_held ?n" "0 \<le> dc_confirmed ?n" by (simp_all add: count_bookings_status with_status_def)
  have near: "nearly_percent (percent ?a ?w) ?a ?w" "nearly_percent (percent ?a ?h) ?a ?h"
    by (rule percent_near; use pos h in linarith)+
  have le100: "k \<le> 100" if "nearly_percent k p w" "0 \<le> p" "p \<le> w" for k p w
  proof (cases "w = 0")
    case False
    with that(2,3) have "100 * p div w \<le> 100 * w div w" by (intro zdiv_mono1) auto
    with that(1) False show ?thesis by (auto simp: nearly_percent_def)
  qed (use that in \<open>simp add: nearly_percent_def\<close>)
  have "map kp_Value (take 2 (dd_KPIs data)) = [itoa (?w - dc_cancelled ?n), itoa (percent ?a ?w) @ ''%'']"
    "kp_Value (dd_KPIs data ! 3) = itoa (percent ?a ?h) @ ''%''" by (simp_all add: data(4) dashboard_KPIs_def Let_def)
  then show ?thesis
    using data(1-3) heat_keys [of bs] heat_cells [of _ bs] near le100 [OF near(1)] le100 [OF near(2)] pos
    unfolding Let_def active count_bookings_status(4) [symmetric] count_bookings_status(1,3) [symmetric]
    by (intro exI [of _ data] conjI exI [of _ "percent ?a ?w"] exI [of _ "percent ?a ?h"])
      (simp_all add: comp_def calendar_session_def add.assoc)
qed


text \<open>Of a hundred bookings 29 are checked in and 71 confirmed: the exact percentage is 29, the dashboard shows 28.\<close>

definition demo_hundred :: "Booking list" where
  "demo_hundred = replicate 29 (Booking_zero\<lparr>bk_TenantID := ''t'', bk_Status := BookingStatusCheckedIn\<rparr>) @
     replicate 71 (Booking_zero\<lparr>bk_TenantID := ''t'', bk_Status := BookingStatusConfirmed\<rparr>)"

definition demo_hundred_repo :: BookingRepository where
  "demo_hundred_repo = NewBookingRepository\<lparr>br_bookings := zip (map itoa [0..99]) demo_hundred\<rparr>"

theorem dashboard_exact_witness:
  "\<exists>data k. DashboardService_Build (NewDashboardService mem_BookingStore) ''t'' ''admin'' 0 demo_hundred_repo = (Inr data, demo_hundred_repo) \<and>
     kp_Value (dd_KPIs data ! 1) = itoa k @ ''%'' \<and> nearly_percent k 29 100 \<and> percent 29 100 = 28"
proof -
  have "sorted (map bk_StartAt demo_hundred)" by (simp add: demo_hundred_def sorted_append)
  moreover have "filter (\<lambda>b. bk_TenantID b = ''t'') demo_hundred = demo_hundred" by (simp add: demo_hundred_def)
  moreover have "map snd (br_bookings demo_hundred_repo) = demo_hundred"
    by (simp add: demo_hundred_repo_def demo_hundred_def)
  ultimately have L: "st_ListBookings (ds_Bookings (NewDashboardService mem_BookingStore)) ''t'' demo_hundred_repo = (Inr demo_hundred, demo_hundred_repo)"
    by (simp add: NewDashboardService_def mem_BookingStore_def mem_ListBookings_def sort_key_id_if_sorted)
  have n: "with_status [BookingStatusConfirmed, BookingStatusCheckedIn] demo_hundred = 100" "with_status [BookingStatusCheckedIn] demo_hundred = 29"
    "length demo_hundred = 100" by (simp_all add: demo_hundred_def with_status_def)
  have "percent 29 100 = 28" by code_simp
  moreover obtain data k where "DashboardService_Build (NewDashboardService mem_BookingStore) ''t'' ''admin'' 0 demo_hundred_repo = (Inr data, demo_hundred_repo)"
    "map kp_Value (take 2 (dd_KPIs data)) = [itoa (100 - with_status [BookingStatusCancelled, BookingStatusExpired] demo_hundred), itoa k @ ''%'']"
    "nearly_percent k 29 100"
    using dashboard_exact [OF L, of "''admin''" 0] unfolding n Let_def by auto
  moreover from this(2) have "kp_Value (dd_KPIs data ! 1) = itoa k @ ''%''"
    by (cases "dd_KPIs data" rule: remdups_adj.cases) auto
  ultimately show ?thesis by blast
qed

end
