(* ===== verification/Analytics.thy ===== *)
theory Analytics
  imports Ingestion Booking_Memory Go_Float
begin

text \<open>
  Cohorts and anomalies: \<^verbatim>\<open>internal/service/analytics.go\<close> and the endpoints
  \<^verbatim>\<open>internal/api/handlers/analytics.go\<close>, over any booking store. Rates are computed in \<^verbatim>\<open>float64\<close>. The failures are
  counted in a map, whose order of iteration is an argument: a
  rearrangement of its entries for every window.
\<close>

record ObservabilityEvent =
  oe_ID :: string
  oe_TenantID :: string
  oe_Type :: string
  oe_Level :: string
  oe_Detail :: string
  oe_CreatedAt :: go_time

record CohortProfile =
  co_Window :: string
  co_Total :: int
  co_SuccessRate :: rat
  co_FailureRate :: rat
  co_TopCategory :: string
  co_UpdatedAt :: go_time

record Anomaly =
  an_Kind :: string
  an_Severity :: string
  an_Message :: string
  an_Count :: int
  an_Window :: string
  an_DetectedAt :: go_time

subsection \<open>Cohorts\<close>

definition cohort_windows :: "(string \<times> duration) list" where
  "cohort_windows = [(''7d'', 7 * 24 * time_Hour), (''30d'', 30 * 24 * time_Hour), (''90d'', 90 * 24 * time_Hour)]"

definition event_failed :: "ObservabilityEvent \<Rightarrow> bool" where
  "event_failed e \<longleftrightarrow> strings_Contains (to_lower (oe_Level e)) ''error'' \<or> strings_Contains (to_lower (oe_Detail e)) ''fail''"

text \<open>The counters of one window: total, successes and failures by type.\<close>

definition count_event :: "go_time \<Rightarrow> duration \<Rightarrow> int \<times> int \<times> int gomap \<Rightarrow> ObservabilityEvent \<Rightarrow> int \<times> int \<times> int gomap" where
  "count_event now dur = (\<lambda>(seen, success, failures) e.
     if time_Sub now (oe_CreatedAt e) > dur then (seen, success, failures)
     else ((if oe_Type e = ''booking'' \<or> oe_Type e = ''scrape'' then seen + 1 else seen),
           (if event_failed e then success else success + 1),
           (if event_failed e then gm_put (oe_Type e) ((case gm_get failures (oe_Type e) of None \<Rightarrow> 0 | Some n \<Rightarrow> n) + 1) failures
            else failures)))"

definition top_category :: "(string \<times> int) list \<Rightarrow> string" where
  "top_category entries = fst (foldl (\<lambda>(topCategory, topCount) (kind, count).
     if count > topCount then (kind, count) else (topCategory, topCount)) ('''', 0) entries)"

definition cohort :: "(string \<Rightarrow> int gomap \<Rightarrow> int gomap) \<Rightarrow> ObservabilityEvent list \<Rightarrow> go_time \<Rightarrow> string \<times> duration \<Rightarrow> CohortProfile" where
  "cohort order events now = (\<lambda>(label, dur).
     case foldl (count_event now dur) (0, 0, []) events of (seen, success, failures) \<Rightarrow>
       let successRate = (if seen > 0 then float_percent success seen else 0);
           failureRate = (if seen > 0 then float64 (100 - successRate) else 0)
       in \<lparr>co_Window = label, co_Total = seen, co_SuccessRate = successRate, co_FailureRate = failureRate,
           co_TopCategory = top_category (order label failures), co_UpdatedAt = now\<rparr>)"

definition ComputeCohorts :: "(string \<Rightarrow> int gomap \<Rightarrow> int gomap) \<Rightarrow> ObservabilityEvent list \<Rightarrow> go_time \<Rightarrow> CohortProfile list" where
  "ComputeCohorts order events now = map (cohort order events now) cohort_windows"

definition BuildFeatureStore :: "CohortProfile list \<Rightarrow> rat gomap" where
  "BuildFeatureStore cohorts = foldl (\<lambda>features c. gm_put (''failure_rate_'' @ co_Window c) (co_FailureRate c)
     (gm_put (''success_rate_'' @ co_Window c) (co_SuccessRate c) features)) [] cohorts"

subsection \<open>Anomalies\<close>

definition booking_fails :: "ObservabilityEvent list \<Rightarrow> int" where
  "booking_fails events = int (length (filter (\<lambda>e. equal_fold (oe_Type e) ''booking'' \<and>
     strings_Contains (to_lower (oe_Detail e)) ''failed'') events))"

definition scraping_fails :: "ObservabilityEvent list \<Rightarrow> int" where
  "scraping_fails events = int (length (filter (\<lambda>e. equal_fold (oe_Type e) ''scrape'' \<and>
     strings_Contains (to_lower (oe_Detail e)) ''error'') events))"

text \<open>The two kinds are already in the order of the final sort.\<close>

definition DetectAnomalies :: "ObservabilityEvent list \<Rightarrow> go_time \<Rightarrow> Anomaly list" where
  "DetectAnomalies events now =
     (let anomalies =
        (if booking_fails events \<ge> 3 then
           [\<lparr>an_Kind = ''failed_bookings_spike'', an_Severity = ''high'',
             an_Message = ''failed bookings spiked to '' @ itoa (booking_fails events) @ '' events'',
             an_Count = booking_fails events, an_Window = ''24h'', an_DetectedAt = now\<rparr>] else []) @
        (if scraping_fails events \<ge> 3 then
           [\<lparr>an_Kind = ''scraping_errors_spike'', an_Severity = ''medium'',
             an_Message = ''scraping errors spiked to '' @ itoa (scraping_fails events) @ '' events'',
             an_Count = scraping_fails events, an_Window = ''24h'', an_DetectedAt = now\<rparr>] else [])
      in anomalies)"

subsection \<open>Endpoints\<close>

record 's AnalyticsHandler =
  ah_Bookings :: "'s BookingStore option"

definition booking_event :: "Booking \<Rightarrow> ObservabilityEvent" where
  "booking_event b =
     (let failed = (bk_Status b = BookingStatusCancelled \<or> bk_Status b = BookingStatusExpired)
      in \<lparr>oe_ID = bk_ID b, oe_TenantID = bk_TenantID b, oe_Type = ''booking'', oe_Level = (if failed then ''error'' else ''info''),
          oe_Detail = (if failed then ''booking failed'' else ''booking succeeded''), oe_CreatedAt = bk_UpdatedAt b\<rparr>)"

definition eventsForTenant :: "'s AnalyticsHandler \<Rightarrow> http_request \<Rightarrow> 's \<Rightarrow> ObservabilityEvent list \<times> 's" where
  "eventsForTenant h rq s =
     (case (tenant_ID rq, ah_Bookings h) of
        (Some tenantID, Some store) \<Rightarrow>
          (case st_ListBookings store tenantID s of
             (Inl _, s') \<Rightarrow> ([], s')
           | (Inr bookings, s') \<Rightarrow> (map booking_event bookings, s'))
      | _ \<Rightarrow> ([], s))"

datatype analytics_reply = ReplyCohorts "CohortProfile list" "rat gomap" | ReplyAnomalies "Anomaly list"

definition AnalyticsHandler_Cohorts :: "(string \<Rightarrow> int gomap \<Rightarrow> int gomap) \<Rightarrow> 's AnalyticsHandler \<Rightarrow> (analytics_reply, 's) endpoint" where
  "AnalyticsHandler_Cohorts order h rq s =
     (case eventsForTenant h rq s of (events, s') \<Rightarrow>
        ((200, OkBody (ReplyCohorts (ComputeCohorts order events (rq_clock rq 0))
            (BuildFeatureStore (ComputeCohorts order events (rq_clock rq 1))))), s'))"

definition AnalyticsHandler_Anomalies :: "'s AnalyticsHandler \<Rightarrow> (analytics_reply, 's) endpoint" where
  "AnalyticsHandler_Anomalies h rq s =
     (case eventsForTenant h rq s of (events, s') \<Rightarrow>
        ((200, OkBody (ReplyAnomalies (DetectAnomalies events (rq_clock rq 0)))), s'))"


subsection \<open>What the endpoints answer\<close>

definition failed_booking :: "Booking \<Rightarrow> bool" where
  "failed_booking b \<longleftrightarrow> bk_Status b = BookingStatusCancelled \<or> bk_Status b = BookingStatusExpired"

definition recent_bookings :: "go_time \<Rightarrow> duration \<Rightarrow> Booking list \<Rightarrow> Booking list" where
  "recent_bookings now dur bs = filter (\<lambda>b. time_Sub now (bk_UpdatedAt b) \<le> dur) bs"

lemma event_texts:
  "strings_Contains (to_lower ''booking failed'') ''fail''" "strings_Contains (to_lower ''booking failed'') ''failed''"
  "\<not> strings_Contains (to_lower ''booking succeeded'') ''fail''" "\<not> strings_Contains (to_lower ''booking succeeded'') ''failed''"
  "strings_Contains (to_lower ''error'') ''error''" "\<not> strings_Contains (to_lower ''info'') ''error''"
  "\<not> equal_fold ''booking'' ''scrape''"
  by code_simp+

lemma booking_event_simps:
  "oe_Type (booking_event b) = ''booking''" "oe_CreatedAt (booking_event b) = bk_UpdatedAt b"
  "event_failed (booking_event b) = failed_booking b"
  "strings_Contains (to_lower (oe_Detail (booking_event b))) ''failed'' = failed_booking b"
  by (simp_all add: booking_event_def event_failed_def failed_booking_def Let_def event_texts)

definition failures_of :: "nat \<Rightarrow> int gomap" where
  "failures_of n = (if n = 0 then [] else [(''booking'', int n)])"

lemma count_booking_events:
  "foldl (count_event now dur) (t, k, failures_of n) (map booking_event bs) =
     (let recent = recent_bookings now dur bs; failed = filter failed_booking recent
      in (t + int (length recent), k + int (length recent) - int (length failed), failures_of (n + length failed)))"
proof (induction bs arbitrary: t k n)
  case (Cons b bs)
  have put: "gm_put ''booking'' ((case gm_get (failures_of n) ''booking'' of None \<Rightarrow> 0 | Some i \<Rightarrow> i) + 1) (failures_of n) = failures_of (Suc n)" for n
    by (simp add: failures_of_def)
  show ?case
  proof (cases "time_Sub now (bk_UpdatedAt b) \<le> dur")
    case False
    then show ?thesis using Cons [of t k n] by (simp add: count_event_def booking_event_simps recent_bookings_def)
  next
    case True
    then show ?thesis
      using Cons [of "t + 1" "if failed_booking b then k else k + 1" "if failed_booking b then Suc n else n"]
      by (cases "failed_booking b") (simp_all add: count_event_def booking_event_simps recent_bookings_def put Let_def)
  qed
qed (simp add: recent_bookings_def Let_def)

text \<open>One cohort: the totals of its window and rates near the exact percentages.\<close>

definition cohort_ok :: "go_time \<Rightarrow> Booking list \<Rightarrow> duration \<Rightarrow> CohortProfile \<Rightarrow> bool" where
  "cohort_ok now bs dur c \<longleftrightarrow>
     (let recent = recent_bookings now dur bs; failed = filter failed_booking recent
      in co_Total c = int (length recent) \<and> co_TopCategory c = (if failed = [] then '''' else ''booking'') \<and>
         0 \<le> co_SuccessRate c \<and> co_SuccessRate c \<le> 100 \<and> 0 \<le> co_FailureRate c \<and>
         (if recent = [] then co_SuccessRate c = 0 \<and> co_FailureRate c = 0
          else \<bar>co_SuccessRate c - 100 * of_nat (length recent - length failed) / of_nat (length recent)\<bar> < 1 / 2 ^ 43 \<and>
               \<bar>co_FailureRate c - 100 * of_nat (length failed) / of_nat (length recent)\<bar> < 1 / 2 ^ 43))"

lemma booking_cohort_ok:
  assumes "length bs < 2 ^ 44" "\<And>l m. mset (order l m) = mset m"
  shows "cohort_ok now bs dur (cohort order (map booking_event bs) now (label, dur))"
proof -
  let ?r = "recent_bookings now dur bs" and ?f = "filter failed_booking (recent_bookings now dur bs)"
  have len: "length ?f \<le> length ?r" "length ?r \<le> length bs"
    using length_filter_le [of failed_booking ?r] by (simp_all only: recent_bookings_def length_filter_le)
  have fold: "foldl (count_event now dur) (0, 0, []) (map booking_event bs) =
      (int (length ?r), int (length ?r - length ?f), failures_of (length ?f))"
    using count_booking_events [of now dur 0 0 0 bs] len(1) by (simp add: failures_of_def Let_def of_nat_diff)
  have "order label (failures_of (length ?f)) = failures_of (length ?f)"
    using assms(2) [of label "failures_of (length ?f)"] by (auto simp: failures_of_def split: if_splits)
  then have top: "top_category (order label (failures_of (length ?f))) = (if ?f = [] then '''' else ''booking'')"
    by (simp add: top_category_def failures_of_def)
  show ?thesis
  proof (cases "?r = []")
    case True
    then show ?thesis using fold top by (simp add: cohort_ok_def cohort_def Let_def)
  next
    case False
    let ?p = "int (length ?r - length ?f)" and ?w = "int (length ?r)"
    have pw: "0 \<le> ?p" "?p \<le> ?w" "0 < ?w" "?w < 2 ^ 44" using False len assms(1) by simp_all
    note P = float_percent_near [OF pw] float_percent_le [OF pw]
    define S where "S = float_percent ?p ?w"
    define E :: rat where "E = 100 * of_int ?p / of_int ?w"
    have S: "0 \<le> S" "S \<le> 100" "\<bar>S - E\<bar> < 1 / 2 ^ 44" using P by (simp_all only: S_def E_def)
    have fr: "100 * of_nat (length ?r - length ?f) / of_nat (length ?r) = E" "100 * of_nat (length ?f) / of_nat (length ?r) = 100 - E"
      using False len(1) by (simp_all add: E_def of_nat_diff field_simps)
    have F: "0 \<le> float64 (100 - S)" "100 - S - (100 - S) / 2 ^ 53 \<le> float64 (100 - S)" "float64 (100 - S) \<le> 100 - S + (100 - S) / 2 ^ 53"
      using S float64_nonneg [of "100 - S"] float64_bounds [of "100 - S"] by simp_all
    have "\<bar>float64 (100 - S) - (100 - E)\<bar> < 1 / 2 ^ 43"
      using S F unfolding abs_less_iff by (simp add: field_simps)
    moreover have "\<bar>S - E\<bar> < 1 / 2 ^ 43" using S(3) by simp
    moreover have "co_SuccessRate (cohort order (map booking_event bs) now (label, dur)) = S"
      "co_FailureRate (cohort order (map booking_event bs) now (label, dur)) = float64 (100 - S)"
      using False fold by (simp_all add: cohort_def Let_def S_def)
    ultimately show ?thesis using False fold top S(1,2) F(1) unfolding cohort_ok_def Let_def fr
      by (simp add: cohort_def Let_def)
  qed
qed


lemma booking_anomalies:
  "DetectAnomalies (map booking_event bs) now =
     (let n = int (length (filter failed_booking bs))
      in if n \<ge> 3 then [\<lparr>an_Kind = ''failed_bookings_spike'', an_Severity = ''high'',
           an_Message = ''failed bookings spiked to '' @ itoa n @ '' events'', an_Count = n, an_Window = ''24h'', an_DetectedAt = now\<rparr>] else [])"
proof -
  have "booking_fails (map booking_event bs) = int (length (filter failed_booking bs))"
    by (simp add: booking_fails_def filter_map comp_def booking_event_simps equal_fold_def)
  moreover have "scraping_fails (map booking_event bs) = 0"
    by (simp add: scraping_fails_def filter_map comp_def booking_event_simps event_texts(7))
  ultimately show ?thesis by (simp add: DetectAnomalies_def Let_def)
qed

text \<open>
  Property C39. Analytics of a tenant, for every order of map iteration. The three cohorts count exactly the bookings changed within
  7, 30 and 90 days, the cancelled and expired ones as failures; their rates stay from 0 to 100 and are within
  \<open>2 ^ -43\<close> of the exact percentages, and an empty window has rates 0. The anomalies are a single spike of failed
  bookings from three failed bookings on and nothing otherwise; its window says 24 hours, but bookings of any age count.
\<close>

theorem analytics_exact:
  assumes "tenant_ID rq = Some T" "ah_Bookings h = Some store" "st_ListBookings store T s = (Inr bs, s')" "length bs < 2 ^ 44"
    "\<And>l m. mset (order l m) = mset m"
  shows "\<exists>cohorts features anomalies.
    AnalyticsHandler_Cohorts order h rq s = ((200, OkBody (ReplyCohorts cohorts features)), s') \<and>
    AnalyticsHandler_Anomalies h rq s = ((200, OkBody (ReplyAnomalies anomalies)), s') \<and>
    map co_Window cohorts = [''7d'', ''30d'', ''90d''] \<and>
    list_all2 (cohort_ok (rq_clock rq 0) bs) [7 * 24 * time_Hour, 30 * 24 * time_Hour, 90 * 24 * time_Hour] cohorts \<and>
    (let n = length (filter failed_booking bs) in
      if n < 3 then anomalies = []
      else \<exists>a. anomalies = [a] \<and> an_Kind a = ''failed_bookings_spike'' \<and> an_Count a = int n \<and> an_Window a = ''24h'')"
proof -
  have e: "eventsForTenant h rq s = (map booking_event bs, s')" using assms(1-3) by (simp add: eventsForTenant_def)
  note ok = booking_cohort_ok [where order = order, OF assms(4,5), of "rq_clock rq 0"]
  have "map co_Window (ComputeCohorts order (map booking_event bs) (rq_clock rq 0)) = [''7d'', ''30d'', ''90d'']"
    by (simp add: ComputeCohorts_def cohort_windows_def cohort_def Let_def case_prod_beta)
  moreover have "list_all2 (cohort_ok (rq_clock rq 0) bs) [7 * 24 * time_Hour, 30 * 24 * time_Hour, 90 * 24 * time_Hour]
      (ComputeCohorts order (map booking_event bs) (rq_clock rq 0))"
    unfolding ComputeCohorts_def cohort_windows_def list.map list_all2_Cons list_all2_Nil using ok by blast
  ultimately show ?thesis
    by (simp add: AnalyticsHandler_Cohorts_def AnalyticsHandler_Anomalies_def e booking_anomalies Let_def)
qed

text \<open>A hundred days ago three bookings were cancelled: no cohort has them, but a spike within 24 hours is reported.\<close>

definition demo_old_cancelled :: BookingRepository where
  "demo_old_cancelled = NewBookingRepository\<lparr>br_bookings := map (\<lambda>k. (k, Booking_zero\<lparr>bk_TenantID := ''t'',
     bk_Status := BookingStatusCancelled, bk_UpdatedAt := 0\<rparr>)) [''1'', ''2'', ''3'']\<rparr>"

definition demo_late_request :: http_request where
  "demo_late_request = \<lparr>rq_path = '''', rq_tenant = Some ''t'', rq_audit = None, rq_header = (\<lambda>_. ''''), rq_param = (\<lambda>_. ''''),
     rq_query = (\<lambda>_. ''''), rq_cookie = (\<lambda>_. None), rq_tls = False, rq_clock = (\<lambda>_. 2400 * time_Hour), rq_random = (\<lambda>_. None)\<rparr>"

theorem analytics_exact_witness:
  "\<exists>cohorts features a. AnalyticsHandler_Cohorts (\<lambda>_. rev) \<lparr>ah_Bookings = Some mem_BookingStore\<rparr> demo_late_request demo_old_cancelled =
       ((200, OkBody (ReplyCohorts cohorts features)), demo_old_cancelled) \<and> map co_Total cohorts = [0, 0, 0] \<and>
     AnalyticsHandler_Anomalies \<lparr>ah_Bookings = Some mem_BookingStore\<rparr> demo_late_request demo_old_cancelled =
       ((200, OkBody (ReplyAnomalies [a])), demo_old_cancelled) \<and> an_Count a = 3 \<and> an_Window a = ''24h''"
proof -
  let ?b = "Booking_zero\<lparr>bk_TenantID := ''t'', bk_Status := BookingStatusCancelled, bk_UpdatedAt := 0\<rparr>"
  have L: "st_ListBookings mem_BookingStore ''t'' demo_old_cancelled = (Inr [?b, ?b, ?b], demo_old_cancelled)"
    by (simp add: mem_BookingStore_def mem_ListBookings_def demo_old_cancelled_def NewBookingRepository_def)
  have T: "tenant_ID demo_late_request = Some ''t''" by (simp add: tenant_ID_def demo_late_request_def)
  have none: "recent_bookings (rq_clock demo_late_request 0) dur [?b, ?b, ?b] = []"
    if "dur < 2400 * time_Hour" for dur using that by (simp add: recent_bookings_def demo_late_request_def time_Sub_def)
  have three: "length (filter failed_booking [?b, ?b, ?b]) = 3" by (simp add: failed_booking_def)
  have "\<And>(l :: string) (m :: int gomap). mset (rev m) = mset m" by simp
  from analytics_exact [OF T _ L _ this, of "\<lparr>ah_Bookings = Some mem_BookingStore\<rparr>"] three none
  show ?thesis by (auto simp: list_all2_Cons1 cohort_ok_def Let_def)
qed

end
