(* ===== verification/Task_Termination.thy ===== *)
theory Task_Termination
  imports Task_Graph
begin

text \<open>
  The dependency check on a bounded call stack: \<open>visit_in n\<close> is the closure of \<^verbatim>\<open>ValidateDAG\<close> in
  \<^verbatim>\<open>internal/service/task.go\<close> with \<open>n\<close> frames left, \<open>None\<close> when they do not suffice. The stack that is always
  enough is linear in the tasks and their dependencies, whatever cycles they have.
\<close>

function (sequential) visit_in :: "nat \<Rightarrow> graph \<Rightarrow> string \<Rightarrow> dfs_state \<Rightarrow> (bool \<times> dfs_state) option"
  and visit_deps_in :: "nat \<Rightarrow> graph \<Rightarrow> string list \<Rightarrow> dfs_state \<Rightarrow> (bool \<times> dfs_state) option" where
  "visit_in 0 graph i st = None"
| "visit_in (Suc n) graph i (visited, stack) =
     (if i \<in> stack then Some (True, (visited, stack))
      else if i \<in> visited then Some (False, (visited, stack))
      else (case visit_deps_in n graph (deps_of graph i) (insert i visited, insert i stack) of
              None \<Rightarrow> None
            | Some (True, st) \<Rightarrow> Some (True, st)
            | Some (False, (visited', stack')) \<Rightarrow> Some (False, (visited', stack' - {i}))))"
| "visit_deps_in n graph [] st = Some (False, st)"
| "visit_deps_in n graph (dep # deps) st =
     (case visit_in n graph dep st of
        None \<Rightarrow> None
      | Some (True, st') \<Rightarrow> Some (True, st')
      | Some (False, st') \<Rightarrow> visit_deps_in n graph deps st')"
  by pat_completeness auto

termination
  by (relation "measures [case_sum (\<lambda>(n, _). n) (\<lambda>(n, _). n), case_sum (\<lambda>_. 0) (\<lambda>(_, _, ds, _). Suc (length ds))]") auto

fun visit_all_in :: "nat \<Rightarrow> graph \<Rightarrow> string list \<Rightarrow> dfs_state \<Rightarrow> bool option" where
  "visit_all_in n graph [] st = Some False"
| "visit_all_in n graph (i # ids) st =
     (case visit_in n graph i st of None \<Rightarrow> None | Some (True, _) \<Rightarrow> Some True | Some (False, st') \<Rightarrow> visit_all_in n graph ids st')"

definition ValidateDAG_in :: "nat \<Rightarrow> (string list \<Rightarrow> string list) \<Rightarrow> Task list \<Rightarrow> go_error option option" where
  "ValidateDAG_in n order tasks =
     (let graph = build_graph tasks []
      in map_option (\<lambda>cyclic. if cyclic then Some ErrTaskCycleDetected else None)
           (visit_all_in n graph (order (map fst graph)) ({}, {})))"

lemma visit_grows: "fst st \<subseteq> fst (snd (visit g i st))" "fst st \<subseteq> fst (snd (visit_deps g ds st))"
proof (induction g i st and g ds st rule: visit_visit_deps.induct)
  case (1 g i V S)
  then show ?case by (auto split: prod.splits bool.splits)
next
  case (3 g d ds st)
  obtain b st' where "visit g d st = (b, st')" by (metis prod.exhaust)
  with 3 show ?case by (cases b) auto
qed simp

text \<open>Every frame that opens marks a new node, so as many frames as there are unmarked nodes, and one more, are enough.\<close>

lemma visit_in_enough:
  "unvisited g st < n \<Longrightarrow> visit_in n g i st = Some (visit g i st)"
  "unvisited g st < n \<Longrightarrow> visit_deps_in n g ds st = Some (visit_deps g ds st)"
proof (induction g i st and g ds st arbitrary: n and n rule: visit_visit_deps.induct)
  case (1 g i V S)
  then obtain m where n: "n = Suc m" by (cases n) auto
  have deps: "visit_deps_in m g (deps_of g i) (insert i V, insert i S) = Some (visit_deps g (deps_of g i) (insert i V, insert i S))"
    if "i \<notin> S" "i \<notin> V"
  proof (cases "i \<in> nodes g")
    case True
    then have "unvisited g (insert i V, insert i S) < m" using unvisited_insert [of i g V "insert i S" S] that(2) "1.prems" n by simp
    with 1 that show ?thesis by blast
  qed (simp add: deps_of_nodes)
  then show ?case unfolding n by (simp split: option.split prod.split bool.split)
next
  case (2 g st)
  then show ?case by simp
next
  case (3 g d ds st)
  obtain b st' where v: "visit g d st = (b, st')" by (metis prod.exhaust)
  have "fst st \<subseteq> fst st'" using visit_grows(1) [of st g d] v by simp
  from unvisited_mono [OF this, of g] have "unvisited g st' < n" using "3.prems" by simp
  with 3 v show ?case by (cases b) simp_all
qed

lemma visit_all_in_enough: "card (nodes g) < n \<Longrightarrow> visit_all_in n g is st = Some (visit_all g is st)"
proof (induction "is" arbitrary: st)
  case (Cons i "is")
  have "unvisited g st \<le> card (nodes g)" by (simp add: unvisited_def card_mono)
  with Cons.prems have "visit_in n g i st = Some (visit g i st)" by (intro visit_in_enough) simp
  with Cons show ?case by (simp split: prod.split bool.split)
qed simp

lemma nodes_put: "nodes (gm_put k v g) \<subseteq> nodes g \<union> insert k (set v)"
proof -
  have "set (gm_put k v g) \<subseteq> insert (k, v) (set g)" by (induction g) auto
  then show ?thesis by (fastforce simp: nodes_def)
qed

definition mentioned :: "Task list \<Rightarrow> string list" where
  "mentioned tasks = concat (map (\<lambda>t. tk_ID t # tk_DependencyIDs t) tasks)"

lemma nodes_build: "nodes (build_graph tasks g) \<subseteq> nodes g \<union> set (mentioned tasks)"
proof (induction tasks arbitrary: g)
  case (Cons t ts)
  show ?case
    using Cons [of "gm_put (tk_ID t) (tk_DependencyIDs t) g"] nodes_put [of "tk_ID t" "tk_DependencyIDs t" g]
    by (auto simp: mentioned_def)
qed simp

text \<open>
  Property C40. The dependency check returns on every input. For every list of tasks, cyclic or not, with unknown or repeated
  dependencies, and every order of map iteration, the recursion stays within a call stack of one frame more than the
  identifiers that the tasks mention, and returns the result of \<open>ValidateDAG\<close>.
\<close>

theorem ValidateDAG_returns:
  "ValidateDAG_in (Suc (length (mentioned tasks))) order tasks = Some (ValidateDAG order tasks)"
proof -
  have "nodes (build_graph tasks []) \<subseteq> set (mentioned tasks)" using nodes_build [of tasks "[]"] by (simp add: nodes_def)
  then have "card (nodes (build_graph tasks [])) \<le> card (set (mentioned tasks))" by (rule card_mono [rotated]) simp
  also have "\<dots> \<le> length (mentioned tasks)" by (rule card_length)
  finally show ?thesis by (simp add: ValidateDAG_in_def ValidateDAG_def Let_def visit_all_in_enough)
qed

end
