(* ===== verification/Startup.thy ===== *)
theory Startup
  imports Tenant_Setup Security_Laws
begin

text \<open>
  Start-up: \<^verbatim>\<open>internal/config/config.go\<close>, the two programs \<^verbatim>\<open>cmd/api/main.go\<close> and
  \<^verbatim>\<open>cmd/seed/main.go\<close> up to the point where they serve or end, and the public errors of
  \<^verbatim>\<open>internal/api/apperror.go\<close>. The environment is a function \<open>getenv\<close>, empty where a variable is not
  set; a panic and an exit are values. What a program writes to its log is left out, what it prints is kept.
\<close>

subsection \<open>Configuration\<close>

record Config =
  cf_AppEnv :: string
  cf_HTTPAddr :: string
  cf_DatabaseURL :: string
  cf_JWTSigningKey :: string
  cf_VaultMasterKey :: string
  cf_CORSOrigins :: "string list"
  cf_StoragePath :: string
  cf_ReportsPath :: string

definition config_getEnv :: "(string \<Rightarrow> string) \<Rightarrow> string \<Rightarrow> string \<Rightarrow> string" where
  "config_getEnv getenv key fallback = (let value = getenv key in if value \<noteq> '''' then value else fallback)"

definition parseCSV :: "string \<Rightarrow> string list" where
  "parseCSV value = map trim_space (split_on CHR '','' value)"

definition IsTestMode :: "(string \<Rightarrow> string) \<Rightarrow> bool" where
  "IsTestMode getenv =
     (if equal_fold (trim_space (getenv ''GO_ENV'')) ''test'' then True
      else if equal_fold (trim_space (getenv ''APP_ENV'')) ''test'' then True
      else False)"

definition default_master_key :: string where
  "default_master_key = ''0123456789abcdef0123456789abcdef0123456789abcdef0123456789abcdef''"

text \<open>\<open>Inl\<close> is the text of the panic.\<close>

definition Load :: "(string \<Rightarrow> string) \<Rightarrow> string + Config" where
  "Load getenv =
     (let appEnv = config_getEnv getenv ''APP_ENV'' ''development'';
          jwtKey = trim_space (getenv ''JWT_SECRET'');
          jwtKey = (if jwtKey = '''' then trim_space (getenv ''JWT_SIGNING_KEY'') else jwtKey)
      in if \<not> IsTestMode getenv \<and> length jwtKey < 32
         then Inl ''JWT_SECRET must be set to a strong secret (min 32 chars)''
         else Inr \<lparr>cf_AppEnv = appEnv,
           cf_HTTPAddr = config_getEnv getenv ''HTTP_ADDR'' '':8080'',
           cf_DatabaseURL = getenv ''DATABASE_URL'',
           cf_JWTSigningKey = jwtKey,
           cf_VaultMasterKey = config_getEnv getenv ''VAULT_MASTER_KEY'' default_master_key,
           cf_CORSOrigins = parseCSV (config_getEnv getenv ''CORS_ALLOWED_ORIGINS''
              ''http://localhost:3000,http://127.0.0.1:3000,http://localhost:5173''),
           cf_StoragePath = config_getEnv getenv ''STORAGE_PATH'' ''./uploads'',
           cf_ReportsPath = config_getEnv getenv ''REPORTS_PATH'' ''./reports''\<rparr>)"

subsection \<open>The server program\<close>

text \<open>
  How a program stops before it serves: with a panic, or with status 1 after \<open>os.Exit\<close> or
  \<open>log.Fatal\<close>, for the reason given.
\<close>

datatype stopped = Panicked string | Exited string "go_error option"

text \<open>
  \<^verbatim>\<open>pgxpool.New\<close> and \<^verbatim>\<open>Ping\<close> are the arguments \<open>pool_new\<close> and \<open>pool_ping\<close>: the error each has for an
  address. \<open>server_inputs\<close> is the opening of \<open>NewServer\<close>, before it wires the services.
\<close>

definition server_inputs :: "(string \<Rightarrow> go_error option) \<Rightarrow> (string \<Rightarrow> go_error option) \<Rightarrow> Config \<Rightarrow> stopped option" where
  "server_inputs pool_new pool_ping cfg =
     (if cf_DatabaseURL cfg = '''' then Some (Panicked ''DATABASE_URL is required; in-memory fallback has been removed'')
      else case pool_new (cf_DatabaseURL cfg) of
        Some err \<Rightarrow> Some (Panicked ''failed to create postgres pool'')
      | None \<Rightarrow> (case pool_ping (cf_DatabaseURL cfg) of
          Some err \<Rightarrow> Some (Panicked ''failed to connect to postgres'')
        | None \<Rightarrow> None))"

definition api_main :: "(string \<Rightarrow> go_error option) \<Rightarrow> (string \<Rightarrow> go_error option) \<Rightarrow> (string \<Rightarrow> string) \<Rightarrow> stopped + (Config \<times> Vault)" where
  "api_main pool_new pool_ping getenv =
     (case Load getenv of Inl msg \<Rightarrow> Inl (Panicked msg) | Inr cfg \<Rightarrow>
     (case NewVault (cf_VaultMasterKey cfg) of Inl err \<Rightarrow> Inl (Exited ''vault init failed'' (Some err)) | Inr vault \<Rightarrow>
     (case server_inputs pool_new pool_ping cfg of Some stop \<Rightarrow> Inl stop | None \<Rightarrow> Inr (cfg, vault))))"

subsection \<open>The seed program\<close>

definition seed_getEnv :: "(string \<Rightarrow> string) \<Rightarrow> string \<Rightarrow> string \<Rightarrow> string" where
  "seed_getEnv getenv key fallback = (let value = trim_space (getenv key) in if value \<noteq> '''' then value else fallback)"

text \<open>The bytes read from the random source are an argument.\<close>

definition generatedSeedPassword :: "string \<Rightarrow> string" where
  "generatedSeedPassword buf = ''A1!'' @ base64_EncodeToString buf @ ''zZ''"

text \<open>
  The result is \<open>Inl\<close> of the reason of an exit with status 1, or the lines printed. The vault encrypts
  under \<open>random\<close>, the nonce it draws.
\<close>

definition seed_main :: "(string \<Rightarrow> go_error option) \<Rightarrow> gcm \<Rightarrow> string option \<Rightarrow> pg_env \<Rightarrow> unicode_tables \<Rightarrow> bcrypt \<Rightarrow> string \<Rightarrow>
    string \<Rightarrow> go_time \<Rightarrow> (string \<Rightarrow> string) \<Rightarrow> pg_state \<Rightarrow> (stopped + string list) \<times> pg_state" where
  "seed_main pool_new g random env uni bc salt buf now getenv s =
     (let databaseURL = trim_space (getenv ''DATABASE_URL'')
      in if databaseURL = '''' then (Inl (Exited ''DATABASE_URL is required'' None), s)
      else case pool_new databaseURL of
        Some err \<Rightarrow> (Inl (Exited ''failed to connect postgres'' (Some err)), s)
      | None \<Rightarrow>
        (case NewVault (seed_getEnv getenv ''VAULT_MASTER_KEY'' default_master_key) of
           Inl err \<Rightarrow> (Inl (Exited ''failed to init vault'' (Some err)), s)
         | Inr vault \<Rightarrow>
           (let setup = pg_setup env (Some (Vault_Encrypt g vault random));
                password = trim_space (getenv ''ADMIN_SEED_PASSWORD'');
                password = (if password = '''' then generatedSeedPassword buf else password);
                email = trim_space (seed_getEnv getenv ''ADMIN_SEED_EMAIL'' ''admin@example.com'')
            in case BootstrapTenant uni bc salt setup ''tenant-1'' ''tenant-1'' email ''Default Admin'' password now s of
              (Inl err, s') \<Rightarrow> if err = ErrSetupAlreadyCompleted then (Inr [], s')
                              else (Inl (Exited ''seed failed'' (Some err)), s')
            | (Inr tenant, s') \<Rightarrow>
                (Inr ([''Seed complete. tenant_id='' @ tn_ID tenant @ '' tenant_slug='' @ tn_Slug tenant @ '' admin_email='' @ email] @
                   (if getenv ''ADMIN_SEED_PASSWORD'' = '''' then [''Generated admin password: '' @ password] else [])), s'))))"

subsection \<open>Public errors\<close>

text \<open>
  An error as \<^verbatim>\<open>errors.As\<close> sees it: a plain one, an \<open>AppError\<close>, or a wrapper around another. The inner
  error of an \<open>AppError\<close> is not unwrapped, since the type has no \<^verbatim>\<open>Unwrap\<close> method.
\<close>

datatype api_error =
    PlainError string
  | AppErr (PublicMessage: string) (InternalError: "api_error option")
  | Wrapped string api_error

fun api_Error :: "api_error \<Rightarrow> string" where
  "api_Error (PlainError msg) = msg"
| "api_Error (AppErr public internal) =
     (if public \<noteq> '''' then public
      else case internal of Some e \<Rightarrow> api_Error e | None \<Rightarrow> ''request failed'')"
| "api_Error (Wrapped msg e) = msg @ '': '' @ api_Error e"

definition WrapAppError :: "string \<Rightarrow> api_error option \<Rightarrow> api_error" where
  "WrapAppError public internal = AppErr public internal"

fun as_AppError :: "api_error \<Rightarrow> string option" where
  "as_AppError (PlainError msg) = None"
| "as_AppError (AppErr public internal) = Some public"
| "as_AppError (Wrapped msg e) = as_AppError e"

definition PublicError :: "api_error \<Rightarrow> string" where
  "PublicError err = (case as_AppError err of Some public \<Rightarrow> public | None \<Rightarrow> ''request failed'')"

subsection \<open>What start-up guarantees\<close>

lemma Load_Inr:
  assumes "Load getenv = Inr cfg"
  shows "IsTestMode getenv \<or> 32 \<le> length (cf_JWTSigningKey cfg)"
    and "cf_CORSOrigins cfg \<noteq> []"
proof -
  define key where "key = (if trim_space (getenv ''JWT_SECRET'') = [] then trim_space (getenv ''JWT_SIGNING_KEY'') else trim_space (getenv ''JWT_SECRET''))"
  note load = assms [unfolded Load_def Let_def, folded key_def]
  then have k: "IsTestMode getenv \<or> 32 \<le> length key" by (simp only: split: if_splits) auto
  then have "\<not> (\<not> IsTestMode getenv \<and> length key < 32)" by auto
  from load [unfolded if_not_P [OF this] sum.inject] have "cf_JWTSigningKey cfg = key" and "\<exists>v. cf_CORSOrigins cfg = parseCSV v"
    by auto
  with k show "IsTestMode getenv \<or> 32 \<le> length (cf_JWTSigningKey cfg)" "cf_CORSOrigins cfg \<noteq> []"
    by (auto simp: parseCSV_def)
qed

text \<open>The key the vault falls back to is accepted: it is 32 bytes in hexadecimal.\<close>

lemma default_master_key_ok: "\<exists>v. NewVault default_master_key = Inr v"
proof -
  have "(case NewVault default_master_key of Inl _ \<Rightarrow> False | Inr _ \<Rightarrow> True)" by code_simp
  then show ?thesis by (cases "NewVault default_master_key") auto
qed

text \<open>
  The server starts only with a signing key of 32 bytes or in test mode, with a database address, and with a
  vault key of 32 bytes.
\<close>

theorem api_main_starts:
  assumes "api_main pool_new pool_ping getenv = Inr (cfg, vault)"
  shows "IsTestMode getenv \<or> 32 \<le> length (cf_JWTSigningKey cfg)"
    and "cf_DatabaseURL cfg \<noteq> '''' \<and> pool_ping (cf_DatabaseURL cfg) = None" and "length (vt_key vault) = 32"
  using assms Load_Inr(1) [of getenv cfg]
  by (auto simp: api_main_def server_inputs_def NewVault_def split: sum.splits option.splits if_splits)

text \<open>
  A generated password always passes the policy, whatever bytes were drawn, so a seed without a password cannot fail
  for it.
\<close>

theorem generatedSeedPassword_accepted:
  assumes "length buf = 18"
  shows "ValidatePassword uni (generatedSeedPassword buf) = None" and "length (generatedSeedPassword buf) = 29"
proof -
  have "\<forall>c\<in>set b64_alphabet. of_char c < (128 :: nat)" by code_simp
  then have ascii: "\<forall>c\<in>set (generatedSeedPassword buf). of_char c < (128 :: nat)"
    using base64_chars [of buf] by (auto simp: generatedSeedPassword_def)
  have groups: "length (b64_groups xs) = 4 * n" if "length xs = 3 * n" for n and xs :: "nat list"
    using that
  proof (induction n arbitrary: xs)
    case (Suc n)
    then obtain a b c r where "xs = a # b # c # r" "length r = 3 * n" by (auto simp: length_Suc_conv eval_nat_numeral)
    with Suc.IH show ?case by simp
  qed simp
  show "length (generatedSeedPassword buf) = 29"
    using groups [of "map of_char buf" 6] assms by (simp add: generatedSeedPassword_def base64_EncodeToString_def)
  then show "ValidatePassword uni (generatedSeedPassword buf) = None"
    unfolding ValidatePassword_ascii [OF ascii] by (simp add: generatedSeedPassword_def)
qed

text \<open>
  Seeding a database that has a tenant changes no table and prints nothing, so the program may be run
  at every deployment.
\<close>

lemma Bootstrap_again:
  assumes "pg_faults s = []" "db_tenants (pg_db s) \<noteq> []"
  shows "BootstrapTenant uni bc salt (pg_setup env vault) a b c d e now s = (Inl ErrSetupAlreadyCompleted, s)"
  using assms
  by (simp add: BootstrapTenant_def NeedsSetup_def pg_setup_def NewSetupService_def pg_TenantStore_def pg_CountTenants_def
      op_bind_def op_return_def op_fail_def pg_stmt_def)

theorem seed_again:
  assumes "pg_faults s = []" "db_tenants (pg_db s) \<noteq> []"
  shows "snd (seed_main pool_new g random env uni bc salt buf now getenv s) = s"
    and "fst (seed_main pool_new g random env uni bc salt buf now getenv s) \<in> range Inl \<union> {Inr []}"
  by (auto simp: seed_main_def Bootstrap_again [OF assms] Let_def split: option.splits sum.splits)

text \<open>
  A password of blanks in the environment is replaced by a generated one, as an unset variable is, but then the
  generated password is never printed: the run leaves the same administrator and keeps its password to itself.
\<close>

theorem seed_blank_password_hidden:
  assumes "trim_space p = []" "p \<noteq> []" "getenv ''ADMIN_SEED_PASSWORD'' = []"
  shows "seed_main pool_new g random env uni bc salt buf now (getenv(''ADMIN_SEED_PASSWORD'' := p)) s =
    map_prod (map_sum id (take 1)) id (seed_main pool_new g random env uni bc salt buf now getenv s)"
proof -
  have "trim_space [] = []" by (simp add: trim_space_def)
  with assms show ?thesis
    by (simp add: seed_main_def seed_getEnv_def Let_def split: option.splits sum.splits prod.splits)
qed

end
