(* ===== verification/Server.thy ===== *)
theory Server
  imports Startup Router Booking_Handlers Booking_Safety Task_Handlers Content_Handlers Schedules Admin_Learners
    Ingestion Reporting Dashboard Analytics
begin

text \<open>
  The whole server: \<^verbatim>\<open>NewServer\<close> of \<^verbatim>\<open>internal/api/router.go\<close> wires every service and handler of the
  other theories to one PostgreSQL store, and a run of the server is a sequence of requests and of ticks of
  the hold expiry worker. The state holds the database, the disk, the ingestion bot and the reporting service,
  beside the recorder's entries. A part of the program sees the part of the state it works on through
  \<open>zoom\<close>.
\<close>

subsection \<open>State and environment\<close>

record server =
  sv_pg :: pg_state
  sv_disk :: disk
  sv_bot :: "pg_state IngestionBot"
  sv_reports :: ReportingService

text \<open>
  What one request gets from outside the program: the database's own functions, the vault, bcrypt and the
  token library with fresh randomness, the digests, what \<^verbatim>\<open>os.Stat\<close> knows of directories and
  modification times, the order of map iteration, fresh identifiers and the texts of errors.
\<close>

record server_env =
  se_pg :: pg_env
  se_vault :: "string \<Rightarrow> go_error + string"
  se_auth :: auth_env
  se_digests :: digests
  se_is_dir :: "string \<Rightarrow> bool"
  se_modified :: "string \<Rightarrow> go_time"
  se_order :: "string list \<Rightarrow> string list"
  se_cohort_order :: "string \<Rightarrow> int gomap \<Rightarrow> int gomap"
  se_uuid :: "nat \<Rightarrow> string"
  se_err_Error :: "go_error \<Rightarrow> string"

text \<open>What \<^verbatim>\<open>c.Bind\<close> makes of the body of the request for each type of request, \<open>None\<close> for an error.\<close>

record bodies =
  bd_register :: "registerRequest option"
  bd_login :: "loginRequest option"
  bd_setup :: "setupTenantRequest option"
  bd_booking :: "bookingRequest option"
  bd_reschedule :: "rescheduleRequest option"
  bd_period :: "classPeriodRequest option"
  bd_blackout :: "blackoutRequest option"
  bd_conflicts :: "scheduleConflictRequest option"
  bd_start :: "startUploadRequest option"
  bd_chunk :: "appendChunkRequest option"
  bd_finalize :: "finalizeUploadRequest option"
  bd_share :: "generateShareRequest option"
  bd_reserve :: "reserveRequest option"
  bd_policies :: "string option option"
  bd_role :: "string option"
  bd_room :: "roomRequest option"
  bd_ingestion :: "ingestionRequest option"
  bd_createTask :: "createTaskRequest option"
  bd_updateTask :: "updateTaskRequest option"
  bd_dependencies :: "string list option"

datatype reply =
    R_Healthz | R_Readyz string string
  | R_Auth auth_reply | R_Booking booking_reply | R_Schedule schedule_reply | R_Content content_reply
  | R_Learner learner_reply | R_Admin admin_reply | R_Ingestion ScraperJob | R_Analytics analytics_reply
  | R_Report report_reply | R_Task task_reply | R_Dashboard DashboardData

subsection \<open>Parts of the state\<close>

definition zoom :: "('t \<Rightarrow> 's) \<Rightarrow> ('s \<Rightarrow> 't \<Rightarrow> 't) \<Rightarrow> ('s \<Rightarrow> 'r \<times> 's) \<Rightarrow> 't \<Rightarrow> 'r \<times> 't" where
  "zoom get put f st = (case f (get st) of (r, s) \<Rightarrow> (r, put s st))"

definition put_pg :: "pg_state \<Rightarrow> server audited \<Rightarrow> server audited" where
  "put_pg s st = ((fst st)\<lparr>sv_pg := s\<rparr>, snd st)"

definition put_disk :: "disk \<Rightarrow> server audited \<Rightarrow> server audited" where
  "put_disk d st = ((fst st)\<lparr>sv_disk := d\<rparr>, snd st)"

definition on_pg :: "('a, pg_state, 'e) xop \<Rightarrow> ('a, server, 'e) xop" where
  "on_pg = zoom sv_pg (\<lambda>s sv. sv\<lparr>sv_pg := s\<rparr>)"

definition at_pg :: "(pg_state \<Rightarrow> 'r \<times> pg_state) \<Rightarrow> server audited \<Rightarrow> 'r \<times> server audited" where
  "at_pg = zoom (\<lambda>st. sv_pg (fst st)) put_pg"

definition at_audited :: "(pg_state audited \<Rightarrow> 'r \<times> pg_state audited) \<Rightarrow> server audited \<Rightarrow> 'r \<times> server audited" where
  "at_audited = zoom (\<lambda>st. (sv_pg (fst st), snd st)) (\<lambda>(s, log) st. ((fst st)\<lparr>sv_pg := s\<rparr>, log))"

definition at_disk :: "(pg_state with_disk \<Rightarrow> 'r \<times> pg_state with_disk) \<Rightarrow> server audited \<Rightarrow> 'r \<times> server audited" where
  "at_disk = zoom (\<lambda>st. (sv_pg (fst st), sv_disk (fst st))) (\<lambda>(s, d) st. put_disk d (put_pg s st))"

definition at_audited_disk :: "(pg_state audited with_disk \<Rightarrow> 'r \<times> pg_state audited with_disk) \<Rightarrow>
    server audited \<Rightarrow> 'r \<times> server audited" where
  "at_audited_disk = zoom (\<lambda>st. ((sv_pg (fst st), snd st), sv_disk (fst st)))
     (\<lambda>((s, log), d) st. put_disk d ((fst st)\<lparr>sv_pg := s\<rparr>, log))"

definition at_bot :: "pg_env \<Rightarrow> (pg_state with_bot \<Rightarrow> 'r \<times> pg_state with_bot) \<Rightarrow> server audited \<Rightarrow> 'r \<times> server audited" where
  "at_bot env = zoom (\<lambda>st. ((sv_bot (fst st))\<lparr>ib_Store := Some (pg_IngestionStore env)\<rparr>, sv_pg (fst st)))
     (\<lambda>(b, s) st. ((fst st)\<lparr>sv_bot := b, sv_pg := s\<rparr>, snd st))"

definition at_books :: "(pg_state with_books \<Rightarrow> 'r \<times> pg_state with_books) \<Rightarrow> server audited \<Rightarrow> 'r \<times> server audited" where
  "at_books = zoom (\<lambda>st. (sv_pg (fst st), (sv_reports (fst st), sv_disk (fst st))))
     (\<lambda>(s, (rep, d)) st. ((fst st)\<lparr>sv_pg := s, sv_disk := d, sv_reports := rep\<rparr>, snd st))"

text \<open>A reply of one handler among the replies of the server, with the cookies it sets.\<close>

definition shown :: "('b \<Rightarrow> reply) \<Rightarrow> 'b response \<times> 's \<Rightarrow> (reply response \<times> Cookie list) \<times> 's" where
  "shown f r = (case r of ((status, body), s) \<Rightarrow> (((status, map_http_body f body), []), s))"

definition shown_cookies :: "('b \<Rightarrow> reply) \<Rightarrow> ('b response \<times> Cookie list) \<times> 's \<Rightarrow> (reply response \<times> Cookie list) \<times> 's" where
  "shown_cookies f r = (case r of (((status, body), cs), s) \<Rightarrow> (((status, map_http_body f body), cs), s))"


subsection \<open>The wiring\<close>

definition server_sessions :: "server_env \<Rightarrow> server SessionStore" where
  "server_sessions se = \<lparr>sn_CreateSession = (\<lambda>x. on_pg (sn_CreateSession (pg_SessionStore (se_pg se)) x)),
     sn_Revoke = (\<lambda>t i now. on_pg (sn_Revoke (pg_SessionStore (se_pg se)) t i now)),
     sn_IsActive = (\<lambda>t i now. on_pg (sn_IsActive (pg_SessionStore (se_pg se)) t i now)),
     sn_Rotate = (\<lambda>t i x now. on_pg (sn_Rotate (pg_SessionStore (se_pg se)) t i x now))\<rparr>"

definition server_audit :: "server_env \<Rightarrow> pg_state AuditStore option" where
  "server_audit se = Some (pg_WriteAuditTransition (se_pg se))"

definition server_setup :: "server_env \<Rightarrow> pg_state SetupService" where
  "server_setup se = pg_setup (se_pg se) (Some (se_vault se))"

definition server_auth :: "Config \<Rightarrow> server_env \<Rightarrow> pg_state AuthHandler" where
  "server_auth cfg se = \<lparr>ah_Auth = su_Auth (server_setup se), ah_Setup = Some (server_setup se),
     ah_TokenKey = cf_JWTSigningKey cfg, ah_TokenTTL = 24 * time_Hour, ah_TokenClock = None\<rparr>"

definition server_bookings :: "server_env \<Rightarrow> pg_state BookingHandler" where
  "server_bookings se = \<lparr>bh_Bookings = NewBookingService (pg_BookingStore (se_pg se)), bh_Audit = server_audit se\<rparr>"

definition server_content :: "Config \<Rightarrow> server_env \<Rightarrow> pg_state ContentHandler" where
  "server_content cfg se = pg_ContentHandler (se_pg se) ''trainingops-share-secret'' (cf_StoragePath cfg)"

definition server_tasks :: "server_env \<Rightarrow> pg_state TaskHandler" where
  "server_tasks se = \<lparr>th_Tasks = NewTaskService (pg_TaskStore (se_pg se)), th_Store = pg_TaskStore (se_pg se)\<rparr>"

definition server_schedule :: "server_env \<Rightarrow> pg_state ScheduleHandler" where
  "server_schedule se = \<lparr>sd_Store = pg_scheduleStore (se_pg se)\<rparr>"

definition server_learner :: "server_env \<Rightarrow> LearnerHandler" where
  "server_learner se = \<lparr>lh_Env = se_pg se, lh_Audit = server_audit se\<rparr>"

definition server_reporting :: "server_env \<Rightarrow> pg_state ReportingHandler" where
  "server_reporting se = \<lparr>rh_is_dir = se_is_dir se, rh_modified = se_modified se, rh_Bookings = pg_BookingStore (se_pg se)\<rparr>"

definition server_analytics :: "server_env \<Rightarrow> pg_state AnalyticsHandler" where
  "server_analytics se = \<lparr>ah_Bookings = Some (pg_BookingStore (se_pg se))\<rparr>"

type_synonym server_endpoint = "(reply, server) Middleware.endpoint"

text \<open>The handlers under the names that the route table uses.\<close>

definition probe_handlers :: "Config \<Rightarrow> (string \<times> server_endpoint) list" where
  "probe_handlers cfg = [
     (''healthz'', \<lambda>rq st. (((200, OkBody R_Healthz), []), st)),
     (''readyz'', \<lambda>rq st. (((200, OkBody (R_Readyz (cf_AppEnv cfg) ''postgres'')), []), st))]"

definition auth_handlers :: "Config \<Rightarrow> server_env \<Rightarrow> bodies \<Rightarrow> (string \<times> server_endpoint) list" where
  "auth_handlers cfg se b = [
     (''authHandler.Register'', \<lambda>rq st. shown R_Auth (at_audited (AuthHandler_Register (se_auth se) (server_auth cfg se) (bd_register b) rq) st)),
     (''authHandler.Login'', \<lambda>rq st. shown_cookies R_Auth (at_audited (AuthHandler_Login (se_auth se) (server_auth cfg se) (bd_login b) rq) st)),
     (''authHandler.Logout'', \<lambda>rq st. shown_cookies R_Auth (at_audited (AuthHandler_Logout (server_auth cfg se) rq) st)),
     (''authHandler.Session'', \<lambda>rq st. shown R_Auth (at_audited (AuthHandler_Session rq) st)),
     (''setupHandler.Status'', \<lambda>rq st. shown R_Auth (at_audited (SetupHandler_Status (server_setup se) rq) st)),
     (''setupHandler.BootstrapTenant'', \<lambda>rq st.
        shown R_Auth (at_audited (SetupHandler_BootstrapTenant (se_auth se) (server_setup se) (bd_setup b) rq) st))]"

definition booking_handlers :: "server_env \<Rightarrow> bodies \<Rightarrow> (string \<times> server_endpoint) list" where
  "booking_handlers se b = [
     (''bookingHandler.Hold'', \<lambda>rq st. shown R_Booking (at_audited (BookingHandler_Hold (server_bookings se) (bd_booking b) rq) st)),
     (''bookingHandler.Confirm'', \<lambda>rq st. shown R_Booking (at_audited (BookingHandler_Confirm (server_bookings se) (bd_booking b) rq) st)),
     (''bookingHandler.Cancel'', \<lambda>rq st. shown R_Booking (at_audited (BookingHandler_Cancel (server_bookings se) (bd_booking b) rq) st)),
     (''bookingHandler.Reschedule'', \<lambda>rq st.
        shown R_Booking (at_audited (BookingHandler_Reschedule (server_bookings se) (bd_reschedule b) rq) st)),
     (''bookingHandler.CheckIn'', \<lambda>rq st. shown R_Booking (at_audited (BookingHandler_CheckIn (server_bookings se) rq) st)),
     (''bookingHandler.ListRooms'', \<lambda>rq st. shown R_Booking (at_audited (BookingHandler_ListRooms (server_bookings se) rq) st)),
     (''bookingHandler.ListInstructors'', \<lambda>rq st. shown R_Booking (at_audited (BookingHandler_ListInstructors (server_bookings se) rq) st))]"

definition schedule_handlers :: "server_env \<Rightarrow> bodies \<Rightarrow> (string \<times> server_endpoint) list" where
  "schedule_handlers se b = [
     (''scheduleHandler.CreateClassPeriod'', \<lambda>rq st. shown R_Schedule (at_pg (ScheduleHandler_CreateClassPeriod (server_schedule se) (bd_period b) rq) st)),
     (''scheduleHandler.ListClassPeriods'', \<lambda>rq st. shown R_Schedule (at_pg (ScheduleHandler_ListClassPeriods (server_schedule se) rq) st)),
     (''scheduleHandler.UpdateClassPeriod'', \<lambda>rq st. shown R_Schedule (at_pg (ScheduleHandler_UpdateClassPeriod (server_schedule se) (bd_period b) rq) st)),
     (''scheduleHandler.DeleteClassPeriod'', \<lambda>rq st. shown R_Schedule (at_pg (ScheduleHandler_DeleteClassPeriod (server_schedule se) rq) st)),
     (''scheduleHandler.CreateBlackoutDate'', \<lambda>rq st. shown R_Schedule (at_pg (ScheduleHandler_CreateBlackoutDate (server_schedule se) (bd_blackout b) rq) st)),
     (''scheduleHandler.ListBlackoutDates'', \<lambda>rq st. shown R_Schedule (at_pg (ScheduleHandler_ListBlackoutDates (server_schedule se) rq) st)),
     (''scheduleHandler.DeleteBlackoutDate'', \<lambda>rq st. shown R_Schedule (at_pg (ScheduleHandler_DeleteBlackoutDate (server_schedule se) rq) st)),
     (''scheduleHandler.CheckConflicts'', \<lambda>rq st. shown R_Schedule (at_pg (ScheduleHandler_CheckConflicts (server_schedule se) (bd_conflicts b) rq) st))]"

definition content_handlers :: "Config \<Rightarrow> server_env \<Rightarrow> bodies \<Rightarrow> (string \<times> server_endpoint) list" where
  "content_handlers cfg se b = (let h = server_content cfg se; dg = se_digests se in [
     (''contentHandler.StartUpload'', \<lambda>rq st. shown R_Content (at_disk (ContentHandler_StartUpload h (bd_start b) rq) st)),
     (''contentHandler.AppendChunk'', \<lambda>rq st. shown R_Content (at_disk (ContentHandler_AppendChunk dg h (bd_chunk b) rq) st)),
     (''contentHandler.FinalizeUpload'', \<lambda>rq st. shown R_Content (at_disk (ContentHandler_FinalizeUpload dg h (bd_finalize b) rq) st)),
     (''contentHandler.Search'', \<lambda>rq st. shown R_Content (at_disk (ContentHandler_Search h rq) st)),
     (''contentHandler.Versions'', \<lambda>rq st. shown R_Content (at_disk (ContentHandler_Versions h rq) st)),
     (''contentHandler.GenerateShare'', \<lambda>rq st. shown R_Content (at_disk (ContentHandler_GenerateShare dg h (bd_share b) rq) st)),
     (''contentHandler.DownloadShared'', \<lambda>rq st. shown R_Content (at_disk (ContentHandler_DownloadShared dg h rq) st))])"

definition learner_handlers :: "server_env \<Rightarrow> bodies \<Rightarrow> (string \<times> server_endpoint) list" where
  "learner_handlers se b = [
     (''learnerHandler.Catalog'', \<lambda>rq st. shown R_Learner (at_pg (LearnerHandler_Catalog (server_learner se) rq) st)),
     (''learnerHandler.Reserve'', \<lambda>rq st. shown R_Learner (at_audited (LearnerHandler_Reserve (server_learner se) (bd_reserve b) rq) st)),
     (''learnerHandler.MyReservations'', \<lambda>rq st. shown R_Learner (at_pg (LearnerHandler_MyReservations (server_learner se) rq) st)),
     (''learnerHandler.DownloadApproved'', \<lambda>rq st. shown R_Learner (at_audited_disk (LearnerHandler_DownloadApproved (server_learner se) rq) st))]"

definition admin_handlers :: "server_env \<Rightarrow> bodies \<Rightarrow> (string \<times> server_endpoint) list" where
  "admin_handlers se b = (let env = se_pg se in [
     (''adminHandler.ListTenants'', \<lambda>rq st. shown R_Admin (at_pg (AdminHandler_ListTenants rq) st)),
     (''adminHandler.UpdateTenantPolicies'', \<lambda>rq st. shown R_Admin (at_pg (AdminHandler_UpdateTenantPolicies env (bd_policies b) rq) st)),
     (''adminHandler.ListUsers'', \<lambda>rq st. shown R_Admin (at_pg (AdminHandler_ListUsers rq) st)),
     (''adminHandler.UpdateUserRole'', \<lambda>rq st. shown R_Admin (at_pg (AdminHandler_UpdateUserRole env (bd_role b) rq) st)),
     (''adminHandler.ListPermissions'', \<lambda>rq st. shown R_Admin (at_pg (AdminHandler_ListPermissions env rq) st)),
     (''adminHandler.ListRooms'', \<lambda>rq st. shown R_Admin (at_pg (AdminHandler_ListRooms env rq) st)),
     (''adminHandler.CreateRoom'', \<lambda>rq st. shown R_Admin (at_pg (AdminHandler_CreateRoom env (bd_room b) rq) st)),
     (''adminHandler.UpdateRoom'', \<lambda>rq st. shown R_Admin (at_pg (AdminHandler_UpdateRoom env (bd_room b) rq) st))])"

definition other_handlers :: "server_env \<Rightarrow> bodies \<Rightarrow> (string \<times> server_endpoint) list" where
  "other_handlers se b = [
     (''dashboardHandler.Get'', \<lambda>rq st. shown R_Dashboard
        (at_pg (DashboardHandler_Get (se_err_Error se) (NewDashboardService (pg_BookingStore (se_pg se))) rq) st)),
     (''ingestionHandler.Run'', \<lambda>rq st. shown R_Ingestion (at_bot (se_pg se) (IngestionHandler_Run (se_uuid se) (bd_ingestion b) rq) st)),
     (''analyticsHandler.Cohorts'', \<lambda>rq st. shown R_Analytics (at_pg (AnalyticsHandler_Cohorts (se_cohort_order se) (server_analytics se) rq) st)),
     (''analyticsHandler.Anomalies'', \<lambda>rq st. shown R_Analytics (at_pg (AnalyticsHandler_Anomalies (server_analytics se) rq) st)),
     (''reportingHandler.BookingsCSV'', \<lambda>rq st. shown R_Report (at_books (ReportingHandler_BookingsCSV (server_reporting se) rq) st)),
     (''reportingHandler.CompliancePDF'', \<lambda>rq st. shown R_Report (at_books (ReportingHandler_CompliancePDF (server_reporting se) rq) st)),
     (''reportingHandler.Download'', \<lambda>rq st. shown R_Report (at_books (ReportingHandler_Download (server_reporting se) rq) st)),
     (''taskHandler.Create'', \<lambda>rq st. shown R_Task (at_pg (TaskHandler_Create (se_order se) (server_tasks se) (bd_createTask b) rq) st)),
     (''taskHandler.ListByMilestone'', \<lambda>rq st. shown R_Task (at_pg (TaskHandler_ListByMilestone (server_tasks se) rq) st)),
     (''taskHandler.Update'', \<lambda>rq st. shown R_Task (at_pg (TaskHandler_Update (server_tasks se) (bd_updateTask b) rq) st)),
     (''taskHandler.Delete'', \<lambda>rq st. shown R_Task (at_pg (TaskHandler_Delete (server_tasks se) rq) st)),
     (''taskHandler.AddDependencies'', \<lambda>rq st. shown R_Task (at_pg (TaskHandler_AddDependencies (se_order se) (server_tasks se) (bd_dependencies b) rq) st))]"

definition server_handlers :: "Config \<Rightarrow> server_env \<Rightarrow> bodies \<Rightarrow> (string \<times> server_endpoint) list" where
  "server_handlers cfg se b = probe_handlers cfg @ auth_handlers cfg se b @ booking_handlers se b @ schedule_handlers se b @
     content_handlers cfg se b @ learner_handlers se b @ admin_handlers se b @ other_handlers se b"

text \<open>No route names a handler outside the list (\<open>routes_wired\<close>), so the second branch is never taken.\<close>

definition server_impl :: "Config \<Rightarrow> server_env \<Rightarrow> bodies \<Rightarrow> string \<Rightarrow> server_endpoint" where
  "server_impl cfg se b name = (case map_of (server_handlers cfg se b) name of
      Some ep \<Rightarrow> ep | None \<Rightarrow> (\<lambda>rq st. answer 404 ''404 page not found'' st))"


lemma routes_wired:
  assumes "rt \<in> set server_routes"
  shows "\<exists>ep. map_of (server_handlers cfg se b) (rt_handler rt) = Some ep"
proof -
  have "list_all (\<lambda>rt. rt_handler rt \<in> set (map fst (server_handlers cfg se b))) server_routes"
    by (simp add: server_routes_def server_handlers_def probe_handlers_def auth_handlers_def booking_handlers_def schedule_handlers_def
        content_handlers_def learner_handlers_def admin_handlers_def other_handlers_def Let_def)
  with assms have "rt_handler rt \<in> fst ` set (server_handlers cfg se b)" by (auto simp: list_all_iff)
  then show ?thesis by (metis map_of_eq_None_iff not_None_eq)
qed

subsection \<open>Starting the server\<close>

text \<open>
  \<^verbatim>\<open>NewServer\<close> after its checks: it seeds the administrator of the environment, then holds a fresh bot and the
  reporting service. The database and the disk are there before; \<open>seeded\<close> are the results of the bot's random source.
\<close>

definition NewServer :: "(string \<Rightarrow> go_error option) \<Rightarrow> (string \<Rightarrow> go_error option) \<Rightarrow> (string \<Rightarrow> string) \<Rightarrow> server_env \<Rightarrow>
    (nat \<Rightarrow> int) \<Rightarrow> go_time \<Rightarrow> Config \<Rightarrow> pg_state \<Rightarrow> disk \<Rightarrow> stopped + server" where
  "NewServer pool_new pool_ping getenv se seeded now cfg s d =
     (case server_inputs pool_new pool_ping cfg of Some stop \<Rightarrow> Inl stop | None \<Rightarrow>
        Inr \<lparr>sv_pg = seedDefaultUsers getenv (ae_uni (se_auth se)) (ae_bcrypt (se_auth se)) (ae_salt (se_auth se)) now (server_setup se) s,
          sv_disk = d,
          sv_bot = NewIngestionBot (NewProxyPoolManager [''proxy://127.0.0.1:8081'', ''proxy://127.0.0.1:8082''])
            (NewUserAgentRotator [''TrainingOpsBot/1.0'', ''TrainingOpsOps/2.0'', ''TrainingOpsPreview/3.0'']) seeded
            (Some (pg_IngestionStore (se_pg se))),
          sv_reports = NewReportingService (cf_ReportsPath cfg)\<rparr>)"

subsection \<open>Runs of the server\<close>

text \<open>
  What happens to a running server: a request with its method and its decoded bodies, or a tick of the hold
  expiry worker. Requests are served one after the other.
\<close>

datatype server_event =
    Request server_env string http_request bodies
  | Tick server_env go_time

definition server_serve :: "Config \<Rightarrow> server_env \<Rightarrow> bodies \<Rightarrow> string \<Rightarrow> server_endpoint" where
  "server_serve cfg se b = serve (cf_CORSOrigins cfg) (ae_token (se_auth se)) (cf_JWTSigningKey cfg) (server_sessions se) (server_impl cfg se b)"

definition server_tick :: "server_env \<Rightarrow> go_time \<Rightarrow> server audited \<Rightarrow> server audited" where
  "server_tick se now st = snd (at_audited (\<lambda>x. ((), runOnce pg_ExpireHeldBookings (server_audit se) now x)) st)"

definition server_step :: "Config \<Rightarrow> server_event \<Rightarrow> server audited \<Rightarrow> server audited" where
  "server_step cfg ev st = (case ev of
      Request se meth rq b \<Rightarrow> snd (server_serve cfg se b meth rq st)
    | Tick se now \<Rightarrow> server_tick se now st)"

text \<open>Every event comes with the instant by which it is over.\<close>

fun server_run :: "Config \<Rightarrow> (server_event \<times> go_time) list \<Rightarrow> server audited \<Rightarrow> server audited" where
  "server_run cfg [] st = st"
| "server_run cfg ((ev, _) # evs) st = server_run cfg evs (server_step cfg ev st)"

text \<open>
  The clocks do not run backwards, every environment reads uuids in the same way, and a request for a hold
  names room and instructor by canonical identifiers.
\<close>

definition event_ok :: "(string \<Rightarrow> string option) \<Rightarrow> go_time \<Rightarrow> go_time \<Rightarrow> server_event \<Rightarrow> bool" where
  "event_ok u start finish ev \<longleftrightarrow> start \<le> finish \<and> (case ev of
      Request se meth rq b \<Rightarrow> postgres_types (se_pg se) \<and> uuid_in (se_pg se) = u \<and>
        (\<forall>k. start \<le> rq_clock rq k \<and> rq_clock rq k \<le> finish) \<and>
        (case bd_booking b of None \<Rightarrow> True | Some req \<Rightarrow> u (bq_RoomID req) = Some (bq_RoomID req) \<and>
           u (bq_InstructorID req) = Some (bq_InstructorID req))
    | Tick se now \<Rightarrow> postgres_types (se_pg se) \<and> uuid_in (se_pg se) = u \<and> start \<le> now \<and> now \<le> finish)"

fun events_ok :: "(string \<Rightarrow> string option) \<Rightarrow> go_time \<Rightarrow> (server_event \<times> go_time) list \<Rightarrow> bool" where
  "events_ok u start [] \<longleftrightarrow> True"
| "events_ok u start ((ev, finish) # evs) \<longleftrightarrow> event_ok u start finish ev \<and> events_ok u finish evs"

fun finish_time :: "go_time \<Rightarrow> (server_event \<times> go_time) list \<Rightarrow> go_time" where
  "finish_time start [] = start"
| "finish_time start ((ev, finish) # evs) = finish_time finish evs"

end
