(* ===== verification/Booking_Frames.thy ===== *)
theory Booking_Frames
  imports Admin_Learners Ingestion Tenant_Setup Task_Handlers Content_Handlers
begin

text \<open>
  Which operations of the PostgreSQL store leave the table of bookings alone: all of them but those of
  \<^verbatim>\<open>workflow_store.go\<close> for bookings and the reservation of a seat, which only counts an attendee.
  The collection \<open>book_frames\<close> holds the facts, for a fixed table \<open>B\<close>.
\<close>

named_theorems book_frames \<open>operations that leave the bookings alone\<close>

definition books :: "Booking list \<Rightarrow> pg_state \<Rightarrow> bool" where
  "books B = pg_only (\<lambda>db n. db_bookings db = B)"

lemma books_iff: "books B s \<longleftrightarrow> db_bookings (pg_db s) = B"
  by (simp add: books_def pg_only_def)

lemma books_leaf:
  assumes "\<And>s. db_bookings (pg_db (snd (m s))) = db_bookings (pg_db s)"
  shows "op_keeps (books B) m"
  using assms by (simp add: op_keeps_def books_iff)

lemma books_stmt [book_frames]: "op_keeps (books B) m \<Longrightarrow> op_keeps (books B) (pg_stmt m)"
  unfolding books_def by (rule pg_only_stmt)

lemma books_resolve [book_frames]: "op_keeps (books B) (resolveTenantUUID t)"
  unfolding books_def by (rule pg_only_resolve)

lemma books_tx [book_frames]: "op_keeps (books B) body \<Longrightarrow> op_keeps (books B) (pg_tx wrap body)"
  unfolding books_def by (rule pg_only_tx) simp_all

lemma pg_key_keeps [book_frames]: "(\<And>t i. op_keeps P (k t i)) \<Longrightarrow> op_keeps P (pg_key env T x k)"
  unfolding pg_key_def by (intro op_invs)

lemma op_keeps_prod [book_frames]: "(\<And>a b. p = (a, b) \<Longrightarrow> op_keeps P (f a b)) \<Longrightarrow> op_keeps P (case p of (a, b) \<Rightarrow> f a b)"
  by (cases p) simp

lemmas frame_rules = op_invs book_frames

lemmas leaf_simps = Let_def pg_change_def set_tasks_def set_users_def set_sessions_def

subsection \<open>Tasks\<close>

lemma put_task_frame [book_frames]: "op_keeps (books B) (pg_put_task row)"
  by (rule books_leaf) (simp add: pg_put_task_def leaf_simps)

lemma task_key_frame [book_frames]: "(\<And>P. op_keeps Q (k P)) \<Longrightarrow> op_keeps Q (pg_task_key env T i k)"
  unfolding pg_task_key_def by (intro op_invs)

lemma task_frames [book_frames]:
  "op_keeps (books B) (pg_UpsertTask env task)" "op_keeps (books B) (pg_GetTask env T i)"
  "op_keeps (books B) (pg_ListTasks env T)" "op_keeps (books B) (pg_DeleteTask env T i)"
  unfolding pg_UpsertTask_def pg_GetTask_def pg_ListTasks_def pg_DeleteTask_def
  by ((intro op_invs book_frames)+, (rule books_leaf, simp add: leaf_simps)?)+

subsection \<open>Content\<close>

lemma content_leaves [book_frames]:
  "op_keeps (books B) (pg_put_content item)" "op_keeps (books B) (pg_put_metadata t item)"
  "op_keeps (books B) (pg_put_tag env tag n)" "op_keeps (books B) (pg_put_version v)"
  "op_keeps (books B) (pg_put_upload u)" "op_keeps (books B) (pg_put_link l)"
  by (rule books_leaf, simp add: leaf_simps pg_put_content_def pg_put_metadata_def pg_put_tag_def pg_put_version_def
      pg_put_upload_def pg_put_link_def split: list.split)+

lemma content_frames [book_frames]:
  "op_keeps (books B) (pg_UpsertContentItem env item)" "op_keeps (books B) (pg_ListContentItems env T)"
  "op_keeps (books B) (pg_SearchContent env T q)" "op_keeps (books B) (pg_ListDocumentVersions env T d)"
  "op_keeps (books B) (pg_SaveUploadSession env u)" "op_keeps (books B) (pg_GetUploadSession env T i)"
  "op_keeps (books B) (pg_GetShareLinkByToken token)" "op_keeps (books B) (pg_GetLatestUploadedFileForDocument env T d)"
  unfolding pg_UpsertContentItem_def pg_ListContentItems_def pg_SearchContent_def pg_ListDocumentVersions_def pg_SaveUploadSession_def
    pg_GetUploadSession_def pg_GetShareLinkByToken_def pg_GetLatestUploadedFileForDocument_def Let_def
  by (intro op_invs book_frames)+


lemma content_frames' [book_frames]:
  "op_keeps (books B) (pg_SaveDocument env d)" "op_keeps (books B) (pg_ListDocuments env T)"
  unfolding pg_SaveDocument_def pg_ListDocuments_def by (intro op_invs book_frames)+

lemma share_frames [book_frames]:
  "op_keeps (books B) (pg_SaveShareLink env T d token e now)" "op_keeps (books B) (pg_IncrementShareDownload token now)"
  "op_keeps (books B) (pg_DeleteUploadSession env T i)"
proof -
  show "op_keeps (books B) (pg_SaveShareLink env T d token e now)"
    unfolding pg_SaveShareLink_def
    by (intro op_invs book_frames, rule books_leaf) (simp add: pg_put_link_def leaf_simps)
  show "op_keeps (books B) (pg_IncrementShareDownload token now)" "op_keeps (books B) (pg_DeleteUploadSession env T i)"
    unfolding pg_IncrementShareDownload_def pg_DeleteUploadSession_def
    by (intro op_invs book_frames, rule books_leaf, simp add: leaf_simps)+
qed

lemma version_frames [book_frames]:
  "op_keeps (books B) (pg_next_version env T d)" "op_keeps (books B) (pg_insert_version env T v)"
  "op_keeps (books B) (pg_bump_content env T d n)"
  unfolding pg_next_version_def pg_insert_version_def pg_bump_content_def
  by ((intro op_invs book_frames)+, (rule books_leaf, simp add: leaf_simps)?)+

lemma add_version_frame [book_frames]: "op_keeps (books B) (pg_AddDocumentVersion env v)"
  unfolding pg_AddDocumentVersion_def by (intro op_invs book_frames)

subsection \<open>Accounts, sessions and tenants\<close>

lemma user_leaves [book_frames]:
  "op_keeps (books B) (pg_insert_user env T pii user)" "op_keeps (books B) (pg_role_id env T role)"
  "op_keeps (books B) (pg_user_id env T email)" "op_keeps (books B) (pg_grant_role env T u r)"
  "op_keeps (books B) (pg_params used)" "op_keeps (books B) (pg_update_user env T i f)"
  unfolding pg_insert_user_def pg_role_id_def pg_user_id_def pg_grant_role_def pg_params_def pg_update_user_def
  by ((intro op_invs book_frames)+, (rule books_leaf, simp add: leaf_simps)?)+

lemma user_frames [book_frames]:
  "op_keeps (books B) (pg_GetByEmail env T email)" "op_keeps (books B) (pg_CreateUser env vault user)"
  "op_keeps (books B) (pg_IncrementFailedAttempts env T i now)" "op_keeps (books B) (pg_ResetFailedAttempts env T i)"
  unfolding pg_GetByEmail_def pg_CreateUser_def pg_IncrementFailedAttempts_def pg_ResetFailedAttempts_def Let_def
  by (intro op_invs book_frames)+

lemma session_leaves [book_frames]:
  "op_keeps (books B) (pg_insert_session env T revoked x)" "op_keeps (books B) (pg_update_session env T i f)"
  unfolding pg_insert_session_def pg_update_session_def
  by ((intro op_invs book_frames)+, (rule books_leaf, simp add: leaf_simps)?)+

lemma session_frames [book_frames]:
  "op_keeps (books B) (pg_CreateSession env x)" "op_keeps (books B) (pg_Revoke env T i now)"
  "op_keeps (books B) (pg_IsActive env T i now)" "op_keeps (books B) (pg_Rotate env T i x now)"
  unfolding pg_CreateSession_def pg_Revoke_def pg_IsActive_def pg_Rotate_def Let_def
  by (intro op_invs book_frames)+

lemma insert_frame [book_frames]:
  assumes "\<And>i db x db'. f i db = Inr (x, db') \<Longrightarrow> db_bookings db' = db_bookings db"
  shows "op_keeps (books B) (pg_insert env f)"
  unfolding books_def by (rule op_keeps_insert) (use assms in simp_all)

lemma tenant_frames [book_frames]:
  "op_keeps (books B) pg_CountTenants" "op_keeps (books B) (pg_CreateTenant env name slug now)"
proof -
  show "op_keeps (books B) pg_CountTenants" unfolding pg_CountTenants_def by (intro op_invs book_frames)
  show "op_keeps (books B) (pg_CreateTenant env name slug now)"
    unfolding pg_CreateTenant_def
    by (intro op_invs book_frames)
      (auto simp: insert_tenant_def insert_role_def insert_permission_def Let_def split: if_splits)
qed

subsection \<open>Schedules, administration, learners\<close>

lemma time_frames [book_frames]: "op_keeps P (pg_time env x)" "op_keeps P (pg_weekday w)"
  unfolding pg_time_def pg_weekday_def by (intro op_invs)+

lemma schedule_frames [book_frames]:
  "op_keeps (books B) (pg_CreateClassPeriod env p)" "op_keeps (books B) (pg_ListClassPeriods env T)"
  "op_keeps (books B) (pg_UpdateClassPeriod env T p)" "op_keeps (books B) (pg_DeleteClassPeriod env T i)"
  "op_keeps (books B) (pg_CreateBlackoutDate env T d r)" "op_keeps (books B) (pg_ListBlackoutDates env T)"
  "op_keeps (books B) (pg_DeleteBlackoutDate env T i)"
  unfolding pg_CreateClassPeriod_def pg_ListClassPeriods_def pg_UpdateClassPeriod_def pg_DeleteClassPeriod_def
    pg_CreateBlackoutDate_def pg_ListBlackoutDates_def pg_DeleteBlackoutDate_def
  by ((intro op_invs book_frames)+, (rule books_leaf, simp add: leaf_simps pg_insert_period_def pg_insert_blackout_def split: list.split)?)+

lemma conflict_frames [book_frames]:
  "op_keeps (books B) (pg_blackout_count env T t)" "op_keeps (books B) (pg_touching_periods env T a b)"
  "op_keeps (books B) (pg_CheckScheduleConflicts env T a b)"
  unfolding pg_CheckScheduleConflicts_def pg_touching_periods_def pg_blackout_count_def Let_def
  by (intro op_invs book_frames)+

lemma admin_frames [book_frames]:
  "op_keeps (books B) pg_ListTenantsAdmin" "op_keeps (books B) (pg_UpdateTenantPolicies env T p)"
  "op_keeps (books B) pg_ListUsersAdmin" "op_keeps (books B) (pg_ListPermissions env)"
  "op_keeps (books B) (pg_ListRoomsByTenant env T)" "op_keeps (books B) (pg_CreateRoom env T n c)"
  "op_keeps (books B) (pg_UpdateRoom env T i n c)"
  unfolding pg_ListTenantsAdmin_def pg_UpdateTenantPolicies_def pg_ListUsersAdmin_def pg_ListPermissions_def
    pg_ListRoomsByTenant_def pg_CreateRoom_def pg_UpdateRoom_def
  by ((intro op_invs book_frames)+, (rule books_leaf, simp add: leaf_simps split: list.split)?)+

lemma role_frames [book_frames]:
  "op_keeps (books B) (pg_user_tenant i)" "op_keeps (books B) (pg_tenant_role T r)"
  "op_keeps (books B) (pg_revoke_roles T i)" "op_keeps (books B) (pg_assign_role env T i r)"
  unfolding pg_user_tenant_def pg_tenant_role_def pg_revoke_roles_def pg_assign_role_def
  by ((intro op_invs book_frames)+, (rule books_leaf, simp add: leaf_simps)?)+

lemma update_role_frame [book_frames]: "op_keeps (books B) (pg_UpdateUserRole env i r)"
  unfolding pg_UpdateUserRole_def Let_def by (intro op_invs book_frames)

lemma learner_frames [book_frames]:
  "op_keeps (books B) (pg_optional_uuid env x)" "op_keeps (books B) (pg_ListLearnerCatalog env T w)"
  "op_keeps (books B) (pg_ListLearnerReservations env T u)" "op_keeps (books B) (pg_GetApprovedFile env T i)"
proof -
  show "op_keeps (books B) (pg_optional_uuid env x)" for x unfolding pg_optional_uuid_def by (intro op_invs)
  then show "op_keeps (books B) (pg_ListLearnerCatalog env T w)" "op_keeps (books B) (pg_ListLearnerReservations env T u)"
    "op_keeps (books B) (pg_GetApprovedFile env T i)"
    unfolding pg_ListLearnerCatalog_def pg_ListLearnerReservations_def pg_GetApprovedFile_def
    by (intro op_invs book_frames | assumption)+
qed

subsection \<open>Ingestion and the audit trail\<close>

lemma ingestion_leaves [book_frames]:
  "op_keeps (books B) (pg_put_ingestion_session row)" "op_keeps (books B) (pg_put_job t n job)"
  "op_keeps (books B) (pg_put_review env r)"
  by (rule books_leaf, simp add: leaf_simps pg_put_ingestion_session_def pg_put_job_def pg_put_review_def split: list.split prod.split)+

lemma ingestion_frames [book_frames]:
  "op_keeps (books B) (pg_UpsertIngestionSession env x)" "op_keeps (books B) (pg_SaveIngestionJob env T n job)"
  "op_keeps (books B) (pg_EnqueueManualReview env T j r)"
  unfolding pg_UpsertIngestionSession_def pg_SaveIngestionJob_def pg_EnqueueManualReview_def Let_def
  by (intro op_invs book_frames)+

lemma audit_frame [book_frames]: "op_keeps (books B) (pg_WriteAuditTransition env e)"
  unfolding pg_WriteAuditTransition_def by (intro op_invs book_frames, rule books_leaf) (simp add: leaf_simps)

end
