(* ===== verification/Server_Safety.thy ===== *)
theory Server_Safety
  imports Server Booking_Frames
begin

text \<open>
  What holds of the whole server: the guarantees of the booking service survive every request to every route,
  in any order and mixed with the ticks of the worker.
\<close>

subsection \<open>Endpoints that leave the bookings alone\<close>

text \<open>The state that a step ends in.\<close>

definition ends :: "('s \<Rightarrow> bool) \<Rightarrow> 'r \<times> 's \<Rightarrow> bool" where
  "ends P out \<longleftrightarrow> P (snd out)"

named_theorems store_ops \<open>the operations of the PostgreSQL store by their names in the interfaces\<close>
named_theorems ends_rules \<open>what a step ends in, by its form\<close>
named_theorems endpoint_frames \<open>endpoints that leave the bookings alone\<close>

lemma ends_pair [ends_rules]: "P s \<Longrightarrow> ends P (r, s)"
  by (simp add: ends_def)

text \<open>Pairs that are no result of a step: their types tell them apart.\<close>

lemma ends_pure [ends_rules]:
  fixes p :: "string \<times> string" and m :: "nat \<times> string" and t :: "string \<times> string \<times> nat" and c :: "BookingConflict list \<times> AlternativeSlot list \<times> go_error"
  shows "(\<And>a b. p = (a, b) \<Longrightarrow> ends P (f a b)) \<Longrightarrow> ends P (case p of (a, b) \<Rightarrow> f a b)"
    "(\<And>a b. m = (a, b) \<Longrightarrow> ends P (g a b)) \<Longrightarrow> ends P (case m of (a, b) \<Rightarrow> g a b)"
    "(\<And>a b k. c = (a, b, k) \<Longrightarrow> ends P (h' a b k)) \<Longrightarrow> ends P (case c of (a, b, k) \<Rightarrow> h' a b k)"
    "(\<And>a b k. t = (a, b, k) \<Longrightarrow> ends P (h a b k)) \<Longrightarrow> ends P (case t of (a, b, k) \<Rightarrow> h a b k)"
  by (auto split: prod.split)

lemma ends_sum [ends_rules]:
  "(\<And>a. r = Inl a \<Longrightarrow> ends P (f a)) \<Longrightarrow> (\<And>b. r = Inr b \<Longrightarrow> ends P (g b)) \<Longrightarrow> ends P (case r of Inl a \<Rightarrow> f a | Inr b \<Rightarrow> g b)"
  by (cases r) simp_all

lemma ends_option [ends_rules]:
  "(r = None \<Longrightarrow> ends P x) \<Longrightarrow> (\<And>b. r = Some b \<Longrightarrow> ends P (g b)) \<Longrightarrow> ends P (case r of None \<Rightarrow> x | Some b \<Rightarrow> g b)"
  by (cases r) simp_all

lemma ends_if [ends_rules]: "(b \<Longrightarrow> ends P x) \<Longrightarrow> (\<not> b \<Longrightarrow> ends P y) \<Longrightarrow> ends P (if b then x else y)"
  by simp

lemma ends_let [ends_rules]: "(\<And>x. x = a \<Longrightarrow> ends P (f x)) \<Longrightarrow> ends P (let x = a in f x)"
  by simp

lemma ends_step [ends_rules]:
  "P (snd t) \<Longrightarrow> (\<And>r s. P s \<Longrightarrow> ends P (f r s)) \<Longrightarrow> ends P (case t of (r, s) \<Rightarrow> f r s)"
  by (auto split: prod.split)

lemma ends_bool [ends_rules]: "(b \<Longrightarrow> ends P x) \<Longrightarrow> (\<not> b \<Longrightarrow> ends P y) \<Longrightarrow> ends P (case b of True \<Rightarrow> x | False \<Rightarrow> y)"
  by (cases b) simp_all

lemma ends_respond [ends_rules]: "P (snd (m s)) \<Longrightarrow> ends P (respond status reply failed message m s)"
  by (auto simp: respond_def ends_def split: prod.split sum.split)

subsection \<open>The operations of the stores\<close>

lemma pg_TaskStore_ops [store_ops]:
  "ts_UpsertTask (pg_TaskStore env) = pg_UpsertTask env" "ts_GetTask (pg_TaskStore env) = pg_GetTask env"
  "ts_ListTasks (pg_TaskStore env) = pg_ListTasks env" "ts_DeleteTask (pg_TaskStore env) = pg_DeleteTask env"
  by (simp_all add: pg_TaskStore_def)

lemma pg_BookingStore_ops [store_ops]:
  "st_GetBooking (pg_BookingStore env) = pg_GetBooking env" "st_CreateHold (pg_BookingStore env) = pg_CreateHold env"
  "st_Confirm (pg_BookingStore env) = pg_Confirm env" "st_Cancel (pg_BookingStore env) = pg_Cancel env"
  "st_CheckIn (pg_BookingStore env) = pg_CheckIn env" "st_Reschedule (pg_BookingStore env) = pg_Reschedule env"
  "st_ReleaseExpiredHolds (pg_BookingStore env) = pg_ReleaseExpiredHolds" "st_ListBookings (pg_BookingStore env) = pg_ListBookings env"
  "st_ListRooms (pg_BookingStore env) = pg_ListRooms env" "st_ListInstructors (pg_BookingStore env) = pg_ListInstructors env"
  by (simp_all add: pg_BookingStore_def)

lemma pg_ContentStore_ops [store_ops]:
  "cs_UpsertContentItem (pg_ContentStore env) = pg_UpsertContentItem env" "cs_DeleteContentItem (pg_ContentStore env) = pg_DeleteContentItem env"
  "cs_ListContentItems (pg_ContentStore env) = pg_ListContentItems env" "cs_UpsertTag (pg_ContentStore env) = pg_UpsertTag env"
  "cs_DeleteTag (pg_ContentStore env) = pg_DeleteTag env" "cs_ListTags (pg_ContentStore env) = pg_ListTags env"
  "cs_SaveDocument (pg_ContentStore env) = pg_SaveDocument env" "cs_ListDocuments (pg_ContentStore env) = pg_ListDocuments env"
  "cs_AddDocumentVersion (pg_ContentStore env) = pg_AddDocumentVersion env" "cs_ListDocumentVersions (pg_ContentStore env) = pg_ListDocumentVersions env"
  "cs_SaveUploadSession (pg_ContentStore env) = pg_SaveUploadSession env" "cs_GetUploadSession (pg_ContentStore env) = pg_GetUploadSession env"
  "cs_DeleteUploadSession (pg_ContentStore env) = pg_DeleteUploadSession env"
  by (simp_all add: pg_ContentStore_def)

lemma pg_UserStore_ops [store_ops]:
  "ur_GetByEmail (pg_UserStore env) = pg_GetByEmail env" "ur_IncrementFailedAttempts (pg_UserStore env) = pg_IncrementFailedAttempts env"
  "ur_ResetFailedAttempts (pg_UserStore env) = pg_ResetFailedAttempts env"
  by (simp_all add: pg_UserStore_def)

lemma pg_SessionStore_ops [store_ops]:
  "sn_CreateSession (pg_SessionStore env) = pg_CreateSession env" "sn_Revoke (pg_SessionStore env) = pg_Revoke env"
  "sn_IsActive (pg_SessionStore env) = pg_IsActive env" "sn_Rotate (pg_SessionStore env) = pg_Rotate env"
  by (simp_all add: pg_SessionStore_def)

lemma pg_TenantStore_ops [store_ops]:
  "te_CountTenants (pg_TenantStore env) = pg_CountTenants" "te_CreateTenant (pg_TenantStore env) = pg_CreateTenant env"
  by (simp_all add: pg_TenantStore_def)

lemma pg_scheduleStore_ops [store_ops]:
  "ss_CreateClassPeriod (pg_scheduleStore env) = pg_CreateClassPeriod env" "ss_ListClassPeriods (pg_scheduleStore env) = pg_ListClassPeriods env"
  "ss_UpdateClassPeriod (pg_scheduleStore env) = pg_UpdateClassPeriod env" "ss_DeleteClassPeriod (pg_scheduleStore env) = pg_DeleteClassPeriod env"
  "ss_CreateBlackoutDate (pg_scheduleStore env) = pg_CreateBlackoutDate env" "ss_ListBlackoutDates (pg_scheduleStore env) = pg_ListBlackoutDates env"
  "ss_DeleteBlackoutDate (pg_scheduleStore env) = pg_DeleteBlackoutDate env" "ss_CheckScheduleConflicts (pg_scheduleStore env) = pg_CheckScheduleConflicts env"
  by (simp_all add: pg_scheduleStore_def)

lemma pg_shareStore_ops [store_ops]:
  "sh_SaveShareLink (pg_shareStore env) = pg_SaveShareLink env" "sh_GetShareLinkByToken (pg_shareStore env) = pg_GetShareLinkByToken"
  "sh_IncrementShareDownload (pg_shareStore env) = pg_IncrementShareDownload" "sh_GetLatestUploadedFileForDocument (pg_shareStore env) = pg_GetLatestUploadedFileForDocument env"
  by (simp_all add: pg_shareStore_def)

lemma pg_IngestionStore_ops [store_ops]:
  "ig_UpsertIngestionSession (pg_IngestionStore env) = pg_UpsertIngestionSession env" "ig_SaveIngestionJob (pg_IngestionStore env) = pg_SaveIngestionJob env"
  "ig_EnqueueManualReview (pg_IngestionStore env) = pg_EnqueueManualReview env"
  by (simp_all add: pg_IngestionStore_def)


subsection \<open>Tasks\<close>

lemma list_frames [book_frames]:
  "op_keeps (books B) (pg_ListBookings env T)" "op_keeps (books B) (pg_ListRooms env T)" "op_keeps (books B) (pg_ListInstructors env T)"
  "op_keeps (books B) (pg_GetBooking env T i)"
  unfolding pg_ListBookings_def pg_ListRooms_def pg_ListInstructors_def pg_GetBooking_def by (intro op_invs book_frames)+

lemma update_task_frame [book_frames]: "op_keeps (books B) (UpdateTask (NewTaskService (pg_TaskStore env)) t v)"
  unfolding UpdateTask_def NewTaskService_def TaskService.simps store_ops by (intro op_invs book_frames)

lemmas frames_snd = book_frames [THEN op_keepsD]

lemma or_nil_snd [simp]: "snd (or_nil m s) = snd (m s)"
  by (simp add: or_nil_def split: prod.split sum.split)

lemma task_handler_frames [endpoint_frames]:
  assumes "books B s"
  shows "ends (books B) (TaskHandler_Create order (server_tasks se) b rq s)"
    "ends (books B) (TaskHandler_ListByMilestone (server_tasks se) rq s)"
    "ends (books B) (TaskHandler_Update (server_tasks se) b' rq s)"
    "ends (books B) (TaskHandler_Delete (server_tasks se) rq s)"
    "ends (books B) (TaskHandler_AddDependencies order (server_tasks se) b'' rq s)"
  using assms
  unfolding TaskHandler_Create_def TaskHandler_ListByMilestone_def TaskHandler_Update_def TaskHandler_Delete_def
    TaskHandler_AddDependencies_def server_tasks_def
  by (intro ends_rules; simp add: frames_snd store_ops)+


subsection \<open>Schedules, administration, analytics\<close>

lemma schedule_handler_frames [endpoint_frames]:
  assumes "books B s"
  shows "ends (books B) (ScheduleHandler_CreateClassPeriod (server_schedule se) p rq s)"
    "ends (books B) (ScheduleHandler_ListClassPeriods (server_schedule se) rq s)"
    "ends (books B) (ScheduleHandler_UpdateClassPeriod (server_schedule se) p rq s)"
    "ends (books B) (ScheduleHandler_DeleteClassPeriod (server_schedule se) rq s)"
    "ends (books B) (ScheduleHandler_CreateBlackoutDate (server_schedule se) o' rq s)"
    "ends (books B) (ScheduleHandler_ListBlackoutDates (server_schedule se) rq s)"
    "ends (books B) (ScheduleHandler_DeleteBlackoutDate (server_schedule se) rq s)"
    "ends (books B) (ScheduleHandler_CheckConflicts (server_schedule se) c rq s)"
  using assms
  unfolding ScheduleHandler_CreateClassPeriod_def ScheduleHandler_ListClassPeriods_def ScheduleHandler_UpdateClassPeriod_def
    ScheduleHandler_DeleteClassPeriod_def ScheduleHandler_CreateBlackoutDate_def ScheduleHandler_ListBlackoutDates_def
    ScheduleHandler_DeleteBlackoutDate_def ScheduleHandler_CheckConflicts_def server_schedule_def
  by (intro ends_rules; simp add: frames_snd store_ops)+

lemma admin_handler_frames [endpoint_frames]:
  assumes "books B s"
  shows "ends (books B) (AdminHandler_ListTenants rq s)" "ends (books B) (AdminHandler_UpdateTenantPolicies env p rq s)"
    "ends (books B) (AdminHandler_ListUsers rq s)" "ends (books B) (AdminHandler_UpdateUserRole env r rq s)"
    "ends (books B) (AdminHandler_ListPermissions env rq s)" "ends (books B) (AdminHandler_ListRooms env rq s)"
    "ends (books B) (AdminHandler_CreateRoom env room rq s)" "ends (books B) (AdminHandler_UpdateRoom env room rq s)"
  using assms
  unfolding AdminHandler_ListTenants_def AdminHandler_UpdateTenantPolicies_def AdminHandler_ListUsers_def AdminHandler_UpdateUserRole_def
    AdminHandler_ListPermissions_def AdminHandler_ListRooms_def AdminHandler_CreateRoom_def AdminHandler_UpdateRoom_def
  by (intro ends_rules; simp add: frames_snd)+

lemma learner_list_frames [endpoint_frames]:
  assumes "books B s"
  shows "ends (books B) (LearnerHandler_Catalog h rq s)" "ends (books B) (LearnerHandler_MyReservations h rq s)"
  using assms unfolding LearnerHandler_Catalog_def LearnerHandler_MyReservations_def
  by (intro ends_rules; simp add: frames_snd)+

lemma build_frame: "op_keeps (books B) (DashboardService_Build (NewDashboardService (pg_BookingStore env)) T role now)"
  unfolding DashboardService_Build_def NewDashboardService_def DashboardService.simps store_ops Let_def by (intro op_invs book_frames)

lemma events_frame: "books B s \<Longrightarrow> books B (snd (eventsForTenant (server_analytics se) rq s))"
  by (simp add: eventsForTenant_def server_analytics_def store_ops split: option.split prod.split sum.split)
    (metis frames_snd snd_conv)

lemma reading_handler_frames [endpoint_frames]:
  assumes "books B s"
  shows "ends (books B) (DashboardHandler_Get err_Error (NewDashboardService (pg_BookingStore (se_pg se))) rq s)"
    "ends (books B) (AnalyticsHandler_Cohorts order (server_analytics se) rq s)"
    "ends (books B) (AnalyticsHandler_Anomalies (server_analytics se) rq s)"
  using assms unfolding DashboardHandler_Get_def AnalyticsHandler_Cohorts_def AnalyticsHandler_Anomalies_def
  by (intro ends_rules; simp add: op_keepsD [OF build_frame] events_frame)+


subsection \<open>Accounts and setup\<close>

definition booksF :: "Booking list \<Rightarrow> pg_state \<times> 'x \<Rightarrow> bool" where
  "booksF B st = books B (fst st)"

lemma zoomed_snd [simp]:
  "snd (on_store m st) = (snd (m (fst st)), snd st)" "snd (on_content c std) = (snd (c (fst std)), snd std)"
  "snd (on_disk d stx) = (fst stx, snd (d (snd stx)))" "snd (on_books k stb) = (snd (k (fst stb)), snd stb)"
  "snd (on_reports w stb) = (fst stb, snd (w (snd stb)))"
  by (simp_all add: on_store_def on_content_def on_disk_def on_books_def on_reports_def split: prod.split)

lemmas setup_simps = server_setup_def pg_setup_def NewSetupService_def pg_auth_def NewAuthService_def SetupService.simps AuthService.simps
  UserCreator.simps pg_UserCreator_def store_ops option.case

lemma ignore_frame: "op_keeps P m \<Longrightarrow> P s \<Longrightarrow> P (op_ignore m s)"
  by (simp add: op_ignore_def op_keepsD)

lemma setup_frames [book_frames]:
  "op_keeps (books B) (AuthService_Register uni bc salt (su_Auth (server_setup se)) user password now)"
  "op_keeps (books B) (AuthService_CreateSession (su_Auth (server_setup se)) uuid user now)"
  "op_keeps (books B) (NeedsSetup (server_setup se))"
  unfolding AuthService_Register_def AuthService_CreateSession_def NeedsSetup_def user_exists_def Let_def setup_simps
  by (intro op_invs book_frames)+

lemma authenticate_frame [book_frames]:
  "op_keeps (books B) (Authenticate bc (su_Auth (server_setup se)) T email password now)"
  unfolding Authenticate_def setup_simps
  by (intro op_invs book_frames; rule op_keepsI, simp add: op_ignore_def user_frames [THEN op_keepsD])

lemma bootstrap_frame [book_frames]:
  "op_keeps (books B) (BootstrapTenant uni bc salt (server_setup se) a b c d e now)"
proof -
  have *: "op_keeps (books B) (te_CreateTenant (su_Tenants (server_setup se)) n g now)" for n g
    unfolding setup_simps by (intro book_frames)
  show ?thesis unfolding BootstrapTenant_def Let_def by (intro op_invs * book_frames)
qed

lemmas account_frames = setup_frames [THEN op_keepsD] authenticate_frame [THEN op_keepsD] bootstrap_frame [THEN op_keepsD]

lemma setup_handler_frames [endpoint_frames]:
  assumes "booksF B st"
  shows "ends (booksF B) (SetupHandler_Status (server_setup se) rq st)"
    "ends (booksF B) (SetupHandler_BootstrapTenant ae (server_setup se) body rq st)"
    "ends (booksF B) (AuthHandler_Session rq st)"
  using assms unfolding SetupHandler_Status_def SetupHandler_BootstrapTenant_def AuthHandler_Session_def
  by (intro ends_rules; simp add: booksF_def account_frames)+


lemma tenants_frame: "books B s \<Longrightarrow> books B (snd (te_CreateTenant (su_Tenants (server_setup se)) n g now s))"
  unfolding setup_simps by (rule frames_snd)

lemma server_auth_sel [simp]: "ah_Auth (server_auth cfg se) = su_Auth (server_setup se)" "ah_Setup (server_auth cfg se) = Some (server_setup se)"
  "as_Sessions (su_Auth (server_setup se)) = Some (pg_SessionStore (se_pg se))"
  by (simp_all add: server_auth_def setup_simps)

lemma register_tenant_frame: "booksF B st \<Longrightarrow> booksF B (snd (register_tenant (server_auth cfg se) rq req st))"
proof -
  assume st: "booksF B st"
  have "ends (booksF B) (register_tenant (server_auth cfg se) rq req st)"
    unfolding register_tenant_def
    by (intro ends_rules; auto simp: booksF_def account_frames tenants_frame st [unfolded booksF_def] split: if_splits)
  then show ?thesis by (simp add: ends_def)
qed

lemma account_handler_frames [endpoint_frames]:
  assumes "booksF B st"
  shows "ends (booksF B) (AuthHandler_Register ae (server_auth cfg se) body rq st)"
    "ends (booksF B) (AuthHandler_Login ae (server_auth cfg se) body' rq st)"
    "ends (booksF B) (AuthHandler_Logout (server_auth cfg se) rq st)"
proof -
  show "ends (booksF B) (AuthHandler_Register ae (server_auth cfg se) body rq st)"
    using assms unfolding AuthHandler_Register_def
    by (intro ends_rules; simp add: booksF_def account_frames register_tenant_frame [unfolded booksF_def])
  show "ends (booksF B) (AuthHandler_Login ae (server_auth cfg se) body' rq st)"
    using assms unfolding AuthHandler_Login_def login_user_def answer_def
    by (intro ends_rules; simp add: booksF_def account_frames)
  show "ends (booksF B) (AuthHandler_Logout (server_auth cfg se) rq st)"
    using assms unfolding AuthHandler_Logout_def answer_def
    by (intro ends_rules; simp add: booksF_def op_ignore_def store_ops frames_snd)
qed


subsection \<open>Content\<close>

lemma server_content_sel [simp]:
  "cv_Store (ch_Content (server_content cfg se)) = pg_ContentStore (se_pg se)"
  "ch_Searcher (server_content cfg se) = Some (pg_SearchContent (se_pg se))" "ch_Share (server_content cfg se) = Some (pg_shareStore (se_pg se))"
  by (simp_all add: server_content_def pg_ContentHandler_def NewContentService_def)

lemma upload_frames:
  "op_keeps (books B) (ensureContentOwnership (server_content cfg se) rq d)"
  "op_keeps (books B) (SaveContentItem (ch_Content (server_content cfg se)) item)"
  "op_keeps (books B) (StartUpload (ch_Content (server_content cfg se)) u now)"
  "op_keeps (books B) (AppendChunk dg (ch_Content (server_content cfg se)) T i k chunk checksum now)"
  unfolding ensureContentOwnership_def SaveContentItem_def StartUpload_def AppendChunk_def server_content_sel store_ops Let_def
  by (intro op_invs book_frames)+

lemma create_ownership_frame: "op_keeps (books B) (ensureOrCreateContentOwnership (server_content cfg se) rq d n)"
  unfolding ensureOrCreateContentOwnership_def by (intro op_invs book_frames upload_frames)

lemma on_content_keeps: "op_keeps (books B) m \<Longrightarrow> op_keeps (booksF B) (on_content m)"
  "op_keeps (booksF B) (on_disk d)"
  by (auto simp: op_keeps_def booksF_def)

lemma finalize_frame: "op_keeps (booksF B) (FinalizeUpload dg (ch_Content (server_content cfg se)) T i now)"
  unfolding FinalizeUpload_def server_content_sel store_ops Let_def by (intro op_invs book_frames on_content_keeps)

lemmas upload_frames_snd = upload_frames [THEN op_keepsD] create_ownership_frame [THEN op_keepsD]
  finalize_frame [THEN op_keepsD, unfolded booksF_def]

lemma content_handler_frames [endpoint_frames]:
  assumes "booksF B st"
  shows "ends (booksF B) (ContentHandler_StartUpload (server_content cfg se) b rq st)"
    "ends (booksF B) (ContentHandler_AppendChunk dg (server_content cfg se) b1 rq st)"
    "ends (booksF B) (ContentHandler_FinalizeUpload dg (server_content cfg se) b2 rq st)"
    "ends (booksF B) (ContentHandler_Search (server_content cfg se) rq st)"
    "ends (booksF B) (ContentHandler_Versions (server_content cfg se) rq st)"
    "ends (booksF B) (ContentHandler_GenerateShare dg (server_content cfg se) b3 rq st)"
    "ends (booksF B) (ContentHandler_DownloadShared dg (server_content cfg se) rq st)"
  using assms
  unfolding ContentHandler_StartUpload_def ContentHandler_AppendChunk_def ContentHandler_FinalizeUpload_def ContentHandler_Search_def
    ContentHandler_Versions_def ContentHandler_GenerateShare_def ContentHandler_DownloadShared_def server_content_sel option.case
  by (intro ends_rules; simp add: booksF_def upload_frames_snd store_ops frames_snd op_ignore_def)+

subsection \<open>Reports, learners, ingestion\<close>

lemma report_handler_frames [endpoint_frames]:
  assumes "booksF B st"
  shows "ends (booksF B) (ReportingHandler_BookingsCSV (server_reporting se) rq st)"
    "ends (booksF B) (ReportingHandler_CompliancePDF (server_reporting se) rq st)"
    "ends (booksF B) (ReportingHandler_Download (server_reporting se) rq st)"
  using assms unfolding ReportingHandler_BookingsCSV_def ReportingHandler_CompliancePDF_def ReportingHandler_Download_def server_reporting_def
  by (intro ends_rules; simp add: booksF_def store_ops frames_snd)+

lemma record_frame:
  "booksF B st \<Longrightarrow> booksF B (RecordTransition (server_audit se) a et i T old new md now st)"
  by (simp add: RecordTransition_def Let_def booksF_def server_audit_def op_ignore_def frames_snd)

lemma download_frame [endpoint_frames]:
  "books B (fst (fst st)) \<Longrightarrow> ends (\<lambda>st. books B (fst (fst st))) (LearnerHandler_DownloadApproved (server_learner se) rq st)"
  unfolding LearnerHandler_DownloadApproved_def server_learner_def
  by (intro ends_rules; simp add: frames_snd record_frame [unfolded booksF_def])

lemma record_job_frame: "op_keeps (books B) (record_job (pg_IngestionStore env) n T u url job k body now)"
  unfolding record_job_def store_ops by (intro op_invs book_frames)

lemma allow_snd: "\<exists>b'. snd (on_bot (allowRequest T now) st) = (b', snd st) \<and> ib_Store b' = ib_Store (fst st)"
  by (auto simp: on_bot_def allowRequest_def Let_def split: prod.split)

lemma on_jobs_snd: "snd (on_jobs m st) = (fst st, snd (m (snd st)))"
  by (simp add: on_jobs_def split: prod.split)

lemma run_persistent_frame:
  assumes "books B (snd st)" "ib_Store (fst st) = Some (pg_IngestionStore env)"
  shows "books B (snd (snd (RunPersistent uuid T u url body now st)))"
proof -
  obtain r st1 where a: "on_bot (allowRequest T now) st = (r, st1)" by (cases "on_bot (allowRequest T now) st")
  with allow_snd [of T now st] have s: "snd st1 = snd st" by auto
  obtain job b where p: "PrepareJob (uuid 0) url now (fst st1) = (job, b)" by fastforce
  show ?thesis
    using assms s op_keepsD [OF record_job_frame, of B "snd st"]
    by (cases r) (simp_all add: RunPersistent_def op_bind_def a p on_jobs_snd)
qed

lemma ingestion_frame [endpoint_frames]:
  assumes "books B (snd st)" "ib_Store (fst st) = Some (pg_IngestionStore env)"
  shows "ends (\<lambda>st. books B (snd st)) (IngestionHandler_Run uuid body rq st)"
  unfolding IngestionHandler_Run_def
  by (intro ends_rules; simp add: assms run_persistent_frame [OF assms])


subsection \<open>What the bookings of the server satisfy\<close>

text \<open>
  The invariant of the table, no double booking from the instant \<open>t\<close> on, and no booking moved more than twice.
\<close>

definition safe :: "(string \<Rightarrow> string option) \<Rightarrow> go_time \<Rightarrow> pg_state \<Rightarrow> bool" where
  "safe u t s \<longleftrightarrow> pg_inv u s \<and> no_double_booking t (pg_rows s) \<and> reschedules_capped (pg_rows s)"

definition safeF :: "(string \<Rightarrow> string option) \<Rightarrow> go_time \<Rightarrow> pg_state \<times> 'x \<Rightarrow> bool" where
  "safeF u t st = safe u t (fst st)"

lemma safe_later: "safe u t s \<Longrightarrow> t \<le> t' \<Longrightarrow> safe u t' s"
  by (auto simp: safe_def intro: no_double_booking_later)

lemma safe_books: "safe u t s \<Longrightarrow> books (db_bookings (pg_db s)) s' \<Longrightarrow> safe u t s'"
  by (simp add: safe_def books_iff pg_inv_def db_inv_def pg_rows_def)

lemma safe_frame: "(\<And>B. op_keeps (books B) m) \<Longrightarrow> safe u t s \<Longrightarrow> safe u t (snd (m s))"
  by (rule safe_books, assumption, rule op_keepsD, assumption) (simp add: books_iff)

lemma safe_call:
  assumes "postgres_types env" "uuid_in env = u" "safe u now s" "case c of CallHold b \<Rightarrow> pg_proper env b | _ \<Rightarrow> True"
  shows "safe u now (booking_step (NewBookingService (pg_BookingStore env)) now c s)"
  using assms pg_step_inv pg_step_free pg_step_capped unfolding safe_def by blast

lemma safe_service:
  assumes "postgres_types env" "uuid_in env = u" "safe u now s"
  defines "svc \<equiv> NewBookingService (pg_BookingStore env)"
  shows "pg_proper env b \<Longrightarrow> safe u now (snd (BookingService_Hold svc b now s))"
    "safe u now (snd (BookingService_Confirm svc T i now s))" "safe u now (snd (BookingService_Cancel svc T i now s))"
    "safe u now (snd (BookingService_CheckIn svc T i now s))" "safe u now (snd (BookingService_Reschedule svc T i st en now s))"
    "safe u now (snd (BookingService_ReleaseExpiredHolds svc now s))"
  using safe_call [OF assms(1-3), of "CallHold b"] safe_call [OF assms(1-3), of "CallConfirm T i"]
    safe_call [OF assms(1-3), of "CallCancel T i"] safe_call [OF assms(1-3), of "CallCheckIn T i"]
    safe_call [OF assms(1-3), of "CallReschedule T i st en"] safe_call [OF assms(1-3), of CallRelease]
  unfolding svc_def by (simp_all add: booking_step_def)

lemma safe_record: "safeF u t st \<Longrightarrow> safeF u t (RecordTransition (server_audit se) a et i T old new md now st)"
  unfolding safeF_def using record_frame [of _ st]
  by (metis booksF_def books_iff safe_books)

lemma safe_transition:
  assumes "\<And>s. safe u t s \<Longrightarrow> safe u t (snd (act s))" "safeF u t st"
  shows "ends (safeF u t) (transition (server_bookings se) rq T i act refused action new md reply st)"
  using assms(2) unfolding transition_def server_bookings_def
  by (intro ends_rules; simp add: safeF_def assms(1) store_ops safe_frame [OF list_frames(4)] safe_record [unfolded safeF_def])

lemma booking_handlers_safe:
  assumes env: "postgres_types (se_pg se)" "uuid_in (se_pg se) = u" and st: "safeF u (rq_clock rq 0) st"
  shows "(case body of None \<Rightarrow> True | Some req \<Rightarrow> u (bq_RoomID req) = Some (bq_RoomID req) \<and> u (bq_InstructorID req) = Some (bq_InstructorID req)) \<Longrightarrow>
      ends (safeF u (rq_clock rq 0)) (BookingHandler_Hold (server_bookings se) body rq st)"
    "ends (safeF u (rq_clock rq 0)) (BookingHandler_Confirm (server_bookings se) body rq st)"
    "ends (safeF u (rq_clock rq 0)) (BookingHandler_Cancel (server_bookings se) body rq st)"
    "ends (safeF u (rq_clock rq 0)) (BookingHandler_Reschedule (server_bookings se) body' rq st)"
    "ends (safeF u (rq_clock rq 0)) (BookingHandler_CheckIn (server_bookings se) rq st)"
    "ends (safeF u (rq_clock rq 0)) (BookingHandler_ListRooms (server_bookings se) rq st)"
    "ends (safeF u (rq_clock rq 0)) (BookingHandler_ListInstructors (server_bookings se) rq st)"
proof -
  have svc: "bh_Bookings (server_bookings se) = NewBookingService (pg_BookingStore (se_pg se))" "bh_Audit (server_bookings se) = server_audit se"
    by (simp_all add: server_bookings_def)
  note service = safe_service [OF env]
  show "ends (safeF u (rq_clock rq 0)) (BookingHandler_Confirm (server_bookings se) body rq st)"
    using st unfolding BookingHandler_Confirm_def svc by (intro ends_rules safe_transition service)
  show "ends (safeF u (rq_clock rq 0)) (BookingHandler_Cancel (server_bookings se) body rq st)"
    using st unfolding BookingHandler_Cancel_def svc by (intro ends_rules safe_transition service)
  show "ends (safeF u (rq_clock rq 0)) (BookingHandler_Reschedule (server_bookings se) body' rq st)"
    using st unfolding BookingHandler_Reschedule_def svc by (intro ends_rules safe_transition service)
  show "ends (safeF u (rq_clock rq 0)) (BookingHandler_CheckIn (server_bookings se) rq st)"
    using st unfolding BookingHandler_CheckIn_def svc by (intro ends_rules safe_transition service)
  show "ends (safeF u (rq_clock rq 0)) (BookingHandler_ListRooms (server_bookings se) rq st)"
    "ends (safeF u (rq_clock rq 0)) (BookingHandler_ListInstructors (server_bookings se) rq st)"
    using st unfolding BookingHandler_ListRooms_def BookingHandler_ListInstructors_def svc
    by (intro ends_rules; simp add: safeF_def store_ops safe_frame [OF list_frames(2)] safe_frame [OF list_frames(3)])+
  assume "case body of None \<Rightarrow> True | Some req \<Rightarrow> u (bq_RoomID req) = Some (bq_RoomID req) \<and> u (bq_InstructorID req) = Some (bq_InstructorID req)"
  then show "ends (safeF u (rq_clock rq 0)) (BookingHandler_Hold (server_bookings se) body rq st)"
    using st env(2) unfolding BookingHandler_Hold_def svc
    by (intro ends_rules; simp add: safeF_def pg_proper_def service safe_record [unfolded safeF_def])
qed


subsection \<open>Seats\<close>

text \<open>Taking a seat changes nothing of a booking that matters for its slot.\<close>

definition slot_map :: "(Booking \<Rightarrow> Booking) \<Rightarrow> bool" where
  "slot_map g \<longleftrightarrow> (\<forall>t b. blocking t (g b) = blocking t b) \<and> (\<forall>a b. clash (g a) (g b) = clash a b) \<and>
     (\<forall>b. bk_RescheduleCount (g b) = bk_RescheduleCount b)"

lemma slot_map_image:
  assumes "slot_map g" "no_double_booking t R" "reschedules_capped R"
  shows "no_double_booking t (g ` R)" "reschedules_capped (g ` R)"
proof -
  show "no_double_booking t (g ` R)"
    unfolding no_double_booking_def
  proof (intro ballI impI, elim imageE)
    fix a b x y assume "a \<noteq> b" "blocking t a" "blocking t b" "a = g x" "x \<in> R" "b = g y" "y \<in> R"
    moreover from this assms(1) have "blocking t x" "blocking t y" "x \<noteq> y" "clash a b = clash x y" unfolding slot_map_def by auto
    ultimately show "\<not> clash a b" using no_double_bookingD [OF assms(2)] by blast
  qed
  show "reschedules_capped (g ` R)" using assms(1,3) by (simp add: reschedules_capped_def slot_map_def)
qed

lemma pg_rows_set: "pg_rows (set_bookings f s) = set (f (db_bookings (pg_db s)))"
  by (simp add: pg_rows_def set_bookings_def)

lemma update_safe:
  assumes "safe u t s" "row_map_ok f" "slot_map (\<lambda>b. if P b then f b else b)"
  shows "safe u t (snd (pg_update_bookings P f s))"
proof -
  define g where "g = (\<lambda>b. if P b then f b else b)"
  obtain r s' where r: "pg_update_bookings P f s = (r, s')" by fastforce
  have inv: "pg_inv u s'" by (rule pg_update_inv [OF _ assms(2) r]) (use assms(1) in \<open>simp add: safe_def\<close>)
  have "pg_rows s' = pg_rows s \<or> pg_rows s' = g ` pg_rows s"
  proof (cases "list_all (\<lambda>b. booking_row_ok (f b)) (filter P (db_bookings (pg_db s)))")
    case True
    with r have s': "s' = set_bookings (map g) s" by (simp add: pg_update_bookings_def g_def)
    show ?thesis unfolding s' pg_rows_set set_map by (simp add: pg_rows_def)
  qed (use r in \<open>simp add: pg_update_bookings_def\<close>)
  moreover have "slot_map g" using assms(3) by (simp add: g_def)
  moreover have "no_double_booking t (pg_rows s)" "reschedules_capped (pg_rows s)" using assms(1) by (simp_all add: safe_def)
  ultimately have "no_double_booking t (pg_rows s') \<and> reschedules_capped (pg_rows s')"
    using slot_map_image [of g t "pg_rows s"] by fastforce
  with inv r show ?thesis by (simp add: safe_def)
qed

lemma seat_safe:
  assumes "safe u t s"
  shows "safe u t (snd (pg_update_bookings P (\<lambda>b. b\<lparr>bk_Attendees := bk_Attendees b + 1, bk_UpdatedAt := pg_ts now,
    bk_Version := bk_Version b + 1\<rparr>) s))"
  by (rule update_safe [OF assms]) (simp_all add: row_map_ok_def slot_map_def blocking_def clash_def)

lemma safe_faults [simp]: "safe u t (s\<lparr>pg_faults := fs\<rparr>) \<longleftrightarrow> safe u t s"
  by (simp add: safe_def pg_inv_def pg_rows_def)

lemma safe_tx: "op_keeps (safe u t) body \<Longrightarrow> op_keeps (safe u t) (pg_tx wrap body)"
  using pg_only_tx [of "\<lambda>db n. db_inv u db \<and> no_double_booking t (set (db_bookings db)) \<and> reschedules_capped (set (db_bookings db))" body wrap]
  unfolding safe_def [abs_def] pg_inv_def pg_rows_def pg_only_def [abs_def] by simp

lemma insert_reservation_frame: "op_keeps (books B) (pg_insert_reservation env T i u now)"
  unfolding pg_insert_reservation_def
  by (intro op_invs book_frames, rule books_leaf) (simp add: leaf_simps)

lemma seat_frames:
  "op_keeps (books B) (pg_seats env T i)" "op_keeps (books B) (pg_read_reservation env T i u)"
  unfolding pg_seats_def pg_read_reservation_def by (intro op_invs book_frames)+

lemma safe_keeps: "(\<And>B. op_keeps (books B) m) \<Longrightarrow> op_keeps (safe u t) m"
  by (rule op_keepsI) (rule safe_frame)

lemma reserve_safe: "op_keeps (safe u t) (pg_ReserveLearnerSeat env T i w now)"
proof -
  have seat: "op_keeps (safe u t) (pg_take_seat env U i now)" for U
    unfolding pg_take_seat_def
    by (intro op_keeps_stmt safe_faults op_invs) (rule op_keepsI, erule seat_safe)
  note frames = safe_keeps [OF books_resolve] safe_keeps [OF seat_frames(1)] safe_keeps [OF seat_frames(2)] safe_keeps [OF insert_reservation_frame]
  show ?thesis
    unfolding pg_ReserveLearnerSeat_def by (intro op_keeps_bind safe_tx op_keeps_prod op_keeps_if op_keeps_fail frames seat)
qed

lemma reserve_handler_safe: "safeF u t st \<Longrightarrow> ends (safeF u t) (LearnerHandler_Reserve (server_learner se) body rq st)"
  unfolding LearnerHandler_Reserve_def server_learner_def
  by (intro ends_rules; simp add: safeF_def op_keepsD [OF reserve_safe] safe_record [unfolded safeF_def])

subsection \<open>The worker\<close>

lemma record_expired_safe: "safeF u t st \<Longrightarrow> safeF u t (record_expired (server_audit se) now bs st)"
  by (induction bs arbitrary: st) (simp_all add: safe_record)

lemma expire_same: "snd (pg_ExpireHeldBookings now s) = snd (BookingService_ReleaseExpiredHolds (NewBookingService (pg_BookingStore env)) now s)"
  by (simp add: pg_ExpireHeldBookings_def BookingService_ReleaseExpiredHolds_def store_ops pg_ReleaseExpiredHolds_def op_bind_def op_return_def
      split: prod.split sum.split)

lemma run_once_safe:
  assumes "postgres_types (se_pg se)" "uuid_in (se_pg se) = u" "safeF u now st"
  shows "safeF u now (runOnce pg_ExpireHeldBookings (server_audit se) now st)"
proof -
  obtain r s where r: "pg_ExpireHeldBookings now (fst st) = (r, s)" by fastforce
  have "safe u now (snd (pg_ExpireHeldBookings now (fst st)))"
    unfolding expire_same [of now "fst st" "se_pg se"] by (rule safe_service(6)) (use assms in \<open>simp_all add: safeF_def\<close>)
  with r have "safeF u now (s, snd st)" by (simp add: safeF_def)
  with r show ?thesis by (cases r) (simp_all add: runOnce_def record_expired_safe)
qed


subsection \<open>Every handler\<close>

definition sv_safe :: "(string \<Rightarrow> string option) \<Rightarrow> go_time \<Rightarrow> server audited \<Rightarrow> bool" where
  "sv_safe u t st = safe u t (sv_pg (fst st))"

definition ep_safe :: "(string \<Rightarrow> string option) \<Rightarrow> go_time \<Rightarrow> go_time \<Rightarrow> server_endpoint \<Rightarrow> bool" where
  "ep_safe u lo hi ep \<longleftrightarrow> (\<forall>rq st. (\<forall>k. lo \<le> rq_clock rq k \<and> rq_clock rq k \<le> hi) \<longrightarrow> sv_safe u lo st \<longrightarrow> sv_safe u hi (snd (ep rq st)))"

lemma shown_snd [simp]: "snd (shown f r) = snd r" "snd (shown_cookies f c) = snd c"
  by (simp_all add: shown_def shown_cookies_def split: prod.split)

lemma zoom_snd: "snd (zoom get put f st) = put (snd (f (get st))) st"
  by (simp add: zoom_def split: prod.split)

text \<open>A part that leaves the bookings alone.\<close>

lemma zoom_frames:
  assumes "sv_safe u t st"
  shows "(\<And>B. books B (sv_pg (fst st)) \<Longrightarrow> ends (books B) (f (sv_pg (fst st)))) \<Longrightarrow> sv_safe u t (snd (at_pg f st))"
    "(\<And>B. booksF B (sv_pg (fst st), snd st) \<Longrightarrow> ends (booksF B) (g (sv_pg (fst st), snd st))) \<Longrightarrow> sv_safe u t (snd (at_audited g st))"
    "(\<And>B. booksF B (sv_pg (fst st), sv_disk (fst st)) \<Longrightarrow> ends (booksF B) (h (sv_pg (fst st), sv_disk (fst st)))) \<Longrightarrow>
      sv_safe u t (snd (at_disk h st))"
    "(\<And>B. booksF B (sv_pg (fst st), (sv_reports (fst st), sv_disk (fst st))) \<Longrightarrow>
       ends (booksF B) (k (sv_pg (fst st), (sv_reports (fst st), sv_disk (fst st))))) \<Longrightarrow> sv_safe u t (snd (at_books k st))"
    "(\<And>B. books B (sv_pg (fst st)) \<Longrightarrow> ends (\<lambda>st. books B (fst (fst st))) (l ((sv_pg (fst st), snd st), sv_disk (fst st)))) \<Longrightarrow>
      sv_safe u t (snd (at_audited_disk l st))"
    "(\<And>B. books B (sv_pg (fst st)) \<Longrightarrow>
       ends (\<lambda>st. books B (snd st)) (m ((sv_bot (fst st))\<lparr>ib_Store := Some (pg_IngestionStore env)\<rparr>, sv_pg (fst st)))) \<Longrightarrow>
      sv_safe u t (snd (at_bot env m st))"
  using assms unfolding sv_safe_def at_pg_def at_audited_def at_disk_def at_books_def at_audited_disk_def at_bot_def zoom_snd
  by (auto simp: put_pg_def put_disk_def ends_def booksF_def books_iff split: prod.split intro: safe_books)

lemma zoom_safe:
  assumes "safeF u t (sv_pg (fst st), snd st) \<Longrightarrow> ends (safeF u t) (g (sv_pg (fst st), snd st))" "sv_safe u t st"
  shows "sv_safe u t (snd (at_audited g st))"
  using assms unfolding sv_safe_def at_audited_def zoom_snd by (auto simp: ends_def safeF_def split: prod.split)

lemma ep_safeI:
  assumes "\<And>rq st. sv_safe u (rq_clock rq 0) st \<Longrightarrow> sv_safe u (rq_clock rq 0) (snd (ep rq st))"
  shows "ep_safe u lo hi ep"
  using assms unfolding ep_safe_def sv_safe_def by (metis safe_later)

text \<open>The handlers other than those of bookings.\<close>

lemma handlers_frame:
  "\<forall>(n, ep)\<in>set (probe_handlers cfg). ep_safe u lo hi ep"
  "\<forall>(n, ep)\<in>set (auth_handlers cfg se b). ep_safe u lo hi ep"
  "\<forall>(n, ep)\<in>set (schedule_handlers se b). ep_safe u lo hi ep"
  "\<forall>(n, ep)\<in>set (content_handlers cfg se b). ep_safe u lo hi ep"
  "\<forall>(n, ep)\<in>set (admin_handlers se b). ep_safe u lo hi ep"
  "\<forall>(n, ep)\<in>set (other_handlers se b). ep_safe u lo hi ep"
  unfolding probe_handlers_def auth_handlers_def schedule_handlers_def content_handlers_def admin_handlers_def other_handlers_def Let_def
    list.set ball_simps prod.case
  by (intro conjI ep_safeI TrueI; simp add: zoom_frames endpoint_frames)+


lemma learner_handlers_safe: "\<forall>(n, ep)\<in>set (learner_handlers se b). ep_safe u lo hi ep"
  unfolding learner_handlers_def list.set ball_simps prod.case
  by (intro conjI ep_safeI TrueI; simp add: zoom_frames endpoint_frames zoom_safe reserve_handler_safe)

definition hold_proper :: "(string \<Rightarrow> string option) \<Rightarrow> bodies \<Rightarrow> bool" where
  "hold_proper u b \<longleftrightarrow> (case bd_booking b of None \<Rightarrow> True | Some req \<Rightarrow> u (bq_RoomID req) = Some (bq_RoomID req) \<and>
     u (bq_InstructorID req) = Some (bq_InstructorID req))"

lemma booking_list_safe:
  assumes "postgres_types (se_pg se)" "uuid_in (se_pg se) = u" "hold_proper u b"
  shows "\<forall>(n, ep)\<in>set (booking_handlers se b). ep_safe u lo hi ep"
  unfolding booking_handlers_def list.set ball_simps prod.case
  by (intro conjI ep_safeI TrueI; unfold shown_snd; rule zoom_safe, rule booking_handlers_safe [OF assms(1,2)])
    (use assms(3) in \<open>simp_all add: hold_proper_def\<close>)

lemma server_handlers_safe:
  assumes "postgres_types (se_pg se)" "uuid_in (se_pg se) = u" "hold_proper u b"
  shows "\<forall>(n, ep)\<in>set (server_handlers cfg se b). ep_safe u lo hi ep"
  unfolding server_handlers_def set_append ball_Un
  by (intro conjI handlers_frame learner_handlers_safe booking_list_safe [OF assms])

lemma server_impl_safe:
  assumes "postgres_types (se_pg se)" "uuid_in (se_pg se) = u" "hold_proper u b"
  shows "ep_safe u lo hi (server_impl cfg se b name)"
proof (cases "map_of (server_handlers cfg se b) name")
  case None
  then show ?thesis by (simp add: server_impl_def) (rule ep_safeI, simp add: answer_def)
next
  case (Some ep)
  then have "(name, ep) \<in> set (server_handlers cfg se b)" by (rule map_of_SomeD)
  from bspec [OF server_handlers_safe [OF assms] this] Some show ?thesis by (simp add: server_impl_def)
qed

subsection \<open>The chain and the routes\<close>

lemma ep_safeD:
  "ep_safe u lo hi ep \<Longrightarrow> (\<And>k. lo \<le> rq_clock rq k \<and> rq_clock rq k \<le> hi) \<Longrightarrow> sv_safe u lo st \<Longrightarrow> sv_safe u hi (snd (ep rq st))"
  unfolding ep_safe_def by blast

lemma ep_safe_intro:
  "(\<And>rq st. (\<And>k. lo \<le> rq_clock rq k \<and> rq_clock rq k \<le> hi) \<Longrightarrow> sv_safe u lo st \<Longrightarrow> sv_safe u hi (snd (ep rq st))) \<Longrightarrow> ep_safe u lo hi ep"
  by (simp add: ep_safe_def)

lemma answer_safe: "lo \<le> hi \<Longrightarrow> sv_safe u lo st \<Longrightarrow> sv_safe u hi (snd (answer code msg st))"
  by (auto simp: answer_def sv_safe_def intro: safe_later)

lemma clocks [simp]: "rq_clock (tick n rq) k = rq_clock rq (k + n)" "rq_clock (identified c rq) k = rq_clock rq k"
  "rq_clock (tenant_WithID t rq) k = rq_clock rq k" "rq_clock (AuditContext now rq) k = rq_clock rq k"
  by (simp_all add: tick_def identified_def set_header_def tenant_WithID_def AuditContext_def)

lemma middleware_safe:
  assumes "ep_safe u lo hi ep" "lo \<le> hi"
  shows "ep_safe u lo hi (TenantContext ep)" "ep_safe u lo hi (AuditContext_mw ep)" "ep_safe u lo hi (RequireRole roles ep)"
  using assms answer_safe
  by (auto intro!: ep_safe_intro simp: TenantContext_def AuditContext_mw_def RequireRole_def Let_def elim!: ep_safeD)

lemma active_safe: "sv_safe u t st \<Longrightarrow> sv_safe u t (snd (on_store (sn_IsActive (server_sessions se) T i now) st))"
  by (auto simp: sv_safe_def server_sessions_def on_pg_def zoom_snd store_ops intro: safe_frame session_frames)

lemma add_cookies_snd [simp]: "snd (add_cookies cs r) = snd r"
  by (simp add: add_cookies_def split: prod.split)

lemma guard_safe:
  assumes "ep_safe u lo hi ep" "lo \<le> hi"
  shows "ep_safe u lo hi (AuthGuard lib key (Some (server_sessions se)) public ep)"
proof (rule ep_safe_intro)
  fix rq :: http_request and st :: "server audited"
  assume clock: "\<And>k. lo \<le> rq_clock rq k \<and> rq_clock rq k \<le> hi" and st: "sv_safe u lo st"
  have next_ep: "sv_safe u hi (snd (ep rq st))" by (rule ep_safeD [OF assms(1) clock st])
  have rest: "sv_safe u hi (snd (ep (tick 2 (identified c rq)) st1))" if "sv_safe u lo st1" for c st1
    by (rule ep_safeD [OF assms(1)]) (simp_all add: clock that)
  have refuse: "sv_safe u hi (snd (answer code msg st1))" if "sv_safe u lo st1" for code msg and st1 :: "server audited"
    by (rule answer_safe [OF assms(2) that])
  have active: "sv_safe u lo st1" if "on_store (sn_IsActive (server_sessions se) T i now) st = (r, st1)" for T i now r st1
    using active_safe [OF st, of se T i now] that by simp
  show "sv_safe u hi (snd (AuthGuard lib key (Some (server_sessions se)) public ep rq st))"
    by (auto simp: AuthGuard_def Let_def next_ep refuse st split: sum.split prod.split intro!: rest refuse dest!: active)
qed

lemma serve_safe:
  assumes "postgres_types (se_pg se)" "uuid_in (se_pg se) = u" "hold_proper u b" "lo \<le> hi"
  shows "ep_safe u lo hi (server_serve cfg se b meth)"
proof (rule ep_safe_intro)
  fix rq :: http_request and st :: "server audited"
  assume clock: "\<And>k. lo \<le> rq_clock rq k \<and> rq_clock rq k \<le> hi" and st: "sv_safe u lo st"
  note impl = server_impl_safe [OF assms(1-3), of lo hi cfg]
  have chain: "sv_safe u hi (snd (chain lib key (Some (server_sessions se)) publicPaths ep (rq\<lparr>rq_param := p\<rparr>) st))"
    if "ep_safe u lo hi ep" for lib key ep p
    unfolding chain_def by (rule ep_safeD [OF guard_safe [OF middleware_safe(1) [OF middleware_safe(2) [OF that assms(4)] assms(4)] assms(4)] _ st])
      (simp add: clock)
  show "sv_safe u hi (snd (server_serve cfg se b meth rq st))"
    using answer_safe [OF assms(4) st]
    by (auto simp: server_serve_def serve_def split: option.split intro!: chain impl middleware_safe(3) assms(4))
qed

subsection \<open>Every run\<close>

lemma event_safe:
  assumes "event_ok u start finish ev" "sv_safe u start st"
  shows "sv_safe u finish (server_step cfg ev st)"
proof (cases ev)
  case (Request se meth rq b)
  with assms have "ep_safe u start finish (server_serve cfg se b meth)"
    by (intro serve_safe) (simp_all add: event_ok_def hold_proper_def)
  from ep_safeD [OF this, of rq st] assms Request show ?thesis by (simp add: event_ok_def server_step_def)
next
  case (Tick se now)
  with assms have env: "postgres_types (se_pg se)" "uuid_in (se_pg se) = u" "start \<le> now" "now \<le> finish" by (simp_all add: event_ok_def)
  have "safeF u now (sv_pg (fst st), snd st)" using assms(2) env(3) by (auto simp: sv_safe_def safeF_def intro: safe_later)
  from run_once_safe [OF env(1,2) this] have "sv_safe u now (server_tick se now st)"
    by (auto simp: server_tick_def at_audited_def zoom_snd sv_safe_def safeF_def split: prod.split)
  with env(4) Tick show ?thesis by (auto simp: server_step_def sv_safe_def intro: safe_later)
qed



subsection \<open>A run\<close>

definition demo_se :: server_env where
  "demo_se = \<lparr>se_pg = demo_env, se_vault = Inr, se_auth = demo_ae, se_digests = demo_digests, se_is_dir = (\<lambda>_. False),
     se_modified = (\<lambda>_. 0), se_order = id, se_cohort_order = (\<lambda>_. id), se_uuid = (\<lambda>_. demo_id CHR ''f''), se_err_Error = (\<lambda>_. ''error'')\<rparr>"

definition demo_cfg :: Config where
  "demo_cfg = \<lparr>cf_AppEnv = ''test'', cf_HTTPAddr = '':8080'', cf_DatabaseURL = ''postgres://db'', cf_JWTSigningKey = ''k'',
     cf_VaultMasterKey = default_master_key, cf_CORSOrigins = [], cf_StoragePath = ''./uploads'', cf_ReportsPath = ''./reports''\<rparr>"

definition hold_bodies :: bodies where
  "hold_bodies = \<lparr>bd_register = None, bd_login = None, bd_setup = None, bd_booking = Some demo_body, bd_reschedule = None,
     bd_period = None, bd_blackout = None, bd_conflicts = None, bd_start = None, bd_chunk = None, bd_finalize = None, bd_share = None,
     bd_reserve = None, bd_policies = None, bd_role = None, bd_room = None, bd_ingestion = None, bd_createTask = None,
     bd_updateTask = None, bd_dependencies = None\<rparr>"

definition demo_server :: server where
  "demo_server = \<lparr>sv_pg = demo_state, sv_disk = \<lparr>dk_files = (\<lambda>_. None), dk_faults = []\<rparr>,
     sv_bot = NewIngestionBot (NewProxyPoolManager []) (NewUserAgentRotator []) (\<lambda>_. 0) (Some (pg_IngestionStore demo_env)),
     sv_reports = NewReportingService ''./reports''\<rparr>"

definition demo_events :: "(server_event \<times> go_time) list" where
  "demo_events = [(Request demo_se ''POST'' ((demo_request_of ''coordinator'')\<lparr>rq_path := ''/v1/bookings/hold''\<rparr>) hold_bodies, time_Minute),
     (Tick demo_se (7 * time_Minute), 8 * time_Minute)]"


end
