(* ===== verification/Spec2Isabelle.thy ===== *)
theory Spec2Isabelle
  imports Booking_Memory Booking_Safety Booking_Handlers Task_Handlers Auth_Memory Router Content_Handlers Schedules Admin_Learners
    Ingestion Reporting Dashboard Analytics Task_Termination Startup Server_Safety
begin

text \<open>
  Verification of the TrainingOps backend, the Go program under \<^verbatim>\<open>src/repo/backend\<close>.

  \<^bold>\<open>The program.\<close> An HTTP server for the tenants of a training organisation. A request passes the
  middleware (session token, tenant, audit metadata, role), reaches one handler of
  \<^verbatim>\<open>internal/api/handlers\<close>, which calls a service of \<^verbatim>\<open>internal/service\<close>, which works on a store:
  PostgreSQL (\<^verbatim>\<open>internal/repository/postgres\<close>) in the running server, or the in-memory stores
  (\<^verbatim>\<open>internal/repository/memory\<close>). Beside the requests a worker expires holds, and handlers and worker write
  an audit trail. Uploads and reports go to the disk.

  \<^bold>\<open>How it is modelled.\<close> A store operation is a function from a state to an error or a result and the state
  afterwards (\<open>op\<close> in \<open>Go_Prelude\<close>), a handler a function from a request and a state to a response and a state, and
  an endpoint behind the middleware sets cookies too. A Go interface is a record of operations, so that the
  services are written once over any store. The state of PostgreSQL (\<open>pg_state\<close> in \<open>Pg_Base\<close>) holds
  the tables of the migrations, a script of faults and a counter of generated identifiers: every SQL statement takes one entry
  of the script and fails with it if there is one, and a transaction puts the tables back when its body or
  its commit fails. Constraint violations are errors with their SQLSTATE. The mutex of an in-memory store makes each call one
  step; calls are interleaved as sequences of steps. Instants are nanoseconds (\<open>int\<close>), PostgreSQL keeps
  microseconds (\<open>pg_ts\<close>), \<^verbatim>\<open>int64\<close> arithmetic wraps where it can (\<open>i64\<close>), columns refuse what does not fit
  (\<open>int2\<close>, \<open>int4\<close>, \<open>int8\<close>), random bytes are words of 8 bits, and float64 results are correctly rounded rationals (\<open>Go_Float\<close>).

  \<^bold>\<open>Theories.\<close>
  \<^item> \<open>Go_Prelude\<close>, \<open>Go_Time\<close>, \<open>Go_Float\<close>, \<open>Model_Types\<close>, \<open>Http\<close>, \<open>Uuid_Text\<close>: strings, errors, operations and their
    automation (\<open>op_simps\<close>, \<open>op_invs\<close>), time formats, floating point, the structs of \<^verbatim>\<open>internal/model\<close>, requests and
    responses, fresh identifiers (\<^verbatim>\<open>handlers/ids.go\<close>).
  \<^item> \<open>Booking_Service\<close> (\<^verbatim>\<open>service/booking.go\<close>) with the locales \<open>booking_store\<close> and \<open>exclusive_booking_store\<close> in
    \<open>Booking_Contract\<close>; \<open>Booking_Memory\<close> and \<open>Booking_Postgres\<close> with \<open>Booking_Postgres_Laws\<close> are the two stores and interpret them;
    \<open>Booking_Alternatives\<close> is the search for free slots, \<open>Booking_Safety\<close> the guarantees over every run on
    PostgreSQL, \<open>Audit_Trail\<close> the recorder and the worker, \<open>Booking_Handlers\<close> the endpoints.
  \<^item> \<open>Task_Graph\<close>, \<open>Task_Termination\<close>, \<open>Task_Service\<close>, \<open>Task_Memory\<close>, \<open>Task_Postgres\<close>, \<open>Task_Handlers\<close>: tasks and the
    check of their dependencies for cycles.
  \<^item> \<open>Security\<close> and \<open>Security_Laws\<close> (\<^verbatim>\<open>internal/security\<close>), \<open>Auth_Service\<close>, \<open>Auth_Memory\<close>, \<open>Auth_Postgres\<close>,
    \<open>Tenant_Setup\<close>, \<open>Auth_Handlers\<close>, \<open>Middleware\<close>, \<open>Router\<close>: accounts, sessions, tokens, the first tenant, who may call what.
  \<^item> \<open>Content_Service\<close>, \<open>Content_Memory\<close>, \<open>Content_Laws\<close>, \<open>Content_Postgres\<close>, \<open>Content_Handlers\<close>: items, tags, documents, uploads
    and share links.
  \<^item> \<open>Schedules\<close>, \<open>Admin_Learners\<close>, \<open>Ingestion\<close>, \<open>Reporting\<close>, \<open>Dashboard\<close>, \<open>Analytics\<close>: the handler, the service and the
    tables of each.
  \<^item> \<open>Startup\<close>: configuration and the two programs of \<^verbatim>\<open>cmd\<close>. \<open>Server\<close>: \<^verbatim>\<open>NewServer\<close>, which wires all handlers to one
    store, and the running server as a sequence of requests and ticks. \<open>Booking_Frames\<close> and \<open>Server_Safety\<close>: which
    operations leave the bookings alone, and what therefore holds of the whole server.
  \<^item> \<open>Demo_Database\<close>: a small database on which the witnesses run.

  \<^bold>\<open>What is shown.\<close> Bookings: no double booking, at most two moves, a life cycle that loses and revives nothing, atomic
  refusals, an exact condition for a hold, for the service (\<open>Booking_Safety\<close>) and for every sequence of requests to the
  whole server (\<open>Server_Safety\<close>); alternatives are free slots; every change is audited. Tasks: the cycle
  check decides acyclicity, keeps it, and returns within a bounded stack. Accounts: the guard, tokens, sessions
  that stay dead, bounded guessing in memory, setup followed by login. Content: uploads by chunks
  refine writing the file at once, share tokens, merged tags. Schedules, seats, ingestion, reports, dashboard and analytics: their
  exact results. Several theorems show what the program does and should not do (lockout that never engages, routes open by
  a prefix, uploads that cannot be finished); the manifest lists them as findings.

  \<^bold>\<open>Bounds.\<close> Every function terminates, without fuel: the dependency check by a measure on the unvisited
  nodes, and \<open>Task_Termination\<close> bounds its call stack by the identifiers that the tasks mention. Analytics is exact
  up to \<open>2 ^ 44\<close> bookings and the dashboard as long as its counts are exact in float64 (\<open>2 ^ 53\<close>).

  \<^bold>\<open>Parameters.\<close> What is not under \<^verbatim>\<open>src\<close> is an argument: the functions of the database (\<open>pg_env\<close>: reading and
  generating uuids, \<^verbatim>\<open>now()\<close>, dates and times of day in its time zone, collation, search rank), SHA-256 and HMAC (\<open>digests\<close>,
  \<open>token_lib\<close>), the JSON codec of the claims, bcrypt, AES-GCM, the Unicode tables beyond ASCII, the clock and random bytes of a
  request, the order of map iteration, \<^verbatim>\<open>os.Stat\<close> on directories, the pool of connections. What a theorem relies on of them is among
  its hypotheses (\<open>postgres_types\<close>: uuids are read into a canonical form that generated ones have).

  \<^bold>\<open>Not modelled.\<close> Log lines (\<^verbatim>\<open>middleware/logging.go\<close>), the listening socket and its shutdown, the decoding of
  JSON bodies (a request carries what \<^verbatim>\<open>c.Bind\<close> made of its body) and the CORS headers of ordinary answers: input and output
  only. Scanning of rows into structs is the identity on the modelled columns. The bundled \<^verbatim>\<open>third_party\<close> packages stand for
  external ones; of \<^verbatim>\<open>echo\<close> the matching of routes is modelled (\<open>Router\<close>), \<^verbatim>\<open>bcrypt\<close> is a parameter. Transactions run one after the
  other: the row locks that PostgreSQL takes between concurrent ones are not.
\<close>

end
